(* ===== verification/Prelude.thy ===== *)
theory Prelude
  imports Complex_Main "HOL-Library.Word" "HOL-Library.Multiset"
begin

text \<open>
  Shared vocabulary of the PYGGEL development: the Python exceptions the modelled code
  can raise, the result type \<open>py_error + 'a\<close> that carries them, the Python list
  operations the sources use (\<open>list.remove\<close>, \<open>list.pop\<close>, \<open>x in xs\<close>) with their
  failure branches written out, and the argument convention of the \<open>add_*\<close> methods
  (\<open>hasattr(ele, "__iter__")\<close>: one element or a sequence of elements).
  The named collections gather the facts the component theories hand to \<open>simp\<close>.
\<close>

named_theorems py_simps "evaluation rules of the Python list and result helpers"
named_theorems frame_simps "facts that an operation leaves a field of the state unchanged"

section \<open>Python exceptions and results\<close>

datatype py_error =
    ValueError
  | IndexError
  | NameError
  | ZeroDivisionError
  | KeyError
  | TypeError
  | AttributeError

type_synonym 'a result = "py_error + 'a"

definition res_bind :: "'a result \<Rightarrow> ('a \<Rightarrow> 'b result) \<Rightarrow> 'b result" where
  "res_bind r f = (case r of Inl e \<Rightarrow> Inl e | Inr a \<Rightarrow> f a)"

lemma res_bind_Inl [simp, py_simps]: "res_bind (Inl e) f = Inl e"
  by (simp add: res_bind_def)

lemma res_bind_Inr [simp, py_simps]: "res_bind (Inr a) f = f a"
  by (simp add: res_bind_def)

lemma res_bind_eq_Inr:
  "res_bind r f = Inr b \<longleftrightarrow> (\<exists>a. r = Inr a \<and> f a = Inr b)"
  by (cases r) auto

lemma res_bind_eq_Inl:
  "res_bind r f = Inl e \<longleftrightarrow> r = Inl e \<or> (\<exists>a. r = Inr a \<and> f a = Inl e)"
  by (cases r) auto

section \<open>One element or a sequence\<close>

text \<open>
  \<open>if not hasattr(ele, "__iter__"): ele = [ele]\<close>: the \<open>add_*\<close> methods accept a
  single object or an iterable of objects.
\<close>

datatype 'a one_or_many = One 'a | Many "'a list"

fun items :: "'a one_or_many \<Rightarrow> 'a list" where
  "items (One x) = [x]"
| "items (Many xs) = xs"

section \<open>Python list operations\<close>

text \<open>\<open>xs.remove(x)\<close>: removes the first occurrence, raises ValueError when absent.\<close>

definition py_remove :: "'a \<Rightarrow> 'a list \<Rightarrow> 'a list result" where
  "py_remove x xs = (if x \<in> set xs then Inr (remove1 x xs) else Inl ValueError)"

text \<open>\<open>xs.pop()\<close>: removes and returns the last element, raises IndexError when empty.\<close>

definition py_pop :: "'a list \<Rightarrow> ('a \<times> 'a list) result" where
  "py_pop xs = (if xs = [] then Inl IndexError else Inr (last xs, butlast xs))"

text \<open>\<open>xs[i]\<close>: negative indices count from the end; out of range raises IndexError.\<close>

definition py_index :: "'a list \<Rightarrow> int \<Rightarrow> 'a result" where
  "py_index xs i =
     (let n = int (length xs); j = (if i < 0 then i + n else i)
      in if 0 \<le> j \<and> j < n then Inr (xs ! nat j) else Inl IndexError)"

text \<open>A list comprehension or loop whose body may raise: the first exception propagates.\<close>

fun map_res :: "('a \<Rightarrow> 'b result) \<Rightarrow> 'a list \<Rightarrow> 'b list result" where
  "map_res f [] = Inr []"
| "map_res f (x # xs) = res_bind (f x) (\<lambda>y. res_bind (map_res f xs) (\<lambda>ys. Inr (y # ys)))"

lemma map_res_Inr_iff:
  "map_res f xs = Inr ys \<longleftrightarrow> list_all2 (\<lambda>x y. f x = Inr y) xs ys"
proof (induction xs arbitrary: ys)
  case Nil
  then show ?case by auto
next
  case (Cons x xs)
  then show ?case
    by (cases ys) (auto simp: res_bind_eq_Inr)
qed

lemma map_res_Inl_iff:
  "(\<exists>e. map_res f xs = Inl e) \<longleftrightarrow> (\<exists>x\<in>set xs. \<exists>e. f x = Inl e)"
proof (induction xs)
  case Nil
  then show ?case by simp
next
  case (Cons x xs)
  then show ?case
    by (cases "f x") (auto simp: res_bind_def split: sum.splits)
qed

lemma map_res_all_Inr [py_simps]:
  "(\<And>x. x \<in> set xs \<Longrightarrow> f x = Inr (g x)) \<Longrightarrow> map_res f xs = Inr (map g xs)"
  by (induction xs) auto

lemma map_res_Inl_only:
  "(\<And>x e. f x = Inl e \<Longrightarrow> e = e0) \<Longrightarrow> map_res f xs = Inl e \<Longrightarrow> e = e0"
  by (induction xs) (auto simp: res_bind_eq_Inl)

lemma py_index_in_set: "py_index xs i = Inr x \<Longrightarrow> x \<in> set xs"
  by (auto simp: py_index_def Let_def split: if_splits)

lemma py_remove_Inr [py_simps]: "x \<in> set xs \<Longrightarrow> py_remove x xs = Inr (remove1 x xs)"
  by (simp add: py_remove_def)

lemma py_remove_Inl [py_simps]: "x \<notin> set xs \<Longrightarrow> py_remove x xs = Inl ValueError"
  by (simp add: py_remove_def)

lemma py_remove_length:
  "py_remove x xs = Inr ys \<Longrightarrow> length ys = length xs - 1"
  by (auto simp: py_remove_def length_remove1 split: if_splits)

lemma py_remove_length_le:
  "py_remove x xs = Inr ys \<Longrightarrow> length ys \<le> length xs"
  using py_remove_length by fastforce

lemma py_pop_Cons [py_simps]: "py_pop (xs @ [x]) = Inr (x, xs)"
  by (simp add: py_pop_def)

lemma py_pop_Nil [py_simps]: "py_pop [] = Inl IndexError"
  by (simp add: py_pop_def)

lemma py_pop_Inr:
  "py_pop xs = Inr (y, ys) \<longleftrightarrow> xs = ys @ [y]"
  by (cases xs rule: rev_cases) (auto simp: py_pop_def)

text \<open>
  Removing the first occurrence of \<open>x\<close> deletes one copy: \<open>x\<close> is still present
  after the removal exactly when the list held it twice or more.
\<close>

lemma count_remove1_same: "count_list (remove1 x xs) x = count_list xs x - 1"
  by (induction xs) auto

lemma mem_remove1_iff: "x \<in> set (remove1 x xs) \<longleftrightarrow> 2 \<le> count_list xs x"
proof -
  have c: "count_list (remove1 x xs) x = count_list xs x - 1"
    by (rule count_remove1_same)
  have "x \<in> set (remove1 x xs) \<longleftrightarrow> count_list (remove1 x xs) x \<noteq> 0"
    by (metis count_list_0_iff)
  also have "\<dots> \<longleftrightarrow> 2 \<le> count_list xs x"
    using c by arith
  finally show ?thesis .
qed

lemma filter_remove1_other:
  "\<not> P x \<Longrightarrow> filter P (remove1 x xs) = filter P xs"
  by (induction xs) auto

text \<open>Appending \<open>x\<close> and removing its first occurrence gives the list back exactly when
  nothing but \<open>x\<close> follows the first \<open>x\<close>.\<close>

lemma remove1_snoc_self:
  "remove1 x (xs @ [x]) = xs \<longleftrightarrow> set (dropWhile (\<lambda>y. y \<noteq> x) xs) \<subseteq> {x}"
proof (induction xs)
  case (Cons y ys)
  show ?case
  proof (cases "y = x")
    case True
    have "(ys @ [x] = x # ys) \<longleftrightarrow> set ys \<subseteq> {x}"
    proof (induction ys)
      case (Cons z zs) then show ?case by auto
    qed simp
    then show ?thesis using True by simp
  qed (use Cons in simp)
qed simp

end
