(* ===== verification/GL.thy ===== *)
theory GL
  imports Prelude
begin

text \<open>
  The part of the OpenGL fixed-function pipeline that the scene code drives and reads
  back. This is the environment of the repository, not its code: the state flags the
  sources switch (\<open>GL_DEPTH_TEST\<close>, \<open>glDepthMask\<close>, \<open>GL_ALPHA_TEST\<close>,
  \<open>GL_LIGHTING\<close>, \<open>glUseProgram\<close>, the enabled light units, the modelview stack
  depth), and a frame buffer holding a depth and an RGBA colour per pixel.
  A draw call is described by the fragment it produces at each pixel; the per-pixel
  tests read the depth function, the alpha function and the blending switch from the
  state, which \<open>View.build_gl\<close> sets (\<open>GL_LEQUAL\<close>, \<open>GL_GEQUAL 0.5\<close>,
  \<open>GL_SRC_ALPHA, GL_ONE_MINUS_SRC_ALPHA\<close>).
  Depth writes happen only when the depth test is enabled and the depth mask is set, as
  in OpenGL. Every state change the scene code makes is also appended to a log, so
  that the order of calls is part of the state.
\<close>

type_synonym pixel = "int \<times> int"

text \<open>An RGBA colour as \<open>glReadPixelsf(..., GL_RGBA)\<close> returns it.\<close>

type_synonym color = "real \<times> real \<times> real \<times> real"

definition alpha_of :: "color \<Rightarrow> real" where
  "alpha_of c = (case c of (r, g, b, a) \<Rightarrow> a)"

text \<open>\<open>glBlendFunc(GL_SRC_ALPHA, GL_ONE_MINUS_SRC_ALPHA)\<close> on every channel.\<close>

definition blend_mix :: "color \<Rightarrow> color \<Rightarrow> color" where
  "blend_mix src dst =
     (case src of (r, g, b, a) \<Rightarrow> case dst of (r', g', b', a') \<Rightarrow>
        (a * r + (1 - a) * r', a * g + (1 - a) * g', a * b + (1 - a) * b', a * a + (1 - a) * a'))"

record fragment =
  fdepth :: real
  fcolor :: color

text \<open>\<open>glOrtho(0, w, h, 0, -50, 50)\<close> and \<open>gluPerspective(angle, aspect, near, far)\<close>.\<close>

datatype projection = NoProjection | Ortho int int | Perspective real real real real

datatype depth_fn = DF_Less | DF_LEqual

text \<open>The alpha function: \<open>None\<close> is OpenGL's default \<open>GL_ALWAYS\<close>, \<open>Some r\<close> is \<open>GL_GEQUAL r\<close>.\<close>

type_synonym alpha_fn = "real option"

datatype gl_event =
    Draw nat
  | Shine nat
  | Hide nat
  | CamPush
  | CamPop
  | SkyboxData
  | Scale real real
  | UseProgram nat

record gl_state =
  proj :: projection
  depth_test :: bool
  depth_mask :: bool
  alpha_test :: bool
  blend_on :: bool
  lighting :: bool
  fog_on :: bool
  depth_func :: depth_fn
  alpha_func :: alpha_fn
  clear_color :: color
  program :: nat
  lights_on :: "nat set"
  matrix_depth :: nat
  fb_depth :: "pixel \<Rightarrow> real"
  fb_color :: "pixel \<Rightarrow> color"
  log :: "gl_event list"

section \<open>State-setting calls\<close>

definition gl_log :: "gl_event \<Rightarrow> gl_state \<Rightarrow> gl_state" where
  "gl_log e g = g\<lparr>log := log g @ [e]\<rparr>"

definition gl_push_matrix :: "gl_state \<Rightarrow> gl_state" where
  "gl_push_matrix g = g\<lparr>matrix_depth := Suc (matrix_depth g)\<rparr>"

definition gl_pop_matrix :: "gl_state \<Rightarrow> gl_state" where
  "gl_pop_matrix g = g\<lparr>matrix_depth := matrix_depth g - 1\<rparr>"

definition gl_use_program :: "nat \<Rightarrow> gl_state \<Rightarrow> gl_state" where
  "gl_use_program p g = gl_log (UseProgram p) (g\<lparr>program := p\<rparr>)"

section \<open>Fragments and the frame buffer\<close>

text \<open>A fragment survives the alpha test and the depth test against depth \<open>d\<close>.\<close>

definition frag_passes :: "gl_state \<Rightarrow> fragment \<Rightarrow> real \<Rightarrow> bool" where
  "frag_passes g f d =
     ((if alpha_test g then (case alpha_func g of None \<Rightarrow> True | Some r \<Rightarrow> r \<le> alpha_of (fcolor f))
       else True) \<and>
      (if depth_test g then (case depth_func g of DF_Less \<Rightarrow> fdepth f < d | DF_LEqual \<Rightarrow> fdepth f \<le> d)
       else True))"

definition write_depth :: "gl_state \<Rightarrow> fragment option \<Rightarrow> real \<Rightarrow> real" where
  "write_depth g fo d =
     (case fo of None \<Rightarrow> d
      | Some f \<Rightarrow> if frag_passes g f d \<and> depth_test g \<and> depth_mask g then fdepth f else d)"

definition write_color :: "gl_state \<Rightarrow> fragment option \<Rightarrow> real \<Rightarrow> color \<Rightarrow> color" where
  "write_color g fo d c =
     (case fo of None \<Rightarrow> c
      | Some f \<Rightarrow> if frag_passes g f d
                 then (if blend_on g then blend_mix (fcolor f) c else fcolor f) else c)"

text \<open>
  One draw call of object \<open>i\<close>, whose geometry produces fragment \<open>fr p\<close> at pixel
  \<open>p\<close>: every pixel is updated under the current flags, and the call is logged.
\<close>

definition gl_draw :: "nat \<Rightarrow> (pixel \<Rightarrow> fragment option) \<Rightarrow> gl_state \<Rightarrow> gl_state" where
  "gl_draw i fr g =
     g\<lparr>fb_depth := (\<lambda>p. write_depth g (fr p) (fb_depth g p)),
       fb_color := (\<lambda>p. write_color g (fr p) (fb_depth g p) (fb_color g p)),
       log := log g @ [Draw i]\<rparr>"

section \<open>Lemmas shared by the render proofs\<close>

lemma gl_draw_flags [simp, frame_simps]:
  "proj (gl_draw i fr g) = proj g"
  "depth_test (gl_draw i fr g) = depth_test g"
  "depth_mask (gl_draw i fr g) = depth_mask g"
  "alpha_test (gl_draw i fr g) = alpha_test g"
  "blend_on (gl_draw i fr g) = blend_on g"
  "lighting (gl_draw i fr g) = lighting g"
  "fog_on (gl_draw i fr g) = fog_on g"
  "depth_func (gl_draw i fr g) = depth_func g"
  "alpha_func (gl_draw i fr g) = alpha_func g"
  "clear_color (gl_draw i fr g) = clear_color g"
  "program (gl_draw i fr g) = program g"
  "lights_on (gl_draw i fr g) = lights_on g"
  "matrix_depth (gl_draw i fr g) = matrix_depth g"
  by (simp_all add: gl_draw_def)

lemma gl_draw_log [simp]: "log (gl_draw i fr g) = log g @ [Draw i]"
  by (simp add: gl_draw_def)

lemma gl_draw_fb_depth [simp]:
  "fb_depth (gl_draw i fr g) p = write_depth g (fr p) (fb_depth g p)"
  by (simp add: gl_draw_def)

lemma gl_draw_fb_color [simp]:
  "fb_color (gl_draw i fr g) p = write_color g (fr p) (fb_depth g p) (fb_color g p)"
  by (simp add: gl_draw_def)

lemma gl_log_simps [simp, frame_simps]:
  "log (gl_log e g) = log g @ [e]"
  "proj (gl_log e g) = proj g"
  "depth_test (gl_log e g) = depth_test g"
  "depth_mask (gl_log e g) = depth_mask g"
  "alpha_test (gl_log e g) = alpha_test g"
  "blend_on (gl_log e g) = blend_on g"
  "lighting (gl_log e g) = lighting g"
  "fog_on (gl_log e g) = fog_on g"
  "depth_func (gl_log e g) = depth_func g"
  "alpha_func (gl_log e g) = alpha_func g"
  "clear_color (gl_log e g) = clear_color g"
  "program (gl_log e g) = program g"
  "lights_on (gl_log e g) = lights_on g"
  "matrix_depth (gl_log e g) = matrix_depth g"
  "fb_depth (gl_log e g) = fb_depth g"
  "fb_color (gl_log e g) = fb_color g"
  by (simp_all add: gl_log_def)

text \<open>The per-pixel tests do not read the matrix stack or the log.\<close>

lemma frag_passes_ignores_matrix_log [simp]:
  "frag_passes (g\<lparr>matrix_depth := n\<rparr>) = frag_passes g"
  "frag_passes (g\<lparr>log := es\<rparr>) = frag_passes g"
  by (simp_all add: frag_passes_def fun_eq_iff)

lemma write_ignores_matrix_log [simp]:
  "write_depth (g\<lparr>matrix_depth := n\<rparr>) = write_depth g"
  "write_color (g\<lparr>matrix_depth := n\<rparr>) = write_color g"
  "write_depth (g\<lparr>log := es\<rparr>) = write_depth g"
  "write_color (g\<lparr>log := es\<rparr>) = write_color g"
  by (simp_all add: write_depth_def write_color_def fun_eq_iff cong: option.case_cong if_cong)

text \<open>With the depth mask cleared no draw call changes the depth buffer.\<close>

lemma write_depth_no_mask: "\<not> depth_mask g \<Longrightarrow> write_depth g fo d = d"
  by (simp add: write_depth_def split: option.splits)

lemma write_depth_no_test: "\<not> depth_test g \<Longrightarrow> write_depth g fo d = d"
  by (simp add: write_depth_def split: option.splits)

text \<open>
  With depth test and depth mask on (the opaque passes), the depth buffer after a draw
  goes strictly down exactly when a fragment passing the alpha test lies strictly nearer.
\<close>

definition alpha_ok :: "gl_state \<Rightarrow> fragment \<Rightarrow> bool" where
  "alpha_ok g f =
     (if alpha_test g then (case alpha_func g of None \<Rightarrow> True | Some r \<Rightarrow> r \<le> alpha_of (fcolor f))
      else True)"

lemma write_depth_le: "depth_test g \<Longrightarrow> write_depth g fo d \<le> d"
  by (auto simp: write_depth_def frag_passes_def split: option.splits depth_fn.splits)

lemma write_depth_lt_iff:
  "depth_test g \<Longrightarrow> depth_mask g \<Longrightarrow>
   write_depth g fo d < d \<longleftrightarrow>
   (\<exists>f. fo = Some f \<and> alpha_ok g f \<and> fdepth f < d)"
  by (auto simp: write_depth_def frag_passes_def alpha_ok_def split: option.splits depth_fn.splits)

end
