(* ===== verification/View.thy ===== *)
theory View
  imports GL
begin

text \<open>
  The window and GL-state manager of \<open>src/pyggel/view.py\<close>, class \<open>View\<close>. The view
  object is a record; its methods are functions from the view and the GL state
  (\<open>GL.gl_state\<close>) to the new ones, with every exception of the method a branch of
  the result. The calls of \<open>build_gl\<close> that configure state outside the GL model
  (textures, colour material, normalisation, shading, hints, scissor, point size,
  fog parameters, face culling) are left out; every call that sets a field of the GL
  model is kept, in the source's order.
\<close>

section \<open>Data\<close>

text \<open>A colour argument is a 3-tuple or a 4-tuple (\<open>len(rgba) == 3\<close>).\<close>

datatype color_arg = RGB real real real | RGBA real real real real

record view =
  screen_size :: "int \<times> int"
  screen_size_2d :: "int \<times> int"
  fullscreen :: bool
  hwrender :: bool
  decorated :: bool
  view_lighting :: bool
  view_fog :: bool
  fog_color :: color
  view_angle :: real
  close_view :: real
  far_view :: real
  view_clear_color :: color
  title :: string
  clips :: "(int \<times> int \<times> int \<times> int) list"
  have_init :: bool
  background_color :: "color_arg option"

text \<open>
  The constructor's arguments. A size argument is \<open>None\<close> when it is falsy
  (\<open>None\<close> or an empty tuple). The field \<open>background_color\<close> of the view models an
  attribute that the constructor never assigns: \<open>None\<close> is "attribute absent".
\<close>

record view_args =
  a_screen_size :: "(int \<times> int) option"
  a_screen_size_2d :: "(int \<times> int) option"
  a_fullscreen :: bool
  a_hwrender :: bool
  a_decorated :: bool
  a_lighting :: bool
  a_fog :: bool
  a_fog_color :: color
  a_view_angle :: real
  a_close_view :: real
  a_far_view :: real
  a_clear_color :: color
  a_title :: string

definition default_view_args :: view_args where
  "default_view_args =
     \<lparr>a_screen_size = Some (640, 480), a_screen_size_2d = Some (640, 480),
      a_fullscreen = False, a_hwrender = True, a_decorated = True,
      a_lighting = True, a_fog = True, a_fog_color = (1/2, 1/2, 1/2, 1/2),
      a_view_angle = 45, a_close_view = 1/10, a_far_view = 100,
      a_clear_color = (0, 0, 0, 0), a_title = ''PYGGEL App''\<rparr>"

text \<open>
  \<open>View.__init__\<close>: a falsy 2D size falls back to the screen size; a falsy screen size
  makes \<open>pygame.rect.Rect(0, 0, *self.screen_size)\<close> raise TypeError.
\<close>

definition view_new :: "view_args \<Rightarrow> view result" where
  "view_new a =
     (let ss2 = (case a_screen_size a of Some s \<Rightarrow>
                   (case a_screen_size_2d a of None \<Rightarrow> Some s | Some s2 \<Rightarrow> Some s2)
                 | None \<Rightarrow> a_screen_size_2d a)
      in case (a_screen_size a, ss2) of
           (Some (w, h), Some s2) \<Rightarrow>
             Inr \<lparr>screen_size = (w, h), screen_size_2d = s2,
                  fullscreen = a_fullscreen a, hwrender = a_hwrender a,
                  decorated = a_decorated a, view_lighting = a_lighting a,
                  view_fog = a_fog a, fog_color = a_fog_color a,
                  view_angle = a_view_angle a, close_view = a_close_view a,
                  far_view = a_far_view a, view_clear_color = a_clear_color a,
                  title = a_title a, clips = [(0, 0, w, h)], have_init = False,
                  background_color = None\<rparr>
         | _ \<Rightarrow> Inl TypeError)"

section \<open>Window flags\<close>

text \<open>The pygame display flags (SDL 1.2 values) as 32-bit words.\<close>

definition OPENGL :: "32 word" where "OPENGL = 0x00000002"
definition DOUBLEBUF :: "32 word" where "DOUBLEBUF = 0x40000000"
definition FULLSCREEN :: "32 word" where "FULLSCREEN = 0x80000000"
definition HWSURFACE :: "32 word" where "HWSURFACE = 0x00000001"
definition NOFRAME :: "32 word" where "NOFRAME = 0x00000020"

unbundle bit_operations_syntax

definition get_screen_params :: "view \<Rightarrow> 32 word" where
  "get_screen_params v =
     (let params = OPENGL OR DOUBLEBUF;
          params = (if fullscreen v then params OR FULLSCREEN else params);
          params = (if hwrender v then params OR HWSURFACE else params);
          params = (if \<not> decorated v then params OR NOFRAME else params)
      in params)"

section \<open>GL state methods\<close>

definition build_lighting :: "view \<Rightarrow> gl_state \<Rightarrow> gl_state" where
  "build_lighting v g = g\<lparr>lighting := view_lighting v\<rparr>"

definition toggle_lighting :: "view \<Rightarrow> gl_state \<Rightarrow> view \<times> gl_state" where
  "toggle_lighting v g =
     (let v' = v\<lparr>view_lighting := \<not> view_lighting v\<rparr> in (v', build_lighting v' g))"

definition build_fog :: "view \<Rightarrow> gl_state \<Rightarrow> gl_state" where
  "build_fog v g = g\<lparr>fog_on := view_fog v\<rparr>"

definition toggle_fog :: "view \<Rightarrow> gl_state \<Rightarrow> view \<times> gl_state" where
  "toggle_fog v g =
     (let v' = v\<lparr>view_fog := \<not> view_fog v\<rparr> in (v', build_fog v' g))"

text \<open>
  \<open>build_background_color\<close> reads \<open>self.background_color\<close>, an attribute that
  \<open>__init__\<close> never sets (it stores \<open>clear_color\<close>): AttributeError unless some
  caller assigned it.
\<close>

definition build_background_color :: "view \<Rightarrow> gl_state \<Rightarrow> gl_state result" where
  "build_background_color v g =
     (case background_color v of
        None \<Rightarrow> Inl AttributeError
      | Some (RGB r gr b) \<Rightarrow> Inr (g\<lparr>clear_color := (r, gr, b, 1)\<rparr>)
      | Some (RGBA r gr b a) \<Rightarrow> Inr (g\<lparr>clear_color := (r, gr, b, a)\<rparr>))"

definition build_gl :: "view \<Rightarrow> gl_state \<Rightarrow> (view \<times> gl_state) result" where
  "build_gl v g0 =
     (let g1 = build_lighting v g0;
          g2 = g1\<lparr>depth_test := True, depth_func := DF_LEqual, blend_on := True\<rparr>
      in res_bind (build_background_color v g2) (\<lambda>g3.
         let g4 = g3\<lparr>alpha_func := Some (1 / 2)\<rparr>;
             g5 = build_fog v g4
         in res_bind (build_background_color v g5) (\<lambda>g6.
            Inr (v\<lparr>have_init := True\<rparr>, g6))))"

text \<open>\<open>set2d\<close>: orthographic projection over the screen size, depth test off.\<close>

definition set2d :: "view \<Rightarrow> gl_state \<Rightarrow> gl_state" where
  "set2d v g =
     (case screen_size v of (w, h) \<Rightarrow> g\<lparr>proj := Ortho w h, depth_test := False\<rparr>)"

text \<open>
  \<open>set3d\<close>: perspective projection with aspect \<open>1.0 * w / h\<close> (ZeroDivisionError
  for a zero height), depth test on.
\<close>

definition set3d :: "view \<Rightarrow> gl_state \<Rightarrow> gl_state result" where
  "set3d v g =
     (case screen_size v of (w, h) \<Rightarrow>
        if h = 0 then Inl ZeroDivisionError
        else Inr (g\<lparr>proj := Perspective (view_angle v) (real_of_int w / real_of_int h)
                                   (close_view v) (far_view v),
                   depth_test := True\<rparr>))"

text \<open>\<open>clear_screen\<close>: the scissor test is switched off around \<open>glClear\<close>, so the
  whole depth buffer returns to the default clear depth 1.0 and every pixel to the clear
  colour.\<close>

definition clear_screen :: "gl_state \<Rightarrow> gl_state" where
  "clear_screen g = g\<lparr>fb_depth := (\<lambda>p. 1), fb_color := (\<lambda>p. clear_color g)\<rparr>"


text \<open>View.__init__ raises TypeError without a screen size; otherwise the 2D size falls back to the screen size and the clip stack holds the whole screen.\<close>

lemma view_new_sizes:
  "(a_screen_size a = None \<longrightarrow> view_new a = Inl TypeError) \<and>
   (\<forall>ss. a_screen_size a = Some ss \<longrightarrow>
      (\<exists>v. view_new a = Inr v \<and> screen_size v = ss \<and>
           screen_size_2d v = (case a_screen_size_2d a of None \<Rightarrow> ss | Some s2 \<Rightarrow> s2) \<and>
           clips v = [(0, 0, fst ss, snd ss)] \<and> \<not> have_init v \<and> background_color v = None))"
  by (auto simp: view_new_def split: option.splits prod.splits)

end
