(* ===== verification/Objects.thy ===== *)
theory Objects
  imports View
begin

text \<open>
  The collaborators the scene calls through narrow interfaces, and the Python objects
  they live in.
  \<^item> A renderable (\<open>visible\<close>, \<open>render(camera)\<close>) is described by its visibility,
    the fragment its geometry produces at each pixel, and the \<open>scene\<close> attribute that
    \<open>Scene.add_2d\<close> sets. Objects are Python references: the heap \<open>world\<close> maps an
    object id to its current attributes, so that two list entries with the same id are
    the same object.
  \<^item> \<open>Cube.render\<close> and \<open>Sphere.render\<close> (\<open>src/pyggel/geometry.py\<close>) push the
    modelview matrix, draw their display list and pop it; \<open>Skybox.render\<close> and
    \<open>Skyball.render\<close> wrap that draw with the depth mask cleared.
  \<^item> A light (module \<open>light\<close>, not among the sources; modelled from the spec) has an
    attribute \<open>gl_light\<close>, the hardware light unit it uses; \<open>shine()\<close> enables that
    unit and \<open>hide()\<close> disables it. The module's \<open>all_lights\<close> is the pool of unit ids.
  \<^item> A camera (module \<open>camera\<close>, not among the sources; modelled from the spec) has
    \<open>push()\<close>, \<open>pop()\<close> and \<open>set_skybox_data()\<close>; push and pop save and restore
    the modelview matrix.
  \<^item> A shader (module \<open>shader\<close>, not among the sources) has \<open>run()\<close>, which makes
    its program current.
\<close>

record renderable =
  visible :: bool
  frags :: "pixel \<Rightarrow> fragment option"
  owner :: "nat option"

record world =
  objs :: "nat \<Rightarrow> renderable"
  light_gl :: "nat \<Rightarrow> nat"

datatype sky_kind = Skybox | Skyball

text \<open>A heap in which every object is visible and covers no pixel, and every light uses unit 0.\<close>

definition blank_world :: world where
  "blank_world = \<lparr>objs = (\<lambda>i. \<lparr>visible = True, frags = (\<lambda>p. None), owner = None\<rparr>), light_gl = (\<lambda>l. 0)\<rparr>"

section \<open>Lights, camera, shader\<close>

definition all_lights :: "nat list" where
  "all_lights = [0, 1, 2, 3, 4, 5, 6, 7]"

definition light_shine :: "world \<Rightarrow> nat \<Rightarrow> gl_state \<Rightarrow> gl_state" where
  "light_shine w l g =
     gl_log (Shine (light_gl w l)) (g\<lparr>lights_on := insert (light_gl w l) (lights_on g)\<rparr>)"

definition light_hide :: "world \<Rightarrow> nat \<Rightarrow> gl_state \<Rightarrow> gl_state" where
  "light_hide w l g =
     gl_log (Hide (light_gl w l)) (g\<lparr>lights_on := lights_on g - {light_gl w l}\<rparr>)"

definition camera_push :: "gl_state \<Rightarrow> gl_state" where
  "camera_push g = gl_log CamPush (gl_push_matrix g)"

definition camera_pop :: "gl_state \<Rightarrow> gl_state" where
  "camera_pop g = gl_log CamPop (gl_pop_matrix g)"

definition camera_set_skybox_data :: "gl_state \<Rightarrow> gl_state" where
  "camera_set_skybox_data g = gl_log SkyboxData g"

definition shader_run :: "nat \<Rightarrow> gl_state \<Rightarrow> gl_state" where
  "shader_run p g = gl_use_program p g"

section \<open>Rendering one object\<close>

text \<open>\<open>Cube.render\<close> / \<open>Sphere.render\<close>: push, transform, draw the display list, pop.\<close>

definition cube_render :: "world \<Rightarrow> nat \<Rightarrow> gl_state \<Rightarrow> gl_state" where
  "cube_render w i g = gl_pop_matrix (gl_draw i (frags (objs w i)) (gl_push_matrix g))"

definition sphere_render :: "world \<Rightarrow> nat \<Rightarrow> gl_state \<Rightarrow> gl_state" where
  "sphere_render w i g = gl_pop_matrix (gl_draw i (frags (objs w i)) (gl_push_matrix g))"

text \<open>
  \<open>Skybox.render\<close>: lighting off, depth writes off, push, camera rotation only, the
  cube, pop, depth writes on, lighting back on when the view has lighting.
\<close>

definition skybox_render :: "view \<Rightarrow> world \<Rightarrow> nat \<Rightarrow> gl_state \<Rightarrow> gl_state" where
  "skybox_render v w i g =
     (let g1 = g\<lparr>lighting := False, depth_mask := False\<rparr>;
          g2 = camera_set_skybox_data (gl_push_matrix g1);
          g3 = gl_pop_matrix (cube_render w i g2);
          g4 = g3\<lparr>depth_mask := True\<rparr>
      in if view_lighting v then g4\<lparr>lighting := True\<rparr> else g4)"

text \<open>
  \<open>Skyball.render\<close>: depth writes off, push, camera rotation only, rotate, the sphere,
  pop, depth writes on. Unlike \<open>Skybox.render\<close> it leaves lighting as it is.
\<close>

definition skyball_render :: "world \<Rightarrow> nat \<Rightarrow> gl_state \<Rightarrow> gl_state" where
  "skyball_render w i g =
     (let g1 = g\<lparr>depth_mask := False\<rparr>;
          g2 = camera_set_skybox_data (gl_push_matrix g1);
          g3 = gl_pop_matrix (sphere_render w i g2)
      in g3\<lparr>depth_mask := True\<rparr>)"

definition sky_render :: "view \<Rightarrow> world \<Rightarrow> sky_kind \<times> nat \<Rightarrow> gl_state \<Rightarrow> gl_state" where
  "sky_render v w sk g =
     (case sk of (Skybox, i) \<Rightarrow> skybox_render v w i g | (Skyball, i) \<Rightarrow> skyball_render w i g)"

text \<open>
  A plain renderable in one of the scene's lists: the \<open>render(camera)\<close> contract is one
  balanced draw of its geometry (\<open>Cube.render\<close>, \<open>Sphere.render\<close>,
  \<open>BasicMesh.render\<close> all push, draw and pop).
\<close>

definition obj_render :: "world \<Rightarrow> nat \<Rightarrow> gl_state \<Rightarrow> gl_state" where
  "obj_render w i g = cube_render w i g"

section \<open>Lemmas\<close>

lemma length_all_lights [simp]: "length all_lights = 8"
  by (simp add: all_lights_def)

lemma matrix_push_pop [simp]:
  "gl_pop_matrix (gl_push_matrix g) = g"
  by (simp add: gl_pop_matrix_def gl_push_matrix_def)

lemma obj_render_eq: "obj_render w i g = gl_draw i (frags (objs w i)) g"
proof -
  have "gl_draw i (frags (objs w i)) (gl_push_matrix g) =
        gl_push_matrix (gl_draw i (frags (objs w i)) g)"
    by (simp add: gl_draw_def gl_push_matrix_def)
  then show ?thesis by (simp add: obj_render_def cube_render_def)
qed

lemma cube_render_eq: "cube_render w i g = gl_draw i (frags (objs w i)) g"
  using obj_render_eq by (simp add: obj_render_def)

lemma sphere_render_eq: "sphere_render w i g = gl_draw i (frags (objs w i)) g"
  using cube_render_eq by (simp add: sphere_render_def cube_render_def)

end
