(* ===== verification/Scene.thy ===== *)
theory Scene
  imports Objects
begin

text \<open>
  The scene graph of \<open>src/trunk/pyggel/scene.py\<close>: class \<open>Tree\<close> (five ordered
  lists of object references, the optional skybox, the lights, the optional shader) and
  the mutating methods of class \<open>Scene\<close>. Object references are ids into the heap
  \<open>Objects.world\<close>; light references are ids too. Each method is a function from
  the scene (and the heap, for \<open>add_2d\<close>, which writes the objects' \<open>scene\<close>
  attribute) to the new ones, with its exception as an \<open>Inl\<close> branch. The datatype
  \<open>scene_op\<close> lists the methods, and \<open>scene_step\<close> applies one; the registry
  invariant (at most eight lights) is kept by every step.
\<close>

section \<open>State\<close>

record tree =
  render_3d :: "nat list"
  render_3d_shader :: "nat list"
  render_3d_blend :: "nat list"
  render_2d :: "nat list"
  render_3d_always :: "nat list"
  skybox :: "(sky_kind \<times> nat) option"
  lights :: "nat list"
  shader :: "nat option"

definition tree_new :: tree where
  "tree_new =
     \<lparr>render_3d = [], render_3d_shader = [], render_3d_blend = [], render_2d = [],
      render_3d_always = [], skybox = None, lights = [], shader = None\<rparr>"

record scene =
  scene_id :: nat
  graph :: tree
  render2d :: bool
  render3d :: bool
  pick :: bool

definition scene_new :: "nat \<Rightarrow> scene" where
  "scene_new n = \<lparr>scene_id = n, graph = tree_new, render2d = True, render3d = True, pick = False\<rparr>"

section \<open>Adding and removing objects\<close>

text \<open>\<open>add_2d\<close>: append every element and point its \<open>scene\<close> attribute at this scene.\<close>

definition set_owner :: "nat \<Rightarrow> nat \<Rightarrow> world \<Rightarrow> world" where
  "set_owner sid i w = w\<lparr>objs := (objs w)(i := (objs w i)\<lparr>owner := Some sid\<rparr>)\<rparr>"

definition add_2d :: "nat one_or_many \<Rightarrow> scene \<Rightarrow> world \<Rightarrow> scene \<times> world" where
  "add_2d ele s w =
     (s\<lparr>graph := (graph s)\<lparr>render_2d := render_2d (graph s) @ items ele\<rparr>\<rparr>,
      fold (set_owner (scene_id s)) (items ele) w)"

definition remove_2d :: "nat \<Rightarrow> scene \<Rightarrow> scene result" where
  "remove_2d x s =
     res_bind (py_remove x (render_2d (graph s)))
       (\<lambda>l. Inr (s\<lparr>graph := (graph s)\<lparr>render_2d := l\<rparr>\<rparr>))"

definition add_3d :: "nat one_or_many \<Rightarrow> scene \<Rightarrow> scene" where
  "add_3d ele s = s\<lparr>graph := (graph s)\<lparr>render_3d := render_3d (graph s) @ items ele\<rparr>\<rparr>"

definition remove_3d :: "nat \<Rightarrow> scene \<Rightarrow> scene result" where
  "remove_3d x s =
     res_bind (py_remove x (render_3d (graph s)))
       (\<lambda>l. Inr (s\<lparr>graph := (graph s)\<lparr>render_3d := l\<rparr>\<rparr>))"

definition add_3d_shader :: "nat one_or_many \<Rightarrow> scene \<Rightarrow> scene" where
  "add_3d_shader ele s =
     s\<lparr>graph := (graph s)\<lparr>render_3d_shader := render_3d_shader (graph s) @ items ele\<rparr>\<rparr>"

definition remove_3d_shader :: "nat \<Rightarrow> scene \<Rightarrow> scene result" where
  "remove_3d_shader x s =
     res_bind (py_remove x (render_3d_shader (graph s)))
       (\<lambda>l. Inr (s\<lparr>graph := (graph s)\<lparr>render_3d_shader := l\<rparr>\<rparr>))"

definition add_3d_blend :: "nat one_or_many \<Rightarrow> scene \<Rightarrow> scene" where
  "add_3d_blend ele s =
     s\<lparr>graph := (graph s)\<lparr>render_3d_blend := render_3d_blend (graph s) @ items ele\<rparr>\<rparr>"

definition remove_3d_blend :: "nat \<Rightarrow> scene \<Rightarrow> scene result" where
  "remove_3d_blend x s =
     res_bind (py_remove x (render_3d_blend (graph s)))
       (\<lambda>l. Inr (s\<lparr>graph := (graph s)\<lparr>render_3d_blend := l\<rparr>\<rparr>))"

definition add_3d_always :: "nat one_or_many \<Rightarrow> scene \<Rightarrow> scene" where
  "add_3d_always ele s =
     s\<lparr>graph := (graph s)\<lparr>render_3d_always := render_3d_always (graph s) @ items ele\<rparr>\<rparr>"

definition remove_3d_always :: "nat \<Rightarrow> scene \<Rightarrow> scene result" where
  "remove_3d_always x s =
     res_bind (py_remove x (render_3d_always (graph s)))
       (\<lambda>l. Inr (s\<lparr>graph := (graph s)\<lparr>render_3d_always := l\<rparr>\<rparr>))"

definition add_skybox :: "(sky_kind \<times> nat) option \<Rightarrow> scene \<Rightarrow> scene" where
  "add_skybox ele s = s\<lparr>graph := (graph s)\<lparr>skybox := ele\<rparr>\<rparr>"

section \<open>Lights and shader\<close>

definition add_light :: "nat \<Rightarrow> scene \<Rightarrow> scene result" where
  "add_light l s =
     (if length (lights (graph s)) < 8
      then Inr (s\<lparr>graph := (graph s)\<lparr>lights := lights (graph s) @ [l]\<rparr>\<rparr>)
      else Inl ValueError)"

definition remove_light :: "nat \<Rightarrow> scene \<Rightarrow> scene" where
  "remove_light l s =
     (if l \<in> set (lights (graph s))
      then s\<lparr>graph := (graph s)\<lparr>lights := remove1 l (lights (graph s))\<rparr>\<rparr>
      else s)"

definition set_shader :: "nat \<Rightarrow> scene \<Rightarrow> scene" where
  "set_shader p s = s\<lparr>graph := (graph s)\<lparr>shader := Some p\<rparr>\<rparr>"

definition remove_shader :: "scene \<Rightarrow> scene" where
  "remove_shader s = s\<lparr>graph := (graph s)\<lparr>shader := None\<rparr>\<rparr>"

section \<open>The methods as one step function\<close>

text \<open>
  The public attributes \<open>render2d\<close>, \<open>render3d\<close> and \<open>pick\<close> are assigned directly
  by callers; those assignments are operations too.
\<close>

datatype scene_op =
    Add2D "nat one_or_many" | Remove2D nat
  | Add3D "nat one_or_many" | Remove3D nat
  | Add3DShader "nat one_or_many" | Remove3DShader nat
  | Add3DBlend "nat one_or_many" | Remove3DBlend nat
  | Add3DAlways "nat one_or_many" | Remove3DAlways nat
  | AddSkybox "(sky_kind \<times> nat) option"
  | AddLight nat | RemoveLight nat
  | SetShader nat | RemoveShader
  | SetPick bool | SetRender2d bool | SetRender3d bool

fun scene_step :: "scene_op \<Rightarrow> scene \<times> world \<Rightarrow> (scene \<times> world) result" where
  "scene_step (Add2D e) (s, w) = Inr (add_2d e s w)"
| "scene_step (Remove2D x) (s, w) = res_bind (remove_2d x s) (\<lambda>s'. Inr (s', w))"
| "scene_step (Add3D e) (s, w) = Inr (add_3d e s, w)"
| "scene_step (Remove3D x) (s, w) = res_bind (remove_3d x s) (\<lambda>s'. Inr (s', w))"
| "scene_step (Add3DShader e) (s, w) = Inr (add_3d_shader e s, w)"
| "scene_step (Remove3DShader x) (s, w) = res_bind (remove_3d_shader x s) (\<lambda>s'. Inr (s', w))"
| "scene_step (Add3DBlend e) (s, w) = Inr (add_3d_blend e s, w)"
| "scene_step (Remove3DBlend x) (s, w) = res_bind (remove_3d_blend x s) (\<lambda>s'. Inr (s', w))"
| "scene_step (Add3DAlways e) (s, w) = Inr (add_3d_always e s, w)"
| "scene_step (Remove3DAlways x) (s, w) = res_bind (remove_3d_always x s) (\<lambda>s'. Inr (s', w))"
| "scene_step (AddSkybox e) (s, w) = Inr (add_skybox e s, w)"
| "scene_step (AddLight l) (s, w) = res_bind (add_light l s) (\<lambda>s'. Inr (s', w))"
| "scene_step (RemoveLight l) (s, w) = Inr (remove_light l s, w)"
| "scene_step (SetShader p) (s, w) = Inr (set_shader p s, w)"
| "scene_step RemoveShader (s, w) = Inr (remove_shader s, w)"
| "scene_step (SetPick b) (s, w) = Inr (s\<lparr>pick := b\<rparr>, w)"
| "scene_step (SetRender2d b) (s, w) = Inr (s\<lparr>render2d := b\<rparr>, w)"
| "scene_step (SetRender3d b) (s, w) = Inr (s\<lparr>render3d := b\<rparr>, w)"

text \<open>A sequence of calls stops at the first exception, as uncaught Python code does.\<close>

fun scene_run :: "scene_op list \<Rightarrow> scene \<times> world \<Rightarrow> (scene \<times> world) result" where
  "scene_run [] sw = Inr sw"
| "scene_run (op # ops) sw = res_bind (scene_step op sw) (scene_run ops)"

section \<open>The light registry invariant\<close>

definition scene_inv :: "scene \<Rightarrow> bool" where
  "scene_inv s = (length (lights (graph s)) \<le> 8)"

lemma scene_new_inv: "scene_inv (scene_new n)"
  by (simp add: scene_inv_def scene_new_def tree_new_def)

text \<open>Only \<open>add_light\<close> and \<open>remove_light\<close> touch the light list.\<close>

lemma lights_unchanged [simp, frame_simps]:
  "lights (graph (fst (add_2d e s w))) = lights (graph s)"
  "lights (graph (add_3d e s)) = lights (graph s)"
  "lights (graph (add_3d_shader e s)) = lights (graph s)"
  "lights (graph (add_3d_blend e s)) = lights (graph s)"
  "lights (graph (add_3d_always e s)) = lights (graph s)"
  "lights (graph (add_skybox k s)) = lights (graph s)"
  "lights (graph (set_shader p s)) = lights (graph s)"
  "lights (graph (remove_shader s)) = lights (graph s)"
  by (simp_all add: add_2d_def add_3d_def add_3d_shader_def add_3d_blend_def
      add_3d_always_def add_skybox_def set_shader_def remove_shader_def)

lemma remove_lists_lights:
  "remove_2d x s = Inr s' \<Longrightarrow> lights (graph s') = lights (graph s)"
  "remove_3d x s = Inr s' \<Longrightarrow> lights (graph s') = lights (graph s)"
  "remove_3d_shader x s = Inr s' \<Longrightarrow> lights (graph s') = lights (graph s)"
  "remove_3d_blend x s = Inr s' \<Longrightarrow> lights (graph s') = lights (graph s)"
  "remove_3d_always x s = Inr s' \<Longrightarrow> lights (graph s') = lights (graph s)"
  by (auto simp: remove_2d_def remove_3d_def remove_3d_shader_def remove_3d_blend_def
      remove_3d_always_def res_bind_eq_Inr)

lemma add_light_lights:
  "add_light l s = Inr s' \<Longrightarrow> lights (graph s') = lights (graph s) @ [l] \<and> length (lights (graph s)) < 8"
  by (simp add: add_light_def split: if_splits) (auto)

lemma remove_light_length: "length (lights (graph (remove_light l s))) \<le> length (lights (graph s))"
  by (simp add: remove_light_def length_remove1)

lemma scene_step_inv:
  "scene_step op (s, w) = Inr (s', w') \<Longrightarrow> scene_inv s \<Longrightarrow> scene_inv s'"
proof (cases op)
  case (AddLight l)
  then show "scene_step op (s, w) = Inr (s', w') \<Longrightarrow> scene_inv s \<Longrightarrow> scene_inv s'"
    by (auto simp: scene_inv_def res_bind_eq_Inr dest!: add_light_lights)
next
  case (RemoveLight l)
  then show "scene_step op (s, w) = Inr (s', w') \<Longrightarrow> scene_inv s \<Longrightarrow> scene_inv s'"
    using remove_light_length [of l s] by (auto simp: scene_inv_def)
qed (auto simp: scene_inv_def res_bind_eq_Inr add_2d_def dest: remove_lists_lights)

end
