(* ===== verification/Render.thy ===== *)
theory Render
  imports Scene
begin

text \<open>
  \<open>Scene.render(camera)\<close> of \<open>src/trunk/pyggel/scene.py\<close> (lines 36--123), one
  definition per phase of the method, in the method's order. The method's local
  variables (\<open>pick\<close>, \<open>last_depth\<close>, \<open>last_color\<close>, \<open>my_lights\<close>) and the state it
  mutates (the GL state and the heap, whose lights get their \<open>gl_light\<close> assigned) are
  the record \<open>frame\<close>; each phase maps a frame to the next, or to the exception it
  raises. \<open>last_color\<close> is unassigned until line 81; the record holds black there,
  which no phase reads. The cursor pixel is \<open>(mpx, screen_h - mpy)\<close> (lines 43--44);
  picking reads the frame buffer of the GL model at that pixel.
\<close>

record frame =
  picked :: "nat option"
  last_depth :: real
  last_color :: color
  my_lights :: "nat list"
  fworld :: world
  fgl :: gl_state

definition cursor :: "view \<Rightarrow> int \<times> int \<Rightarrow> pixel" where
  "cursor v m = (fst m, snd (screen_size v) - snd m)"

definition on_gl :: "(gl_state \<Rightarrow> gl_state) \<Rightarrow> frame \<Rightarrow> frame" where
  "on_gl h f = f\<lparr>fgl := h (fgl f)\<rparr>"

section \<open>The passes\<close>

text \<open>
  Opaque and shader passes (lines 57--64, 68--75): render every visible object; when
  picking, read the depth under the cursor and take the object if it is strictly nearer
  than \<open>last_depth\<close>.
\<close>

fun depth_pass :: "pixel \<Rightarrow> bool \<Rightarrow> nat list \<Rightarrow> frame \<Rightarrow> frame" where
  "depth_pass c pk [] f = f"
| "depth_pass c pk (i # is) f =
     (if visible (objs (fworld f) i) then
        (let g' = obj_render (fworld f) i (fgl f)
         in if pk \<and> fb_depth g' c < last_depth f
            then depth_pass c pk is (f\<lparr>picked := Some i, last_depth := fb_depth g' c, fgl := g'\<rparr>)
            else depth_pass c pk is (f\<lparr>fgl := g'\<rparr>))
      else depth_pass c pk is f)"

text \<open>
  Blend pass (lines 83--91): render every visible object; when picking, read the
  colour under the cursor and take the object if the colour changed.
\<close>

fun color_pass :: "pixel \<Rightarrow> bool \<Rightarrow> nat list \<Rightarrow> frame \<Rightarrow> frame" where
  "color_pass c pk [] f = f"
| "color_pass c pk (i # is) f =
     (if visible (objs (fworld f) i) then
        (let g' = obj_render (fworld f) i (fgl f)
         in if pk \<and> fb_color g' c \<noteq> last_color f
            then color_pass c pk is (f\<lparr>picked := Some i, last_color := fb_color g' c, fgl := g'\<rparr>)
            else color_pass c pk is (f\<lparr>fgl := g'\<rparr>))
      else color_pass c pk is f)"

text \<open>
  Always-on-top pass (lines 94--102). Its read-back is
  \<open>glReadPixelsf(mpx, mpy, 1, 1, GL_GBA)\<close>: the name \<open>GL_GBA\<close> is defined by no
  module, so the first read-back, right after the first visible object is drawn, raises
  NameError.
\<close>

fun always_pass :: "pixel \<Rightarrow> bool \<Rightarrow> nat list \<Rightarrow> frame \<Rightarrow> frame result" where
  "always_pass c pk [] f = Inr f"
| "always_pass c pk (i # is) f =
     (if visible (objs (fworld f) i) then
        (let f' = f\<lparr>fgl := obj_render (fworld f) i (fgl f)\<rparr>
         in if pk then Inl NameError else always_pass c pk is f')
      else always_pass c pk is f)"

section \<open>Lights\<close>

text \<open>
  Lines 53--55: every light of the scene takes \<open>my_lights.pop()\<close> (the last unit of
  the copied pool) as its \<open>gl_light\<close> and shines; an empty pool raises IndexError.
\<close>

fun assign_lights :: "nat list \<Rightarrow> frame \<Rightarrow> frame result" where
  "assign_lights [] f = Inr f"
| "assign_lights (l # ls) f =
     (case py_pop (my_lights f) of
        Inl e \<Rightarrow> Inl e
      | Inr (u, pool) \<Rightarrow>
          (let w' = (fworld f)\<lparr>light_gl := (light_gl (fworld f))(l := u)\<rparr>
           in assign_lights ls (f\<lparr>my_lights := pool, fworld := w', fgl := light_shine w' l (fgl f)\<rparr>)))"

text \<open>Lines 105--106: every light hides the unit its \<open>gl_light\<close> holds now.\<close>

fun hide_lights :: "nat list \<Rightarrow> frame \<Rightarrow> frame" where
  "hide_lights [] f = f"
| "hide_lights (l # ls) f = hide_lights ls (on_gl (light_hide (fworld f) l) f)"

section \<open>The phases of render\<close>

text \<open>Lines 48--49: the skybox is drawn only when one is set and a camera is given.\<close>

definition skybox_phase :: "view \<Rightarrow> bool \<Rightarrow> tree \<Rightarrow> frame \<Rightarrow> frame" where
  "skybox_phase v cam t f =
     (case skybox t of
        Some sk \<Rightarrow> if cam then on_gl (sky_render v (fworld f) sk) f else f
      | None \<Rightarrow> f)"

text \<open>Lines 51--55: the camera is pushed when given, then the lights take their units.\<close>

definition lights_phase :: "bool \<Rightarrow> tree \<Rightarrow> frame \<Rightarrow> frame result" where
  "lights_phase cam t f =
     assign_lights (lights t) (if cam then on_gl camera_push f else f)"

text \<open>
  Lines 56--79: alpha test on, the opaque list, the shader (when set) and its list, the
  program reset, alpha test off.
\<close>

definition opaque_phase :: "pixel \<Rightarrow> bool \<Rightarrow> tree \<Rightarrow> frame \<Rightarrow> frame" where
  "opaque_phase c pk t f =
     (let f1 = on_gl (\<lambda>g. g\<lparr>alpha_test := True\<rparr>) f;
          f2 = depth_pass c pk (render_3d t) f1;
          f3 = (case shader t of Some p \<Rightarrow> on_gl (shader_run p) f2 | None \<Rightarrow> f2);
          f4 = depth_pass c pk (render_3d_shader t) f3;
          f5 = (case shader t of Some p \<Rightarrow> on_gl (gl_use_program 0) f4 | None \<Rightarrow> f4)
      in on_gl (\<lambda>g. g\<lparr>alpha_test := False\<rparr>) f5)"

text \<open>Lines 80--92: the colour under the cursor is read, depth writes off, the blend list.\<close>

definition blend_phase :: "pixel \<Rightarrow> bool \<Rightarrow> tree \<Rightarrow> frame \<Rightarrow> frame" where
  "blend_phase c pk t f =
     (let f1 = f\<lparr>last_color := fb_color (fgl f) c\<rparr>;
          f2 = on_gl (\<lambda>g. g\<lparr>depth_mask := False\<rparr>) f1
      in color_pass c pk (render_3d_blend t) f2)"

text \<open>Lines 93--104: depth writes on, depth test off, the always-on-top list, depth test on.\<close>

definition always_phase :: "pixel \<Rightarrow> bool \<Rightarrow> tree \<Rightarrow> frame \<Rightarrow> frame result" where
  "always_phase c pk t f =
     res_bind (always_pass c pk (render_3d_always t)
                 (on_gl (\<lambda>g. g\<lparr>depth_mask := True, depth_test := False\<rparr>) f)) (\<lambda>f1.
       Inr (on_gl (\<lambda>g. g\<lparr>depth_test := True\<rparr>) f1))"

text \<open>Lines 105--108: the lights hide, the camera pops when given.\<close>

definition release_phase :: "bool \<Rightarrow> tree \<Rightarrow> frame \<Rightarrow> frame" where
  "release_phase cam t f =
     (let f1 = hide_lights (lights t) f in if cam then on_gl camera_pop f1 else f1)"

text \<open>Lines 50--108, the 3D block, entered when \<open>render3d\<close> is set: the phases in order.\<close>

definition passes_3d :: "pixel \<Rightarrow> bool \<Rightarrow> scene \<Rightarrow> frame \<Rightarrow> frame result" where
  "passes_3d c cam s f =
     (let t = graph s; pk = pick s
      in res_bind (lights_phase cam t f) (\<lambda>f1.
         res_bind (always_phase c pk t (blend_phase c pk t (opaque_phase c pk t f1))) (\<lambda>f2.
         Inr (release_phase cam t f2))))"

text \<open>Lines 117--118: every visible overlay object renders, in insertion order.\<close>

fun draw_visible :: "world \<Rightarrow> nat list \<Rightarrow> gl_state \<Rightarrow> gl_state" where
  "draw_visible w [] g = g"
| "draw_visible w (i # is) g = draw_visible w is (if visible (objs w i) then obj_render w i g else g)"

text \<open>
  Lines 110--121, the 2D block: orthographic projection, a pushed matrix scaled by
  screen size over logical 2D size per axis (\<open>1.0 * a / b\<close>: ZeroDivisionError for a
  zero logical size), lighting off around the overlay objects, back on when the view
  has lighting.
\<close>

definition overlay_phase :: "view \<Rightarrow> scene \<Rightarrow> frame \<Rightarrow> frame result" where
  "overlay_phase v s f =
     (case (screen_size v, screen_size_2d v) of ((w, h), (w2, h2)) \<Rightarrow>
        if w2 = 0 then Inl ZeroDivisionError
        else if h2 = 0 then Inl ZeroDivisionError
        else
          (let rx = real_of_int w / real_of_int w2;
               ry = real_of_int h / real_of_int h2;
               g1 = gl_log (Scale rx ry) (gl_push_matrix (set2d v (fgl f)));
               g2 = draw_visible (fworld f) (render_2d (graph s)) (g1\<lparr>lighting := False\<rparr>);
               g3 = (if view_lighting v then g2\<lparr>lighting := True\<rparr> else g2)
           in Inr (f\<lparr>fgl := gl_pop_matrix g3\<rparr>)))"

text \<open>
  Lines 41--49: the locals (no pick, depth 1, the full pool of light units) and the
  skybox, drawn after the 3D projection is set.
\<close>

definition render_init :: "view \<Rightarrow> bool \<Rightarrow> scene \<Rightarrow> world \<Rightarrow> gl_state \<Rightarrow> frame" where
  "render_init v cam s w g =
     skybox_phase v cam (graph s)
       \<lparr>picked = None, last_depth = 1, last_color = (0, 0, 0, 0),
        my_lights = all_lights, fworld = w, fgl = g\<rparr>"

text \<open>
  \<open>render\<close>: 3D projection, the locals and the skybox, the 3D block when
  \<open>render3d\<close> holds, the 2D block when \<open>render2d\<close> holds; the result is the pick,
  the heap and the GL state.
\<close>

definition render ::
  "view \<Rightarrow> int \<times> int \<Rightarrow> bool \<Rightarrow> scene \<Rightarrow> world \<Rightarrow> gl_state \<Rightarrow> (nat option \<times> world \<times> gl_state) result" where
  "render v m cam s w g =
     res_bind (set3d v g) (\<lambda>g1.
       let c = cursor v m;
           f1 = render_init v cam s w g1
       in res_bind (if render3d s then passes_3d c cam s f1 else Inr f1) (\<lambda>f2.
          res_bind (if render2d s then overlay_phase v s f2 else Inr f2) (\<lambda>f3.
            Inr (picked f3, fworld f3, fgl f3))))"

end
