(* ===== verification/Picking.thy ===== *)
theory Picking
  imports Render
begin

text \<open>
  The abstract contract of picking, and the proof that the read-back loops of
  \<open>Scene.render\<close> implement it.
  \<^item> \<open>cand\<close>: the depth a visible object offers at the cursor pixel, when its fragment
    there survives the alpha test. \<open>closest\<close> selects, over a list of objects and from a
    starting pick and depth, the object of strictly smallest depth, the earliest among
    equals. \<open>depth_pass_closest\<close> is the refinement: with depth test and depth writes
    on, and the depth buffer under the cursor equal to \<open>last_depth\<close>, the opaque/shader
    loop computes exactly \<open>closest\<close>, and keeps that equality. The lemmas
    \<open>closest_min\<close>, \<open>closest_attained\<close> and \<open>closest_same_depth\<close> say what
    \<open>closest\<close> is: the minimum depth, taken by a listed object, and no change when
    nothing is nearer.
  \<^item> \<open>changers\<close>: the objects whose draw changes the colour under the cursor.
    \<open>color_pass_last_writer\<close>: the blend loop picks the last of them.
  \<^item> Whatever is picked, a pass leaves the GL state that drawing the visible objects in
    order leaves (\<open>depth_pass_frame\<close>, \<open>color_pass_frame\<close>), and logs exactly their
    draws (\<open>draw_visible_log\<close>).
\<close>

section \<open>The contract\<close>

definition cand :: "gl_state \<Rightarrow> world \<Rightarrow> pixel \<Rightarrow> nat \<Rightarrow> real option" where
  "cand g w c i =
     (if visible (objs w i)
      then (case frags (objs w i) c of
              None \<Rightarrow> None
            | Some fr \<Rightarrow> if alpha_ok g fr then Some (fdepth fr) else None)
      else None)"

fun closest :: "(nat \<Rightarrow> real option) \<Rightarrow> nat list \<Rightarrow> nat option \<times> real \<Rightarrow> nat option \<times> real" where
  "closest cd [] pd = pd"
| "closest cd (i # is) (p, d) =
     (case cd i of
        None \<Rightarrow> closest cd is (p, d)
      | Some d' \<Rightarrow> if d' < d then closest cd is (Some i, d') else closest cd is (p, d))"

text \<open>The objects whose draw changes the colour under the cursor, in drawing order.\<close>

fun changers :: "pixel \<Rightarrow> world \<Rightarrow> nat list \<Rightarrow> gl_state \<Rightarrow> nat list" where
  "changers c w [] g = []"
| "changers c w (i # is) g =
     (if visible (objs w i)
      then (let g' = obj_render w i g
            in (if fb_color g' c \<noteq> fb_color g c then [i] else []) @ changers c w is g')
      else changers c w is g)"

lemma alpha_ok_gl_draw [simp]: "alpha_ok (gl_draw i fr g) = alpha_ok g"
  by (simp add: alpha_ok_def fun_eq_iff)

lemma cand_gl_draw [simp]: "cand (gl_draw i fr g) = cand g"
  by (simp add: cand_def fun_eq_iff cong: option.case_cong)

lemma write_depth_nearer:
  "depth_test g \<Longrightarrow> depth_mask g \<Longrightarrow> alpha_ok g fr \<Longrightarrow> fdepth fr < d \<Longrightarrow>
   write_depth g (Some fr) d = fdepth fr"
  by (auto simp: write_depth_def frag_passes_def alpha_ok_def split: depth_fn.splits option.splits)

lemma depth_pass_closest:
  assumes "depth_test (fgl f)" "depth_mask (fgl f)" "fb_depth (fgl f) c = last_depth f"
  shows "(picked (depth_pass c True is f), last_depth (depth_pass c True is f)) =
           closest (cand (fgl f) (fworld f) c) is (picked f, last_depth f) \<and>
         fb_depth (fgl (depth_pass c True is f)) c = last_depth (depth_pass c True is f)"
  using assms
proof (induction "is" arbitrary: f)
  case Nil
  then show ?case by simp
next
  case (Cons i "is")
  let ?o = "objs (fworld f) i"
  let ?g' = "gl_draw i (frags ?o) (fgl f)"
  show ?case
  proof (cases "visible ?o")
    case False
    then show ?thesis using Cons by (simp add: cand_def)
  next
    case vis: True
    have wle: "write_depth (fgl f) (frags ?o c) (last_depth f) \<le> last_depth f"
      using Cons.prems(1) by (rule write_depth_le)
    show ?thesis
    proof (cases "write_depth (fgl f) (frags ?o c) (last_depth f) < last_depth f")
      case True
      then obtain fr where fr: "frags ?o c = Some fr" "alpha_ok (fgl f) fr" "fdepth fr < last_depth f"
        using write_depth_lt_iff [OF Cons.prems(1,2)] by blast
      have w: "write_depth (fgl f) (frags ?o c) (last_depth f) = fdepth fr"
        using fr Cons.prems(1,2) by (simp add: write_depth_nearer)
      let ?f' = "f\<lparr>picked := Some i, last_depth := fdepth fr, fgl := ?g'\<rparr>"
      have ih: "(picked (depth_pass c True is ?f'), last_depth (depth_pass c True is ?f')) =
                  closest (cand (fgl ?f') (fworld ?f') c) is (picked ?f', last_depth ?f') \<and>
                fb_depth (fgl (depth_pass c True is ?f')) c = last_depth (depth_pass c True is ?f')"
        using Cons.prems w by (intro Cons.IH) simp_all
      have cd: "cand (fgl f) (fworld f) c i = Some (fdepth fr)"
        using vis fr by (simp add: cand_def)
      show ?thesis using ih vis w fr cd Cons.prems(3) by (simp add: obj_render_eq)
    next
      case False
      with wle have same: "write_depth (fgl f) (frags ?o c) (last_depth f) = last_depth f" by simp
      have cd: "\<not> (\<exists>d'. cand (fgl f) (fworld f) c i = Some d' \<and> d' < last_depth f)"
        using False write_depth_lt_iff [OF Cons.prems(1,2)] vis
        by (auto simp: cand_def split: option.splits if_splits)
      let ?f' = "f\<lparr>fgl := ?g'\<rparr>"
      have ih: "(picked (depth_pass c True is ?f'), last_depth (depth_pass c True is ?f')) =
                  closest (cand (fgl ?f') (fworld ?f') c) is (picked ?f', last_depth ?f') \<and>
                fb_depth (fgl (depth_pass c True is ?f')) c = last_depth (depth_pass c True is ?f')"
        using Cons.prems same by (intro Cons.IH) simp_all
      have "closest (cand (fgl f) (fworld f) c) (i # is) (picked f, last_depth f) =
            closest (cand (fgl f) (fworld f) c) is (picked f, last_depth f)"
        using cd by (auto split: option.splits)
      then show ?thesis using ih vis False Cons.prems(3) by (simp add: obj_render_eq)
    qed
  qed
qed

lemma depth_pass_append:
  "depth_pass c pk (xs @ ys) f = depth_pass c pk ys (depth_pass c pk xs f)"
  by (cases pk; induction xs arbitrary: f) (simp_all add: Let_def)

lemma closest_append:
  "closest cd (xs @ ys) pd = closest cd ys (closest cd xs pd)"
proof (induction xs arbitrary: pd)
  case Nil
  then show ?case by simp
next
  case (Cons x xs)
  then show ?case by (cases pd) (simp split: option.splits)
qed

lemma closest_le: "snd (closest cd is (p, d)) \<le> d"
proof (induction "is" arbitrary: p d)
  case Nil
  then show ?case by simp
next
  case (Cons i "is")
  then show ?case by (fastforce split: option.splits intro: order_trans less_imp_le)
qed

lemma closest_min:
  "j \<in> set is \<Longrightarrow> cd j = Some e \<Longrightarrow> snd (closest cd is (p, d)) \<le> e"
proof (induction "is" arbitrary: p d)
  case Nil
  then show ?case by simp
next
  case (Cons i "is")
  show ?case
  proof (cases "j = i")
    case True
    with Cons.prems have "cd i = Some e" by simp
    then show ?thesis
      using closest_le [of cd "is" "Some i" e] closest_le [of cd "is" p d]
      by (auto split: if_splits)
  next
    case False
    with Cons.prems Cons.IH show ?thesis by (auto split: option.splits)
  qed
qed

lemma closest_same_depth:
  "snd (closest cd is (q, e)) = e \<Longrightarrow> fst (closest cd is (q, e)) = q"
proof (induction "is" arbitrary: q e)
  case Nil
  then show ?case by simp
next
  case (Cons k ks)
  show ?case
  proof (cases "cd k")
    case None
    with Cons show ?thesis by simp
  next
    case (Some d')
    show ?thesis
    proof (cases "d' < e")
      case True
      with Some Cons.prems closest_le [of cd ks "Some k" d'] show ?thesis by simp
    next
      case False
      with Some Cons show ?thesis by simp
    qed
  qed
qed

lemma closest_attained:
  "snd (closest cd is (p, d)) < d \<Longrightarrow>
   \<exists>i\<in>set is. fst (closest cd is (p, d)) = Some i \<and> cd i = Some (snd (closest cd is (p, d)))"
proof (induction "is" arbitrary: p d)
  case Nil
  then show ?case by simp
next
  case (Cons i "is")
  show ?case
  proof (cases "\<exists>d'. cd i = Some d' \<and> d' < d")
    case True
    then obtain d' where d': "cd i = Some d'" "d' < d" by blast
    show ?thesis
    proof (cases "snd (closest cd is (Some i, d')) < d'")
      case True
      with Cons.IH [of "Some i" d'] d' show ?thesis by auto
    next
      case False
      with closest_le [of cd "is" "Some i" d'] have eq: "snd (closest cd is (Some i, d')) = d'"
        by simp
      then have "fst (closest cd is (Some i, d')) = Some i"
        by (rule closest_same_depth)
      with d' eq show ?thesis by auto
    qed
  next
    case False
    then have "closest cd (i # is) (p, d) = closest cd is (p, d)"
      by (auto split: option.splits)
    with Cons.IH [of p d] Cons.prems show ?thesis by auto
  qed
qed

text \<open>
  The contract of picking by depth: no object is picked when no candidate is nearer
  than the start depth \<open>d0\<close>; otherwise the picked object is a candidate nearer
  than \<open>d0\<close>, no candidate is nearer than it, and every candidate drawn before its
  first occurrence is strictly farther (ties go to the first drawn).
\<close>

definition nearest :: "(nat \<Rightarrow> real option) \<Rightarrow> nat list \<Rightarrow> real \<Rightarrow> nat option \<Rightarrow> bool" where
  "nearest cd is d0 p =
     (case p of
        None \<Rightarrow> (\<forall>j\<in>set is. case cd j of None \<Rightarrow> True | Some e \<Rightarrow> d0 \<le> e)
      | Some i \<Rightarrow> i \<in> set is \<and>
          (case cd i of
             None \<Rightarrow> False
           | Some d \<Rightarrow> d < d0 \<and> (\<forall>j\<in>set is. case cd j of None \<Rightarrow> True | Some e \<Rightarrow> d \<le> e) \<and>
                       (\<forall>j\<in>set (takeWhile (\<lambda>k. k \<noteq> i) is). case cd j of None \<Rightarrow> True | Some e \<Rightarrow> d < e)))"

lemma closest_first:
  "snd (closest cd is (p, d)) < d \<Longrightarrow> fst (closest cd is (p, d)) = Some i \<Longrightarrow>
   j \<in> set (takeWhile (\<lambda>k. k \<noteq> i) is) \<Longrightarrow> cd j = Some e \<Longrightarrow> snd (closest cd is (p, d)) < e"
proof (induction "is" arbitrary: p d)
  case Nil
  then show ?case by simp
next
  case (Cons k ks)
  show ?case
  proof (cases "\<exists>d'. cd k = Some d' \<and> d' < d")
    case True
    then obtain d' where d': "cd k = Some d'" "d' < d" by blast
    then have r: "closest cd (k # ks) (p, d) = closest cd ks (Some k, d')" by simp
    show ?thesis
    proof (cases "snd (closest cd ks (Some k, d')) < d'")
      case lt: True
      show ?thesis
      proof (cases "j = k")
        case True
        with Cons.prems d' lt r show ?thesis by auto
      next
        case False
        with Cons.prems r lt Cons.IH [of "Some k" d'] show ?thesis by (auto split: if_splits)
      qed
    next
      case False
      with closest_le [of cd ks "Some k" d'] have "snd (closest cd ks (Some k, d')) = d'" by simp
      then have "i = k" using closest_same_depth [of cd ks "Some k" d'] Cons.prems(2) r by simp
      with Cons.prems(3) show ?thesis by simp
    qed
  next
    case False
    then have r: "closest cd (k # ks) (p, d) = closest cd ks (p, d)" by (auto split: option.splits)
    have "i \<noteq> k"
      using False closest_attained [of cd ks p d] Cons.prems(1,2) r
      by (auto dest: closest_attained)
    then show ?thesis
      using Cons.prems Cons.IH [of p d] False r closest_le [of cd ks p d] by (auto split: if_splits)
  qed
qed

lemma closest_nearest: "nearest cd is d0 (fst (closest cd is (None, d0)))"
proof (cases "snd (closest cd is (None, d0)) < d0")
  case True
  then obtain i where i: "i \<in> set is" "fst (closest cd is (None, d0)) = Some i"
      "cd i = Some (snd (closest cd is (None, d0)))"
    using closest_attained by blast
  then show ?thesis
    using True closest_min [of _ "is" cd _ None d0] closest_first [OF True i(2)]
    by (auto simp: nearest_def split: option.split)
next
  case False
  with closest_le [of cd "is" None d0] have eq: "snd (closest cd is (None, d0)) = d0" by simp
  then have "fst (closest cd is (None, d0)) = None" by (rule closest_same_depth)
  then show ?thesis
    using closest_min [of _ "is" cd _ None d0] eq by (fastforce simp: nearest_def split: option.split)
qed

section \<open>What a pass leaves behind\<close>

lemma draw_visible_append:
  "draw_visible w (xs @ ys) g = draw_visible w ys (draw_visible w xs g)"
  by (induction xs arbitrary: g) simp_all

lemma draw_visible_log:
  "log (draw_visible w is g) = log g @ map Draw (filter (\<lambda>i. visible (objs w i)) is)"
  by (induction "is" arbitrary: g) (simp_all add: obj_render_eq)

lemma depth_pass_frame:
  "fgl (depth_pass c pk is f) = draw_visible (fworld f) is (fgl f) \<and>
   fworld (depth_pass c pk is f) = fworld f \<and> my_lights (depth_pass c pk is f) = my_lights f \<and>
   last_color (depth_pass c pk is f) = last_color f"
  by (cases pk; induction "is" arbitrary: f) (simp_all add: Let_def)

lemma color_pass_frame:
  "fgl (color_pass c pk is f) = draw_visible (fworld f) is (fgl f) \<and>
   fworld (color_pass c pk is f) = fworld f \<and> my_lights (color_pass c pk is f) = my_lights f \<and>
   last_depth (color_pass c pk is f) = last_depth f"
  by (cases pk; induction "is" arbitrary: f) (simp_all add: Let_def)

lemma depth_pass_no_pick: "depth_pass c False is f = f\<lparr>fgl := draw_visible (fworld f) is (fgl f)\<rparr>"
  by (induction "is" arbitrary: f) simp_all

lemma color_pass_no_pick: "color_pass c False is f = f\<lparr>fgl := draw_visible (fworld f) is (fgl f)\<rparr>"
  by (induction "is" arbitrary: f) simp_all

section \<open>The blend pass: the last draw that changes the colour wins\<close>

lemma color_pass_last_writer:
  assumes "fb_color (fgl f) c = last_color f"
  shows "picked (color_pass c True is f) =
           (if changers c (fworld f) is (fgl f) = [] then picked f
            else Some (last (changers c (fworld f) is (fgl f)))) \<and>
         fb_color (fgl (color_pass c True is f)) c = last_color (color_pass c True is f)"
  using assms
proof (induction "is" arbitrary: f)
  case Nil
  then show ?case by simp
next
  case (Cons i "is")
  let ?g' = "obj_render (fworld f) i (fgl f)"
  show ?case
  proof (cases "visible (objs (fworld f) i)")
    case False
    with Cons show ?thesis by simp
  next
    case vis: True
    show ?thesis
    proof (cases "fb_color ?g' c \<noteq> last_color f")
      case True
      have ih: "picked (color_pass c True is (f\<lparr>picked := Some i, last_color := fb_color ?g' c, fgl := ?g'\<rparr>)) =
                  (if changers c (fworld f) is ?g' = [] then Some i
                   else Some (last (changers c (fworld f) is ?g'))) \<and>
                fb_color (fgl (color_pass c True is (f\<lparr>picked := Some i, last_color := fb_color ?g' c, fgl := ?g'\<rparr>))) c =
                last_color (color_pass c True is (f\<lparr>picked := Some i, last_color := fb_color ?g' c, fgl := ?g'\<rparr>))"
        using Cons.IH [of "f\<lparr>picked := Some i, last_color := fb_color ?g' c, fgl := ?g'\<rparr>"] by simp
      with vis True Cons.prems show ?thesis by (simp add: Let_def)
    next
      case False
      have ih: "picked (color_pass c True is (f\<lparr>fgl := ?g'\<rparr>)) =
                  (if changers c (fworld f) is ?g' = [] then picked f
                   else Some (last (changers c (fworld f) is ?g'))) \<and>
                fb_color (fgl (color_pass c True is (f\<lparr>fgl := ?g'\<rparr>))) c =
                last_color (color_pass c True is (f\<lparr>fgl := ?g'\<rparr>))"
        using Cons.IH [of "f\<lparr>fgl := ?g'\<rparr>"] False by simp
      with vis False Cons.prems show ?thesis by (simp add: Let_def)
    qed
  qed
qed

end
