(* ===== verification/Render_Facts.thy ===== *)
theory Render_Facts
  imports Picking
begin

text \<open>
  Facts about the phases of \<open>Scene.render\<close> (\<open>Render\<close>) that the render-level
  theorems compose: drawing changes no GL flag; the skybox never writes depth; the lights
  take their units from the end of the pool (\<open>assign_lights_Inr\<close>) and release them
  (\<open>hide_lights_eq\<close>); each phase of the 3D block has field lemmas, so that the block's
  success condition (\<open>passes_3d_Inr_iff\<close>), its effect on the GL state
  (\<open>passes_3d_fields\<close>) and its pick (\<open>passes_3d_picked\<close>) follow from them.
\<close>

section \<open>Drawing leaves every GL flag alone\<close>

lemma draw_visible_flags [simp]:
  "proj (draw_visible w is g) = proj g"
  "depth_test (draw_visible w is g) = depth_test g"
  "depth_mask (draw_visible w is g) = depth_mask g"
  "alpha_test (draw_visible w is g) = alpha_test g"
  "alpha_func (draw_visible w is g) = alpha_func g"
  "lighting (draw_visible w is g) = lighting g"
  "program (draw_visible w is g) = program g"
  "lights_on (draw_visible w is g) = lights_on g"
  "matrix_depth (draw_visible w is g) = matrix_depth g"
  by (induction "is" arbitrary: g) (simp_all add: obj_render_eq)

lemma draw_visible_invisible:
  "\<forall>i\<in>set is. \<not> visible (objs w i) \<Longrightarrow> draw_visible w is g = g"
  by (induction "is" arbitrary: g) simp_all

lemma gl_draw_no_mask:
  "\<not> depth_mask g \<Longrightarrow> fb_depth (gl_draw i fr g) = fb_depth g"
  by (simp add: fun_eq_iff write_depth_no_mask)

lemma draw_visible_no_mask:
  "\<not> depth_mask g \<Longrightarrow> fb_depth (draw_visible w is g) = fb_depth g"
  by (induction "is" arbitrary: g) (simp_all add: obj_render_eq gl_draw_no_mask)

lemma draw_visible_no_test:
  "\<not> depth_test g \<Longrightarrow> fb_depth (draw_visible w is g) = fb_depth g"
  by (induction "is" arbitrary: g) (simp_all add: obj_render_eq fun_eq_iff write_depth_no_test)

section \<open>The skybox\<close>

lemma sky_render_fields [simp]:
  "fb_depth (sky_render v w sk g) = fb_depth g"
  "depth_mask (sky_render v w sk g) = True"
  "depth_test (sky_render v w sk g) = depth_test g"
  "alpha_test (sky_render v w sk g) = alpha_test g"
  "alpha_func (sky_render v w sk g) = alpha_func g"
  "lights_on (sky_render v w sk g) = lights_on g"
  "matrix_depth (sky_render v w sk g) = matrix_depth g"
  "program (sky_render v w sk g) = program g"
  by (cases sk; cases "fst sk";
      simp add: sky_render_def skybox_render_def skyball_render_def cube_render_eq
        sphere_render_eq camera_set_skybox_data_def gl_push_matrix_def gl_pop_matrix_def
        gl_draw_no_mask Let_def)+

section \<open>Light slots\<close>

definition assign_map :: "nat list \<Rightarrow> nat list \<Rightarrow> (nat \<Rightarrow> nat) \<Rightarrow> (nat \<Rightarrow> nat)" where
  "assign_map ls us m = fold (\<lambda>(l, u) m. m(l := u)) (zip ls us) m"

text \<open>The units the lights receive: the pool's last unit first.\<close>

definition taken_units :: "nat list \<Rightarrow> nat list \<Rightarrow> nat list" where
  "taken_units ls pool = take (length ls) (rev pool)"

lemma assign_lights_Inr:
  "length ls \<le> length (my_lights f) \<Longrightarrow>
   assign_lights ls f =
     Inr (f\<lparr>my_lights := take (length (my_lights f) - length ls) (my_lights f),
            fworld := (fworld f)\<lparr>light_gl := assign_map ls (taken_units ls (my_lights f)) (light_gl (fworld f))\<rparr>,
            fgl := (fgl f)\<lparr>lights_on := lights_on (fgl f) \<union> set (taken_units ls (my_lights f)),
                           log := log (fgl f) @ map Shine (taken_units ls (my_lights f))\<rparr>\<rparr>)"
proof (induction ls arbitrary: f)
  case Nil
  then show ?case by (simp add: assign_map_def taken_units_def)
next
  case (Cons l ls)
  then obtain ys u where pool: "my_lights f = ys @ [u]" and len: "length ls \<le> length ys"
    by (cases "my_lights f" rule: rev_cases) auto
  let ?w' = "(fworld f)\<lparr>light_gl := (light_gl (fworld f))(l := u)\<rparr>"
  let ?f1 = "f\<lparr>my_lights := ys, fworld := ?w', fgl := light_shine ?w' l (fgl f)\<rparr>"
  have step: "assign_lights (l # ls) f = assign_lights ls ?f1"
    using pool by (simp add: py_pop_def Let_def)
  have tk: "taken_units (l # ls) (ys @ [u]) = u # taken_units ls ys"
    by (simp add: taken_units_def)
  have tl: "take (length (ys @ [u]) - length (l # ls)) (ys @ [u]) = take (length ys - length ls) ys"
    using len by simp
  have am: "assign_map (l # ls) (u # taken_units ls ys) m = assign_map ls (taken_units ls ys) (m(l := u))" for m
    by (simp add: assign_map_def)
  have ih: "assign_lights ls ?f1 = Inr (?f1\<lparr>my_lights := take (length (my_lights ?f1) - length ls) (my_lights ?f1),
            fworld := (fworld ?f1)\<lparr>light_gl := assign_map ls (taken_units ls (my_lights ?f1)) (light_gl (fworld ?f1))\<rparr>,
            fgl := (fgl ?f1)\<lparr>lights_on := lights_on (fgl ?f1) \<union> set (taken_units ls (my_lights ?f1)),
                           log := log (fgl ?f1) @ map Shine (taken_units ls (my_lights ?f1))\<rparr>\<rparr>)"
    by (rule Cons.IH) (simp add: len)
  show ?case
    using step pool
    by (simp only: ih) (simp add: tk tl am light_shine_def gl_log_def)
qed

lemma assign_lights_Inl:
  "length (my_lights f) < length ls \<Longrightarrow> assign_lights ls f = Inl IndexError"
proof (induction ls arbitrary: f)
  case Nil
  then show ?case by simp
next
  case (Cons l ls)
  show ?case
  proof (cases "my_lights f" rule: rev_cases)
    case Nil
    then show ?thesis by (simp add: py_pop_def)
  next
    case (snoc ys u)
    with Cons show ?thesis by (simp add: py_pop_def Let_def)
  qed
qed

lemma hide_lights_eq:
  "hide_lights ls f =
     f\<lparr>fgl := (fgl f)\<lparr>lights_on := lights_on (fgl f) - set (map (light_gl (fworld f)) ls),
                      log := log (fgl f) @ map (\<lambda>l. Hide (light_gl (fworld f) l)) ls\<rparr>\<rparr>"
  by (induction ls arbitrary: f) (auto simp: on_gl_def light_hide_def gl_log_def Diff_insert2 [symmetric])

lemma assign_map_distinct:
  "distinct ls \<Longrightarrow> length us = length ls \<Longrightarrow> map (assign_map ls us m) ls = us"
proof (induction ls arbitrary: us m)
  case Nil
  then show ?case by simp
next
  case (Cons l ls)
  then obtain u us' where us: "us = u # us'" by (cases us) auto
  have other: "assign_map ls us' (m(l := u)) l = u"
  proof -
    have "\<And>m. l \<notin> set ls \<Longrightarrow> assign_map ls us' m l = m l"
    proof (induction ls arbitrary: us' )
      case Nil
      then show ?case by (simp add: assign_map_def)
    next
      case (Cons k ks)
      then show ?case by (cases us') (simp_all add: assign_map_def)
    qed
    with Cons.prems show ?thesis by simp
  qed
  from Cons us other show ?case by (simp add: assign_map_def)
qed

section \<open>The always-on-top pass\<close>

lemma always_pass_ok:
  "\<not> pk \<or> (\<forall>i\<in>set is. \<not> visible (objs (fworld f) i)) \<Longrightarrow>
   always_pass c pk is f = Inr (f\<lparr>fgl := draw_visible (fworld f) is (fgl f)\<rparr>)"
  by (induction "is" arbitrary: f) (auto simp: Let_def)

lemma always_pass_NameError:
  "pk \<Longrightarrow> i \<in> set is \<Longrightarrow> visible (objs (fworld f) i) \<Longrightarrow> always_pass c pk is f = Inl NameError"
  by (induction "is" arbitrary: f) (auto simp: Let_def)

section \<open>The 3D block\<close>

lemma opaque_phase_simps [simp]:
  "fworld (opaque_phase c pk t f) = fworld f"
  "my_lights (opaque_phase c pk t f) = my_lights f"
  "alpha_test (fgl (opaque_phase c pk t f)) = False"
  "depth_test (fgl (opaque_phase c pk t f)) = depth_test (fgl f)"
  "depth_mask (fgl (opaque_phase c pk t f)) = depth_mask (fgl f)"
  "proj (fgl (opaque_phase c pk t f)) = proj (fgl f)"
  "lighting (fgl (opaque_phase c pk t f)) = lighting (fgl f)"
  "lights_on (fgl (opaque_phase c pk t f)) = lights_on (fgl f)"
  "matrix_depth (fgl (opaque_phase c pk t f)) = matrix_depth (fgl f)"
  "program (fgl (opaque_phase c pk t f)) = (if shader t = None then program (fgl f) else 0)"
  by (simp_all add: opaque_phase_def Let_def on_gl_def depth_pass_frame shader_run_def
      gl_use_program_def split: option.splits)

lemma blend_phase_simps [simp]:
  "fworld (blend_phase c pk t f) = fworld f"
  "my_lights (blend_phase c pk t f) = my_lights f"
  "fgl (blend_phase c pk t f) = draw_visible (fworld f) (render_3d_blend t) ((fgl f)\<lparr>depth_mask := False\<rparr>)"
  by (simp_all add: blend_phase_def Let_def on_gl_def color_pass_frame)

lemma always_phase_Inr:
  "\<not> pk \<or> (\<forall>i\<in>set (render_3d_always t). \<not> visible (objs (fworld f) i)) \<Longrightarrow>
   always_phase c pk t f =
     Inr (f\<lparr>fgl := (draw_visible (fworld f) (render_3d_always t)
                       ((fgl f)\<lparr>depth_mask := True, depth_test := False\<rparr>))\<lparr>depth_test := True\<rparr>\<rparr>)"
  by (simp add: always_phase_def on_gl_def always_pass_ok)

lemma always_phase_NameError:
  "pk \<Longrightarrow> i \<in> set (render_3d_always t) \<Longrightarrow> visible (objs (fworld f) i) \<Longrightarrow>
   always_phase c pk t f = Inl NameError"
  by (simp add: always_phase_def on_gl_def always_pass_NameError)

lemma release_phase_eq:
  "release_phase cam t f =
     f\<lparr>fgl := (let g = (fgl f)\<lparr>lights_on := lights_on (fgl f) - set (map (light_gl (fworld f)) (lights t)),
                     log := log (fgl f) @ map (\<lambda>l. Hide (light_gl (fworld f) l)) (lights t)\<rparr>
                in if cam then camera_pop g else g)\<rparr>"
  by (simp add: release_phase_def hide_lights_eq on_gl_def Let_def)

lemma lights_phase_Inr:
  "length (lights t) \<le> length (my_lights f) \<Longrightarrow>
   lights_phase cam t f =
     Inr (f\<lparr>my_lights := take (length (my_lights f) - length (lights t)) (my_lights f),
            fworld := (fworld f)\<lparr>light_gl := assign_map (lights t) (taken_units (lights t) (my_lights f))
                                                 (light_gl (fworld f))\<rparr>,
            fgl := (let g = (if cam then camera_push (fgl f) else fgl f)
                    in g\<lparr>lights_on := lights_on g \<union> set (taken_units (lights t) (my_lights f)),
                         log := log g @ map Shine (taken_units (lights t) (my_lights f))\<rparr>)\<rparr>)"
  by (simp add: lights_phase_def assign_lights_Inr on_gl_def Let_def)

lemma lights_phase_Inl:
  "length (my_lights f) < length (lights t) \<Longrightarrow> lights_phase cam t f = Inl IndexError"
  by (simp add: lights_phase_def assign_lights_Inl on_gl_def)


definition blocks_3d :: "scene \<Rightarrow> world \<Rightarrow> bool" where
  "blocks_3d s w = (pick s \<and> (\<exists>i\<in>set (render_3d_always (graph s)). visible (objs w i)))"

lemma lights_phase_objs:
  "lights_phase cam t f = Inr f' \<Longrightarrow> objs (fworld f') = objs (fworld f)"
  by (cases "length (lights t) \<le> length (my_lights f)")
     (auto simp: lights_phase_Inr lights_phase_Inl)

lemma passes_3d_Inr_iff:
  "(\<exists>f'. passes_3d c cam s f = Inr f') \<longleftrightarrow>
   length (lights (graph s)) \<le> length (my_lights f) \<and> \<not> blocks_3d s (fworld f)"
proof (cases "length (lights (graph s)) \<le> length (my_lights f)")
  case False
  then show ?thesis by (simp add: passes_3d_def lights_phase_Inl)
next
  case True
  then obtain f1 where f1: "lights_phase cam (graph s) f = Inr f1"
    by (simp add: lights_phase_Inr)
  define f2 where "f2 = blend_phase c (pick s) (graph s) (opaque_phase c (pick s) (graph s) f1)"
  have objs: "objs (fworld f2) = objs (fworld f)"
    using lights_phase_objs [OF f1] by (simp add: f2_def)
  show ?thesis
  proof (cases "blocks_3d s (fworld f)")
    case True
    then obtain i where "pick s" "i \<in> set (render_3d_always (graph s))" "visible (objs (fworld f2) i)"
      using objs by (auto simp: blocks_3d_def)
    then have "always_phase c (pick s) (graph s) f2 = Inl NameError"
      by (rule always_phase_NameError)
    then show ?thesis
      using True by (simp add: passes_3d_def f1 Let_def f2_def)
  next
    case False
    then show ?thesis
      using \<open>length (lights (graph s)) \<le> length (my_lights f)\<close> objs
      by (simp add: passes_3d_def f1 always_phase_Inr blocks_3d_def Let_def flip: f2_def)
  qed
qed


text \<open>What a successful 3D block leaves behind.\<close>

lemma passes_3d_fields:
  assumes ok: "passes_3d c cam s f = Inr f'"
  defines "ls \<equiv> lights (graph s)"
  defines "us \<equiv> taken_units ls (my_lights f)"
  shows "objs (fworld f') = objs (fworld f)"
    and "light_gl (fworld f') = assign_map ls us (light_gl (fworld f))"
    and "lights_on (fgl f') = (lights_on (fgl f) \<union> set us) - set (map (light_gl (fworld f')) ls)"
    and "matrix_depth (fgl f') = matrix_depth (fgl f)"
    and "depth_test (fgl f')" and "depth_mask (fgl f')" and "\<not> alpha_test (fgl f')"
    and "proj (fgl f') = proj (fgl f)"
    and "program (fgl f') = (if shader (graph s) = None then program (fgl f) else 0)"
proof -
  have len: "length ls \<le> length (my_lights f)" and nb: "\<not> blocks_3d s (fworld f)"
    using passes_3d_Inr_iff ok unfolding ls_def by blast+
  obtain f1 where f1: "lights_phase cam (graph s) f = Inr f1"
    using len by (simp add: lights_phase_Inr ls_def)
  have f1_fields: "fworld f1 = (fworld f)\<lparr>light_gl := assign_map ls us (light_gl (fworld f))\<rparr>"
      "lights_on (fgl f1) = lights_on (fgl f) \<union> set us"
      "matrix_depth (fgl f1) = (if cam then Suc (matrix_depth (fgl f)) else matrix_depth (fgl f))"
      "proj (fgl f1) = proj (fgl f)" "program (fgl f1) = program (fgl f)"
    using f1 len by (auto simp: lights_phase_Inr ls_def us_def Let_def camera_push_def gl_push_matrix_def
      split: if_splits)
  define f2 where "f2 = blend_phase c (pick s) (graph s) (opaque_phase c (pick s) (graph s) f1)"
  have "\<not> pick s \<or> (\<forall>i\<in>set (render_3d_always (graph s)). \<not> visible (objs (fworld f2) i))"
    using nb f1_fields by (auto simp: blocks_3d_def f2_def)
  then have f': "f' = release_phase cam (graph s) (f2\<lparr>fgl := (draw_visible (fworld f2) (render_3d_always (graph s))
                       ((fgl f2)\<lparr>depth_mask := True, depth_test := False\<rparr>))\<lparr>depth_test := True\<rparr>\<rparr>)"
    using ok by (simp add: passes_3d_def f1 always_phase_Inr Let_def flip: f2_def)
  note simps = f' f2_def f1_fields release_phase_eq Let_def camera_pop_def gl_pop_matrix_def ls_def
  show "objs (fworld f') = objs (fworld f)" by (simp add: simps)
  show "light_gl (fworld f') = assign_map ls us (light_gl (fworld f))" by (simp add: simps)
  show "lights_on (fgl f') = (lights_on (fgl f) \<union> set us) - set (map (light_gl (fworld f')) ls)"
    by (simp add: simps)
  show "matrix_depth (fgl f') = matrix_depth (fgl f)" by (simp add: simps)
  show "depth_test (fgl f')" "depth_mask (fgl f')" "\<not> alpha_test (fgl f')" by (simp_all add: simps)
  show "proj (fgl f') = proj (fgl f)" by (simp add: simps)
  show "program (fgl f') = (if shader (graph s) = None then program (fgl f) else 0)"
    by (simp add: simps)
qed


section \<open>The pick of the 3D block\<close>

text \<open>The candidates depend on the GL state only through the alpha test and its function.\<close>

lemma cand_alpha:
  "alpha_test g' = alpha_test g \<Longrightarrow> alpha_func g' = alpha_func g \<Longrightarrow> cand g' = cand g"
  by (simp add: cand_def alpha_ok_def fun_eq_iff split: option.split)

lemma opaque_phase_picked:
  assumes "depth_test (fgl f)" "depth_mask (fgl f)" "fb_depth (fgl f) c = last_depth f"
  shows "(picked (opaque_phase c True t f), last_depth (opaque_phase c True t f)) =
           closest (cand ((fgl f)\<lparr>alpha_test := True\<rparr>) (fworld f) c) (render_3d t @ render_3d_shader t)
             (picked f, last_depth f)"
proof -
  let ?cd = "cand ((fgl f)\<lparr>alpha_test := True\<rparr>) (fworld f) c"
  define f1 where "f1 = on_gl (\<lambda>g. g\<lparr>alpha_test := True\<rparr>) f"
  define f2 where "f2 = depth_pass c True (render_3d t) f1"
  define f3 where "f3 = (case shader t of Some p \<Rightarrow> on_gl (shader_run p) f2 | None \<Rightarrow> f2)"
  have p1: "(picked f2, last_depth f2) = closest ?cd (render_3d t) (picked f, last_depth f)"
      and i1: "fb_depth (fgl f2) c = last_depth f2"
    using depth_pass_closest [of f1 c "render_3d t"] assms by (simp_all add: f1_def f2_def on_gl_def)
  have f3: "picked f3 = picked f2" "last_depth f3 = last_depth f2" "fworld f3 = fworld f"
      "fb_depth (fgl f3) = fb_depth (fgl f2)" "depth_test (fgl f3)" "depth_mask (fgl f3)"
      "cand (fgl f3) = cand ((fgl f)\<lparr>alpha_test := True\<rparr>)"
    using assms by (auto simp: f3_def f2_def f1_def on_gl_def shader_run_def gl_use_program_def
      depth_pass_frame intro!: cand_alpha split: option.splits)
  have p2: "(picked (depth_pass c True (render_3d_shader t) f3), last_depth (depth_pass c True (render_3d_shader t) f3)) =
            closest ?cd (render_3d_shader t) (picked f2, last_depth f2)"
    using depth_pass_closest [of f3 c "render_3d_shader t"] f3 i1 by simp
  have o: "opaque_phase c True t f =
      on_gl (\<lambda>g. g\<lparr>alpha_test := False\<rparr>)
        (case shader t of Some p \<Rightarrow> on_gl (gl_use_program 0) (depth_pass c True (render_3d_shader t) f3)
         | None \<Rightarrow> depth_pass c True (render_3d_shader t) f3)"
    unfolding opaque_phase_def Let_def f1_def f2_def f3_def by (rule refl)
  show ?thesis
    using p1 p2 by (simp add: o closest_append on_gl_def split: option.split)
qed


lemma color_pass_invisible:
  "\<forall>i\<in>set is. \<not> visible (objs (fworld f) i) \<Longrightarrow> color_pass c pk is f = f"
  by (induction "is") simp_all

lemma passes_3d_picked:
  assumes ok: "passes_3d c cam s f = Inr f'" and pk: "pick s"
    and dt: "depth_test (fgl f)" and dm: "depth_mask (fgl f)" and fb: "fb_depth (fgl f) c = last_depth f"
    and nb: "\<forall>i\<in>set (render_3d_blend (graph s)). \<not> visible (objs (fworld f) i)"
  shows "picked f' = fst (closest (cand ((fgl f)\<lparr>alpha_test := True\<rparr>) (fworld f) c)
                         (render_3d (graph s) @ render_3d_shader (graph s)) (picked f, last_depth f))"
proof -
  let ?t = "graph s"
  have len: "length (lights ?t) \<le> length (my_lights f)" and nbl: "\<not> blocks_3d s (fworld f)"
    using passes_3d_Inr_iff ok by blast+
  obtain f1 where f1: "lights_phase cam ?t f = Inr f1"
    using len by (simp add: lights_phase_Inr)
  have f1_fields: "picked f1 = picked f" "last_depth f1 = last_depth f" "objs (fworld f1) = objs (fworld f)"
      "fb_depth (fgl f1) = fb_depth (fgl f)" "depth_test (fgl f1)" "depth_mask (fgl f1)"
      "cand ((fgl f1)\<lparr>alpha_test := True\<rparr>) = cand ((fgl f)\<lparr>alpha_test := True\<rparr>)"
    using f1 len dt dm by (auto simp: lights_phase_Inr Let_def camera_push_def gl_push_matrix_def
      intro!: cand_alpha split: if_splits)
  have cw: "cand g (fworld f1) = cand g (fworld f)" for g
    using f1_fields(3) by (simp add: cand_def fun_eq_iff)
  define f2 where "f2 = opaque_phase c True ?t f1"
  have p2: "(picked f2, last_depth f2) =
            closest (cand ((fgl f)\<lparr>alpha_test := True\<rparr>) (fworld f) c)
              (render_3d ?t @ render_3d_shader ?t) (picked f, last_depth f)"
    using opaque_phase_picked [of f1 c ?t] f1_fields fb by (simp add: f2_def cw)
  have b: "blend_phase c True ?t f2 = f2\<lparr>last_color := fb_color (fgl f2) c,
                                         fgl := (fgl f2)\<lparr>depth_mask := False\<rparr>\<rparr>"
    using nb f1_fields(3) by (simp add: blend_phase_def Let_def on_gl_def color_pass_invisible f2_def)
  have "\<not> pick s \<or> (\<forall>i\<in>set (render_3d_always ?t). \<not> visible (objs (fworld (blend_phase c True ?t f2)) i))"
    using nbl f1_fields(3) by (auto simp: blocks_3d_def b f2_def)
  then have "picked f' = picked f2"
    using ok pk by (auto simp: passes_3d_def f1 b always_phase_Inr release_phase_eq Let_def
      simp flip: f2_def split: if_splits)
  then show ?thesis using p2 by (metis fst_conv)
qed


section \<open>The other phases of render\<close>

lemma set3d_Inr:
  "snd (screen_size v) \<noteq> 0 \<Longrightarrow>
   set3d v g = Inr (g\<lparr>proj := Perspective (view_angle v)
                      (real_of_int (fst (screen_size v)) / real_of_int (snd (screen_size v)))
                      (close_view v) (far_view v), depth_test := True\<rparr>)"
  by (cases "screen_size v") (simp add: set3d_def)

lemma set3d_Inl: "snd (screen_size v) = 0 \<Longrightarrow> set3d v g = Inl ZeroDivisionError"
  by (cases "screen_size v") (simp add: set3d_def)

lemma skybox_phase_simps [simp]:
  "picked (skybox_phase v cam t f) = picked f"
  "last_depth (skybox_phase v cam t f) = last_depth f"
  "my_lights (skybox_phase v cam t f) = my_lights f"
  "fworld (skybox_phase v cam t f) = fworld f"
  "fb_depth (fgl (skybox_phase v cam t f)) = fb_depth (fgl f)"
  "depth_test (fgl (skybox_phase v cam t f)) = depth_test (fgl f)"
  "alpha_test (fgl (skybox_phase v cam t f)) = alpha_test (fgl f)"
  "alpha_func (fgl (skybox_phase v cam t f)) = alpha_func (fgl f)"
  "lights_on (fgl (skybox_phase v cam t f)) = lights_on (fgl f)"
  "matrix_depth (fgl (skybox_phase v cam t f)) = matrix_depth (fgl f)"
  by (simp_all add: skybox_phase_def on_gl_def split: option.split)

lemma skybox_phase_mask:
  "depth_mask (fgl f) \<Longrightarrow> depth_mask (fgl (skybox_phase v cam t f))"
  by (simp add: skybox_phase_def on_gl_def split: option.split)

definition overlay_ok :: "view \<Rightarrow> bool" where
  "overlay_ok v = (fst (screen_size_2d v) \<noteq> 0 \<and> snd (screen_size_2d v) \<noteq> 0)"

lemma overlay_phase_Inr:
  "overlay_ok v \<Longrightarrow> \<exists>g'. overlay_phase v s f = Inr (f\<lparr>fgl := g'\<rparr>)"
  by (auto simp: overlay_phase_def overlay_ok_def Let_def split: prod.split)

lemma overlay_phase_Inl:
  "\<not> overlay_ok v \<Longrightarrow> overlay_phase v s f = Inl ZeroDivisionError"
  by (auto simp: overlay_phase_def overlay_ok_def split: prod.split)


section \<open>Render\<close>

lemma passes_3d_NameError:
  assumes "length (lights (graph s)) \<le> length (my_lights f)" "blocks_3d s (fworld f)"
  shows "passes_3d c cam s f = Inl NameError"
proof -
  obtain f1 where f1: "lights_phase cam (graph s) f = Inr f1"
    using assms(1) by (simp add: lights_phase_Inr)
  define f2 where "f2 = blend_phase c (pick s) (graph s) (opaque_phase c (pick s) (graph s) f1)"
  have objs: "objs (fworld f2) = objs (fworld f)"
    using lights_phase_objs [OF f1] by (simp add: f2_def)
  obtain i where "pick s" "i \<in> set (render_3d_always (graph s))" "visible (objs (fworld f2) i)"
    using assms(2) objs by (auto simp: blocks_3d_def)
  then have "always_phase c (pick s) (graph s) f2 = Inl NameError"
    by (rule always_phase_NameError)
  then show ?thesis by (simp add: passes_3d_def f1 Let_def f2_def)
qed

lemma overlay_phase_Inr_iff: "(\<exists>f'. overlay_phase v s f = Inr f') \<longleftrightarrow> overlay_ok v"
  using overlay_phase_Inr [of v s f] overlay_phase_Inl [of v s f] by (cases "overlay_ok v") auto


lemma overlay_phase_fields:
  assumes "overlay_phase v s f = Inr f'"
  shows "picked f' = picked f" "fworld f' = fworld f" "lights_on (fgl f') = lights_on (fgl f)"
    "matrix_depth (fgl f') = matrix_depth (fgl f)"
  using assms by (auto simp: overlay_phase_def Let_def set2d_def gl_push_matrix_def gl_pop_matrix_def
    split: prod.splits if_splits)

lemma render_init_simps [simp]:
  "picked (render_init v cam s w g) = None"
  "last_depth (render_init v cam s w g) = 1"
  "fworld (render_init v cam s w g) = w"
  "length (my_lights (render_init v cam s w g)) = 8"
  "my_lights (render_init v cam s w g) = all_lights"
  "fb_depth (fgl (render_init v cam s w g)) = fb_depth g"
  "depth_test (fgl (render_init v cam s w g)) = depth_test g"
  "alpha_test (fgl (render_init v cam s w g)) = alpha_test g"
  "alpha_func (fgl (render_init v cam s w g)) = alpha_func g"
  "lights_on (fgl (render_init v cam s w g)) = lights_on g"
  "matrix_depth (fgl (render_init v cam s w g)) = matrix_depth g"
  by (simp_all add: render_init_def)

lemma render_init_mask: "depth_mask g \<Longrightarrow> depth_mask (fgl (render_init v cam s w g))"
  by (simp add: render_init_def skybox_phase_mask)

lemma render_unfold:
  "set3d v g = Inr g1 \<Longrightarrow>
   render v m cam s w g =
     res_bind (if render3d s then passes_3d (cursor v m) cam s (render_init v cam s w g1)
               else Inr (render_init v cam s w g1)) (\<lambda>f2.
       res_bind (if render2d s then overlay_phase v s f2 else Inr f2) (\<lambda>f3.
         Inr (picked f3, fworld f3, fgl f3)))"
  by (simp add: render_def Let_def)

lemma render_pick_closest:
  assumes h: "snd (screen_size v) \<noteq> 0" and r3: "render3d s" and pk: "pick s" and inv: "scene_inv s"
    and al: "\<forall>i\<in>set (render_3d_always (graph s)). \<not> visible (objs w i)"
    and bl: "\<forall>i\<in>set (render_3d_blend (graph s)). \<not> visible (objs w i)"
    and ov: "render2d s \<longrightarrow> overlay_ok v"
    and dm: "depth_mask g" and fb: "fb_depth g (cursor v m) = 1"
  shows "\<exists>w' g'. render v m cam s w g =
           Inr (fst (closest (cand (g\<lparr>alpha_test := True\<rparr>) w (cursor v m))
                       (render_3d (graph s) @ render_3d_shader (graph s)) (None, 1)), w', g')"
proof -
  let ?c = "cursor v m"
  obtain g1 where g1: "set3d v g = Inr g1" "depth_test g1" "fb_depth g1 = fb_depth g"
      "alpha_test g1 = alpha_test g" "alpha_func g1 = alpha_func g" "depth_mask g1 = depth_mask g"
    using set3d_Inr [OF h] by simp
  let ?f1 = "render_init v cam s w g1"
  have f1: "depth_mask (fgl ?f1)" "fb_depth (fgl ?f1) ?c = last_depth ?f1"
      "cand ((fgl ?f1)\<lparr>alpha_test := True\<rparr>) = cand (g\<lparr>alpha_test := True\<rparr>)"
    using g1 dm fb by (auto intro: render_init_mask intro!: cand_alpha)
  obtain f2 where f2: "passes_3d ?c cam s ?f1 = Inr f2"
    using passes_3d_Inr_iff [of ?c cam s ?f1] inv al pk by (auto simp: scene_inv_def blocks_3d_def)
  have p2: "picked f2 = fst (closest (cand (g\<lparr>alpha_test := True\<rparr>) w ?c)
                  (render_3d (graph s) @ render_3d_shader (graph s)) (None, 1))"
    using passes_3d_picked [OF f2 pk] f1 g1 bl by simp
  obtain f3 where f3: "(if render2d s then overlay_phase v s f2 else Inr f2) = Inr f3" "picked f3 = picked f2"
    using overlay_phase_Inr [of v s f2] ov by (cases "render2d s") auto
  show ?thesis
    using f2 f3 p2 r3 by (simp add: render_unfold [OF g1(1)])
qed


text \<open>The hardware lights and the matrix stack after a render that ran the 3D block.\<close>

lemma render_lights_on:
  assumes ok: "render v m cam s w g = Inr (p, w', g')" and r3: "render3d s"
  defines "ls \<equiv> lights (graph s)"
  defines "us \<equiv> taken_units ls all_lights"
  shows "lights_on g' = (lights_on g \<union> set us) - set (map (assign_map ls us (light_gl w)) ls)"
    and "matrix_depth g' = matrix_depth g"
    and "length ls \<le> 8"
proof -
  have h: "snd (screen_size v) \<noteq> 0" using ok by (auto simp: render_def set3d_Inl)
  obtain g1 where g1: "set3d v g = Inr g1" "lights_on g1 = lights_on g" "matrix_depth g1 = matrix_depth g"
    using set3d_Inr [OF h] by simp
  let ?f1 = "render_init v cam s w g1"
  obtain f2 f3 where f2: "passes_3d (cursor v m) cam s ?f1 = Inr f2"
      and f3: "(if render2d s then overlay_phase v s f2 else Inr f2) = Inr f3"
      and r: "(p, w', g') = (picked f3, fworld f3, fgl f3)"
    using ok r3 by (auto simp: render_unfold [OF g1(1)] res_bind_eq_Inr)
  have f3l: "lights_on (fgl f3) = lights_on (fgl f2)" "matrix_depth (fgl f3) = matrix_depth (fgl f2)"
    using f3 overlay_phase_fields [of v s f2 f3] by (auto split: if_splits)
  show "length ls \<le> 8" using passes_3d_Inr_iff [of "cursor v m" cam s ?f1] f2 by (auto simp: ls_def)
  show "lights_on g' = (lights_on g \<union> set us) - set (map (assign_map ls us (light_gl w)) ls)"
    using r f3l passes_3d_fields(2,3) [OF f2] g1 by (simp add: ls_def us_def)
  show "matrix_depth g' = matrix_depth g"
    using r f3l passes_3d_fields(4) [OF f2] g1 by simp
qed

end
