(* ===== verification/Math3D.thy ===== *)
theory Math3D
  imports Prelude
begin

text \<open>
  The 3D vector library \<open>src/pyggel/math3d.py\<close>: the class \<open>Vector\<close> with its
  arithmetic, the collision shapes \<open>Sphere\<close> and \<open>AABox\<close> and the method dispatch of
  \<open>collide\<close> on \<open>ctype\<close>, and the helpers \<open>move_with_rotation\<close> and
  \<open>get_distance\<close>. Python floats are modelled as reals, so the lemmas state the
  arithmetic the code means, not its rounding. A \<open>Vector\<close> is a record of three
  coordinates; the three classes are the constructors of \<open>shape\<close>, and a method that
  dispatches on \<open>other.ctype\<close> is one equation per pair of constructors.
\<close>

record vec =
  vx :: real
  vy :: real
  vz :: real

definition mk_vec :: "real \<Rightarrow> real \<Rightarrow> real \<Rightarrow> vec" where
  "mk_vec a b c = \<lparr>vx = a, vy = b, vz = c\<rparr>"

section \<open>Vector arithmetic\<close>

definition vec_sub :: "vec \<Rightarrow> vec \<Rightarrow> vec" where
  "vec_sub a b = mk_vec (vx a - vx b) (vy a - vy b) (vz a - vz b)"

definition vec_add :: "vec \<Rightarrow> vec \<Rightarrow> vec" where
  "vec_add a b = mk_vec (vx a + vx b) (vy a + vy b) (vz a + vz b)"

definition vec_mul :: "vec \<Rightarrow> vec \<Rightarrow> vec" where
  "vec_mul a b = mk_vec (vx a * vx b) (vy a * vy b) (vz a * vz b)"

text \<open>\<open>__div__\<close>: a component is 0 when either operand's component is 0.\<close>

definition safe_div :: "real \<Rightarrow> real \<Rightarrow> real" where
  "safe_div p q = (if p \<noteq> 0 \<and> q \<noteq> 0 then p / q else 0)"

definition vec_div :: "vec \<Rightarrow> vec \<Rightarrow> vec" where
  "vec_div a b = mk_vec (safe_div (vx a) (vx b)) (safe_div (vy a) (vy b)) (safe_div (vz a) (vz b))"

definition vec_invert :: "vec \<Rightarrow> vec" where
  "vec_invert a = mk_vec (- vx a) (- vy a) (- vz a)"

definition vec_abs :: "vec \<Rightarrow> vec" where
  "vec_abs a = mk_vec (\<bar>vx a\<bar>) (\<bar>vy a\<bar>) (\<bar>vz a\<bar>)"

definition vec_cross :: "vec \<Rightarrow> vec \<Rightarrow> vec" where
  "vec_cross a b =
     mk_vec (vy a * vz b - vz a * vy b) (vz a * vx b - vx a * vz b) (vx a * vy b - vy a * vx b)"

definition vec_dot :: "vec \<Rightarrow> vec \<Rightarrow> real" where
  "vec_dot a b = (let p = vec_mul a b in vx p + vy p + vz p)"

definition fast_distance :: "vec \<Rightarrow> vec \<Rightarrow> real" where
  "fast_distance a b = (let n = vec_sub a b in (vx n)\<^sup>2 + (vy n)\<^sup>2 + (vz n)\<^sup>2)"

definition distance :: "vec \<Rightarrow> vec \<Rightarrow> real" where
  "distance a b = (let n = vec_sub a b in sqrt ((vx n)\<^sup>2 + (vy n)\<^sup>2 + (vz n)\<^sup>2))"

definition magnitude :: "vec \<Rightarrow> real" where
  "magnitude a = sqrt ((vx a)\<^sup>2 + (vy a)\<^sup>2 + (vz a)\<^sup>2)"

definition vec_length :: "vec \<Rightarrow> real" where
  "vec_length a = distance a (mk_vec 0 0 0)"

definition fast_length :: "vec \<Rightarrow> real" where
  "fast_length a = fast_distance a (mk_vec 0 0 0)"

definition normalize :: "vec \<Rightarrow> vec" where
  "normalize a = (let l = vec_length a in vec_div a (mk_vec l l l))"

definition perpendicular :: "vec \<Rightarrow> vec" where
  "perpendicular a = vec_cross a (mk_vec (- vy a) (vx a) (vz a))"

definition vec_nonzero :: "vec \<Rightarrow> bool" where
  "vec_nonzero a = (a \<noteq> mk_vec 0 0 0)"

definition angle :: "vec \<Rightarrow> vec \<Rightarrow> real" where
  "angle a b = arccos (vec_dot a b)"

definition get_distance :: "vec \<Rightarrow> vec \<Rightarrow> real" where
  "get_distance a b = distance a b"

section \<open>Rotation and movement\<close>

text \<open>\<open>math.radians\<close>.\<close>

definition rad :: "real \<Rightarrow> real" where
  "rad d = d * pi / 180"

text \<open>
  \<open>Vector.rotate(vec, amount)\<close>: \<open>vec2 = self - vec\<close>; for each non-zero angle the
  two affected coordinates of \<open>vec2\<close> are overwritten from a fresh copy of
  \<open>self\<close> (not of \<open>vec2\<close>); the result is \<open>vec2 + vec\<close>.
\<close>

definition rotate :: "vec \<Rightarrow> vec \<Rightarrow> real \<times> real \<times> real \<Rightarrow> vec" where
  "rotate s c amt =
     (case amt of (a, b, cc) \<Rightarrow>
        let v0 = vec_sub s c;
            v1 = (if a \<noteq> 0 then
                    (let r = rad (- a); co = cos r; si = sin r
                     in v0\<lparr>vy := co * vy s - si * vz s, vz := si * vy s + co * vz s\<rparr>)
                  else v0);
            v2 = (if b \<noteq> 0 then
                    (let r = rad (- b); co = cos r; si = sin r
                     in v1\<lparr>vx := co * vx s - si * vz s, vz := si * vx s + co * vz s\<rparr>)
                  else v1);
            v3 = (if cc \<noteq> 0 then
                    (let r = rad (- cc); co = cos r; si = sin r
                     in v2\<lparr>vx := co * vx s - si * vy s, vy := si * vx s + co * vy s\<rparr>)
                  else v2)
        in vec_add v3 c)"

text \<open>\<open>move_with_rotation\<close>: the amount is a triple or one number used for all axes.\<close>

datatype amount = Amount3 real real real | Amount1 real

definition move_with_rotation :: "real \<times> real \<times> real \<Rightarrow> real \<times> real \<Rightarrow> amount \<Rightarrow> real \<times> real \<times> real" where
  "move_with_rotation pos rot amt =
     (let (a1, a2, a3) = (case amt of Amount3 p q r \<Rightarrow> (p, q, r) | Amount1 p \<Rightarrow> (p, p, p));
          po = 0.0174532925
      in case pos of (p0, p1, p2) \<Rightarrow>
           (p0 - sin (snd rot * po) * a1, p1 + sin (fst rot * po) * a2, p2 + cos (snd rot * po) * a3))"

section \<open>Collision shapes\<close>

text \<open>
  \<open>Vector\<close>, \<open>Sphere(pos, radius)\<close> and \<open>AABox(pos, size)\<close>, where the box's
  \<open>width\<close>, \<open>height\<close>, \<open>depth\<close> are half-extents (\<open>left = x - width\<close>) and a
  single number stands for all three.
\<close>

datatype shape = ShVector vec | ShSphere vec real | ShAABox vec "real \<times> real \<times> real"

definition aabox_new :: "vec \<Rightarrow> amount \<Rightarrow> shape" where
  "aabox_new p sz = ShAABox p (case sz of Amount3 w h d \<Rightarrow> (w, h, d) | Amount1 s \<Rightarrow> (s, s, s))"

text \<open>The test of a point against a box grown by \<open>r\<close> on every side.\<close>

definition in_box :: "vec \<Rightarrow> real \<times> real \<times> real \<Rightarrow> real \<Rightarrow> vec \<Rightarrow> bool" where
  "in_box c sz r p =
     (case sz of (w, h, d) \<Rightarrow>
        vx c - w - r \<le> vx p \<and> vx p \<le> vx c + w + r \<and>
        vy c - h - r \<le> vy p \<and> vy p \<le> vy c + h + r \<and>
        vz c - d - r \<le> vz p \<and> vz p \<le> vz c + d + r)"

text \<open>The eight corners in the order of lines 219--226.\<close>

definition corners :: "vec \<Rightarrow> real \<times> real \<times> real \<Rightarrow> vec list" where
  "corners c sz =
     (case sz of (w, h, d) \<Rightarrow>
        let l = vx c - w; ri = vx c + w; bo = vy c - h; t = vy c + h; f = vz c - d; ba = vz c + d
        in [mk_vec l bo f, mk_vec ri bo f, mk_vec ri t f, mk_vec l t f,
            mk_vec l bo ba, mk_vec ri bo ba, mk_vec ri t ba, mk_vec l t ba])"

text \<open>
  \<open>collide\<close>, dispatched on the receiver's class and \<open>other.ctype\<close>; a case the
  receiver does not handle calls \<open>other.collide(self)\<close>.
\<close>

function (sequential) collide :: "shape \<Rightarrow> shape \<Rightarrow> bool" where
  "collide (ShVector a) (ShVector b) = (a = b)"
| "collide (ShVector a) (ShSphere c r) = collide (ShSphere c r) (ShVector a)"
| "collide (ShVector a) (ShAABox c sz) = collide (ShAABox c sz) (ShVector a)"
| "collide (ShSphere c r) (ShVector a) = (fast_distance a c \<le> r\<^sup>2)"
| "collide (ShSphere c r) (ShSphere c' r') = (fast_distance c' c \<le> (r + r')\<^sup>2)"
| "collide (ShSphere c r) (ShAABox c' sz) = collide (ShAABox c' sz) (ShSphere c r)"
| "collide (ShAABox c sz) (ShVector a) = in_box c sz 0 a"
| "collide (ShAABox c sz) (ShSphere c' r) = in_box c sz r c'"
| "collide (ShAABox c sz) (ShAABox c' sz') =
     ((\<exists>p\<in>set (corners c sz). in_box c' sz' 0 p) \<or> (\<exists>p\<in>set (corners c' sz'). in_box c sz 0 p))"
  by pat_completeness auto

text \<open>A delegated call goes to a class later in the order Vector, Sphere, AABox.\<close>

termination collide
  by (relation "measure (\<lambda>(a, b). case a of ShVector _ \<Rightarrow> 2 | ShSphere _ _ \<Rightarrow> 1 | ShAABox _ _ \<Rightarrow> 0)")
     auto


section \<open>Lemmas\<close>

lemma fast_distance_sym: "fast_distance a b = fast_distance b a"
  by (simp add: fast_distance_def vec_sub_def mk_vec_def Let_def power2_commute)

lemma in_own_box:
  "0 \<le> fst sz \<Longrightarrow> 0 \<le> fst (snd sz) \<Longrightarrow> 0 \<le> snd (snd sz) \<Longrightarrow> p \<in> set (corners c sz) \<Longrightarrow> in_box c sz 0 p"
  by (cases sz) (auto simp: corners_def in_box_def mk_vec_def Let_def)

lemma rot_pair:
  "(cos (t::real) * p - sin t * (q::real))\<^sup>2 + (sin t * p + cos t * q)\<^sup>2 = p\<^sup>2 + q\<^sup>2"
proof -
  have "(cos t * p - sin t * q)\<^sup>2 + (sin t * p + cos t * q)\<^sup>2 =
        ((sin t)\<^sup>2 + (cos t)\<^sup>2) * (p\<^sup>2 + q\<^sup>2)"
    by algebra
  then show ?thesis by simp
qed

lemma rot_pair_x: "(x::real) + (cos (t::real) * (p::real) - sin t * q)\<^sup>2 + (sin t * p + cos t * q)\<^sup>2 = x + p\<^sup>2 + q\<^sup>2"
  using rot_pair [of t p q] by linarith

lemma rot_pair_y: "(cos (t::real) * (p::real) - sin t * q)\<^sup>2 + (y::real) + (sin t * p + cos t * q)\<^sup>2 = p\<^sup>2 + y + q\<^sup>2"
  using rot_pair [of t p q] by linarith

lemma rot_pair_z: "(cos (t::real) * (p::real) - sin t * q)\<^sup>2 + (sin t * p + cos t * q)\<^sup>2 + (z::real) = p\<^sup>2 + q\<^sup>2 + z"
  using rot_pair [of t p q] by linarith

lemma rotate_zero: "rotate s c (0, 0, 0) = s"
  by (simp add: rotate_def vec_add_def vec_sub_def mk_vec_def)


lemma cross_orthogonal:
  "vec_dot (vec_cross a b) a = 0 \<and> vec_dot (vec_cross a b) b = 0 \<and> vec_dot (perpendicular a) a = 0"
  by (simp add: vec_dot_def vec_cross_def vec_mul_def mk_vec_def perpendicular_def Let_def algebra_simps)

text \<open>A rotation about the origin around a single axis preserves the magnitude.\<close>

lemma rotate_origin_isometry:
  "(a = 0 \<and> b = 0) \<or> (a = 0 \<and> cc = 0) \<or> (b = 0 \<and> cc = 0) \<Longrightarrow>
   magnitude (rotate s (mk_vec 0 0 0) (a, b, cc)) = magnitude s"
  by (auto simp: rotate_def vec_add_def vec_sub_def mk_vec_def magnitude_def Let_def rot_pair_x rot_pair_y rot_pair_z)


text \<open>Normalising a non-zero vector gives magnitude 1.\<close>

lemma normalize_unit: "vec_nonzero a \<Longrightarrow> magnitude (normalize a) = 1"
proof -
  assume nz: "vec_nonzero a"
  define q where "q = (vx a)\<^sup>2 + (vy a)\<^sup>2 + (vz a)\<^sup>2"
  have qpos: "0 < q"
    using nz by (cases a) (auto simp: vec_nonzero_def mk_vec_def q_def add_pos_nonneg add_nonneg_pos
      sum_power2_gt_zero_iff)
  define L where "L = sqrt q"
  have L: "vec_length a = L" by (simp add: vec_length_def distance_def vec_sub_def mk_vec_def L_def q_def)
  have Lpos: "0 < L" using qpos by (simp add: L_def)
  have sd: "safe_div t L = t / L" for t using Lpos by (simp add: safe_div_def)
  have "magnitude (normalize a) = sqrt (q / L\<^sup>2)"
    by (simp add: normalize_def L vec_div_def sd magnitude_def mk_vec_def q_def power_divide add_divide_distrib)
  also have "\<dots> = 1" using qpos by (simp add: L_def)
  finally show ?thesis .
qed


lemma aabox_collide_sound:
  assumes "0 \<le> fst sz" "0 \<le> fst (snd sz)" "0 \<le> snd (snd sz)"
    "0 \<le> fst sz'" "0 \<le> fst (snd sz')" "0 \<le> snd (snd sz')"
    "collide (ShAABox c sz) (ShAABox c' sz')"
  shows "\<exists>p. in_box c sz 0 p \<and> in_box c' sz' 0 p"
  using assms in_own_box [of sz _ c] in_own_box [of sz' _ c'] by auto

end
