(* ===== verification/VecStore.thy ===== *)
theory VecStore
  imports Math3D
begin

text \<open>
  \<open>Vector\<close> objects of \<open>src/pyggel/math3d.py\<close> as mutable Python objects: a store maps
  object references to their coordinates and an environment maps variable names to
  values (a reference, \<open>None\<close> or a number). Over it: \<open>copy\<close>, \<open>get_pos\<close> and
  \<open>set_pos\<close>, the in-place operators \<open>__iadd__\<close>, \<open>__isub__\<close>, \<open>__imul__\<close> and
  \<open>__idiv__\<close> (lines 137--152), which update the object and return \<open>None\<close>, the
  reflected operators a number on the left calls, and a small statement language
  (assignment, construction, \<open>copy\<close>, augmented assignment) whose semantics is Python's:
  \<open>x op= y\<close> calls the in-place method and rebinds \<open>x\<close> to what it returns.
\<close>

section \<open>Store and values\<close>

type_synonym vref = nat

datatype pyval = VRef vref | VNone | VNum real

record vstore =
  vs_heap :: "vref \<Rightarrow> vec"
  vs_env :: "string \<rightharpoonup> pyval"
  vs_next :: vref

text \<open>\<open>Vector((x, y, z))\<close> allocates a fresh object (\<open>__init__\<close>, lines 25--26).\<close>

definition vs_alloc :: "vec \<Rightarrow> vstore \<Rightarrow> vref \<times> vstore" where
  "vs_alloc v s = (vs_next s, s\<lparr>vs_heap := (vs_heap s)(vs_next s := v), vs_next := Suc (vs_next s)\<rparr>)"

text \<open>\<open>copy\<close> (lines 28--29): a new object with the same coordinates.\<close>

definition vec_copy :: "vref \<Rightarrow> vstore \<Rightarrow> vref \<times> vstore" where
  "vec_copy r s = vs_alloc (mk_vec (vx (vs_heap s r)) (vy (vs_heap s r)) (vz (vs_heap s r))) s"

text \<open>\<open>get_pos\<close> and \<open>set_pos\<close> (lines 101--105).\<close>

definition vec_get_pos :: "vref \<Rightarrow> vstore \<Rightarrow> real \<times> real \<times> real" where
  "vec_get_pos r s = (vx (vs_heap s r), vy (vs_heap s r), vz (vs_heap s r))"

definition vec_set_pos :: "vref \<Rightarrow> real \<times> real \<times> real \<Rightarrow> vstore \<Rightarrow> vstore" where
  "vec_set_pos r p s = s\<lparr>vs_heap := (vs_heap s)(r := mk_vec (fst p) (fst (snd p)) (snd (snd p)))\<rparr>"

section \<open>Operators\<close>

datatype vop = OpAdd | OpSub | OpMul | OpDiv

definition vop_eval :: "vop \<Rightarrow> vec \<Rightarrow> vec \<Rightarrow> vec" where
  "vop_eval op a b =
     (case op of OpAdd \<Rightarrow> vec_add a b | OpSub \<Rightarrow> vec_sub a b | OpMul \<Rightarrow> vec_mul a b | OpDiv \<Rightarrow> vec_div a b)"

text \<open>
  \<open>__iadd__\<close> and its siblings: \<open>self.set_pos((self op other).get_pos())\<close>. The
  temporary \<open>Vector\<close> of \<open>self op other\<close> is unreachable after the call and is not
  allocated here. The method has no \<open>return\<close>: its value is \<open>None\<close>.
\<close>

definition vec_iop :: "vop \<Rightarrow> vref \<Rightarrow> vref \<Rightarrow> vstore \<Rightarrow> pyval \<times> vstore" where
  "vec_iop op r q s =
     (let v = vop_eval op (vs_heap s r) (vs_heap s q)
      in (VNone, vec_set_pos r (vx v, vy v, vz v) s))"

text \<open>
  A number or \<open>None\<close> on the left of a \<open>Vector\<close> (neither has a method for a
  \<open>Vector\<close> operand): Python calls the reflected method of the vector.
  \<open>__radd__\<close> and \<open>__rmul__\<close> are \<open>__add__\<close> and \<open>__mul__\<close> (lines 116, 120),
  which read \<open>other.x\<close> of the left operand (AttributeError). \<open>__rsub__\<close> and
  \<open>__rdiv__\<close> (lines 140--141, 148--149) compute \<open>other - self\<close> and \<open>other / self\<close>,
  which call the same reflected method on the same operands again: the recursion never
  reaches its constructor call (CPython stops it at its recursion limit). \<open>None\<close> is
  "does not return".
\<close>

partial_function (option) vec_rsub :: "pyval \<Rightarrow> vec \<Rightarrow> vec result option" where
  "vec_rsub l v = vec_rsub l v"

partial_function (option) vec_rdiv :: "pyval \<Rightarrow> vec \<Rightarrow> vec result option" where
  "vec_rdiv l v = vec_rdiv l v"

definition refl_op :: "vop \<Rightarrow> pyval \<Rightarrow> vec \<Rightarrow> vec result option" where
  "refl_op op l v =
     (case op of
        OpAdd \<Rightarrow> Some (Inl AttributeError)
      | OpMul \<Rightarrow> Some (Inl AttributeError)
      | OpSub \<Rightarrow> vec_rsub l v
      | OpDiv \<Rightarrow> vec_rdiv l v)"

section \<open>Statements\<close>

text \<open>
  \<open>x = y\<close>, \<open>x = Vector((a, b, c))\<close>, \<open>x = y.copy()\<close> and \<open>x op= y\<close>. An unbound
  name raises NameError. With a \<open>Vector\<close> on the left the in-place method runs, and
  reading \<open>other.x\<close> of \<open>None\<close> or of a number raises AttributeError. With a number or
  \<open>None\<close> on the left and a \<open>Vector\<close> on the right the reflected method runs and the
  name is rebound to its result. Numbers (floats) and \<open>None\<close> with each other: \<open>/\<close>
  by zero raises ZeroDivisionError, \<open>None\<close> as an operand TypeError.
\<close>

datatype vstmt =
    Assign string string
  | NewVec string "real \<times> real \<times> real"
  | Copy string string
  | AugOp string vop string

definition lookup :: "string \<Rightarrow> vstore \<Rightarrow> pyval result" where
  "lookup x s = (case vs_env s x of None \<Rightarrow> Inl NameError | Some v \<Rightarrow> Inr v)"

definition aug_assign :: "string \<Rightarrow> vop \<Rightarrow> string \<Rightarrow> vstore \<Rightarrow> vstore result option" where
  "aug_assign x op y s =
     (case (lookup x s, lookup y s) of
        (Inl e, _) \<Rightarrow> Some (Inl e)
      | (_, Inl e) \<Rightarrow> Some (Inl e)
      | (Inr (VRef r), Inr (VRef q)) \<Rightarrow>
          (let (v, s') = vec_iop op r q s in Some (Inr (s'\<lparr>vs_env := (vs_env s')(x \<mapsto> v)\<rparr>)))
      | (Inr (VRef r), Inr _) \<Rightarrow> Some (Inl AttributeError)
      | (Inr l, Inr (VRef q)) \<Rightarrow>
          map_option (map_sum id (\<lambda>v. let (r, s') = vs_alloc v s in s'\<lparr>vs_env := (vs_env s')(x \<mapsto> VRef r)\<rparr>))
            (refl_op op l (vs_heap s q))
      | (Inr (VNum n), Inr (VNum m)) \<Rightarrow>
          (if op = OpDiv \<and> m = 0 then Some (Inl ZeroDivisionError)
           else Some (Inr (s\<lparr>vs_env := (vs_env s)(x \<mapsto> VNum (case op of OpAdd \<Rightarrow> n + m | OpSub \<Rightarrow> n - m
                                                  | OpMul \<Rightarrow> n * m | OpDiv \<Rightarrow> n / m))\<rparr>)))
      | (Inr _, Inr _) \<Rightarrow> Some (Inl TypeError))"

definition exec_stmt :: "vstmt \<Rightarrow> vstore \<Rightarrow> vstore result option" where
  "exec_stmt st s =
     (case st of
        Assign x y \<Rightarrow> Some (map_sum id (\<lambda>v. s\<lparr>vs_env := (vs_env s)(x \<mapsto> v)\<rparr>) (lookup y s))
      | NewVec x p \<Rightarrow>
          (let (r, s') = vs_alloc (mk_vec (fst p) (fst (snd p)) (snd (snd p))) s
           in Some (Inr (s'\<lparr>vs_env := (vs_env s')(x \<mapsto> VRef r)\<rparr>)))
      | Copy x y \<Rightarrow>
          (case lookup y s of
             Inl e \<Rightarrow> Some (Inl e)
           | Inr (VRef r) \<Rightarrow> (let (r', s') = vec_copy r s in Some (Inr (s'\<lparr>vs_env := (vs_env s')(x \<mapsto> VRef r')\<rparr>)))
           | Inr _ \<Rightarrow> Some (Inl AttributeError))
      | AugOp x op y \<Rightarrow> aug_assign x op y s)"

text \<open>A straight-line program: statements in order; the first exception ends it.\<close>

fun exec_prog :: "vstmt list \<Rightarrow> vstore \<Rightarrow> vstore result option" where
  "exec_prog [] s = Some (Inr s)"
| "exec_prog (st # sts) s =
     (case exec_stmt st s of
        None \<Rightarrow> None
      | Some (Inl e) \<Rightarrow> Some (Inl e)
      | Some (Inr s') \<Rightarrow> exec_prog sts s')"

definition vs_empty :: vstore where
  "vs_empty = \<lparr>vs_heap = (\<lambda>_. mk_vec 0 0 0), vs_env = Map.empty, vs_next = 0\<rparr>"


section \<open>Lemmas\<close>

text \<open>An augmented assignment on two bound \<open>Vector\<close> names updates the object and binds
  the name to \<open>None\<close>. The reflected subtraction and division never return, so a second
  \<open>x op= y\<close> on that name raises AttributeError for \<open>+=\<close> and \<open>*=\<close> and never returns for
  \<open>-=\<close> and \<open>/=\<close>.\<close>

lemma mk_vec_eta [simp]: "mk_vec (vx v) (vy v) (vz v) = v"
  by (simp add: mk_vec_def)

lemma vec_iop_eq:
  "vec_iop op r q s = (VNone, s\<lparr>vs_heap := (vs_heap s)(r := vop_eval op (vs_heap s r) (vs_heap s q))\<rparr>)"
  by (simp add: vec_iop_def vec_set_pos_def Let_def)

lemma aug_assign_refs:
  assumes "vs_env s x = Some (VRef r)" "vs_env s y = Some (VRef q)"
  shows "aug_assign x op y s = Some (Inr (s\<lparr>vs_heap := (vs_heap s)(r := vop_eval op (vs_heap s r) (vs_heap s q)),
                                              vs_env := (vs_env s)(x \<mapsto> VNone)\<rparr>))"
  using assms by (simp add: aug_assign_def lookup_def vec_iop_eq)

lemma vec_rsub_None: "vec_rsub n v = None"
proof (cases "vec_rsub n v")
  case (Some r)
  have "False" if "vec_rsub n v = Some r" for n v r
    by (rule vec_rsub.raw_induct [where P = "\<lambda>_ _ _. False", OF _ that]) blast
  then show ?thesis using Some by blast
qed simp

lemma vec_rdiv_None: "vec_rdiv n v = None"
proof (cases "vec_rdiv n v")
  case (Some r)
  have "False" if "vec_rdiv n v = Some r" for n v r
    by (rule vec_rdiv.raw_induct [where P = "\<lambda>_ _ _. False", OF _ that]) blast
  then show ?thesis using Some by blast
qed simp

lemma aug_assign_None:
  assumes "vs_env s x = Some VNone" "vs_env s y = Some (VRef q)"
  shows "aug_assign x op y s = (if op = OpAdd \<or> op = OpMul then Some (Inl AttributeError) else None)"
  using assms by (cases op) (simp_all add: aug_assign_def lookup_def refl_op_def vec_rsub_None vec_rdiv_None)

end
