(* ===== verification/Gui.thy ===== *)
theory Gui
  imports Prelude "HOL-Library.Sublist"
begin

text \<open>
  The widget toolkit of \<open>src/trunk/pyggel/gui.py\<close>.
  \<^item> \<open>App\<close> holds the widget list (top widget first), the layout cursor
    \<open>next_pos = (left, top, bottom)\<close> and dispatches every input event to the visible
    widgets in list order until one accepts it. Widgets are ids; the handlers of the
    widget classes are a parameter of the dispatch (\<open>dispatch\<close>), so the App lemmas
    hold for every widget class.
  \<^item> \<open>next_widget\<close> rotates the list until a visible widget is on top; with no visible
    widget the \<open>while\<close> loop never ends, so it is a \<open>partial_function (option)\<close>.
  \<^item> \<open>Input\<close> is a one-line text editor: the text, the cursor \<open>working\<close>, the
    active flag, the mouse-down flag and the key-repeat timers; the current time is an
    argument of \<open>handle_keyhold\<close>.
  \<^item> \<open>Checkbox\<close>, \<open>Radio.handle_check\<close> and \<open>Button\<close> are modelled by their state
    and the callback they fire. A rectangle's \<open>collidepoint\<close> is pygame's half-open test.
\<close>

section \<open>Rectangles\<close>

type_synonym rect = "int \<times> int \<times> int \<times> int"

definition collidepoint :: "rect \<Rightarrow> int \<times> int \<Rightarrow> bool" where
  "collidepoint r p =
     (case r of (x, y, w, h) \<Rightarrow> x \<le> fst p \<and> fst p < x + w \<and> y \<le> snd p \<and> snd p < y + h)"

section \<open>The App\<close>

record app =
  widgets :: "nat list"
  next_pos :: "int \<times> int \<times> int"
  app_visible :: bool

definition app_new :: app where
  "app_new = \<lparr>widgets = [], next_pos = (0, 0, 0), app_visible = True\<rparr>"

text \<open>\<open>new_widget\<close>: a widget not yet present goes on top.\<close>

definition new_widget :: "nat \<Rightarrow> app \<Rightarrow> app" where
  "new_widget w a = (if w \<in> set (widgets a) then a else a\<lparr>widgets := w # widgets a\<rparr>)"

definition set_top_widget :: "nat \<Rightarrow> app \<Rightarrow> app" where
  "set_top_widget w a =
     (let ws = (if w \<in> set (widgets a) then remove1 w (widgets a) else widgets a)
      in a\<lparr>widgets := w # ws\<rparr>)"

text \<open>
  Lines 111--112: rotate until the first widget is visible. The loop runs on a non-empty
  list (line 110 has just appended); on an empty one it would raise IndexError at
  \<open>self.widgets[0]\<close>, which the caller never reaches.
\<close>

partial_function (option) rotate_until :: "(nat \<Rightarrow> bool) \<Rightarrow> nat list \<Rightarrow> nat list option" where
  "rotate_until vis ws =
     (case ws of
        [] \<Rightarrow> Some []
      | w # rest \<Rightarrow> if vis w then Some ws else rotate_until vis (rest @ [w]))"

text \<open>
  \<open>next_widget\<close>: \<open>pop(0)\<close> of an empty list raises IndexError; otherwise the top widget
  moves to the bottom and the loop runs. \<open>None\<close> is "does not return".
\<close>

definition next_widget :: "(nat \<Rightarrow> bool) \<Rightarrow> app \<Rightarrow> app result option" where
  "next_widget vis a =
     (case widgets a of
        [] \<Rightarrow> Some (Inl IndexError)
      | w # rest \<Rightarrow> map_option (\<lambda>ws. Inr (a\<lparr>widgets := ws\<rparr>)) (rotate_until vis (rest @ [w])))"

text \<open>\<open>render\<close>: the list is reversed, every visible widget renders, the list is restored.\<close>

definition render_order :: "(nat \<Rightarrow> bool) \<Rightarrow> app \<Rightarrow> nat list" where
  "render_order vis a = filter vis (rev (widgets a))"

section \<open>Layout\<close>

definition get_next_position :: "int \<Rightarrow> app \<Rightarrow> int \<times> int \<Rightarrow> int \<times> int" where
  "get_next_position scr_w a sz =
     (case next_pos a of (x, y, nh) \<Rightarrow> if x + fst sz > scr_w then (0, nh + 1) else (x, y))"

definition set_next_position :: "int \<times> int \<Rightarrow> int \<times> int \<Rightarrow> app \<Rightarrow> app" where
  "set_next_position p sz a =
     (let x = fst p + fst sz + 1; y = snd p;
          nh = (if y + snd sz > snd (snd (next_pos a)) then y + snd sz else snd (snd (next_pos a)))
      in a\<lparr>next_pos := (x, y, nh)\<rparr>)"

definition newline :: "int \<Rightarrow> app \<Rightarrow> app" where
  "newline height a =
     (let nh = snd (snd (next_pos a)) + height in a\<lparr>next_pos := (0, nh + 1, nh)\<rparr>)"

text \<open>
  A widget created with \<open>pos=None\<close> (\<open>Label\<close>, \<open>Checkbox\<close>, \<open>Radio\<close>, \<open>Frame\<close>): take
  the next position, then advance past the widget's size.
\<close>

definition place :: "int \<Rightarrow> int \<times> int \<Rightarrow> app \<Rightarrow> (int \<times> int) \<times> app" where
  "place scr_w sz a = (let p = get_next_position scr_w a sz in (p, set_next_position p sz a))"

section \<open>Event dispatch\<close>

text \<open>
  \<open>handle_mousedown\<close>, \<open>handle_mouseup\<close>, \<open>handle_mousehold\<close>, \<open>handle_keydown\<close>,
  \<open>handle_keyup\<close>, \<open>handle_keyhold\<close> and the non-motion branch of
  \<open>handle_uncaught_event\<close>: each visible widget in order handles the event (and may
  change its state) until one returns true.
\<close>

fun dispatch :: "('w \<Rightarrow> bool) \<Rightarrow> ('w \<Rightarrow> bool \<times> 'w) \<Rightarrow> nat list \<Rightarrow> (nat \<Rightarrow> 'w) \<Rightarrow> bool \<times> (nat \<Rightarrow> 'w)" where
  "dispatch vis h [] m = (False, m)"
| "dispatch vis h (i # is) m =
     (if vis (m i) then
        (case h (m i) of (b, w') \<Rightarrow> if b then (True, m(i := w')) else dispatch vis h is (m(i := w')))
      else dispatch vis h is m)"

text \<open>\<open>handle_drag\<close> offers the event to every widget, visible or not.\<close>

definition handle_drag :: "('w \<Rightarrow> bool \<times> 'w) \<Rightarrow> nat list \<Rightarrow> (nat \<Rightarrow> 'w) \<Rightarrow> bool \<times> (nat \<Rightarrow> 'w)" where
  "handle_drag h is m = dispatch (\<lambda>w. True) h is m"


section \<open>Python slicing\<close>

text \<open>\<open>xs[0:n]\<close> and \<open>xs[n::]\<close>: a negative index counts from the end.\<close>

definition py_take :: "int \<Rightarrow> 'a list \<Rightarrow> 'a list" where
  "py_take n xs = (if 0 \<le> n then take (nat n) xs else take (nat (int (length xs) + n)) xs)"

definition py_drop :: "int \<Rightarrow> 'a list \<Rightarrow> 'a list" where
  "py_drop n xs = (if 0 \<le> n then drop (nat n) xs else drop (nat (int (length xs) + n)) xs)"

section \<open>The Input widget\<close>

datatype key = K_LEFT | K_RIGHT | K_END | K_HOME | K_DELETE | K_BACKSPACE | K_RETURN | K_OTHER nat

text \<open>\<open>MEFont.acceptable\<close> (\<open>font.py\<close>, line 252), the characters the font can draw.\<close>

definition acceptable :: string where
  "acceptable =
     ''abcdefghijklmnopqrstuvwxyzABCDEFGHIJKLMNOPQRSTUVWXYZ`1234567890-=+_)(*&^%$#@!~[]'' @
     [CHR 0x5C] @ '';'' @ [CHR 0x27] @ '',./<>?:'' @ [CHR 0x22] @ ''{}| ''"

text \<open>\<open>string in self.app.mefont.acceptable\<close> is a substring test on a Python string.\<close>

definition typed :: "string \<Rightarrow> bool" where
  "typed s = (s \<noteq> [] \<and> sublist s acceptable)"

record input =
  itext :: string
  working :: int
  iactive :: bool
  imdown :: bool
  key_holds :: "key \<Rightarrow> real option"
  key_hold_length :: real
  ipos :: "int \<times> int"
  iwidth :: int
  iheight :: int

definition input_new :: "string \<Rightarrow> int \<Rightarrow> int \<Rightarrow> int \<times> int \<Rightarrow> input" where
  "input_new t w h p =
     \<lparr>itext = t, working = int (length t), iactive = False, imdown = False,
      key_holds = (\<lambda>k. None), key_hold_length = 100, ipos = p, iwidth = w, iheight = h\<rparr>"

definition move_working :: "int \<Rightarrow> input \<Rightarrow> input" where
  "move_working x i =
     (let w = working i + x;
          w = (if w < 0 then 0 else w);
          w = (if w > int (length (itext i)) then int (length (itext i)) else w)
      in i\<lparr>working := w\<rparr>)"

definition can_use :: "key \<Rightarrow> string \<Rightarrow> bool" where
  "can_use k s = (typed s \<or> k \<in> {K_LEFT, K_RIGHT, K_END, K_HOME, K_DELETE, K_BACKSPACE, K_RETURN})"

text \<open>\<open>submit_text\<close>: a non-empty text is fired with \<open>submit\<close> and cleared.\<close>

definition submit_text :: "input \<Rightarrow> input \<times> string option" where
  "submit_text i =
     (if itext i \<noteq> [] then (i\<lparr>itext := [], working := 0\<rparr>, Some (itext i)) else (i, None))"

text \<open>
  The branches of \<open>handle_keydown\<close> (lines 535--556), one definition each, applied in the
  source's order: every branch whose condition holds runs.
\<close>

definition kd_insert :: "string \<Rightarrow> input \<Rightarrow> input" where
  "kd_insert s i =
     (if typed s
      then i\<lparr>itext := py_take (working i) (itext i) @ s @ py_drop (working i) (itext i),
             working := working i + 1\<rparr>
      else i)"

definition kd_left :: "key \<Rightarrow> input \<Rightarrow> input" where
  "kd_left k i = (if k = K_LEFT then move_working (-1) i else i)"

definition kd_right :: "key \<Rightarrow> input \<Rightarrow> input" where
  "kd_right k i = (if k = K_RIGHT then move_working 1 i else i)"

definition kd_delete :: "key \<Rightarrow> input \<Rightarrow> input" where
  "kd_delete k i =
     (if k = K_DELETE then i\<lparr>itext := py_take (working i) (itext i) @ py_drop (working i + 1) (itext i)\<rparr>
      else i)"

definition kd_backspace :: "key \<Rightarrow> input \<Rightarrow> input" where
  "kd_backspace k i =
     (if k = K_BACKSPACE \<and> working i \<noteq> 0
      then move_working (-1) (i\<lparr>itext := py_take (working i - 1) (itext i) @ py_drop (working i) (itext i)\<rparr>)
      else i)"

definition kd_home :: "key \<Rightarrow> input \<Rightarrow> input" where
  "kd_home k i = (if k = K_HOME then i\<lparr>working := 0\<rparr> else i)"

definition kd_end :: "key \<Rightarrow> input \<Rightarrow> input" where
  "kd_end k i = (if k = K_END then i\<lparr>working := int (length (itext i))\<rparr> else i)"

text \<open>
  \<open>handle_keydown\<close>: the result is the return value, the new state and the text
  submitted, if any.
\<close>

definition input_keydown :: "key \<Rightarrow> string \<Rightarrow> input \<Rightarrow> bool \<times> input \<times> string option" where
  "input_keydown k s i =
     (if \<not> can_use k s then (False, i, None)
      else if \<not> iactive i then (False, i, None)
      else
        (let i7 = kd_end k (kd_home k (kd_backspace k (kd_delete k (kd_right k (kd_left k (kd_insert s i))))))
         in if k = K_RETURN then (case submit_text i7 of (i8, sub) \<Rightarrow> (True, i8, sub))
            else (True, i7, None)))"

text \<open>
  \<open>handle_keyhold\<close> at time \<open>now\<close> (seconds): the first hold of a key starts its
  timer; a later one repeats the key press once \<open>key_hold_length\<close> milliseconds have
  passed and restarts the timer.
\<close>

definition input_keyhold :: "key \<Rightarrow> string \<Rightarrow> real \<Rightarrow> input \<Rightarrow> bool \<times> input \<times> string option" where
  "input_keyhold k s now i =
     (if \<not> can_use k s then (False, i, None)
      else if \<not> iactive i then (False, i, None)
      else (case key_holds i k of
              Some t \<Rightarrow>
                if now - t \<ge> key_hold_length i * 0.001
                then (case input_keydown k s i of (b, i', sub) \<Rightarrow>
                        (True, i'\<lparr>key_holds := (key_holds i')(k := Some now)\<rparr>, sub))
                else (True, i, None)
            | None \<Rightarrow> (True, i\<lparr>key_holds := (key_holds i)(k := Some now)\<rparr>, None)))"

definition input_keyup :: "key \<Rightarrow> string \<Rightarrow> input \<Rightarrow> bool \<times> input" where
  "input_keyup k s i =
     (if \<not> can_use k s then (False, i)
      else if \<not> iactive i then (False, i)
      else (True, i\<lparr>key_holds := (key_holds i)(k := None)\<rparr>))"

definition input_rect :: "input \<Rightarrow> rect" where
  "input_rect i = (fst (ipos i), snd (ipos i), iwidth i, iheight i)"

definition input_mousedown :: "string \<Rightarrow> int \<times> int \<Rightarrow> input \<Rightarrow> bool \<times> input" where
  "input_mousedown name m i =
     (if name = ''left'' then
        (if collidepoint (input_rect i) m then (True, i\<lparr>imdown := True\<rparr>)
         else (False, i\<lparr>iactive := False\<rparr>))
      else (False, i))"

definition input_mouseup :: "string \<Rightarrow> int \<times> int \<Rightarrow> input \<Rightarrow> bool \<times> input" where
  "input_mouseup name m i =
     (if name = ''left'' then
        (let md = imdown i; i1 = i\<lparr>imdown := False\<rparr>
         in if md \<and> collidepoint (input_rect i1) m then (True, i1\<lparr>iactive := True\<rparr>) else (False, i1))
      else (False, i))"

section \<open>Checkbox, Radio and Button\<close>

record checkbox =
  cb_rect :: rect
  cb_state :: bool
  cb_clicked :: bool

datatype cb_signal = Check | Uncheck

definition checkbox_new :: "rect \<Rightarrow> checkbox" where
  "checkbox_new r = \<lparr>cb_rect = r, cb_state = False, cb_clicked = False\<rparr>"

definition cb_mousedown :: "string \<Rightarrow> int \<times> int \<Rightarrow> checkbox \<Rightarrow> bool \<times> checkbox" where
  "cb_mousedown name m c =
     (if name = ''left'' \<and> collidepoint (cb_rect c) m then (True, c\<lparr>cb_clicked := True\<rparr>) else (False, c))"

definition cb_mouseup :: "string \<Rightarrow> int \<times> int \<Rightarrow> checkbox \<Rightarrow> bool \<times> checkbox \<times> cb_signal option" where
  "cb_mouseup name m c =
     (if name = ''left'' then
        (if cb_clicked c \<and> collidepoint (cb_rect c) m
         then (let st = \<not> cb_state c
               in (True, c\<lparr>cb_clicked := False, cb_state := st\<rparr>, Some (if st then Check else Uncheck)))
         else (False, c\<lparr>cb_clicked := False\<rparr>, None))
      else (False, c, None))"

text \<open>
  \<open>Radio.handle_check(check)\<close>: every other option is switched off and \<open>option\<close>
  becomes the index of \<open>check\<close> (\<open>list.index\<close>: ValueError when absent).
\<close>

definition radio_handle_check :: "nat list \<Rightarrow> nat \<Rightarrow> (nat \<Rightarrow> checkbox) \<Rightarrow> ((nat \<Rightarrow> checkbox) \<times> nat) result" where
  "radio_handle_check checks c m =
     (let m' = fold (\<lambda>i m. if i \<noteq> c then m(i := (m i)\<lparr>cb_state := False\<rparr>) else m) checks m
      in if c \<in> set checks then Inr (m', length (takeWhile (\<lambda>i. i \<noteq> c) checks)) else Inl ValueError)"

record button =
  bt_rect :: rect
  bt_mdown :: bool
  bt_pressed :: bool

definition button_new :: "rect \<Rightarrow> button" where
  "button_new r = \<lparr>bt_rect = r, bt_mdown = False, bt_pressed = False\<rparr>"

definition button_mousedown :: "string \<Rightarrow> int \<times> int \<Rightarrow> button \<Rightarrow> bool \<times> button" where
  "button_mousedown name m b =
     (if name = ''left'' \<and> collidepoint (bt_rect b) m then (True, b\<lparr>bt_pressed := True, bt_mdown := True\<rparr>)
      else (False, b))"

definition button_mousehold :: "string \<Rightarrow> int \<times> int \<Rightarrow> button \<Rightarrow> bool \<times> button" where
  "button_mousehold name m b =
     (if name = ''left'' then
        (if bt_mdown b \<and> collidepoint (bt_rect b) m then (True, b\<lparr>bt_pressed := True\<rparr>)
         else (False, b\<lparr>bt_pressed := False\<rparr>))
      else (False, b))"

text \<open>\<open>handle_mouseup\<close>: the third component says whether \<open>click\<close> fired.\<close>

definition button_mouseup :: "string \<Rightarrow> int \<times> int \<Rightarrow> button \<Rightarrow> bool \<times> button \<times> bool" where
  "button_mouseup name m b =
     (if name = ''left'' then
        (if bt_mdown b \<and> collidepoint (bt_rect b) m
         then (True, b\<lparr>bt_mdown := False, bt_pressed := False\<rparr>, True)
         else (False, b\<lparr>bt_mdown := False\<rparr>, False))
      else (False, b, False))"


section \<open>Model-level notions\<close>

text \<open>
  Two rectangles (with their right and bottom edges) are apart; the layout invariant
  says every placed rectangle ends above the current bottom \<open>nh\<close> and lies above the
  current row or left of the cursor; \<open>place_all\<close> creates widgets one after another
  with \<open>pos=None\<close>. \<open>input_inv\<close> is the cursor invariant of \<open>Input\<close>,
  \<open>input_step\<close> its event handlers as one step function, \<open>type_keys\<close> a
  sequence of character key presses.
\<close>

definition apart :: "rect \<Rightarrow> rect \<Rightarrow> bool" where
  "apart r r' =
     (case r of (x, y, w, h) \<Rightarrow> case r' of (x', y', w', h') \<Rightarrow>
        x + w < x' \<or> x' + w' < x \<or> y + h < y' \<or> y' + h' < y)"

definition layout_ok :: "rect list \<Rightarrow> int \<times> int \<times> int \<Rightarrow> bool" where
  "layout_ok rs np =
     (\<forall>r\<in>set rs. case r of (rx, ry, rw, rh) \<Rightarrow> case np of (x, y, nh) \<Rightarrow>
        ry + rh \<le> nh \<and> (ry + rh < y \<or> rx + rw < x))"

fun place_all :: "int \<Rightarrow> (int \<times> int) list \<Rightarrow> app \<Rightarrow> rect list \<times> app" where
  "place_all scr [] a = ([], a)"
| "place_all scr (sz # szs) a =
     (case place scr sz a of (p, a1) \<Rightarrow>
        case place_all scr szs a1 of (rs, a2) \<Rightarrow> ((fst p, snd p, fst sz, snd sz) # rs, a2))"

definition input_inv :: "input \<Rightarrow> bool" where
  "input_inv i = (0 \<le> working i \<and> working i \<le> int (length (itext i)))"

datatype input_event =
    KeyDown key string | KeyHold key string real | KeyUp key string
  | MouseDown string "int \<times> int" | MouseUp string "int \<times> int"

fun input_step :: "input_event \<Rightarrow> input \<Rightarrow> input" where
  "input_step (KeyDown k s) i = fst (snd (input_keydown k s i))"
| "input_step (KeyHold k s t) i = fst (snd (input_keyhold k s t i))"
| "input_step (KeyUp k s) i = snd (input_keyup k s i)"
| "input_step (MouseDown n m) i = snd (input_mousedown n m i)"
| "input_step (MouseUp n m) i = snd (input_mouseup n m i)"

definition type_keys :: "char list \<Rightarrow> input \<Rightarrow> input" where
  "type_keys cs i = fold (\<lambda>c i. fst (snd (input_keydown (K_OTHER 0) [c] i))) cs i"

section \<open>Lemmas\<close>

lemma typed_char: "typed [c] \<longleftrightarrow> c \<in> set acceptable"
proof
  assume "typed [c]"
  then obtain ps ss where eq: "acceptable = ps @ [c] @ ss" by (auto simp: typed_def sublist_def)
  show "c \<in> set acceptable" by (simp only: eq) simp
next
  assume "c \<in> set acceptable"
  then obtain ps ss where "acceptable = ps @ [c] @ ss" by (auto dest: split_list)
  then show "typed [c]" by (auto simp: typed_def sublist_def)
qed

lemma rotate_until_visible:
  "\<exists>w\<in>set ws. vis w \<Longrightarrow>
   rotate_until vis ws = Some (rotate (length (takeWhile (\<lambda>w. \<not> vis w) ws)) ws)"
proof (induction "length (takeWhile (\<lambda>w. \<not> vis w) ws)" arbitrary: ws)
  case 0
  then obtain w rest where ws: "ws = w # rest" "vis w" by (cases ws) (auto split: if_splits)
  then show ?case by (simp add: rotate_until.simps)
next
  case (Suc n)
  then obtain w rest where ws: "ws = w # rest" and nv: "\<not> vis w" by (cases ws) (auto split: if_splits)
  with Suc.prems obtain v where "v \<in> set rest" "vis v" by auto
  then have tw: "takeWhile (\<lambda>w. \<not> vis w) (rest @ [w]) = takeWhile (\<lambda>w. \<not> vis w) rest"
    by (induction rest) auto
  have "n = length (takeWhile (\<lambda>w. \<not> vis w) (rest @ [w]))" using Suc.hyps(2) ws nv tw by simp
  moreover have "\<exists>w\<in>set (rest @ [w]). vis w" using Suc.prems ws by auto
  ultimately have ih: "rotate_until vis (rest @ [w]) = Some (rotate n (rest @ [w]))"
    using Suc.hyps(1) by simp
  have "rotate (Suc n) (w # rest) = rotate n (rest @ [w])"
    by (simp add: rotate_def funpow_swap1)
  then show ?case using ih ws nv Suc.hyps(2) by (simp add: rotate_until.simps)
qed

lemma rotate_until_returns:
  assumes ret: "rotate_until vis ws = Some r"
  shows "ws \<noteq> [] \<longrightarrow> vis (hd r) \<and> set r = set ws"
proof (rule rotate_until.raw_induct [where P = "\<lambda>vis ws r. ws \<noteq> [] \<longrightarrow> vis (hd r) \<and> set r = set ws", OF _ ret])
  fix f vis ws r
  assume IH: "\<And>vis ws r. f vis ws = Some r \<Longrightarrow> ws \<noteq> [] \<longrightarrow> vis (hd r) \<and> set r = set ws"
    and eq: "(case ws of [] \<Rightarrow> Some [] | w # rest \<Rightarrow> if vis w then Some ws else f vis (rest @ [w])) = Some r"
  show "ws \<noteq> [] \<longrightarrow> vis (hd r) \<and> set r = set ws"
  proof (cases ws)
    case Nil
    then show ?thesis by simp
  next
    case (Cons w rest)
    then show ?thesis using eq IH [of vis "rest @ [w]" r] by (auto split: if_splits)
  qed
qed

lemma place_step:
  assumes ok: "layout_ok rs (next_pos a)" and nn: "0 \<le> fst sz" "0 \<le> snd sz"
    and pl: "place scr sz a = (p, a')"
  shows "(\<forall>r\<in>set rs. apart r (fst p, snd p, fst sz, snd sz)) \<and>
         layout_ok ((fst p, snd p, fst sz, snd sz) # rs) (next_pos a')"
proof -
  obtain x y nh where np: "next_pos a = (x, y, nh)" by (cases "next_pos a") auto
  obtain w h where sz: "sz = (w, h)" by (cases sz) auto
  show ?thesis
    using ok nn pl np sz
    by (fastforce simp: layout_ok_def apart_def place_def get_next_position_def set_next_position_def
        Let_def split: if_splits)
qed

lemma py_take_nat [simp]: "0 \<le> n \<Longrightarrow> py_take n xs = take (nat n) xs"
  by (simp add: py_take_def)

lemma py_drop_nat [simp]: "0 \<le> n \<Longrightarrow> py_drop n xs = drop (nat n) xs"
  by (simp add: py_drop_def)

lemma move_working_inv [simp]:
  "input_inv (move_working x i)"
  by (auto simp: move_working_def input_inv_def Let_def)

lemma kd_insert_inv: "input_inv i \<Longrightarrow> input_inv (kd_insert s i)"
  by (cases s) (auto simp: input_inv_def kd_insert_def typed_def)

lemma kd_delete_inv: "input_inv i \<Longrightarrow> input_inv (kd_delete k i)"
  by (auto simp: input_inv_def kd_delete_def)

lemma kd_inv:
  "input_inv i \<Longrightarrow> input_inv (kd_left k i)"
  "input_inv i \<Longrightarrow> input_inv (kd_right k i)"
  "input_inv i \<Longrightarrow> input_inv (kd_backspace k i)"
  by (simp_all add: kd_left_def kd_right_def kd_backspace_def)

lemma kd_inv2:
  "input_inv i \<Longrightarrow> input_inv (kd_home k i)"
  "input_inv i \<Longrightarrow> input_inv (kd_end k i)"
  "input_inv i \<Longrightarrow> input_inv (fst (submit_text i))"
  by (auto simp: input_inv_def kd_home_def kd_end_def submit_text_def)

lemma keydown_inv: "input_inv i \<Longrightarrow> input_inv (fst (snd (input_keydown k s i)))"
  by (auto simp: input_keydown_def Let_def kd_insert_inv kd_delete_inv kd_inv kd_inv2 split: prod.splits)

lemma keydown_char:
  "iactive i \<Longrightarrow> input_inv i \<Longrightarrow> typed [c] \<Longrightarrow>
   input_keydown (K_OTHER n) [c] i =
     (True, i\<lparr>itext := take (nat (working i)) (itext i) @ [c] @ drop (nat (working i)) (itext i),
              working := working i + 1\<rparr>, None)"
  by (simp add: input_keydown_def can_use_def kd_insert_def kd_left_def kd_right_def kd_delete_def
      kd_backspace_def kd_home_def kd_end_def input_inv_def)

lemma take_insert_drop:
  "n \<le> length t \<Longrightarrow> take n (take n t @ c # drop n t) @ drop (Suc n) (take n t @ c # drop n t) = t"
  by simp

lemma dispatch_append:
  "dispatch vis h (xs @ ys) m =
     (case dispatch vis h xs m of (b, m1) \<Rightarrow> if b then (True, m1) else dispatch vis h ys m1)"
  by (induction xs arbitrary: m) (auto split: prod.splits)

lemma dispatch_none:
  "distinct pre \<Longrightarrow> \<forall>j\<in>set pre. \<not> (vis (m j) \<and> fst (h (m j))) \<Longrightarrow>
   \<exists>m1. dispatch vis h pre m = (False, m1) \<and> (\<forall>j. j \<notin> set pre \<longrightarrow> m1 j = m j)"
proof (induction pre arbitrary: m)
  case Nil
  then show ?case by simp
next
  case (Cons i pre)
  obtain b w where hi: "h (m i) = (b, w)" by (cases "h (m i)") auto
  let ?m' = "if vis (m i) then m(i := w) else m"
  have "\<forall>j\<in>set pre. \<not> (vis (?m' j) \<and> fst (h (?m' j)))" using Cons.prems by auto
  then obtain m1 where m1: "dispatch vis h pre ?m' = (False, m1)" "\<forall>j. j \<notin> set pre \<longrightarrow> m1 j = ?m' j"
    using Cons.IH [of ?m'] Cons.prems(1) by auto
  show ?case using m1 hi Cons.prems by (auto split: if_splits)
qed

lemma fold_uncheck:
  "fold (\<lambda>i m. if i \<noteq> c then m(i := (m i)\<lparr>cb_state := False\<rparr>) else m) checks m j =
     (if j \<in> set checks \<and> j \<noteq> c then (m j)\<lparr>cb_state := False\<rparr> else m j)"
  by (induction checks arbitrary: m) auto

lemma takeWhile_index:
  "c \<in> set xs \<Longrightarrow> length (takeWhile (\<lambda>i. i \<noteq> c) xs) < length xs \<and> xs ! length (takeWhile (\<lambda>i. i \<noteq> c) xs) = c"
  by (induction xs) auto


text \<open>A left press and release on a Checkbox toggles it and fires check or uncheck.\<close>

lemma checkbox_click:
  "cb_mousedown ''left'' m c = (True, c1) \<Longrightarrow>
   cb_mouseup ''left'' m c1 =
     (True, c1\<lparr>cb_clicked := False, cb_state := \<not> cb_state c\<rparr>, Some (if cb_state c then Uncheck else Check))"
  by (auto simp: cb_mousedown_def cb_mouseup_def Let_def split: if_splits)


text \<open>A new widget and set_top_widget keep the widget list duplicate-free.\<close>

lemma widgets_distinct:
  "distinct (widgets a) \<Longrightarrow> distinct (widgets (new_widget w a)) \<and> distinct (widgets (set_top_widget w a))"
  by (auto simp: new_widget_def set_top_widget_def Let_def)

text \<open>Radio.handle_check switches every other option off, keeps the checked one, and records its index.\<close>

lemma radio_exclusive:
  "radio_handle_check checks c m = Inr (m', k) \<Longrightarrow>
   (\<forall>i\<in>set checks. i \<noteq> c \<longrightarrow> \<not> cb_state (m' i)) \<and> m' c = m c \<and>
   (\<forall>j. j \<notin> set checks \<longrightarrow> m' j = m j) \<and> k < length checks \<and> checks ! k = c"
  by (auto simp: radio_handle_check_def Let_def fold_uncheck takeWhile_index
      split: if_splits)

text \<open>Button fires click on release exactly for a left release that began on the button and ends on it.\<close>

lemma button_click_iff:
  "snd (snd (button_mouseup n m b)) \<longleftrightarrow> n = ''left'' \<and> bt_mdown b \<and> collidepoint (bt_rect b) m"
  by (auto simp: button_mouseup_def)

lemma dispatch_first_acceptor:
  assumes d: "distinct (pre @ i # post)" and none: "\<forall>j\<in>set pre. \<not> (vis (m j) \<and> fst (h (m j)))"
    and vi: "vis (m i)" and acc: "fst (h (m i))"
  shows "\<exists>m'. dispatch vis h (pre @ i # post) m = (True, m') \<and> m' i = snd (h (m i)) \<and>
              (\<forall>j\<in>set post. m' j = m j)"
proof -
  obtain m1 where m1: "dispatch vis h pre m = (False, m1)" "\<forall>j. j \<notin> set pre \<longrightarrow> m1 j = m j"
    using dispatch_none [OF _ none] d by auto
  have i: "m1 i = m i" using m1(2) d by auto
  have post: "\<forall>j\<in>set post. m1 j = m j" using m1(2) d by auto
  show ?thesis
    using m1(1) i post vi acc d by (cases "h (m i)") (auto simp: dispatch_append)
qed

lemma backspace_undoes_typing:
  assumes act: "iactive i" and inv: "input_inv i" and ty: "typed [c]"
  shows "itext (fst (snd (input_keydown K_BACKSPACE [] (fst (snd (input_keydown (K_OTHER n) [c] i)))))) = itext i \<and>
         working (fst (snd (input_keydown K_BACKSPACE [] (fst (snd (input_keydown (K_OTHER n) [c] i)))))) = working i"
proof -
  let ?w = "nat (working i)"
  let ?i1 = "i\<lparr>itext := take ?w (itext i) @ [c] @ drop ?w (itext i), working := working i + 1\<rparr>"
  have kd: "input_keydown (K_OTHER n) [c] i = (True, ?i1, None)" using act inv ty by (simp add: keydown_char)
  have w0: "0 \<le> working i" and wl: "?w \<le> length (itext i)" using inv by (auto simp: input_inv_def nat_le_iff)
  have sw: "nat (working i + 1) = Suc ?w" using w0 by (simp add: nat_add_distrib)
  have tx: "py_take (working ?i1 - 1) (itext ?i1) @ py_drop (working ?i1) (itext ?i1) = itext i"
    using w0 wl sw take_insert_drop [OF wl, of c] by simp
  have "kd_backspace K_BACKSPACE ?i1 = move_working (-1) (?i1\<lparr>itext := itext i\<rparr>)"
    using w0 tx by (simp add: kd_backspace_def)
  moreover have "move_working (-1) (?i1\<lparr>itext := itext i\<rparr>) = i"
    using w0 inv by (simp add: move_working_def input_inv_def Let_def)
  ultimately show ?thesis
    using act kd by (simp add: input_keydown_def can_use_def kd_insert_def kd_left_def kd_right_def
      kd_delete_def kd_home_def kd_end_def typed_def)
qed

end
