(* ===== verification/NewGui.thy ===== *)
theory NewGui
  imports Gui
begin

text \<open>
  The second GUI of trunk, \<open>src/trunk/pyggel/Newgui.py\<close>: widgets no longer place
  themselves; a \<open>Packer\<close> owned by the \<open>App\<close> lays out every widget created without a
  position, in one of two styles (\<open>pack_wrap\<close>: left to right, wrapping at the packer's
  width; \<open>pack_center\<close>: centred rows). Widgets are ids into a heap of widget records,
  as in theory \<open>Gui\<close>, whose \<open>dispatch\<close> loop the App's handlers share. The lemmas
  show that wrap packing positions every widget without overlap and within the width
  (or alone at the start of a row), and describe the base \<open>Widget\<close> handlers,
  including the misspelt attribute of \<open>handle_keyhold\<close>.
\<close>

section \<open>Widgets and the App\<close>

text \<open>
  \<open>Widget.__init__\<close>: \<open>pos\<close> (\<open>None\<close> until the packer sets it), \<open>size\<close>,
  \<open>override_pos\<close> (a position was given), whether the widget is a \<open>NewLine\<close>,
  \<open>visible\<close>, \<open>_mhold\<close>, \<open>key_active\<close> and \<open>key_hold_lengths\<close>.
\<close>

record ng_widget =
  ng_pos :: "(int \<times> int) option"
  ng_size :: "int \<times> int"
  ng_override :: bool
  ng_newline :: bool
  ng_visible :: bool
  ng_mhold :: bool
  ng_key_active :: bool
  ng_khl :: "key \<rightharpoonup> real"

type_synonym ng_heap = "nat \<Rightarrow> ng_widget"

record packer =
  packtype :: string
  pk_size :: "int \<times> int"
  need_to_pack :: bool

record ng_app =
  ng_widgets :: "nat list"
  ng_packer :: packer
  ng_app_visible :: bool

text \<open>\<open>App.__init__\<close>: the packer wraps at the screen size.\<close>

definition ng_app_new :: "int \<times> int \<Rightarrow> ng_app" where
  "ng_app_new scr =
     \<lparr>ng_widgets = [], ng_packer = \<lparr>packtype = ''wrap'', pk_size = scr, need_to_pack = False\<rparr>,
      ng_app_visible = True\<rparr>"

text \<open>\<open>App.new_widget\<close>: a widget not yet present goes on top and asks for a repack.\<close>

definition ng_new_widget :: "nat \<Rightarrow> ng_heap \<Rightarrow> ng_app \<Rightarrow> ng_app" where
  "ng_new_widget i m a =
     (if i \<in> set (ng_widgets a) then a
      else let a' = a\<lparr>ng_widgets := i # ng_widgets a\<rparr> in
        if ng_override (m i) then a' else a'\<lparr>ng_packer := (ng_packer a')\<lparr>need_to_pack := True\<rparr>\<rparr>)"

definition ng_set_top_widget :: "nat \<Rightarrow> ng_app \<Rightarrow> ng_app" where
  "ng_set_top_widget w a =
     (let ws = (if w \<in> set (ng_widgets a) then remove1 w (ng_widgets a) else ng_widgets a)
      in a\<lparr>ng_widgets := w # ws\<rparr>)"

text \<open>
  \<open>App.next_widget\<close>: \<open>pop(0)\<close> of an empty list raises IndexError, then the loop of
  \<open>Gui.rotate_until\<close>; \<open>None\<close> is "does not return".
\<close>

definition ng_next_widget :: "ng_heap \<Rightarrow> ng_app \<Rightarrow> ng_app result option" where
  "ng_next_widget m a =
     (case ng_widgets a of
        [] \<Rightarrow> Some (Inl IndexError)
      | w # rest \<Rightarrow>
          map_option (\<lambda>ws. Inr (a\<lparr>ng_widgets := ws\<rparr>)) (rotate_until (\<lambda>i. ng_visible (m i)) (rest @ [w])))"

text \<open>
  \<open>Widget.__init__(app, pos)\<close>: \<open>if pos:\<close> sets \<open>override_pos\<close> (any tuple is true);
  the widget announces itself to the App (\<open>new-widget\<close>).
\<close>

definition ng_widget_new :: "(int \<times> int) option \<Rightarrow> ng_widget" where
  "ng_widget_new pos =
     \<lparr>ng_pos = pos, ng_size = (0, 0), ng_override = (pos \<noteq> None), ng_newline = False,
      ng_visible = True, ng_mhold = False, ng_key_active = True, ng_khl = Map.empty\<rparr>"

section \<open>The Packer\<close>

text \<open>
  \<open>pack_wrap\<close> (lines 26--50): the cursor \<open>(nw, nh)\<close> and the height \<open>newh\<close> of the
  current row. A \<open>NewLine\<close> starts a row below it; a widget with its own position is
  skipped; a widget that does not fit (and is not first in its row) starts a new row one
  pixel below the tallest widget of the current one.
\<close>

fun pack_wrap_loop :: "int \<Rightarrow> int \<times> int \<times> int \<Rightarrow> nat list \<Rightarrow> ng_heap \<Rightarrow> ng_heap" where
  "pack_wrap_loop sw st [] m = m"
| "pack_wrap_loop sw (nw, nh, newh) (i # is) m =
     (if ng_newline (m i) then pack_wrap_loop sw (0, nh + newh + snd (ng_size (m i)), 0) is m
      else if ng_override (m i) then pack_wrap_loop sw (nw, nh, newh) is m
      else case ng_size (m i) of (w, h) \<Rightarrow>
        if nw + w > sw \<and> nw \<noteq> 0
        then pack_wrap_loop sw (w, nh + newh + 1, h) is (m(i := (m i)\<lparr>ng_pos := Some (0, nh + newh + 1)\<rparr>))
        else pack_wrap_loop sw (nw + w, nh, max newh h) is (m(i := (m i)\<lparr>ng_pos := Some (nw, nh)\<rparr>)))"

definition pack_wrap :: "int \<times> int \<Rightarrow> nat list \<Rightarrow> ng_heap \<Rightarrow> ng_heap" where
  "pack_wrap sz ws m = pack_wrap_loop (fst sz) (0, 0, 0) ws m"

text \<open>
  \<open>pack_center\<close>, first loop (lines 53--66): widgets are gathered into rows; a row
  ends once its accumulated width reaches the packer's width; a \<open>NewLine\<close> is a row
  of its own. The width counter \<open>w\<close> is not reset at a \<open>NewLine\<close>.
\<close>

fun center_rows :: "int \<Rightarrow> ng_heap \<Rightarrow> nat list \<Rightarrow> nat list list \<times> int \<Rightarrow> nat list list \<times> int" where
  "center_rows sw m [] acc = acc"
| "center_rows sw m (i # is) (rows, w) =
     (if ng_newline (m i) then center_rows sw m is (rows @ [[i], []], w)
      else if ng_override (m i) then center_rows sw m is (rows, w)
      else let rows' = butlast rows @ [last rows @ [i]]; w' = w + fst (ng_size (m i)) in
        if w' \<ge> sw then center_rows sw m is (rows' @ [[]], 0) else center_rows sw m is (rows', w'))"

text \<open>Second loop (lines 68--76): the width and height of a row.\<close>

definition row_size :: "ng_heap \<Rightarrow> nat list \<Rightarrow> int \<times> int" where
  "row_size m row =
     (sum_list (map (\<lambda>j. fst (ng_size (m j))) row), foldl (\<lambda>h j. max h (snd (ng_size (m j)))) 0 row)"

text \<open>Last loop (lines 83--88): each row is centred and placed below the previous one.\<close>

fun place_row :: "ng_heap \<Rightarrow> int \<Rightarrow> int \<Rightarrow> nat list \<Rightarrow> ng_heap" where
  "place_row m w y [] = m"
| "place_row m w y (j # js) =
     place_row (m(j := (m j)\<lparr>ng_pos := Some (w, y)\<rparr>)) (w + fst (ng_size (m j))) y js"

fun place_rows :: "int \<Rightarrow> ng_heap \<Rightarrow> int \<Rightarrow> (nat list \<times> int \<times> int) list \<Rightarrow> ng_heap" where
  "place_rows sw m y [] = m"
| "place_rows sw m y ((row, rw, rh) # rs) =
     place_rows sw (place_row m (sw div 2 - rw div 2) y row) (y + rh) rs"

text \<open>Python 2 integer division \<open>/\<close> on the integer sizes is \<open>div\<close>.\<close>

definition pack_center :: "int \<times> int \<Rightarrow> nat list \<Rightarrow> ng_heap \<Rightarrow> ng_heap" where
  "pack_center sz ws m =
     (let rows = fst (center_rows (fst sz) m ws ([[]], 0));
          sizes = map (row_size m) rows;
          y0 = snd sz div 2 - sum_list (map snd sizes) div 2
      in place_rows (fst sz) m y0 (zip rows sizes))"

text \<open>
  \<open>Packer.pack\<close>: the widget list is reversed (bottom widget first), the method
  \<open>pack_<packtype>\<close> runs, the list is restored. An unknown \<open>packtype\<close> makes
  \<open>getattr\<close> raise AttributeError (after the reversal, which the error value does not
  carry).
\<close>

definition pack :: "ng_app \<Rightarrow> ng_heap \<Rightarrow> (ng_app \<times> ng_heap) result" where
  "pack a m =
     (let p = ng_packer a; ws = rev (ng_widgets a); a' = a\<lparr>ng_packer := p\<lparr>need_to_pack := False\<rparr>\<rparr> in
      if packtype p = ''wrap'' then Inr (a', pack_wrap (pk_size p) ws m)
      else if packtype p = ''center'' then Inr (a', pack_center (pk_size p) ws m)
      else Inl AttributeError)"

text \<open>
  \<open>NewLine.__init__\<close> and \<open>Label.__init__\<close>: the widget is created (and announced),
  takes its size (a label the size of its rendered text) and packs the App.
\<close>

definition ng_add :: "nat \<Rightarrow> ng_widget \<Rightarrow> ng_app \<Rightarrow> ng_heap \<Rightarrow> (ng_app \<times> ng_heap) result" where
  "ng_add i w a m = (let m' = m(i := w) in pack (ng_new_widget i m' a) m')"

definition newline_new :: "nat \<Rightarrow> int \<Rightarrow> ng_app \<Rightarrow> ng_heap \<Rightarrow> (ng_app \<times> ng_heap) result" where
  "newline_new i height a m = ng_add i ((ng_widget_new None)\<lparr>ng_size := (0, height), ng_newline := True\<rparr>) a m"

definition label_new :: "nat \<Rightarrow> int \<times> int \<Rightarrow> (int \<times> int) option \<Rightarrow> ng_app \<Rightarrow> ng_heap \<Rightarrow> (ng_app \<times> ng_heap) result" where
  "label_new i text_size pos a m = ng_add i ((ng_widget_new pos)\<lparr>ng_size := text_size\<rparr>) a m"

section \<open>Widget event handlers\<close>

text \<open>
  The signals \<open>Widget\<close> fires through its dispatcher (\<open>self.dispatch.fire\<close>).
\<close>

datatype ng_signal = SigMousedown | SigClick | SigHoldHover | SigHoldOff | SigKeypress key string

text \<open>
  \<open>_collidem\<close> (lines 232--236): the mouse against the closed rectangle of the widget
  (both edges included); \<open>a, b = self.pos\<close> raises TypeError while \<open>pos\<close> is \<open>None\<close>.
\<close>

definition ng_collidem :: "int \<times> int \<Rightarrow> ng_widget \<Rightarrow> bool result" where
  "ng_collidem p w =
     (case ng_pos w of
        None \<Rightarrow> Inl TypeError
      | Some (a, b) \<Rightarrow> case ng_size w of (sw, sh) \<Rightarrow>
          Inr ((fst p \<ge> a \<and> fst p \<le> a + sw) \<and> (snd p \<ge> b \<and> snd p \<le> b + sh)))"

text \<open>The handlers return the Python result (\<open>None\<close> is false), the widget and the fired signals.\<close>

type_synonym ng_handled = "(bool \<times> ng_widget \<times> ng_signal list) result"

definition ng_mousedown :: "string \<Rightarrow> int \<times> int \<Rightarrow> ng_widget \<Rightarrow> ng_handled" where
  "ng_mousedown name p w =
     (if name = ''left''
      then res_bind (ng_collidem p w)
             (\<lambda>c. if c then Inr (True, w\<lparr>ng_mhold := True\<rparr>, [SigMousedown]) else Inr (False, w, []))
      else Inr (False, w, []))"

text \<open>\<open>self._mhold and self._collidem()\<close>: the test runs only while the button is held.\<close>

definition ng_mouseup :: "string \<Rightarrow> int \<times> int \<Rightarrow> ng_widget \<Rightarrow> ng_handled" where
  "ng_mouseup name p w =
     (if name = ''left'' \<and> ng_mhold w
      then res_bind (ng_collidem p w)
             (\<lambda>c. if c then Inr (True, w\<lparr>ng_mhold := False\<rparr>, [SigClick]) else Inr (False, w, []))
      else Inr (False, w, []))"

definition ng_mousehold :: "string \<Rightarrow> int \<times> int \<Rightarrow> ng_widget \<Rightarrow> ng_handled" where
  "ng_mousehold name p w =
     (if name = ''left'' \<and> ng_mhold w
      then res_bind (ng_collidem p w) (\<lambda>c. Inr (True, w, [if c then SigHoldHover else SigHoldOff]))
      else Inr (False, w, []))"

text \<open>
  The key handlers take \<open>can_handle_key\<close> as a parameter (\<open>Widget\<close> answers False;
  subclasses override it).
\<close>

definition ng_keydown :: "(key \<Rightarrow> string \<Rightarrow> bool) \<Rightarrow> key \<Rightarrow> string \<Rightarrow> ng_widget \<Rightarrow> ng_handled" where
  "ng_keydown can k s w =
     (if can k s \<and> ng_key_active w then Inr (True, w, [SigKeypress k s]) else Inr (False, w, []))"

text \<open>
  \<open>handle_keyhold\<close> (lines 270--279): a key already held repeats once \<open>khl = 100\<close>
  time units have passed since its last repeat (\<open>time.time()\<close> counts seconds; the
  comment says milliseconds). A key not yet held is to be recorded, but the code
  writes \<open>self.key_hold_lenths\<close>, an attribute that does not exist: reading it
  raises AttributeError.
\<close>

definition ng_keyhold :: "(key \<Rightarrow> string \<Rightarrow> bool) \<Rightarrow> key \<Rightarrow> string \<Rightarrow> real \<Rightarrow> ng_widget \<Rightarrow> ng_handled" where
  "ng_keyhold can k s t w =
     (if can k s \<and> ng_key_active w then
        (case ng_khl w k of
           Some t0 \<Rightarrow>
             if t - t0 \<ge> 100 then
               (case ng_keydown can k s w of
                  Inr (_, w', sigs) \<Rightarrow> Inr (True, w'\<lparr>ng_khl := (ng_khl w')(k \<mapsto> t)\<rparr>, sigs)
                | Inl e \<Rightarrow> Inl e)
             else Inr (True, w, [])
         | None \<Rightarrow> Inl AttributeError)
      else Inr (False, w, []))"

definition ng_keyup :: "(key \<Rightarrow> string \<Rightarrow> bool) \<Rightarrow> key \<Rightarrow> string \<Rightarrow> ng_widget \<Rightarrow> ng_handled" where
  "ng_keyup can k s w =
     (if can k s \<and> ng_key_active w then Inr (True, w\<lparr>ng_khl := (ng_khl w)(k := None)\<rparr>, [])
      else Inr (False, w, []))"

section \<open>Layout and key-hold model\<close>

text \<open>
  A widget the packer places (not a \<open>NewLine\<close>, no position of its own), its rectangle,
  two rectangles without a common pixel (the half-open rectangles of \<open>Gui.collidepoint\<close>),
  and the invariant of the \<open>pack_wrap\<close> loop over the widgets \<open>D\<close> visited so far:
  every placed widget lies within the width (or starts its row), ends above the current
  row or lies in it left of the cursor, and placed widgets are pairwise apart.
\<close>

definition ng_packed :: "ng_widget \<Rightarrow> bool" where
  "ng_packed w = (\<not> ng_newline w \<and> \<not> ng_override w)"

definition ng_rect :: "ng_widget \<Rightarrow> rect" where
  "ng_rect w = (case ng_pos w of None \<Rightarrow> (0, 0, 0, 0) | Some (x, y) \<Rightarrow> (x, y, fst (ng_size w), snd (ng_size w)))"

definition rect_disjoint :: "rect \<Rightarrow> rect \<Rightarrow> bool" where
  "rect_disjoint r r' =
     (case r of (x, y, w, h) \<Rightarrow> case r' of (x', y', w', h') \<Rightarrow>
        x + w \<le> x' \<or> x' + w' \<le> x \<or> y + h \<le> y' \<or> y' + h' \<le> y)"

definition wrap_placed :: "int \<Rightarrow> int \<times> int \<times> int \<Rightarrow> ng_widget \<Rightarrow> bool" where
  "wrap_placed sw st w =
     (case st of (nw, nh, newh) \<Rightarrow> (case ng_pos w of None \<Rightarrow> False | Some (x, y) \<Rightarrow>
        (x = 0 \<or> x + fst (ng_size w) \<le> sw) \<and>
        (y + snd (ng_size w) \<le> nh \<or> (y = nh \<and> snd (ng_size w) \<le> newh \<and> x + fst (ng_size w) \<le> nw))))"

definition wrap_inv :: "int \<Rightarrow> nat list \<Rightarrow> int \<times> int \<times> int \<Rightarrow> ng_heap \<Rightarrow> bool" where
  "wrap_inv sw D st m =
     (0 \<le> fst st \<and> 0 \<le> snd (snd st) \<and>
      (\<forall>i\<in>set D. ng_packed (m i) \<longrightarrow> wrap_placed sw st (m i)) \<and>
      (\<forall>i\<in>set D. \<forall>j\<in>set D. i \<noteq> j \<longrightarrow> ng_packed (m i) \<longrightarrow> ng_packed (m j) \<longrightarrow>
         rect_disjoint (ng_rect (m i)) (ng_rect (m j))))"

definition nonneg_size :: "ng_widget \<Rightarrow> bool" where
  "nonneg_size w = (0 \<le> fst (ng_size w) \<and> 0 \<le> snd (ng_size w))"

text \<open>
  The App-level invariant: the widget list has no duplicates, the packer wraps, sizes
  are non-negative, and every packed widget has a position apart from the others.
  \<open>ng_reach\<close> is the App and heap reachable from \<open>App.__init__\<close> by creating
  \<open>Label\<close>s and \<open>NewLine\<close>s (fresh objects), \<open>set_top_widget\<close> of a listed widget
  and \<open>next_widget\<close>.
\<close>

definition ng_layout_ok :: "ng_app \<Rightarrow> ng_heap \<Rightarrow> bool" where
  "ng_layout_ok a m =
     (distinct (ng_widgets a) \<and> packtype (ng_packer a) = ''wrap'' \<and>
      (\<forall>i\<in>set (ng_widgets a). nonneg_size (m i) \<and> (ng_packed (m i) \<longrightarrow> ng_pos (m i) \<noteq> None)) \<and>
      (\<forall>i\<in>set (ng_widgets a). \<forall>j\<in>set (ng_widgets a). i \<noteq> j \<longrightarrow> ng_packed (m i) \<longrightarrow>
         ng_packed (m j) \<longrightarrow> rect_disjoint (ng_rect (m i)) (ng_rect (m j))))"

inductive ng_reach :: "ng_app \<Rightarrow> ng_heap \<Rightarrow> bool" where
  ng_reach_init: "ng_reach (ng_app_new scr) m"
| ng_reach_label: "ng_reach a m \<Longrightarrow> i \<notin> set (ng_widgets a) \<Longrightarrow> 0 \<le> fst sz \<Longrightarrow> 0 \<le> snd sz \<Longrightarrow>
    label_new i sz pos a m = Inr (a', m') \<Longrightarrow> ng_reach a' m'"
| ng_reach_newline: "ng_reach a m \<Longrightarrow> i \<notin> set (ng_widgets a) \<Longrightarrow> 0 \<le> hgt \<Longrightarrow>
    newline_new i hgt a m = Inr (a', m') \<Longrightarrow> ng_reach a' m'"
| ng_reach_top: "ng_reach a m \<Longrightarrow> i \<in> set (ng_widgets a) \<Longrightarrow> ng_reach (ng_set_top_widget i a) m"
| ng_reach_next: "ng_reach a m \<Longrightarrow> ng_next_widget m a = Some (Inr a') \<Longrightarrow> ng_reach a' m"

text \<open>
  A sequence of key events sent to one widget: each handler runs in turn and the first
  exception ends the sequence; the signals fired are collected in order.
\<close>

datatype ng_key_event = KDown key string | KHold key string real | KUp key string

fun ng_key_step :: "(key \<Rightarrow> string \<Rightarrow> bool) \<Rightarrow> ng_key_event \<Rightarrow> ng_widget \<Rightarrow> ng_handled" where
  "ng_key_step can (KDown k s) w = ng_keydown can k s w"
| "ng_key_step can (KHold k s t) w = ng_keyhold can k s t w"
| "ng_key_step can (KUp k s) w = ng_keyup can k s w"

fun ng_key_run :: "(key \<Rightarrow> string \<Rightarrow> bool) \<Rightarrow> ng_key_event list \<Rightarrow> ng_widget \<Rightarrow> (ng_signal list \<times> ng_widget) result" where
  "ng_key_run can [] w = Inr ([], w)"
| "ng_key_run can (e # es) w =
     res_bind (ng_key_step can e w)
       (\<lambda>(b, w', sigs). res_bind (ng_key_run can es w') (\<lambda>(sigs', w''). Inr (sigs @ sigs', w'')))"

text \<open>The key presses a widget accepts, as \<open>handle_keydown\<close> reports them.\<close>

fun accepted_presses :: "(key \<Rightarrow> string \<Rightarrow> bool) \<Rightarrow> bool \<Rightarrow> ng_key_event list \<Rightarrow> ng_signal list" where
  "accepted_presses can act [] = []"
| "accepted_presses can act (KDown k s # es) =
     (if can k s \<and> act then [SigKeypress k s] else []) @ accepted_presses can act es"
| "accepted_presses can act (_ # es) = accepted_presses can act es"

section \<open>Lemmas\<close>

lemma rect_disjoint_sym: "rect_disjoint r r' = rect_disjoint r' r"
  by (auto simp: rect_disjoint_def split: prod.splits)

lemma rect_disjoint_collide:
  "rect_disjoint r r' \<Longrightarrow> \<not> (collidepoint r p \<and> collidepoint r' p)"
  by (auto simp: rect_disjoint_def collidepoint_def split: prod.splits)

text \<open>A widget on a row above, or left on the current row, is apart from the next one.\<close>

lemma wrap_placed_disjoint:
  assumes "wrap_placed sw (nw, nh, newh) w" "ng_pos v = Some (x, y)"
    and "y \<ge> nh + newh + 1 \<or> (y = nh \<and> x \<ge> nw)" "0 \<le> newh"
  shows "rect_disjoint (ng_rect w) (ng_rect v)"
  using assms by (auto simp: wrap_placed_def rect_disjoint_def ng_rect_def split: option.splits)

lemma wrap_placed_mono:
  "wrap_placed sw (nw, nh, newh) w \<Longrightarrow> nh + newh \<le> nh' \<Longrightarrow> 0 \<le> newh \<Longrightarrow> wrap_placed sw (nw', nh', newh') w"
  by (auto simp: wrap_placed_def split: option.splits)

lemma wrap_placed_row:
  "wrap_placed sw (nw, nh, newh) w \<Longrightarrow> nw \<le> nw' \<Longrightarrow> newh \<le> newh' \<Longrightarrow> wrap_placed sw (nw', nh, newh') w"
  by (auto simp: wrap_placed_def split: option.splits)


lemma ng_packed_pos [simp]: "ng_packed (w\<lparr>ng_pos := p\<rparr>) = ng_packed w"
  by (simp add: ng_packed_def)

lemma nonneg_size_pos [simp]: "nonneg_size (w\<lparr>ng_pos := p\<rparr>) = nonneg_size w"
  by (simp add: nonneg_size_def)

text \<open>Placing widget \<open>i\<close> at \<open>p\<close> in the state \<open>st'\<close> keeps the invariant, given that
  the earlier widgets are still placed in \<open>st'\<close>, the new one is, and it is apart from them.\<close>

lemma wrap_inv_add:
  assumes inv: "wrap_inv sw D st m" and i: "i \<notin> set D"
    and st': "0 \<le> fst st'" "0 \<le> snd (snd st')"
    and old: "\<And>j. j \<in> set D \<Longrightarrow> ng_packed (m j) \<Longrightarrow> wrap_placed sw st' (m j)"
    and new: "wrap_placed sw st' ((m i)\<lparr>ng_pos := Some p\<rparr>)"
    and apart: "\<And>j. j \<in> set D \<Longrightarrow> ng_packed (m j) \<Longrightarrow>
                   rect_disjoint (ng_rect (m j)) (ng_rect ((m i)\<lparr>ng_pos := Some p\<rparr>))"
  shows "wrap_inv sw (D @ [i]) st' (m(i := (m i)\<lparr>ng_pos := Some p\<rparr>))"
proof -
  let ?m = "m(i := (m i)\<lparr>ng_pos := Some p\<rparr>)"
  have same: "\<And>j. j \<in> set D \<Longrightarrow> ?m j = m j" using i by auto
  have "\<forall>j\<in>set (D @ [i]). ng_packed (?m j) \<longrightarrow> wrap_placed sw st' (?m j)"
    using old new same by auto
  moreover have "\<forall>j\<in>set (D @ [i]). \<forall>k\<in>set (D @ [i]). j \<noteq> k \<longrightarrow> ng_packed (?m j) \<longrightarrow>
      ng_packed (?m k) \<longrightarrow> rect_disjoint (ng_rect (?m j)) (ng_rect (?m k))"
    using inv apart same i by (auto simp: wrap_inv_def rect_disjoint_sym)
  ultimately show ?thesis using st' by (simp add: wrap_inv_def)
qed

lemma wrap_inv_same_row:
  assumes inv: "wrap_inv sw D (nw, nh, newh) m" and i: "i \<notin> set D"
    and sz: "ng_size (m i) = (w, h)" "0 \<le> w" "0 \<le> h" and fits: "\<not> (nw + w > sw \<and> nw \<noteq> 0)"
  shows "wrap_inv sw (D @ [i]) (nw + w, nh, max newh h) (m(i := (m i)\<lparr>ng_pos := Some (nw, nh)\<rparr>))"
proof (rule wrap_inv_add [OF inv i])
  have nw: "0 \<le> nw" and nh: "0 \<le> newh" using inv by (simp_all add: wrap_inv_def)
  then show "0 \<le> fst (nw + w, nh, max newh h)" "0 \<le> snd (snd (nw + w, nh, max newh h))"
    using sz by simp_all
  have "nw = 0 \<or> nw + w \<le> sw" using fits by linarith
  then show "wrap_placed sw (nw + w, nh, max newh h) ((m i)\<lparr>ng_pos := Some (nw, nh)\<rparr>)"
    using sz by (simp add: wrap_placed_def)
  fix j assume j: "j \<in> set D" "ng_packed (m j)"
  then have pl: "wrap_placed sw (nw, nh, newh) (m j)" using inv by (simp add: wrap_inv_def)
  then show "wrap_placed sw (nw + w, nh, max newh h) (m j)"
    by (rule wrap_placed_row) (use sz in simp_all)
  show "rect_disjoint (ng_rect (m j)) (ng_rect ((m i)\<lparr>ng_pos := Some (nw, nh)\<rparr>))"
    by (rule wrap_placed_disjoint [OF pl, where x = nw and y = nh]) (simp_all add: nh)
qed

lemma wrap_inv_wrap:
  assumes inv: "wrap_inv sw D (nw, nh, newh) m" and i: "i \<notin> set D"
    and sz: "ng_size (m i) = (w, h)" "0 \<le> w" "0 \<le> h"
  shows "wrap_inv sw (D @ [i]) (w, nh + newh + 1, h) (m(i := (m i)\<lparr>ng_pos := Some (0, nh + newh + 1)\<rparr>))"
proof (rule wrap_inv_add [OF inv i])
  have nh: "0 \<le> newh" using inv by (simp add: wrap_inv_def)
  show "0 \<le> fst (w, nh + newh + 1, h)" "0 \<le> snd (snd (w, nh + newh + 1, h))"
    using sz by simp_all
  show "wrap_placed sw (w, nh + newh + 1, h) ((m i)\<lparr>ng_pos := Some (0, nh + newh + 1)\<rparr>)"
    using sz by (simp add: wrap_placed_def)
  fix j assume j: "j \<in> set D" "ng_packed (m j)"
  then have pl: "wrap_placed sw (nw, nh, newh) (m j)" using inv by (simp add: wrap_inv_def)
  then show "wrap_placed sw (w, nh + newh + 1, h) (m j)"
    by (rule wrap_placed_mono) (simp_all add: nh)
  show "rect_disjoint (ng_rect (m j)) (ng_rect ((m i)\<lparr>ng_pos := Some (0, nh + newh + 1)\<rparr>))"
    by (rule wrap_placed_disjoint [OF pl, where x = 0 and y = "nh + newh + 1"]) (simp_all add: nh)
qed

lemma wrap_inv_newline:
  assumes inv: "wrap_inv sw D (nw, nh, newh) m" and hgt: "0 \<le> hgt" and nl: "\<not> ng_packed (m i)"
  shows "wrap_inv sw (D @ [i]) (0, nh + newh + hgt, 0) m"
proof -
  have nh: "0 \<le> newh" using inv by (simp add: wrap_inv_def)
  have old: "\<forall>j\<in>set D. ng_packed (m j) \<longrightarrow> wrap_placed sw (0, nh + newh + hgt, 0) (m j)"
  proof (intro ballI impI)
    fix j assume "j \<in> set D" "ng_packed (m j)"
    then have "wrap_placed sw (nw, nh, newh) (m j)" using inv unfolding wrap_inv_def by blast
    then show "wrap_placed sw (0, nh + newh + hgt, 0) (m j)"
      by (rule wrap_placed_mono) (simp_all add: nh hgt)
  qed
  have "\<forall>j\<in>set D. \<forall>k\<in>set D. j \<noteq> k \<longrightarrow> ng_packed (m j) \<longrightarrow> ng_packed (m k) \<longrightarrow>
      rect_disjoint (ng_rect (m j)) (ng_rect (m k))" using inv unfolding wrap_inv_def by blast
  then show ?thesis using old nl unfolding wrap_inv_def by auto
qed

lemma wrap_inv_skip:
  "wrap_inv sw D st m \<Longrightarrow> \<not> ng_packed (m i) \<Longrightarrow> wrap_inv sw (D @ [i]) st m"
  by (simp add: wrap_inv_def)

lemma pack_wrap_loop_other:
  "i \<notin> set ws \<Longrightarrow> pack_wrap_loop sw st ws m i = m i"
  by (induction sw st ws m rule: pack_wrap_loop.induct) (auto split: prod.splits)

lemma pack_wrap_loop_pos_only:
  "(pack_wrap_loop sw st ws m i)\<lparr>ng_pos := None\<rparr> = (m i)\<lparr>ng_pos := None\<rparr>"
  by (induction sw st ws m rule: pack_wrap_loop.induct) (simp_all add: fun_upd_def split: prod.splits)

lemma pos_only_fields:
  assumes "w\<lparr>ng_pos := None\<rparr> = v\<lparr>ng_pos := None\<rparr>"
  shows "ng_size w = ng_size v" "ng_packed w = ng_packed v"
proof -
  have "ng_size (w\<lparr>ng_pos := None\<rparr>) = ng_size (v\<lparr>ng_pos := None\<rparr>)"
    "ng_packed (w\<lparr>ng_pos := None\<rparr>) = ng_packed (v\<lparr>ng_pos := None\<rparr>)" using assms by simp_all
  then show "ng_size w = ng_size v" "ng_packed w = ng_packed v" by simp_all
qed

lemma wrap_loop_inv:
  "wrap_inv sw D st m \<Longrightarrow> distinct (D @ ws) \<Longrightarrow> (\<forall>i\<in>set ws. nonneg_size (m i)) \<Longrightarrow>
   \<exists>st'. wrap_inv sw (D @ ws) st' (pack_wrap_loop sw st ws m)"
proof (induction sw st ws m arbitrary: D rule: pack_wrap_loop.induct)
  case (1 sw st m)
  then show ?case by (cases st) auto
next
  case (2 sw nw nh newh i "is" m)
  have i: "i \<notin> set D" "distinct ((D @ [i]) @ is)" using "2.prems"(2) by auto
  have nn: "nonneg_size (m i)" "\<forall>j\<in>set is. nonneg_size (m j)" using "2.prems"(3) by auto
  obtain w h where sz: "ng_size (m i) = (w, h)" by fastforce
  have wh: "0 \<le> w" "0 \<le> h" using nn(1) sz by (simp_all add: nonneg_size_def)
  show ?case
  proof (cases "ng_newline (m i)")
    case True
    have "wrap_inv sw (D @ [i]) (0, nh + newh + snd (ng_size (m i)), 0) m"
      using wrap_inv_newline [OF "2.prems"(1)] True wh sz by (simp add: ng_packed_def)
    from "2.IH"(1) [OF True this i(2) nn(2)] show ?thesis using True by simp
  next
    case nl: False
    show ?thesis
    proof (cases "ng_override (m i)")
      case True
      have "wrap_inv sw (D @ [i]) (nw, nh, newh) m"
        using wrap_inv_skip [OF "2.prems"(1)] True by (simp add: ng_packed_def)
      from "2.IH"(2) [OF nl True this i(2) nn(2)] show ?thesis using True nl by simp
    next
      case ov: False
      let ?m1 = "m(i := (m i)\<lparr>ng_pos := Some (0, nh + newh + 1)\<rparr>)"
      let ?m2 = "m(i := (m i)\<lparr>ng_pos := Some (nw, nh)\<rparr>)"
      have nn1: "\<forall>j\<in>set is. nonneg_size (?m1 j)" "\<forall>j\<in>set is. nonneg_size (?m2 j)"
        using nn i by auto
      show ?thesis
      proof (cases "nw + w > sw \<and> nw \<noteq> 0")
        case True
        have "wrap_inv sw (D @ [i]) (w, nh + newh + 1, h) ?m1"
          using wrap_inv_wrap [OF "2.prems"(1) i(1) sz wh] .
        from "2.IH"(3) [OF nl ov sz [symmetric] True this i(2) nn1(1)] show ?thesis using True nl ov sz by (simp add: fun_upd_def)
      next
        case False
        have "wrap_inv sw (D @ [i]) (nw + w, nh, max newh h) ?m2"
          using wrap_inv_same_row [OF "2.prems"(1) i(1) sz wh False] .
        from "2.IH"(4) [OF nl ov sz [symmetric] False this i(2) nn1(2)] show ?thesis
          using False nl ov sz by (auto simp: fun_upd_def)
      qed
    qed
  qed
qed

lemma pack_wrap_inv:
  "distinct ws \<Longrightarrow> \<forall>i\<in>set ws. nonneg_size (m i) \<Longrightarrow> \<exists>st. wrap_inv (fst sz) ws st (pack_wrap sz ws m)"
  using wrap_loop_inv [of "fst sz" "[]" "(0, 0, 0)" m ws] by (simp add: pack_wrap_def wrap_inv_def)

lemma pack_wrap_fields:
  "ng_size (pack_wrap sz ws m i) = ng_size (m i)" "ng_packed (pack_wrap sz ws m i) = ng_packed (m i)"
  using pos_only_fields [OF pack_wrap_loop_pos_only] by (simp_all add: pack_wrap_def)

lemma rotate_until_mset:
  assumes ret: "rotate_until vis ws = Some r"
  shows "mset r = mset ws"
proof (rule rotate_until.raw_induct [where P = "\<lambda>vis ws r. mset r = mset ws", OF _ ret])
  fix f vis ws r
  assume IH: "\<And>vis ws r. f vis ws = Some r \<Longrightarrow> mset r = mset ws"
    and eq: "(case ws of [] \<Rightarrow> Some [] | w # rest \<Rightarrow> if vis w then Some ws else f vis (rest @ [w])) = Some r"
  show "mset r = mset ws"
    using eq IH [of vis] by (cases ws) (auto split: if_splits)
qed

lemma ng_add_wrap:
  assumes "packtype (ng_packer a) = ''wrap''" "i \<notin> set (ng_widgets a)" "ng_add i w a m = Inr (a', m')"
  shows "ng_widgets a' = i # ng_widgets a \<and> packtype (ng_packer a') = ''wrap'' \<and>
         m' = pack_wrap (pk_size (ng_packer a)) (rev (i # ng_widgets a)) (m(i := w))"
  using assms by (auto simp: ng_add_def pack_def ng_new_widget_def Let_def split: if_splits)

lemma layout_add:
  assumes ok: "ng_layout_ok a m" and i: "i \<notin> set (ng_widgets a)" and w: "nonneg_size w"
    and add: "ng_add i w a m = Inr (a', m')"
  shows "ng_layout_ok a' m'"
proof -
  let ?ws = "rev (i # ng_widgets a)" and ?m = "m(i := w)" and ?sz = "pk_size (ng_packer a)"
  have a': "ng_widgets a' = i # ng_widgets a" "packtype (ng_packer a') = ''wrap''"
    and m': "m' = pack_wrap ?sz ?ws ?m"
    using ng_add_wrap [OF _ i add] ok by (auto simp: ng_layout_ok_def)
  have d: "distinct ?ws" using ok i by (simp add: ng_layout_ok_def)
  have nn: "\<forall>j\<in>set ?ws. nonneg_size (?m j)" using ok w by (auto simp: ng_layout_ok_def)
  obtain st where inv: "wrap_inv (fst ?sz) ?ws st m'" using pack_wrap_inv [OF d nn] m' by blast
  have "\<forall>j\<in>set ?ws. nonneg_size (m' j) \<and> (ng_packed (m' j) \<longrightarrow> ng_pos (m' j) \<noteq> None)"
    using inv nn unfolding m' by (auto simp: wrap_inv_def wrap_placed_def nonneg_size_def pack_wrap_fields
        split: prod.splits option.splits)
  moreover have "\<forall>j\<in>set ?ws. \<forall>k\<in>set ?ws. j \<noteq> k \<longrightarrow> ng_packed (m' j) \<longrightarrow> ng_packed (m' k) \<longrightarrow>
      rect_disjoint (ng_rect (m' j)) (ng_rect (m' k))"
    using inv unfolding m' by (simp add: wrap_inv_def pack_wrap_fields)
  ultimately show ?thesis using a' d by (simp add: ng_layout_ok_def)
qed

lemma layout_same_set:
  "ng_layout_ok a m \<Longrightarrow> mset (ng_widgets a') = mset (ng_widgets a) \<Longrightarrow> ng_packer a' = ng_packer a \<Longrightarrow>
   ng_layout_ok a' m"
proof -
  assume ok: "ng_layout_ok a m" and ms: "mset (ng_widgets a') = mset (ng_widgets a)"
    and p: "ng_packer a' = ng_packer a"
  have "set (ng_widgets a') = set (ng_widgets a)" using ms by (rule mset_eq_setD)
  moreover have "distinct (ng_widgets a') = distinct (ng_widgets a)" using ms by (rule mset_eq_imp_distinct_iff)
  ultimately show ?thesis using ok p unfolding ng_layout_ok_def by simp
qed

lemma top_mset: "i \<in> set (ng_widgets a) \<Longrightarrow> mset (ng_widgets (ng_set_top_widget i a)) = mset (ng_widgets a)"
  by (simp add: ng_set_top_widget_def Let_def)

lemma top_packer: "ng_packer (ng_set_top_widget i a) = ng_packer a"
  by (simp add: ng_set_top_widget_def Let_def)

lemma next_layout:
  assumes ok: "ng_layout_ok a m" and nx: "ng_next_widget m a = Some (Inr a')"
  shows "ng_layout_ok a' m"
proof -
  obtain w rest r where ws: "ng_widgets a = w # rest" and r: "rotate_until (\<lambda>i. ng_visible (m i)) (rest @ [w]) = Some r"
      and a': "a' = a\<lparr>ng_widgets := r\<rparr>"
    using nx by (auto simp: ng_next_widget_def split: list.splits)
  have "mset (ng_widgets a') = mset (ng_widgets a)" using rotate_until_mset [OF r] ws a' by simp
  then show ?thesis by (rule layout_same_set [OF ok]) (simp add: a')
qed

lemma ng_reach_layout: "ng_reach a m \<Longrightarrow> ng_layout_ok a m"
proof (induction rule: ng_reach.induct)
  case (ng_reach_init scr m)
  then show ?case by (simp add: ng_layout_ok_def ng_app_new_def)
next
  case (ng_reach_label a m i sz pos a' m')
  have "nonneg_size ((ng_widget_new pos)\<lparr>ng_size := sz\<rparr>)"
    using ng_reach_label.hyps(3,4) by (simp add: nonneg_size_def)
  then show ?case
    using layout_add [OF ng_reach_label.IH ng_reach_label.hyps(2)] ng_reach_label.hyps(5)
    unfolding label_new_def by blast
next
  case (ng_reach_newline a m i hgt a' m')
  have "nonneg_size ((ng_widget_new None)\<lparr>ng_size := (0, hgt), ng_newline := True\<rparr>)"
    using ng_reach_newline.hyps(3) by (simp add: nonneg_size_def)
  then show ?case
    using layout_add [OF ng_reach_newline.IH ng_reach_newline.hyps(2)] ng_reach_newline.hyps(4)
    unfolding newline_new_def by blast
next
  case (ng_reach_top a m i)
  then show ?case by (intro layout_same_set [OF ng_reach_top.IH] top_mset top_packer)
next
  case (ng_reach_next a m a')
  show ?case by (rule next_layout [OF ng_reach_next.IH ng_reach_next.hyps(2)])
qed

lemma key_step_empty:
  assumes "ng_khl w = Map.empty" "ng_key_step can e w = Inr (b, w', sigs)"
  shows "ng_khl w' = Map.empty \<and> ng_key_active w' = ng_key_active w \<and>
         sigs = accepted_presses can (ng_key_active w) [e] \<and>
         (\<forall>k s t. e = KHold k s t \<longrightarrow> \<not> (can k s \<and> ng_key_active w))"
  using assms by (cases e) (auto simp: ng_keydown_def ng_keyhold_def ng_keyup_def split: if_splits)

lemma accepted_presses_Cons:
  "accepted_presses can act (e # es) = accepted_presses can act [e] @ accepted_presses can act es"
  by (cases e) simp_all

end
