(* ===== verification/NewGuiApp.thy ===== *)
theory NewGuiApp
  imports NewGui
begin

text \<open>
  The event handlers and the render of the \<open>App\<close> of \<open>src/trunk/pyggel/Newgui.py\<close>
  (lines 111--206) over the widget heap of theory \<open>NewGui\<close>, with the handlers
  \<open>Widget\<close> leaves to its subclasses (\<open>handle_uncaught_event\<close>, \<open>handle_drag\<close>,
  \<open>render\<close>, lines 288--304). An App handler offers the event to the visible widgets in
  list order (top widget first) and stops at the first that accepts it; an exception of a
  widget's handler leaves the App's handler. \<open>ng_live\<close> is the Apps and heaps reached by
  construction and by the events that returned, and \<open>ng_wf\<close> its invariant.
\<close>

section \<open>Event handlers of the App\<close>

text \<open>
  The loop of \<open>App.handle_mousedown\<close> and its siblings (lines 122--128): the
  handler takes the widget's id (its class decides \<open>can_handle_key\<close>) and the widget;
  the widget it returns is written back; the signals it fired are tagged with its id.
\<close>

fun ng_dispatch :: "(nat \<Rightarrow> ng_widget \<Rightarrow> ng_handled) \<Rightarrow> nat list \<Rightarrow> ng_heap \<Rightarrow>
    (bool \<times> ng_heap \<times> (nat \<times> ng_signal) list) result" where
  "ng_dispatch h [] m = Inr (False, m, [])"
| "ng_dispatch h (i # is) m =
     (if ng_visible (m i) then
        res_bind (h i (m i)) (\<lambda>(b, w, sigs).
          let m' = m(i := w); fired = map (Pair i) sigs in
          if b then Inr (True, m', fired)
          else res_bind (ng_dispatch h is m') (\<lambda>(b', m'', sigs'). Inr (b', m'', fired @ sigs')))
      else ng_dispatch h is m)"

text \<open>
  The mouse handlers read \<open>App.get_mouse_pos\<close> (lines 111--113, the screen's mouse
  position), a parameter \<open>p\<close> here.
\<close>

definition ng_app_mousedown :: "string \<Rightarrow> int \<times> int \<Rightarrow> ng_app \<Rightarrow> ng_heap \<Rightarrow>
    (bool \<times> ng_heap \<times> (nat \<times> ng_signal) list) result" where
  "ng_app_mousedown name p a m = ng_dispatch (\<lambda>_. ng_mousedown name p) (ng_widgets a) m"

definition ng_app_mouseup :: "string \<Rightarrow> int \<times> int \<Rightarrow> ng_app \<Rightarrow> ng_heap \<Rightarrow>
    (bool \<times> ng_heap \<times> (nat \<times> ng_signal) list) result" where
  "ng_app_mouseup name p a m = ng_dispatch (\<lambda>_. ng_mouseup name p) (ng_widgets a) m"

definition ng_app_mousehold :: "string \<Rightarrow> int \<times> int \<Rightarrow> ng_app \<Rightarrow> ng_heap \<Rightarrow>
    (bool \<times> ng_heap \<times> (nat \<times> ng_signal) list) result" where
  "ng_app_mousehold name p a m = ng_dispatch (\<lambda>_. ng_mousehold name p) (ng_widgets a) m"

text \<open>
  The key handlers (lines 162--184); \<open>can i\<close> is the \<open>can_handle_key\<close> of widget
  \<open>i\<close>'s class and \<open>t\<close> the time \<open>handle_keyhold\<close> reads.
\<close>

definition ng_app_keydown :: "(nat \<Rightarrow> key \<Rightarrow> string \<Rightarrow> bool) \<Rightarrow> key \<Rightarrow> string \<Rightarrow> ng_app \<Rightarrow> ng_heap \<Rightarrow>
    (bool \<times> ng_heap \<times> (nat \<times> ng_signal) list) result" where
  "ng_app_keydown can k s a m = ng_dispatch (\<lambda>i. ng_keydown (can i) k s) (ng_widgets a) m"

definition ng_app_keyup :: "(nat \<Rightarrow> key \<Rightarrow> string \<Rightarrow> bool) \<Rightarrow> key \<Rightarrow> string \<Rightarrow> ng_app \<Rightarrow> ng_heap \<Rightarrow>
    (bool \<times> ng_heap \<times> (nat \<times> ng_signal) list) result" where
  "ng_app_keyup can k s a m = ng_dispatch (\<lambda>i. ng_keyup (can i) k s) (ng_widgets a) m"

definition ng_app_keyhold :: "(nat \<Rightarrow> key \<Rightarrow> string \<Rightarrow> bool) \<Rightarrow> key \<Rightarrow> string \<Rightarrow> real \<Rightarrow> ng_app \<Rightarrow>
    ng_heap \<Rightarrow> (bool \<times> ng_heap \<times> (nat \<times> ng_signal) list) result" where
  "ng_app_keyhold can k s t a m = ng_dispatch (\<lambda>i. ng_keyhold (can i) k s t) (ng_widgets a) m"

text \<open>
  \<open>Widget.handle_drag\<close> and \<open>Widget.handle_uncaught_event\<close> are \<open>pass\<close>: they
  return \<open>None\<close>, which is false.
\<close>

datatype ng_event = EvMouseMotion "int \<times> int" | EvOther nat

definition ng_widget_drag :: "int \<times> int \<Rightarrow> ng_widget \<Rightarrow> bool" where
  "ng_widget_drag change w = False"

definition ng_widget_uncaught :: "ng_event \<Rightarrow> ng_widget \<Rightarrow> bool" where
  "ng_widget_uncaught ev w = False"

text \<open>\<open>App.handle_drag\<close> (lines 155--160) offers the change to every widget, visible or not.\<close>

definition ng_app_drag :: "int \<times> int \<Rightarrow> ng_app \<Rightarrow> ng_heap \<Rightarrow> bool" where
  "ng_app_drag change a m = list_ex (\<lambda>i. ng_widget_drag change (m i)) (ng_widgets a)"

text \<open>
  \<open>App.handle_uncaught_event\<close> (lines 146--153): a mouse motion with the left button
  held (\<open>left_held\<close>, read from the event handler) is a drag; other events go to the
  visible widgets.
\<close>

definition ng_app_uncaught :: "bool \<Rightarrow> ng_event \<Rightarrow> ng_app \<Rightarrow> ng_heap \<Rightarrow> bool" where
  "ng_app_uncaught left_held ev a m =
     (case ev of
        EvMouseMotion rel \<Rightarrow> left_held \<and> ng_app_drag rel a m
      | EvOther _ \<Rightarrow> list_ex (\<lambda>i. ng_visible (m i) \<and> ng_widget_uncaught ev (m i)) (ng_widgets a))"

section \<open>Render\<close>

text \<open>
  \<open>Widget.render\<close> (lines 296--304) draws the widget's image at its position plus the
  offset: \<open>x, y = self.pos\<close> raises TypeError while the position is \<open>None\<close>. Of the
  widgets of the file only a \<open>Label\<close> has an image; a \<open>NewLine\<close> keeps \<open>None\<close>.
  The result is where the image is drawn, \<open>None\<close> when nothing is drawn.
\<close>

definition ng_has_image :: "ng_widget \<Rightarrow> bool" where
  "ng_has_image w = (\<not> ng_newline w)"

definition ng_widget_render :: "int \<times> int \<Rightarrow> ng_widget \<Rightarrow> (int \<times> int) option result" where
  "ng_widget_render off w =
     (if ng_has_image w then
        (case ng_pos w of
           None \<Rightarrow> Inl TypeError
         | Some (x, y) \<Rightarrow> Inr (Some (x + fst off, y + snd off)))
      else Inr None)"

text \<open>
  \<open>App.render\<close> (lines 201--206): the list is reversed, every visible widget renders
  with the default offset, the list is restored. The result lists what each rendered
  widget drew, bottom widget first.
\<close>

definition ng_app_render :: "ng_app \<Rightarrow> ng_heap \<Rightarrow> (nat \<times> (int \<times> int) option) list result" where
  "ng_app_render a m =
     map_res (\<lambda>i. res_bind (ng_widget_render (0, 0) (m i)) (\<lambda>d. Inr (i, d)))
       (filter (\<lambda>i. ng_visible (m i)) (rev (ng_widgets a)))"

section \<open>Reachable Apps with events\<close>

text \<open>
  \<open>ng_live\<close>: the Apps and heaps reached from \<open>App.__init__\<close> by creating labels and
  new lines, reordering the widgets, and every mouse and key event the App handled
  without an exception.
\<close>

inductive ng_live :: "ng_app \<Rightarrow> ng_heap \<Rightarrow> bool" where
  init: "ng_live (ng_app_new scr) m"
| label: "ng_live a m \<Longrightarrow> i \<notin> set (ng_widgets a) \<Longrightarrow> label_new i sz pos a m = Inr (a', m') \<Longrightarrow>
    ng_live a' m'"
| newline: "ng_live a m \<Longrightarrow> i \<notin> set (ng_widgets a) \<Longrightarrow> newline_new i hgt a m = Inr (a', m') \<Longrightarrow>
    ng_live a' m'"
| top: "ng_live a m \<Longrightarrow> i \<in> set (ng_widgets a) \<Longrightarrow> ng_live (ng_set_top_widget i a) m"
| rotate: "ng_live a m \<Longrightarrow> ng_next_widget m a = Some (Inr a') \<Longrightarrow> ng_live a' m"
| down: "ng_live a m \<Longrightarrow> ng_app_mousedown name p a m = Inr (b, m', sigs) \<Longrightarrow> ng_live a m'"
| up: "ng_live a m \<Longrightarrow> ng_app_mouseup name p a m = Inr (b, m', sigs) \<Longrightarrow> ng_live a m'"
| hold: "ng_live a m \<Longrightarrow> ng_app_mousehold name p a m = Inr (b, m', sigs) \<Longrightarrow> ng_live a m'"
| keydown: "ng_live a m \<Longrightarrow> ng_app_keydown can k s a m = Inr (b, m', sigs) \<Longrightarrow> ng_live a m'"
| keyhold: "ng_live a m \<Longrightarrow> ng_app_keyhold can k s t a m = Inr (b, m', sigs) \<Longrightarrow> ng_live a m'"
| keyup: "ng_live a m \<Longrightarrow> ng_app_keyup can k s a m = Inr (b, m', sigs) \<Longrightarrow> ng_live a m'"

text \<open>
  The invariant: the packer wraps, and every listed widget is visible, has a position
  exactly when it is not a \<open>NewLine\<close>, and holds the mouse only if it is not one.
\<close>

definition ng_widget_ok :: "ng_widget \<Rightarrow> bool" where
  "ng_widget_ok w =
     (ng_visible w \<and> (ng_pos w = None \<longleftrightarrow> ng_newline w) \<and> (ng_mhold w \<longrightarrow> \<not> ng_newline w))"

definition ng_wf :: "ng_app \<Rightarrow> ng_heap \<Rightarrow> bool" where
  "ng_wf a m = (packtype (ng_packer a) = ''wrap'' \<and> (\<forall>i\<in>set (ng_widgets a). ng_widget_ok (m i)))"

text \<open>A widget the App is given: visible, not holding the mouse, a \<open>NewLine\<close> without a
  position of its own, and a position exactly when \<open>override_pos\<close> is set.\<close>

definition ng_fresh_ok :: "ng_widget \<Rightarrow> bool" where
  "ng_fresh_ok w =
     (ng_visible w \<and> \<not> ng_mhold w \<and> (ng_newline w \<longrightarrow> \<not> ng_override w) \<and>
      (ng_pos w \<noteq> None \<longleftrightarrow> ng_override w))"

section \<open>Dispatch lemmas\<close>

lemma ng_dispatch_pres:
  assumes pres: "\<And>i w b w' s. P w \<Longrightarrow> h i w = Inr (b, w', s) \<Longrightarrow> P w'"
  shows "ng_dispatch h ws m = Inr (b, m', sigs) \<Longrightarrow> \<forall>i\<in>set ws. P (m i) \<Longrightarrow>
    (\<forall>i\<in>set ws. P (m' i)) \<and> (\<forall>i. i \<notin> set ws \<longrightarrow> m' i = m i)"
proof (induction ws arbitrary: m b m' sigs)
  case Nil
  then show ?case by simp
next
  case (Cons i "is")
  show ?case
  proof (cases "ng_visible (m i)")
    case vis: True
    obtain b1 w s where hi: "h i (m i) = Inr (b1, w, s)"
      using Cons.prems(1) vis by (cases "h i (m i)") auto
    have pw: "P w" using pres [OF _ hi] Cons.prems(2) by simp
    have all: "\<forall>j\<in>set (i # is). P ((m(i := w)) j)" using Cons.prems(2) pw by simp
    show ?thesis
    proof (cases b1)
      case True
      then show ?thesis using Cons.prems(1) vis hi all by (auto simp: Let_def)
    next
      case False
      obtain b2 m2 s2 where rest: "ng_dispatch h is (m(i := w)) = Inr (b2, m2, s2)" and m': "m' = m2"
        using Cons.prems(1) vis hi False by (auto simp: Let_def res_bind_eq_Inr)
      have "(\<forall>j\<in>set is. P (m2 j)) \<and> (\<forall>j. j \<notin> set is \<longrightarrow> m2 j = (m(i := w)) j)"
        using Cons.IH [OF rest] all by simp
      then show ?thesis using m' pw by auto
    qed
  next
    case False
    then have "ng_dispatch h is m = Inr (b, m', sigs)" using Cons.prems(1) by simp
    from Cons.IH [OF this] Cons.prems(2) show ?thesis by (cases "i \<in> set is") auto
  qed
qed

text \<open>A handler that rejects an event leaves its widget unchanged; then the App's handler
  raises exactly when a visible widget's handler raises and every visible widget before it
  rejected the event.\<close>

lemma ng_dispatch_Inl:
  assumes keep: "\<And>i w w' s. h i w = Inr (False, w', s) \<Longrightarrow> w' = w"
  shows "ng_dispatch h ws m = Inl e \<longleftrightarrow>
    (\<exists>k<length ws. ng_visible (m (ws ! k)) \<and> h (ws ! k) (m (ws ! k)) = Inl e \<and>
       (\<forall>j<k. ng_visible (m (ws ! j)) \<longrightarrow> (\<exists>s. h (ws ! j) (m (ws ! j)) = Inr (False, m (ws ! j), s))))"
proof (induction ws)
  case Nil
  then show ?case by simp
next
  case (Cons i "is")
  let ?R = "\<lambda>ws. \<exists>k<length ws. ng_visible (m (ws ! k)) \<and> h (ws ! k) (m (ws ! k)) = Inl e \<and>
       (\<forall>j<k. ng_visible (m (ws ! j)) \<longrightarrow> (\<exists>s. h (ws ! j) (m (ws ! j)) = Inr (False, m (ws ! j), s)))"
  have shift: "?R (i # is) \<longleftrightarrow>
      (ng_visible (m i) \<and> h i (m i) = Inl e) \<or>
      ((ng_visible (m i) \<longrightarrow> (\<exists>s. h i (m i) = Inr (False, m i, s))) \<and> ?R is)"
    unfolding length_Cons Ex_less_Suc2 nth_Cons_0 nth_Cons_Suc All_less_Suc2 by auto
  show ?case
  proof (cases "ng_visible (m i)")
    case vis: True
    show ?thesis
    proof (cases "h i (m i)")
      case (Inl e')
      then show ?thesis using vis shift by auto
    next
      case (Inr r)
      obtain b w s where r: "r = (b, w, s)" by (cases r) auto
      show ?thesis
      proof (cases b)
        case True
        then show ?thesis using vis shift Inr r by (auto simp: Let_def)
      next
        case False
        have "w = m i" using keep [of i "m i" w s] Inr r False by simp
        then show ?thesis using vis shift Inr r False Cons.IH
          by (auto simp: Let_def res_bind_eq_Inl split: prod.splits)
      qed
    qed
  next
    case False
    then show ?thesis using shift Cons.IH by simp
  qed
qed

section \<open>The invariant\<close>

text \<open>Every widget handler keeps a well-formed widget well-formed and leaves a widget it
  rejects an event with unchanged.\<close>

lemma ng_handlers_ok:
  assumes "ng_widget_ok w"
  shows "ng_mousedown name p w = Inr (b, w', s) \<Longrightarrow> ng_widget_ok w'"
    and "ng_mouseup name p w = Inr (b, w', s) \<Longrightarrow> ng_widget_ok w'"
    and "ng_mousehold name p w = Inr (b, w', s) \<Longrightarrow> ng_widget_ok w'"
    and "ng_keydown can k str w = Inr (b, w', s) \<Longrightarrow> ng_widget_ok w'"
    and "ng_keyhold can k str t w = Inr (b, w', s) \<Longrightarrow> ng_widget_ok w'"
    and "ng_keyup can k str w = Inr (b, w', s) \<Longrightarrow> ng_widget_ok w'"
  using assms
  by (auto simp: ng_widget_ok_def ng_mousedown_def ng_mouseup_def ng_mousehold_def ng_keydown_def
      ng_keyhold_def ng_keyup_def ng_collidem_def res_bind_eq_Inr
      split: if_splits option.splits sum.splits prod.splits)

lemma ng_handlers_keep:
  shows "ng_mousedown name p w = Inr (False, w', s) \<Longrightarrow> w' = w"
    and "ng_mouseup name p w = Inr (False, w', s) \<Longrightarrow> w' = w"
    and "ng_mousehold name p w = Inr (False, w', s) \<Longrightarrow> w' = w"
  by (auto simp: ng_mousedown_def ng_mouseup_def ng_mousehold_def res_bind_eq_Inr
      split: if_splits)

text \<open>\<open>pack_wrap\<close> gives a position to every listed widget it places and changes no other.\<close>

lemma pack_wrap_loop_pos:
  "ng_pos (pack_wrap_loop sw st ws m i) = None \<longleftrightarrow>
   ng_pos (m i) = None \<and> (i \<notin> set ws \<or> \<not> ng_packed (m i))"
proof (induction sw st ws m rule: pack_wrap_loop.induct)
  case (1 sw st m)
  then show ?case by simp
next
  case (2 sw nw nh newh j "is" m)
  obtain w h where sz: "ng_size (m j) = (w, h)" by fastforce
  have upd: "ng_pos ((m(j := (m j)\<lparr>ng_pos := Some q\<rparr>)) i) = None \<longleftrightarrow> i \<noteq> j \<and> ng_pos (m i) = None"
    "ng_packed ((m(j := (m j)\<lparr>ng_pos := Some q\<rparr>)) i) = ng_packed (m i)" for q
    by simp_all
  show ?case
  proof (cases "ng_newline (m j)")
    case True
    then show ?thesis using "2.IH"(1) by (auto simp: ng_packed_def)
  next
    case nl: False
    show ?thesis
    proof (cases "ng_override (m j)")
      case True
      then show ?thesis using "2.IH"(2) nl by (auto simp: ng_packed_def)
    next
      case ov: False
      show ?thesis
      proof (cases "nw + w > sw \<and> nw \<noteq> 0")
        case True
        let ?m1 = "m(j := (m j)\<lparr>ng_pos := Some (0, nh + newh + 1)\<rparr>)"
        have eq: "pack_wrap_loop sw (nw, nh, newh) (j # is) m = pack_wrap_loop sw (w, nh + newh + 1, h) is ?m1"
          using nl ov sz True by simp
        have ih: "ng_pos (pack_wrap_loop sw (w, nh + newh + 1, h) is ?m1 i) = None \<longleftrightarrow>
            ng_pos (?m1 i) = None \<and> (i \<notin> set is \<or> \<not> ng_packed (?m1 i))"
          using "2.IH"(3) [OF nl ov sz [symmetric] True] .
        show ?thesis unfolding eq ih upd using nl ov by (auto simp: ng_packed_def)
      next
        case False
        let ?m1 = "m(j := (m j)\<lparr>ng_pos := Some (nw, nh)\<rparr>)"
        have eq: "pack_wrap_loop sw (nw, nh, newh) (j # is) m = pack_wrap_loop sw (nw + w, nh, max newh h) is ?m1"
          using nl ov sz False by auto
        have ih: "ng_pos (pack_wrap_loop sw (nw + w, nh, max newh h) is ?m1 i) = None \<longleftrightarrow>
            ng_pos (?m1 i) = None \<and> (i \<notin> set is \<or> \<not> ng_packed (?m1 i))"
          using "2.IH"(4) [OF nl ov sz [symmetric] False] .
        show ?thesis unfolding eq ih upd using nl ov by (auto simp: ng_packed_def)
      qed
    qed
  qed
qed

lemma pack_wrap_flags:
  "ng_visible (pack_wrap sz ws m i) = ng_visible (m i)"
  "ng_mhold (pack_wrap sz ws m i) = ng_mhold (m i)"
  "ng_newline (pack_wrap sz ws m i) = ng_newline (m i)"
proof -
  have eq: "(pack_wrap sz ws m i)\<lparr>ng_pos := None\<rparr> = (m i)\<lparr>ng_pos := None\<rparr>"
    unfolding pack_wrap_def by (rule pack_wrap_loop_pos_only)
  have "ng_visible ((pack_wrap sz ws m i)\<lparr>ng_pos := None\<rparr>) = ng_visible ((m i)\<lparr>ng_pos := None\<rparr>)"
    "ng_mhold ((pack_wrap sz ws m i)\<lparr>ng_pos := None\<rparr>) = ng_mhold ((m i)\<lparr>ng_pos := None\<rparr>)"
    "ng_newline ((pack_wrap sz ws m i)\<lparr>ng_pos := None\<rparr>) = ng_newline ((m i)\<lparr>ng_pos := None\<rparr>)"
    by (simp_all only: eq)
  then show "ng_visible (pack_wrap sz ws m i) = ng_visible (m i)"
    "ng_mhold (pack_wrap sz ws m i) = ng_mhold (m i)"
    "ng_newline (pack_wrap sz ws m i) = ng_newline (m i)" by simp_all
qed

lemma pack_wrap_ok:
  assumes "\<forall>j\<in>set ws. ng_visible (m j) \<and> (ng_mhold (m j) \<longrightarrow> \<not> ng_newline (m j)) \<and>
             (ng_pos (m j) = None \<and> \<not> ng_packed (m j) \<longleftrightarrow> ng_newline (m j))"
  shows "\<forall>j\<in>set ws. ng_widget_ok (pack_wrap sz ws m j)"
  using assms pack_wrap_loop_pos [of "fst sz" "(0, 0, 0)" ws m]
  by (simp add: ng_widget_ok_def pack_wrap_flags) (simp add: pack_wrap_def)

lemma ng_add_wf:
  assumes wf: "ng_wf a m" and i: "i \<notin> set (ng_widgets a)" and w: "ng_fresh_ok w"
    and add: "ng_add i w a m = Inr (a', m')"
  shows "ng_wf a' m'"
proof -
  let ?ws = "rev (i # ng_widgets a)" and ?m = "m(i := w)" and ?sz = "pk_size (ng_packer a)"
  have a': "ng_widgets a' = i # ng_widgets a" "packtype (ng_packer a') = ''wrap''"
    and m': "m' = pack_wrap ?sz ?ws ?m"
    using ng_add_wrap [OF _ i add] wf by (auto simp: ng_wf_def)
  have "\<forall>j\<in>set ?ws. ng_visible (?m j) \<and> (ng_mhold (?m j) \<longrightarrow> \<not> ng_newline (?m j)) \<and>
          (ng_pos (?m j) = None \<and> \<not> ng_packed (?m j) \<longleftrightarrow> ng_newline (?m j))"
  proof
    fix j assume j: "j \<in> set ?ws"
    show "ng_visible (?m j) \<and> (ng_mhold (?m j) \<longrightarrow> \<not> ng_newline (?m j)) \<and>
          (ng_pos (?m j) = None \<and> \<not> ng_packed (?m j) \<longleftrightarrow> ng_newline (?m j))"
    proof (cases "j = i")
      case True
      then show ?thesis using w unfolding ng_fresh_ok_def ng_packed_def by (cases "ng_pos w") auto
    next
      case False
      then have "ng_widget_ok (m j)" using wf j by (simp add: ng_wf_def)
      then show ?thesis using False unfolding ng_widget_ok_def ng_packed_def by auto
    qed
  qed
  then have ok: "\<forall>j\<in>set ?ws. ng_widget_ok (pack_wrap ?sz ?ws ?m j)" by (rule pack_wrap_ok)
  have "set ?ws = set (ng_widgets a')" using a' by simp
  then show ?thesis using ok a'(2) unfolding m' ng_wf_def by simp
qed

lemma ng_label_fresh: "ng_fresh_ok ((ng_widget_new pos)\<lparr>ng_size := sz\<rparr>)"
  by (simp add: ng_fresh_ok_def ng_widget_new_def)

lemma ng_newline_fresh: "ng_fresh_ok ((ng_widget_new None)\<lparr>ng_size := (0, hgt), ng_newline := True\<rparr>)"
  by (simp add: ng_fresh_ok_def ng_widget_new_def)

lemma ng_wf_same_set:
  "ng_wf a m \<Longrightarrow> set (ng_widgets a') = set (ng_widgets a) \<Longrightarrow> ng_packer a' = ng_packer a \<Longrightarrow> ng_wf a' m"
  by (simp add: ng_wf_def)

lemma ng_wf_dispatch:
  assumes wf: "ng_wf a m" and d: "ng_dispatch h (ng_widgets a) m = Inr (b, m', sigs)"
    and pres: "\<And>i w b w' s. ng_widget_ok w \<Longrightarrow> h i w = Inr (b, w', s) \<Longrightarrow> ng_widget_ok w'"
  shows "ng_wf a m'"
  using ng_dispatch_pres [where P = ng_widget_ok, OF pres d] wf by (simp add: ng_wf_def)

lemma ng_live_wf: "ng_live a m \<Longrightarrow> ng_wf a m"
proof (induction rule: ng_live.induct)
  case (init scr m)
  then show ?case by (simp add: ng_wf_def ng_app_new_def)
next
  case (label a m i sz pos a' m')
  from label.hyps(3) have "ng_add i ((ng_widget_new pos)\<lparr>ng_size := sz\<rparr>) a m = Inr (a', m')"
    by (simp only: label_new_def)
  from ng_add_wf [OF label.IH label.hyps(2) ng_label_fresh this] show ?case .
next
  case (newline a m i hgt a' m')
  from newline.hyps(3)
  have "ng_add i ((ng_widget_new None)\<lparr>ng_size := (0, hgt), ng_newline := True\<rparr>) a m = Inr (a', m')"
    by (simp only: newline_new_def)
  from ng_add_wf [OF newline.IH newline.hyps(2) ng_newline_fresh this] show ?case .
next
  case (top a m i)
  have "set (ng_widgets (ng_set_top_widget i a)) = set (ng_widgets a)"
    using arg_cong [OF top_mset [OF top.hyps(2)], of set_mset] by simp
  then show ?case by (intro ng_wf_same_set [OF top.IH]) (simp_all add: top_packer)
next
  case (rotate a m a')
  obtain w rest r where ws: "ng_widgets a = w # rest"
      and r: "rotate_until (\<lambda>i. ng_visible (m i)) (rest @ [w]) = Some r" and a': "a' = a\<lparr>ng_widgets := r\<rparr>"
    using rotate.hyps(2) by (auto simp: ng_next_widget_def split: list.splits)
  have "set r = set (ng_widgets a)" using arg_cong [OF rotate_until_mset [OF r], of set_mset] ws by simp
  then show ?case by (intro ng_wf_same_set [OF rotate.IH]) (simp_all add: a')
next
  case (down a m name p b m' sigs)
  show ?case
    by (rule ng_wf_dispatch [OF down.IH down.hyps(2) [unfolded ng_app_mousedown_def]]) (rule ng_handlers_ok(1))
next
  case (up a m name p b m' sigs)
  show ?case
    by (rule ng_wf_dispatch [OF up.IH up.hyps(2) [unfolded ng_app_mouseup_def]]) (rule ng_handlers_ok(2))
next
  case (hold a m name p b m' sigs)
  show ?case
    by (rule ng_wf_dispatch [OF hold.IH hold.hyps(2) [unfolded ng_app_mousehold_def]]) (rule ng_handlers_ok(3))
next
  case (keydown a m can k s b m' sigs)
  show ?case
    by (rule ng_wf_dispatch [OF keydown.IH keydown.hyps(2) [unfolded ng_app_keydown_def]]) (rule ng_handlers_ok(4))
next
  case (keyhold a m can k s t b m' sigs)
  show ?case
    by (rule ng_wf_dispatch [OF keyhold.IH keyhold.hyps(2) [unfolded ng_app_keyhold_def]]) (rule ng_handlers_ok(5))
next
  case (keyup a m can k s b m' sigs)
  show ?case
    by (rule ng_wf_dispatch [OF keyup.IH keyup.hyps(2) [unfolded ng_app_keyup_def]]) (rule ng_handlers_ok(6))
qed

section \<open>Handlers of well-formed widgets\<close>

lemma ng_dispatch_Inr:
  assumes keep: "\<And>i w w' s. h i w = Inr (False, w', s) \<Longrightarrow> w' = w"
  shows "\<forall>i\<in>set ws. ng_visible (m i) \<longrightarrow> (\<exists>r. h i (m i) = Inr r) \<Longrightarrow> \<exists>r. ng_dispatch h ws m = Inr r"
proof (induction ws)
  case Nil
  then show ?case by (simp only: ng_dispatch.simps) blast
next
  case (Cons i "is")
  show ?case
  proof (cases "ng_visible (m i)")
    case vis: True
    then obtain b w s where hi: "h i (m i) = Inr (b, w, s)" using Cons.prems by fastforce
    show ?thesis
    proof (cases b)
      case True
      then show ?thesis using vis hi by (auto simp: Let_def)
    next
      case False
      then have "w = m i" using keep [of i "m i" w s] hi by simp
      moreover obtain r where "ng_dispatch h is m = Inr r" using Cons.IH Cons.prems by auto
      ultimately show ?thesis using vis hi False by (cases r) (auto simp: Let_def)
    qed
  next
    case False
    then show ?thesis using Cons by simp
  qed
qed

lemma ng_widget_release_Inr:
  "ng_widget_ok w \<Longrightarrow> (\<exists>r. ng_mouseup name p w = Inr r) \<and> (\<exists>r. ng_mousehold name p w = Inr r)"
  by (auto simp: ng_widget_ok_def ng_mouseup_def ng_mousehold_def ng_collidem_def case_prod_beta
      split: option.splits)

lemma ng_mousedown_left_TypeError:
  "ng_widget_ok w \<Longrightarrow> ng_mousedown ''left'' p w = Inl TypeError \<longleftrightarrow> ng_newline w"
  by (auto simp: ng_widget_ok_def ng_mousedown_def ng_collidem_def res_bind_eq_Inl case_prod_beta
      split: option.splits)

lemma ng_mousedown_left_reject:
  "(\<exists>s. ng_mousedown ''left'' p w = Inr (False, w, s)) \<longleftrightarrow> ng_collidem p w = Inr False"
  by (cases "ng_collidem p w") (auto simp: ng_mousedown_def)

lemma ng_widget_render_ok:
  "ng_widget_ok w \<Longrightarrow> ng_widget_render (0, 0) w = Inr (if ng_newline w then None else ng_pos w)"
  by (auto simp: ng_widget_ok_def ng_widget_render_def ng_has_image_def split: option.splits)

end
