(* ===== verification/Font.thy ===== *)
theory Font
  imports Gui "HOL-Library.AList"
begin

text \<open>
  The text module \<open>src/trunk/pyggel/font.py\<close>. \<open>Font\<close> renders a text to one image;
  \<open>MEFont\<close> keeps one glyph image per acceptable character and a table of "smiley"
  images, and \<open>MEFontImage\<close> lays a text out as lines of glyph copies. Images
  (\<open>image.Image\<close>, not among the sources) are records of their size, position and
  colour; pygame's text rendering is a parameter giving the size of a rendered string.
  The smiley scan is a \<open>partial_function (option)\<close>: its \<open>while 1\<close> loop does not end
  for an empty smiley name, and the lemmas show that it ends for every other name.
  \<open>MEFontImage.render\<close> is the list of GL calls it makes.
\<close>

type_synonym rgba = "real \<times> real \<times> real \<times> real"

section \<open>Font\<close>

text \<open>\<open>str.split(d)\<close>: the pieces between occurrences of \<open>d\<close>, at least one.\<close>

fun py_split :: "char \<Rightarrow> string \<Rightarrow> string list" where
  "py_split d [] = [[]]"
| "py_split d (c # cs) = (if c = d then [] # py_split d cs else (let r = py_split d cs in (c # hd r) # tl r))"

text \<open>
  \<open>Font.make_text_image\<close> (lines 28--54): a text with newlines is split into lines, each
  rendered; the image is as wide as the widest line and \<open>h\<close> (the font height) per line,
  and line \<open>k\<close> is blitted at \<open>(0, k * h)\<close>. A text without newline is rendered
  directly. \<open>rsize\<close> is the size of a rendered line.
\<close>

definition font_text_layout :: "(string \<Rightarrow> int \<times> int) \<Rightarrow> int \<Rightarrow> string \<Rightarrow> (int \<times> int) \<times> (int \<times> int) list" where
  "font_text_layout rsize h text =
     (if CHR 0x0A \<in> set text then
        (let ls = py_split CHR 0x0A text;
             w = foldl (\<lambda>w l. max w (fst (rsize l))) 0 ls
         in ((w, h * int (length ls)), map (\<lambda>k. (0, int k * h)) [0..<length ls]))
      else (rsize text, [(0, 0)]))"

section \<open>Images and the MEFont\<close>

text \<open>\<open>image.Image\<close>: its size (\<open>get_width\<close>, \<open>get_height\<close>), \<open>pos\<close> and \<open>colorize\<close>.\<close>

record glyph =
  gl_size :: "int \<times> int"
  gl_pos :: "int \<times> int"
  gl_colorize :: rgba

definition image_new :: "int \<times> int \<Rightarrow> glyph" where
  "image_new sz = \<lparr>gl_size = sz, gl_pos = (0, 0), gl_colorize = (1, 1, 1, 1)\<rparr>"

text \<open>
  \<open>MEFont\<close>: the smileys (a dict, here in its iteration order), the glyph images of the
  acceptable characters (a dict, \<open>None\<close> outside it) and the acceptable string.
\<close>

record mefont =
  me_smileys :: "(string \<times> glyph) list"
  me_glyphs :: "char \<Rightarrow> glyph option"
  me_acceptable :: string

text \<open>\<open>MEFont.__init__\<close> and \<open>_load_font\<close> (lines 241--273): one image per acceptable character.\<close>

definition mefont_new :: "(char \<Rightarrow> int \<times> int) \<Rightarrow> mefont" where
  "mefont_new rsize =
     \<lparr>me_smileys = [], me_glyphs = (\<lambda>c. if c \<in> set acceptable then Some (image_new (rsize c)) else None),
      me_acceptable = acceptable\<rparr>"

text \<open>\<open>add_smiley\<close> (lines 255--263): \<open>self.smileys[name] = smiley\<close>.\<close>

definition add_smiley :: "string \<Rightarrow> glyph \<Rightarrow> mefont \<Rightarrow> mefont" where
  "add_smiley name img f = f\<lparr>me_smileys := AList.update name img (me_smileys f)\<rparr>"

section \<open>Glyphs and smileys\<close>

text \<open>
  \<open>str.find(s, start)\<close>: the least index \<open>i \<ge> start\<close> where \<open>s\<close> occurs, or -1; an empty
  \<open>s\<close> occurs at every index up to \<open>len(text)\<close>.
\<close>

definition py_find :: "string \<Rightarrow> string \<Rightarrow> nat \<Rightarrow> int" where
  "py_find s t st =
     (if length t < st then -1
      else case filter (\<lambda>i. take (length s) (drop i t) = s) [st..<Suc (length t)] of
             [] \<Rightarrow> -1
           | i # _ \<Rightarrow> int i)"

text \<open>
  The \<open>while 1\<close> loop of lines 159--166: every occurrence of the smiley \<open>s\<close>, left to
  right and not overlapping, is recorded in \<open>smiley_positions\<close>.
\<close>

partial_function (option) smiley_scan :: "string \<Rightarrow> string \<Rightarrow> nat \<Rightarrow> (nat \<rightharpoonup> string) \<Rightarrow> (nat \<rightharpoonup> string) option" where
  "smiley_scan s t lst sp =
     (let n = py_find s t lst
      in if 0 \<le> n then smiley_scan s t (nat n + length s) (sp(nat n \<mapsto> s)) else Some sp)"

fun smiley_positions :: "(string \<times> glyph) list \<Rightarrow> string \<Rightarrow> (nat \<rightharpoonup> string) \<Rightarrow> (nat \<rightharpoonup> string) option" where
  "smiley_positions [] t sp = Some sp"
| "smiley_positions ((s, _) # ss) t sp = Option.bind (smiley_scan s t 0 sp) (\<lambda>sp'. smiley_positions ss t sp')"

text \<open>
  The glyph list: a newline, or a copy of a glyph or smiley image.
\<close>

datatype gitem = GNewline | GImg glyph

text \<open>
  The \<open>for\<close> loop of lines 168--179: a smiley starting at the current index is copied and
  the rest of its name skipped; a character without a glyph raises KeyError.
\<close>

fun make_glyphs :: "mefont \<Rightarrow> (nat \<rightharpoonup> string) \<Rightarrow> int \<Rightarrow> nat \<Rightarrow> string \<Rightarrow> gitem list result" where
  "make_glyphs f sp skip num [] = Inr []"
| "make_glyphs f sp skip num (c # cs) =
     (if skip \<noteq> 0 then make_glyphs f sp (skip - 1) (Suc num) cs
      else case sp num of
        Some a \<Rightarrow>
          (case map_of (me_smileys f) a of
             None \<Rightarrow> Inl KeyError
           | Some img \<Rightarrow> res_bind (make_glyphs f sp (int (length a) - 1) (Suc num) cs) (\<lambda>g. Inr (GImg img # g)))
      | None \<Rightarrow>
          if c = CHR 0x0A then res_bind (make_glyphs f sp 0 (Suc num) cs) (\<lambda>g. Inr (GNewline # g))
          else (case me_glyphs f c of
                  None \<Rightarrow> Inl KeyError
                | Some img \<Rightarrow> res_bind (make_glyphs f sp 0 (Suc num) cs) (\<lambda>g. Inr (GImg img # g))))"

definition make_list_of_glyphs :: "mefont \<Rightarrow> string \<Rightarrow> gitem list result option" where
  "make_list_of_glyphs f t =
     map_option (\<lambda>sp. make_glyphs f sp 0 0 t) (smiley_positions (me_smileys f) t Map.empty)"

section \<open>MEFontImage\<close>

text \<open>
  \<open>set_text\<close>, lines 110--121: the glyph list is cut at newlines into lines, each with
  the height of its tallest glyph (0 for an empty line).
\<close>

fun split_lines :: "gitem list \<Rightarrow> glyph list \<Rightarrow> int \<Rightarrow> (glyph list \<times> int) list" where
  "split_lines [] cur h = [(cur, h)]"
| "split_lines (GNewline # is) cur h = (cur, h) # split_lines is [] 0"
| "split_lines (GImg g # is) cur h = split_lines is (cur @ [g]) (max h (snd (gl_size g)))"

text \<open>\<open>compile_glyphs\<close> (lines 125--138): each glyph right of the previous one, each line below.\<close>

fun compile_line :: "int \<times> int \<Rightarrow> int \<Rightarrow> int \<Rightarrow> glyph list \<Rightarrow> glyph list" where
  "compile_line p indent dd [] = []"
| "compile_line p indent dd (g # gs) =
     g\<lparr>gl_pos := (fst p + indent, snd p + dd)\<rparr> # compile_line p (indent + fst (gl_size g)) dd gs"

fun compile_lines :: "int \<times> int \<Rightarrow> int \<Rightarrow> (glyph list \<times> int) list \<Rightarrow> (glyph list \<times> int) list" where
  "compile_lines p dd [] = []"
| "compile_lines p dd ((l, h) # ls) = (compile_line p 0 dd l, h) # compile_lines p (dd + h) ls"

text \<open>
  The state of an \<open>MEFontImage\<close>. Its \<open>_comp_glyphs\<close> are the glyphs of its lines in
  order (the same objects, rebuilt by every \<open>compile_glyphs\<close>), so they are not stored.
\<close>

record mfi =
  mfi_font :: mefont
  mfi_text :: string
  mfi_lines :: "(glyph list \<times> int) list"
  mfi_pos :: "int \<times> int"
  mfi_colorize :: rgba
  mfi_rotation :: "real \<times> real \<times> real"
  mfi_scale :: real
  mfi_visible :: bool

definition comp_glyphs :: "mfi \<Rightarrow> glyph list" where
  "comp_glyphs m = concat (map fst (mfi_lines m))"

text \<open>\<open>set_col\<close> (lines 147--150) recolours the compiled glyphs; \<open>set_pos\<close> (141--143) recompiles.\<close>

definition set_col :: "rgba \<Rightarrow> mfi \<Rightarrow> mfi" where
  "set_col c m =
     m\<lparr>mfi_colorize := c, mfi_lines := map (\<lambda>(l, h). (map (\<lambda>g. g\<lparr>gl_colorize := c\<rparr>) l, h)) (mfi_lines m)\<rparr>"

definition set_pos :: "int \<times> int \<Rightarrow> mfi \<Rightarrow> mfi" where
  "set_pos p m = m\<lparr>mfi_pos := p, mfi_lines := compile_lines p 0 (mfi_lines m)\<rparr>"

text \<open>
  \<open>set_text\<close> (lines 107--123). \<open>None\<close> is the endless smiley scan; a KeyError leaves the
  object half updated (\<open>_text\<close> already set), which the error value does not carry.
\<close>

definition set_text :: "string \<Rightarrow> mfi \<Rightarrow> mfi result option" where
  "set_text t m =
     map_option (\<lambda>r. res_bind r (\<lambda>gs.
        Inr (m\<lparr>mfi_text := t, mfi_lines := compile_lines (mfi_pos m) 0 (split_lines gs [] 0)\<rparr>)))
       (make_list_of_glyphs (mfi_font m) t)"

text \<open>
  \<open>MEFontImage.__init__\<close> (lines 86--103), called by \<open>MEFont.make_text_image\<close>: the
  colour is set while there are no glyphs yet, then the position, then the text.
\<close>

definition mfi_new :: "mefont \<Rightarrow> string \<Rightarrow> rgba \<Rightarrow> mfi result option" where
  "mfi_new f t c =
     set_text t (set_pos (0, 0) (set_col c
       \<lparr>mfi_font = f, mfi_text = [], mfi_lines = [], mfi_pos = (0, 0), mfi_colorize = (1, 1, 1, 1),
        mfi_rotation = (0, 0, 0), mfi_scale = 1, mfi_visible = True\<rparr>))"

definition line_width :: "glyph list \<Rightarrow> int" where
  "line_width l = sum_list (map (\<lambda>g. fst (gl_size g)) l)"

definition get_width :: "mfi \<Rightarrow> int" where
  "get_width m = foldl (\<lambda>w (l, h). max w (line_width l)) 0 (mfi_lines m)"

definition get_height :: "mfi \<Rightarrow> int" where
  "get_height m = sum_list (map snd (mfi_lines m))"

definition get_size :: "mfi \<Rightarrow> int \<times> int" where
  "get_size m = (get_width m, get_height m)"

text \<open>\<open>MEFontImage.copy\<close> (lines 201--208): a new image of the same font, text and colour.\<close>

definition mfi_copy :: "mfi \<Rightarrow> mfi result option" where
  "mfi_copy m =
     map_option (\<lambda>r. res_bind r (\<lambda>n. Inr ((set_pos (mfi_pos m) n)\<lparr>mfi_rotation := mfi_rotation m,
        mfi_scale := mfi_scale m, mfi_visible := mfi_visible m\<rparr>)))
       (mfi_new (mfi_font m) (mfi_text m) (mfi_colorize m))"

text \<open>
  \<open>MEFontImage.render\<close> (lines 182--199) as the GL calls it makes: the rotation about
  the three axes, the scale (\<open>self.scale[0]\<close> of a number raises TypeError, which the
  bare \<open>except\<close> catches, so a number scales x and y uniformly), then every compiled
  glyph, each drawn at its own position.
\<close>

datatype font_call = FPush | FRotate real real real real | FScale real real real | FGlyph glyph | FPop

definition mfi_render :: "mfi \<Rightarrow> font_call list" where
  "mfi_render m =
     (case mfi_rotation m of (a, b, c) \<Rightarrow>
        [FPush, FRotate a 1 0 0, FRotate b 0 1 0, FRotate c 0 0 1, FScale (mfi_scale m) (mfi_scale m) 1] @
        map FGlyph (comp_glyphs m) @ [FPop])"

section \<open>Lemmas\<close>

lemma py_find_bounds:
  assumes "0 \<le> py_find s t st"
  shows "st \<le> nat (py_find s t st) \<and> nat (py_find s t st) \<le> length t"
proof -
  have le: "st \<le> length t" using assms by (auto simp: py_find_def split: if_splits)
  obtain i js where f: "filter (\<lambda>i. take (length s) (drop i t) = s) [st..<Suc (length t)] = i # js"
    using assms le by (auto simp: py_find_def split: list.splits)
  then have "i \<in> set [st..<Suc (length t)]" by (metis filter_is_subset list.set_intros(1) subsetD)
  moreover have "py_find s t st = int i" using le by (simp add: py_find_def f del: upt_Suc)
  ultimately show ?thesis by auto
qed

lemma py_find_empty: "st \<le> length t \<Longrightarrow> py_find [] t st = int st"
  by (simp add: py_find_def upt_conv_Cons del: upt_Suc)

lemma smiley_scan_Some:
  "s \<noteq> [] \<Longrightarrow> \<exists>r. smiley_scan s t lst sp = Some r"
proof (induction "Suc (length t) - lst" arbitrary: lst sp rule: less_induct)
  case less
  show ?case
  proof (cases "0 \<le> py_find s t lst")
    case False
    then show ?thesis by (simp add: smiley_scan.simps)
  next
    case True
    then have b: "lst \<le> nat (py_find s t lst)" "nat (py_find s t lst) \<le> length t" by (simp_all add: py_find_bounds)
    have "Suc (length t) - (nat (py_find s t lst) + length s) < Suc (length t) - lst"
      using b less.prems by (cases s) auto
    then obtain r where "smiley_scan s t (nat (py_find s t lst) + length s) (sp(nat (py_find s t lst) \<mapsto> s)) = Some r"
      using less.hyps less.prems by blast
    then show ?thesis using True by (simp add: smiley_scan.simps [of s t lst])
  qed
qed

lemma smiley_scan_empty:
  assumes ret: "smiley_scan [] t lst sp = Some r"
  shows "length t < lst"
proof -
  have "s = [] \<longrightarrow> length t < lst"
    if "smiley_scan s t lst sp = Some r" for s lst sp r
  proof (rule smiley_scan.raw_induct [where P = "\<lambda>s t lst sp r. s = [] \<longrightarrow> length t < lst", OF _ that])
    fix f s t lst sp r
    assume IH: "\<And>s t lst sp r. f s t lst sp = Some r \<Longrightarrow> s = [] \<longrightarrow> length t < lst"
      and eq: "(let n = py_find s t lst in if 0 \<le> n then f s t (nat n + length s) (sp(nat n \<mapsto> s)) else Some sp) = Some r"
    show "s = [] \<longrightarrow> length t < lst"
    proof
      assume s: "s = []"
      show "length t < lst"
      proof (rule ccontr)
        assume "\<not> length t < lst"
        then have "py_find s t lst = int lst" using s by (simp add: py_find_empty)
        then have "f s t lst (sp(lst \<mapsto> s)) = Some r" using eq s by simp
        then show False using IH s \<open>\<not> length t < lst\<close> by blast
      qed
    qed
  qed
  then show ?thesis using ret by blast
qed

lemma smiley_scan_returns:
  "(\<exists>r. smiley_scan s t lst sp = Some r) \<longleftrightarrow> s \<noteq> [] \<or> length t < lst"
proof
  assume "\<exists>r. smiley_scan s t lst sp = Some r"
  then show "s \<noteq> [] \<or> length t < lst" using smiley_scan_empty by blast
next
  assume "s \<noteq> [] \<or> length t < lst"
  then show "\<exists>r. smiley_scan s t lst sp = Some r"
  proof
    assume "length t < lst"
    then show ?thesis by (simp add: smiley_scan.simps py_find_def)
  qed (rule smiley_scan_Some)
qed

lemma make_glyphs_sources:
  "make_glyphs f sp skip num t = Inr gs \<Longrightarrow> GImg g \<in> set gs \<Longrightarrow>
   g \<in> ran (me_glyphs f) \<union> snd ` set (me_smileys f)"
proof (induction f sp skip num t arbitrary: gs rule: make_glyphs.induct)
  case (1 f sp skip num)
  then show ?case by simp
next
  case (2 f sp skip num c cs)
  show ?case
  proof (cases "skip \<noteq> 0")
    case True
    then show ?thesis using 2 by simp
  next
    case False
    show ?thesis
    proof (cases "sp num")
      case (Some a)
      then obtain img r where img: "map_of (me_smileys f) a = Some img"
          and r: "make_glyphs f sp (int (length a) - 1) (Suc num) cs = Inr r" and gs: "gs = GImg img # r"
        using "2.prems"(1) False by (auto simp: res_bind_eq_Inr split: option.splits)
      have "img \<in> snd ` set (me_smileys f)" using map_of_SomeD [OF img] by force
      then show ?thesis using "2.IH"(4) [OF False Some img r] "2.prems"(2) gs by auto
    next
      case None
      show ?thesis
      proof (cases "c = CHR 0x0A")
        case True
        then obtain r where r: "make_glyphs f sp 0 (Suc num) cs = Inr r" and gs: "gs = GNewline # r"
          using "2.prems"(1) False None by (auto simp: res_bind_eq_Inr)
        then show ?thesis using "2.IH"(2) [OF False None True r] "2.prems"(2) by auto
      next
        case nl: False
        then obtain img r where img: "me_glyphs f c = Some img"
            and r: "make_glyphs f sp 0 (Suc num) cs = Inr r" and gs: "gs = GImg img # r"
          using "2.prems"(1) False None by (auto simp: res_bind_eq_Inr split: option.splits)
        have "img \<in> ran (me_glyphs f)" using img by (auto simp: ran_def)
        then show ?thesis using "2.IH"(3) [OF False None nl img r] "2.prems"(2) gs by auto
      qed
    qed
  qed
qed

lemma split_lines_glyphs:
  "g \<in> set (concat (map fst (split_lines gs cur h))) \<Longrightarrow> g \<in> set cur \<or> GImg g \<in> set gs"
  by (induction gs cur h rule: split_lines.induct) auto

lemma compile_line_glyphs:
  "g \<in> set (compile_line p indent dd l) \<Longrightarrow> \<exists>g'\<in>set l. g = g'\<lparr>gl_pos := gl_pos g\<rparr>"
  by (induction p indent dd l rule: compile_line.induct) auto

lemma compile_lines_glyphs:
  "g \<in> set (concat (map fst (compile_lines p dd ls))) \<Longrightarrow>
   \<exists>g'\<in>set (concat (map fst ls)). g = g'\<lparr>gl_pos := gl_pos g\<rparr>"
  by (induction p dd ls rule: compile_lines.induct) (auto dest: compile_line_glyphs)

lemma mfi_new_colours:
  assumes "mfi_new f t c = Some (Inr m)"
  shows "mfi_colorize m = c \<and>
         (\<forall>g\<in>set (comp_glyphs m). \<exists>g'\<in>ran (me_glyphs f) \<union> snd ` set (me_smileys f).
            gl_colorize g = gl_colorize g')"
proof -
  obtain gs where gs: "make_list_of_glyphs f t = Some (Inr gs)"
    and m: "m = (set_pos (0, 0) (set_col c \<lparr>mfi_font = f, mfi_text = [], mfi_lines = [], mfi_pos = (0, 0),
              mfi_colorize = (1, 1, 1, 1), mfi_rotation = (0, 0, 0), mfi_scale = 1, mfi_visible = True\<rparr>))
              \<lparr>mfi_text := t, mfi_lines := compile_lines (0, 0) 0 (split_lines gs [] 0)\<rparr>"
    using assms by (auto simp: mfi_new_def set_text_def set_pos_def set_col_def res_bind_eq_Inr)
  obtain sp where mg: "make_glyphs f sp 0 0 t = Inr gs"
    using gs by (auto simp: make_list_of_glyphs_def)
  have "\<exists>g'\<in>ran (me_glyphs f) \<union> snd ` set (me_smileys f). gl_colorize g = gl_colorize g'"
    if "g \<in> set (comp_glyphs m)" for g
  proof -
    have ml: "mfi_lines m = compile_lines (0, 0) 0 (split_lines gs [] 0)" using m by simp
    have "g \<in> set (concat (map fst (compile_lines (0, 0) 0 (split_lines gs [] 0))))"
      using that ml by (simp add: comp_glyphs_def)
    then obtain g1 where g1: "g1 \<in> set (concat (map fst (split_lines gs [] 0)))" "g = g1\<lparr>gl_pos := gl_pos g\<rparr>"
      using compile_lines_glyphs by blast
    have "GImg g1 \<in> set gs" using split_lines_glyphs [OF g1(1)] by simp
    then have "g1 \<in> ran (me_glyphs f) \<union> snd ` set (me_smileys f)" by (rule make_glyphs_sources [OF mg])
    moreover have "gl_colorize g = gl_colorize g1" using g1(2) by (metis glyph.select_convs(3) glyph.surjective glyph.update_convs(2))
    ultimately show ?thesis by blast
  qed
  moreover have "mfi_colorize m = c" using m by (simp add: set_pos_def set_col_def)
  ultimately show ?thesis by blast
qed

lemma text_colour_ignored:
  "mfi_new (mefont_new rsize) t c = Some (Inr m) \<Longrightarrow>
   mfi_colorize m = c \<and> (\<forall>g\<in>set (comp_glyphs m). gl_colorize g = (1, 1, 1, 1))"
  using mfi_new_colours [of "mefont_new rsize" t c m]
  by (auto simp: mefont_new_def ran_def image_new_def split: if_splits)


text \<open>\<open>set_col\<close> changes only the colour of what \<open>render\<close> draws: the same glyphs, at the
  same positions and sizes, in the same order.\<close>

lemma set_col_render:
  "map (\<lambda>c. case c of FGlyph g \<Rightarrow> FGlyph (g\<lparr>gl_colorize := col\<rparr>) | _ \<Rightarrow> c) (mfi_render m) = mfi_render (set_col col m)"
  by (auto simp: mfi_render_def set_col_def comp_glyphs_def map_concat comp_def case_prod_beta split: prod.splits)

end
