(* ===== verification/Data.thy ===== *)
theory Data
  imports View
begin

text \<open>
  The OpenGL data module, in its two versions: \<open>src/trunk/pyggel/data.py\<close> and
  \<open>src/branches/pyggel-pyglet/pyggel/data.py\<close>. A texture is its source, its
  \<open>flip\<close> flag and its size; an image is described by its pixel size. The texture
  size is computed by \<open>_get_next_biggest\<close>, whose two \<open>while\<close> loops double a
  width from 16; they are a \<open>partial_function (option)\<close>, and that they always return
  is a theorem. The vertex array keeps its three \<open>numpy\<close> arrays of optional numbers;
  its render flattens them, replacing \<open>None\<close> by \<open>0.0\<close>.
\<close>

section \<open>Texture sizes\<close>

text \<open>\<open>while nw < x: nw *= 2\<close>.\<close>

partial_function (option) double_until :: "int \<Rightarrow> int \<Rightarrow> int option" where
  "double_until n x = (if n < x then double_until (n * 2) x else Some n)"

definition get_next_biggest :: "int \<Rightarrow> int \<Rightarrow> (int \<times> int) option" where
  "get_next_biggest x y =
     (case double_until 16 x of
        None \<Rightarrow> None
      | Some nw \<Rightarrow> (case double_until 16 y of None \<Rightarrow> None | Some nh \<Rightarrow> Some (nw, nh)))"

section \<open>Textures\<close>

text \<open>The source of a texture: a file name, or a surface given by its size.\<close>

datatype tex_source = TexFile string "int \<times> int" | TexSurface "int \<times> int"

record texture =
  tex_filename :: "string option"
  tex_flip :: int
  tex_size :: "int \<times> int"

definition image_size :: "tex_source \<Rightarrow> int \<times> int" where
  "image_size src = (case src of TexFile f sz \<Rightarrow> sz | TexSurface sz \<Rightarrow> sz)"

text \<open>\<open>_compile\<close>: the texture takes the next power-of-two size of the image.\<close>

definition tex_compile :: "int \<times> int \<Rightarrow> texture \<Rightarrow> texture option" where
  "tex_compile sz t =
     (case get_next_biggest (fst sz) (snd sz) of None \<Rightarrow> None | Some s \<Rightarrow> Some (t\<lparr>tex_size := s\<rparr>))"

text \<open>\<open>Texture.__init__\<close> of the pyglet branch: \<open>self.flip = flip\<close>.\<close>

definition texture_new :: "tex_source \<Rightarrow> int \<Rightarrow> texture option" where
  "texture_new src flip =
     (let t = \<lparr>tex_filename = (case src of TexFile f sz \<Rightarrow> Some f | TexSurface sz \<Rightarrow> None),
               tex_flip = flip, tex_size = (0, 0)\<rparr>
      in tex_compile (image_size src) t)"

text \<open>\<open>Texture.__init__\<close> of trunk: \<open>self.flip = 0\<close>, whatever \<open>flip\<close> was passed.\<close>

definition texture_new_trunk :: "tex_source \<Rightarrow> int \<Rightarrow> texture option" where
  "texture_new_trunk src flip =
     (let t = \<lparr>tex_filename = (case src of TexFile f sz \<Rightarrow> Some f | TexSurface sz \<Rightarrow> None),
               tex_flip = 0, tex_size = (0, 0)\<rparr>
      in tex_compile (image_size src) t)"

text \<open>
  \<open>create_empty_texture(size, color)\<close>: a surface of that size filled with the colour
  scaled to 0..255 (alpha 1 for a 3-tuple), turned into a texture.
\<close>

definition create_empty_texture :: "int \<times> int \<Rightarrow> color_arg \<Rightarrow> (texture \<times> color) option" where
  "create_empty_texture sz col =
     (let (r, g, b, a) = (case col of RGBA r g b a \<Rightarrow> (r, g, b, a) | RGB r g b \<Rightarrow> (r, g, b, 1))
      in case texture_new (TexSurface sz) 0 of
           None \<Rightarrow> None
         | Some t \<Rightarrow> Some (t, (r * 255, g * 255, b * 255, a * 255)))"

section \<open>Vertex arrays\<close>

datatype render_type = GL_QUADS | GL_TRIANGLES | GL_POLYGON | GL_OTHER nat

record vertex_array =
  va_render_type :: render_type
  va_max_size :: nat
  va_verts :: "(real option \<times> real option \<times> real option) list"
  va_colors :: "(real option \<times> real option \<times> real option \<times> real option) list"
  va_texcs :: "(real option \<times> real option) list"

text \<open>\<open>VertexArray.__init__\<close>: \<open>numpy.empty(..., dtype=object)\<close> holds \<open>None\<close> everywhere.\<close>

definition vertex_array_new :: "render_type option \<Rightarrow> nat \<Rightarrow> vertex_array" where
  "vertex_array_new rt n =
     \<lparr>va_render_type = (case rt of None \<Rightarrow> GL_QUADS | Some r \<Rightarrow> r), va_max_size = n,
      va_verts = replicate n (None, None, None), va_colors = replicate n (None, None, None, None),
      va_texcs = replicate n (None, None)\<rparr>"

definition or_zero :: "real option \<Rightarrow> real" where
  "or_zero a = (case a of None \<Rightarrow> 0 | Some v \<Rightarrow> v)"

text \<open>The three flattening loops of \<open>render\<close> (lines 140--174).\<close>

definition flat_verts :: "vertex_array \<Rightarrow> real list" where
  "flat_verts va = concat (map (\<lambda>(a, b, c). [or_zero a, or_zero b, or_zero c]) (va_verts va))"

definition flat_colors :: "vertex_array \<Rightarrow> real list" where
  "flat_colors va = concat (map (\<lambda>(a, b, c, d). [or_zero a, or_zero b, or_zero c, or_zero d]) (va_colors va))"

definition flat_texcs :: "vertex_array \<Rightarrow> real list" where
  "flat_texcs va = concat (map (\<lambda>(a, b). [or_zero a, or_zero b]) (va_texcs va))"

text \<open>
  \<open>render\<close>: the assertion that the three arrays have one length, then the three
  flattened buffers and the number of vertices \<open>glDrawArrays\<close> is given
  (\<open>max_size\<close>).
\<close>

definition va_render :: "vertex_array \<Rightarrow> (real list \<times> real list \<times> real list \<times> nat) option" where
  "va_render va =
     (if length (va_verts va) = length (va_colors va) \<and> length (va_colors va) = length (va_texcs va)
      then Some (flat_verts va, flat_colors va, flat_texcs va, va_max_size va)
      else None)"

section \<open>Lemmas\<close>

lemma double_until_step:
  "0 < n \<Longrightarrow> \<exists>k. double_until n x = Some (n * 2 ^ k) \<and> x \<le> n * 2 ^ k \<and> (k = 0 \<or> n * 2 ^ (k - 1) < x)"
proof (induction "nat (x - n)" arbitrary: n rule: less_induct)
  case less
  show ?case
  proof (cases "n < x")
    case False
    then show ?thesis by (auto simp: double_until.simps intro: exI [of _ 0])
  next
    case True
    have "nat (x - n * 2) < nat (x - n)" using True less.prems by simp
    then obtain k where k: "double_until (n * 2) x = Some (n * 2 * 2 ^ k)" "x \<le> n * 2 * 2 ^ k"
        "k = 0 \<or> n * 2 * 2 ^ (k - 1) < x"
      using less.hyps [of "n * 2"] less.prems by auto
    have "n * 2 * 2 ^ k = n * 2 ^ Suc k" by simp
    moreover have "n * 2 ^ (Suc k - 1) < x"
      using k(3) True by (cases k) (auto simp: mult.commute mult.left_commute)
    ultimately show ?thesis using k True by (auto simp: double_until.simps intro!: exI [of _ "Suc k"])
  qed
qed

lemma get_next_biggest_Some:
  "\<exists>nw nh. get_next_biggest x y = Some (nw, nh)"
  using double_until_step [of 16 x] double_until_step [of 16 y] by (auto simp: get_next_biggest_def)

lemma concat_replicate_rep:
  "concat (replicate n (replicate m a)) = replicate (m * n) a"
  by (induction n) (simp_all add: replicate_add [symmetric])

lemma create_empty_texture_default:
  "create_empty_texture (2, 2) (RGBA 1 1 1 1) =
     Some (\<lparr>tex_filename = None, tex_flip = 0, tex_size = (16, 16)\<rparr>, (255, 255, 255, 255)) \<and>
   create_empty_texture (2, 2) (RGB 1 0 0) =
     Some (\<lparr>tex_filename = None, tex_flip = 0, tex_size = (16, 16)\<rparr>, (255, 0, 0, 255))"
  by (simp add: create_empty_texture_def texture_new_def tex_compile_def get_next_biggest_def
      image_size_def double_until.simps)

lemma trunk_texture_drops_flip:
  "\<exists>t t'. texture_new src f = Some t \<and> texture_new_trunk src f = Some t' \<and>
          tex_flip t = f \<and> tex_flip t' = 0 \<and> tex_size t = tex_size t' \<and> tex_filename t = tex_filename t'"
  using get_next_biggest_Some [of "fst (image_size src)" "snd (image_size src)"]
  by (auto simp: texture_new_def texture_new_trunk_def tex_compile_def Let_def)

end
