(* ===== verification/Mesh.thy ===== *)
theory Mesh
  imports Prelude "HOL-Library.AList"
begin

text \<open>
  The Wavefront loaders of \<open>src/trunk/pyggel/mesh.py\<close>: \<open>MTL\<close> reads a material file
  into a dict of textures, \<open>OBJ\<close> reads vertices, normals, texture coordinates and faces
  and compiles one display list, \<open>BasicMesh\<close> holds the result. A file is its list of
  lines; a line is split into whitespace-separated tokens as \<open>str.split()\<close> does;
  \<open>int()\<close> and \<open>float()\<close> are parsers of decimal literals that raise ValueError.
  Indexing follows Python: a negative index counts from the end, so the index 0 of an
  OBJ face (\<open>svertices[0 - 1]\<close>) silently names the last vertex. The display list
  is the sequence of vertices it draws, each with its normal and texture coordinate.
  \<open>BasicMesh.copy\<close> and \<open>BasicMesh.render\<close> (as the GL calls it makes) close the theory.
\<close>

section \<open>Python helpers\<close>

definition is_space :: "char \<Rightarrow> bool" where
  "is_space c = (c \<in> {CHR '' '', CHR 0x09, CHR 0x0A, CHR 0x0B, CHR 0x0C, CHR 0x0D})"

text \<open>\<open>str.split()\<close>: the maximal runs of non-space characters.\<close>

fun py_words_acc :: "string \<Rightarrow> string \<Rightarrow> string list" where
  "py_words_acc cur [] = (if cur = [] then [] else [rev cur])"
| "py_words_acc cur (c # cs) =
     (if is_space c then (if cur = [] then py_words_acc [] cs else rev cur # py_words_acc [] cs)
      else py_words_acc (c # cur) cs)"

definition py_words :: "string \<Rightarrow> string list" where
  "py_words s = py_words_acc [] s"

text \<open>\<open>str.split('/')\<close>.\<close>

fun py_split_slash :: "string \<Rightarrow> string list" where
  "py_split_slash [] = [[]]"
| "py_split_slash (c # cs) =
     (if c = CHR ''/'' then [] # py_split_slash cs else (let r = py_split_slash cs in (c # hd r) # tl r))"

definition is_digit :: "char \<Rightarrow> bool" where
  "is_digit c = (48 \<le> (of_char c :: nat) \<and> (of_char c :: nat) \<le> 57)"

definition digits_val :: "string \<Rightarrow> nat" where
  "digits_val ds = foldl (\<lambda>n d. 10 * n + (of_char d - 48)) 0 ds"

definition nat_lit :: "string \<Rightarrow> nat result" where
  "nat_lit ds = (if ds \<noteq> [] \<and> (\<forall>d\<in>set ds. is_digit d) then Inr (digits_val ds) else Inl ValueError)"

definition sign_split :: "string \<Rightarrow> int \<times> string" where
  "sign_split s =
     (case s of c # cs \<Rightarrow> if c = CHR ''-'' then (-1, cs) else if c = CHR ''+'' then (1, cs) else (1, s)
      | [] \<Rightarrow> (1, []))"

text \<open>\<open>int(s)\<close> of a token: an optional sign and decimal digits.\<close>

definition py_int :: "string \<Rightarrow> int result" where
  "py_int s = (case sign_split s of (sg, ds) \<Rightarrow> res_bind (nat_lit ds) (\<lambda>n. Inr (sg * int n)))"

text \<open>
  \<open>float(s)\<close> of a token: sign, digits with an optional point (at least one digit), and an
  optional exponent. Python also accepts \<open>inf\<close> and \<open>nan\<close>, which this parser rejects.
\<close>

definition py_float :: "string \<Rightarrow> real result" where
  "py_float s =
     (case sign_split s of (sg, body) \<Rightarrow>
        let mant = takeWhile (\<lambda>c. c \<noteq> CHR ''e'' \<and> c \<noteq> CHR ''E'') body;
            ex = drop (Suc (length mant)) body;
            ip = takeWhile (\<lambda>c. c \<noteq> CHR ''.'') mant;
            fp = drop (Suc (length ip)) mant;
            okm = (ip @ fp \<noteq> [] \<and> (\<forall>d\<in>set (ip @ fp). is_digit d) \<and> length (filter (\<lambda>c. c = CHR ''.'') mant) \<le> 1);
            m = real (digits_val ip) + real (digits_val fp) / 10 ^ length fp
        in if \<not> okm then Inl ValueError
           else if length mant = length body then Inr (real_of_int sg * m)
           else res_bind (py_int ex) (\<lambda>e. Inr (real_of_int sg * m * 10 powr real_of_int e)))"

section \<open>MTL\<close>

text \<open>A material's texture: loaded from a file, a flat colour, or none yet (\<open>None\<close>).\<close>

datatype tex_ref = TexImage string | TexColor "real list"

type_synonym mtl_contents = "(string \<times> tex_ref option) list"

text \<open>
  One line of \<open>MTL\<close> (lines 14--31), with the current material. \<open>map_Kd\<close> indexes the
  material name (a string) with a string, which raises TypeError.
\<close>

definition mtl_line :: "string option \<times> mtl_contents \<Rightarrow> string \<Rightarrow> (string option \<times> mtl_contents) result" where
  "mtl_line st line =
     (case st of (mtl, contents) \<Rightarrow>
        if take 1 line = ''#'' then Inr st
        else let values = py_words line in
          if values = [] then Inr st
          else if hd values = ''newmtl'' then
            res_bind (py_index values 1) (\<lambda>nm. Inr (Some nm, AList.update nm None contents))
          else (case mtl of
            None \<Rightarrow> Inl ValueError
          | Some m \<Rightarrow>
              if hd values = ''map_Kd'' then Inl TypeError
              else if hd values = ''Kd'' then
                res_bind (map_res py_float (tl values)) (\<lambda>c. Inr (mtl, AList.update m (Some (TexColor c)) contents))
              else Inr st))"

definition mtl_load :: "string list \<Rightarrow> mtl_contents result" where
  "mtl_load lines = map_sum id snd (fold (\<lambda>l r. res_bind r (\<lambda>st. mtl_line st l)) lines (Inr (None, [])))"

section \<open>OBJ\<close>

record obj_state =
  svertices :: "real list list"
  snormals :: "real list list"
  stexcoords :: "real list list"
  sfaces :: "(int list \<times> int list \<times> int list \<times> string option) list"
  material :: "string option"
  smtl :: "mtl_contents option"

definition obj_init :: obj_state where
  "obj_init = \<lparr>svertices = [], snormals = [], stexcoords = [], sfaces = [], material = None, smtl = None\<rparr>"

text \<open>\<open>map(float, values[1:4])\<close>, then \<open>v[0], v[2], v[1]\<close> when \<open>swapyz\<close>.\<close>

definition obj_vec :: "bool \<Rightarrow> string list \<Rightarrow> real list result" where
  "obj_vec swapyz values =
     res_bind (map_res py_float (take 3 (tl values))) (\<lambda>v.
       if swapyz then
         res_bind (py_index v 0) (\<lambda>a. res_bind (py_index v 2) (\<lambda>b. res_bind (py_index v 1) (\<lambda>c. Inr [a, b, c])))
       else Inr v)"

text \<open>One vertex of a face, \<open>v/t/n\<close> (lines 70--79): missing or empty parts are 0.\<close>

definition face_vertex :: "string \<Rightarrow> (int \<times> int \<times> int) result" where
  "face_vertex v =
     (let w = py_split_slash v in
      res_bind (py_int (hd w)) (\<lambda>f.
        res_bind (if 2 \<le> length w \<and> w ! 1 \<noteq> [] then py_int (w ! 1) else Inr 0) (\<lambda>t.
          res_bind (if 3 \<le> length w \<and> w ! 2 \<noteq> [] then py_int (w ! 2) else Inr 0) (\<lambda>n. Inr (f, t, n)))))"

text \<open>
  One line of \<open>OBJ\<close> (lines 46--80). \<open>mtllib\<close> loads a material file, given here by
  \<open>mtl_file\<close> (a missing file is an error value of \<open>mtl_file\<close>).
\<close>

definition obj_line :: "bool \<Rightarrow> (string \<Rightarrow> mtl_contents result) \<Rightarrow> obj_state \<Rightarrow> string \<Rightarrow> obj_state result" where
  "obj_line swapyz mtl_file s line =
     (if take 1 line = ''#'' then Inr s
      else let values = py_words line in
        if values = [] then Inr s
        else if hd values = ''v'' then res_bind (obj_vec swapyz values) (\<lambda>v. Inr (s\<lparr>svertices := svertices s @ [v]\<rparr>))
        else if hd values = ''vn'' then res_bind (obj_vec swapyz values) (\<lambda>v. Inr (s\<lparr>snormals := snormals s @ [v]\<rparr>))
        else if hd values = ''vt'' then
          res_bind (map_res py_float (take 2 (tl values))) (\<lambda>v. Inr (s\<lparr>stexcoords := stexcoords s @ [v]\<rparr>))
        else if hd values \<in> {''usemtl'', ''usemat''} then
          res_bind (py_index values 1) (\<lambda>m. Inr (s\<lparr>material := Some m\<rparr>))
        else if hd values = ''mtllib'' then
          res_bind (py_index values 1) (\<lambda>f. res_bind (mtl_file f) (\<lambda>c. Inr (s\<lparr>smtl := Some c\<rparr>)))
        else if hd values = ''f'' then
          res_bind (map_res face_vertex (tl values)) (\<lambda>vs.
            Inr (s\<lparr>sfaces := sfaces s @ [(map fst vs, map (\<lambda>v. snd (snd v)) vs, map (\<lambda>v. fst (snd v)) vs,
                                            material s)]\<rparr>))
        else Inr s)"

text \<open>
  The texture a face binds (lines 87--94): with materials (a non-empty dict), the face's
  material must be in it (KeyError otherwise); a material without texture (\<open>None\<close>)
  fails to bind and the blank texture is used.
\<close>

datatype bound_tex = BlankTex | MtlTex tex_ref

definition face_texture :: "mtl_contents option \<Rightarrow> string option \<Rightarrow> bound_tex result" where
  "face_texture sm mat =
     (case sm of
        Some c \<Rightarrow> if c = [] then Inr BlankTex
                  else (case mat of None \<Rightarrow> Inl KeyError
                        | Some m \<Rightarrow> (case map_of c m of None \<Rightarrow> Inl KeyError
                                    | Some None \<Rightarrow> Inr BlankTex | Some (Some t) \<Rightarrow> Inr (MtlTex t)))
      | None \<Rightarrow> Inr BlankTex)"

text \<open>
  The drawing of one face (lines 95--102): for each vertex its normal (when the index is
  positive), its texture coordinate (likewise) and its position.
\<close>

type_synonym drawn_vertex = "real list option \<times> real list option \<times> real list"

fun draw_face :: "obj_state \<Rightarrow> int list \<Rightarrow> int list \<Rightarrow> int list \<Rightarrow> drawn_vertex list result" where
  "draw_face s (v # vs) (n # ns) (t # ts) =
     res_bind (if 0 < n then map_sum id Some (py_index (snormals s) (n - 1)) else Inr None) (\<lambda>nv.
       res_bind (if 0 < t then map_sum id Some (py_index (stexcoords s) (t - 1)) else Inr None) (\<lambda>tv.
         res_bind (py_index (svertices s) (v - 1)) (\<lambda>pv.
           res_bind (draw_face s vs ns ts) (\<lambda>rest. Inr ((nv, tv, pv) # rest)))))"
| "draw_face s _ _ _ = Inr []"

definition display_list :: "obj_state \<Rightarrow> (bound_tex \<times> drawn_vertex list) list result" where
  "display_list s =
     map_res (\<lambda>(vs, ns, ts, mat). res_bind (face_texture (smtl s) mat) (\<lambda>tx.
                res_bind (draw_face s vs ns ts) (\<lambda>d. Inr (tx, d)))) (sfaces s)"

record basic_mesh =
  bm_display :: "(bound_tex \<times> drawn_vertex list) list"
  bm_pos :: "real \<times> real \<times> real"
  bm_rotation :: "real \<times> real \<times> real"
  bm_verts :: "real list list"
  bm_scale :: real
  bm_colorize :: "real \<times> real \<times> real \<times> real"
  bm_visible :: bool
  bm_materials :: "mtl_contents option"

text \<open>\<open>OBJ\<close> (lines 34--110): read every line, compile the display list, collect the face vertices.\<close>

definition obj_load :: "bool \<Rightarrow> (string \<Rightarrow> mtl_contents result) \<Rightarrow> string list \<Rightarrow>
    real \<times> real \<times> real \<Rightarrow> real \<times> real \<times> real \<Rightarrow> real \<times> real \<times> real \<times> real \<Rightarrow> basic_mesh result" where
  "obj_load swapyz mtl_file lines pos rot col =
     res_bind (fold (\<lambda>l r. res_bind r (\<lambda>s. obj_line swapyz mtl_file s l)) lines (Inr obj_init)) (\<lambda>s.
       res_bind (display_list s) (\<lambda>dl.
         res_bind (map_res (\<lambda>x. py_index (svertices s) (x - 1)) (concat (map fst (sfaces s)))) (\<lambda>verts.
           Inr \<lparr>bm_display = dl, bm_pos = pos, bm_rotation = rot, bm_verts = verts, bm_scale = 1,
                bm_colorize = col, bm_visible = True, bm_materials = smtl s\<rparr>)))"

section \<open>BasicMesh.get_dimensions\<close>

text \<open>
  \<open>max((x, abs(min(x))))\<close> compares a list with a number. Python 2 orders every number
  below every list, so the maximum is the list itself; \<open>min\<close> of an empty list raises
  ValueError, and a vertex with fewer than three coordinates IndexError.
\<close>

datatype py_val = PNum real | PList "real list"

definition py2_max_pair :: "py_val \<Rightarrow> py_val \<Rightarrow> py_val" where
  "py2_max_pair a b =
     (case (a, b) of
        (PNum x, PNum y) \<Rightarrow> PNum (max x y)
      | (PList _, PNum _) \<Rightarrow> a
      | (PNum _, PList _) \<Rightarrow> b
      | (PList xs, PList ys) \<Rightarrow> if ord_class.lexordp xs ys then b else a)"

definition dim_of :: "real list \<Rightarrow> py_val result" where
  "dim_of xs = (if xs = [] then Inl ValueError else Inr (py2_max_pair (PList xs) (PNum \<bar>Min (set xs)\<bar>)))"

definition get_dimensions :: "basic_mesh \<Rightarrow> (py_val \<times> py_val \<times> py_val) result" where
  "get_dimensions m =
     res_bind (map_res (\<lambda>v. py_index v 0) (bm_verts m)) (\<lambda>x.
       res_bind (map_res (\<lambda>v. py_index v 1) (bm_verts m)) (\<lambda>y.
         res_bind (map_res (\<lambda>v. py_index v 2) (bm_verts m)) (\<lambda>z.
           res_bind (dim_of x) (\<lambda>dx. res_bind (dim_of y) (\<lambda>dy. res_bind (dim_of z) (\<lambda>dz. Inr (dx, dy, dz)))))))"

section \<open>BasicMesh.copy and BasicMesh.render\<close>

text \<open>
  \<open>copy\<close> (lines 141--145) builds a new \<open>BasicMesh\<close> sharing the display list and the
  materials, with copies of the lists; \<open>__init__\<close> sets \<open>visible\<close> again, so the copy
  of a hidden mesh is visible.
\<close>

definition bm_copy :: "basic_mesh \<Rightarrow> basic_mesh" where
  "bm_copy m =
     \<lparr>bm_display = bm_display m, bm_pos = bm_pos m, bm_rotation = bm_rotation m, bm_verts = bm_verts m,
      bm_scale = bm_scale m, bm_colorize = bm_colorize m, bm_visible = True, bm_materials = bm_materials m\<rparr>"

text \<open>
  \<open>render\<close> (lines 147--161) as the GL calls it makes. The depth coordinate is
  negated. \<open>glScalef(*self.scale)\<close> raises TypeError for a number, which the bare
  \<open>except\<close> catches, so a number scales uniformly.
\<close>

datatype mesh_call =
    MPush
  | MTranslate real real real
  | MRotate real real real real
  | MScale real real real
  | MColor "real \<times> real \<times> real \<times> real"
  | MCallList "(bound_tex \<times> drawn_vertex list) list"
  | MPop

definition bm_render :: "basic_mesh \<Rightarrow> mesh_call list" where
  "bm_render m =
     (case bm_pos m of (x, y, z) \<Rightarrow> case bm_rotation m of (a, b, c) \<Rightarrow>
        [MPush, MTranslate x y (- z), MRotate a 1 0 0, MRotate b 0 1 0, MRotate c 0 0 1,
         MScale (bm_scale m) (bm_scale m) (bm_scale m), MColor (bm_colorize m), MCallList (bm_display m), MPop])"

section \<open>Lemmas\<close>

lemma fold_res_Inl:
  "fold (\<lambda>l r. res_bind r (\<lambda>s. g s l)) ls (Inl e) = Inl e"
  by (induction ls) simp_all

lemma py_index_minus_one:
  "xs \<noteq> [] \<Longrightarrow> py_index xs (-1) = Inr (last xs)"
proof -
  assume "xs \<noteq> []"
  then have "nat (int (length xs) - 1) = length xs - 1" by auto
  then show ?thesis using \<open>xs \<noteq> []\<close> by (simp add: py_index_def last_conv_nth)
qed

lemma mtl_map_Kd_TypeError:
  "take 1 line \<noteq> ''#'' \<Longrightarrow> py_words line = ''map_Kd'' # rest \<Longrightarrow> mtl_line (Some m, c) line = Inl TypeError"
  by (simp add: mtl_line_def)

lemma mtl_load_map_Kd:
  "mtl_load (''newmtl stone'' # ''map_Kd stone.png'' # rest) = Inl TypeError"
  by (simp add: mtl_load_def mtl_line_def py_words_def is_space_def py_index_def fold_res_Inl)

lemma dim_of_list:
  "dim_of xs = Inr d \<Longrightarrow> d = PList xs"
  by (auto simp: dim_of_def py2_max_pair_def split: if_splits)

lemma get_dimensions_lists:
  "get_dimensions m = Inr (dx, dy, dz) \<Longrightarrow> (\<exists>xs. dx = PList xs) \<and> (\<exists>ys. dy = PList ys) \<and> (\<exists>zs. dz = PList zs)"
  by (auto simp: get_dimensions_def res_bind_eq_Inr dest!: dim_of_list)

lemma obj_load_example:
  "obj_load True (\<lambda>f. Inl IndexError) [''v 1 2 3'', ''v 4 5 6'', ''v 7 8 9'', ''f 1 2 0'']
      (0, 0, 0) (0, 0, 0) (1, 1, 1, 1) =
   Inr \<lparr>bm_display = [(BlankTex, [(None, None, [1, 3, 2]), (None, None, [4, 6, 5]), (None, None, [7, 9, 8])])],
        bm_pos = (0, 0, 0), bm_rotation = (0, 0, 0), bm_verts = [[1, 3, 2], [4, 6, 5], [7, 9, 8]], bm_scale = 1,
        bm_colorize = (1, 1, 1, 1), bm_visible = True, bm_materials = None\<rparr>"
  by (simp add: obj_load_def obj_line_def obj_init_def py_words_def obj_vec_def py_float_def sign_split_def
      digits_val_def is_digit_def is_space_def py_index_def face_vertex_def py_int_def nat_lit_def
      display_list_def face_texture_def Let_def)


text \<open>A copy draws exactly what the original draws and has the same dimensions, and it is
  visible whether or not the original was.\<close>

lemma bm_copy_same_render:
  "bm_render (bm_copy m) = bm_render m \<and> get_dimensions (bm_copy m) = get_dimensions m \<and> bm_visible (bm_copy m)"
  by (simp add: bm_copy_def bm_render_def get_dimensions_def)

end
