(* ===== verification/Game.thy ===== *)
theory Game
  imports Scene
begin

text \<open>
  The demo game \<open>src/Robocalypto/gamelib/game.py\<close>, a client of the engine. The level
  is the constant \<open>GRID\<close>; \<open>level_parse\<close> turns it into floor and ceiling tiles, wall
  boxes and robot positions. \<open>Game\<close> keeps the running and mouse-grab flags, a frame
  counter that wraps at 360, the player's view angle and the camera, and a \<open>Scene\<close>
  built with the mutators of theory \<open>Scene\<close>. The game objects (\<open>objects.py\<close>:
  player, shots, robots) are not among the sources; their updates are not modelled, and
  neither are pygame's clock and textures. The main loop is a
  \<open>partial_function (option)\<close> over the events of each frame: it returns after the
  first frame whose events hold QUIT or Escape, and never otherwise.
\<close>

section \<open>The level\<close>

definition GRID :: "nat list list" where
  "GRID = [
    [1,1,1,1,1,1,1,1,1,1,1,1,1,1,1,1,1,1,1,1,1,1],
    [1,1,0,0,0,1,0,0,0,0,1,0,0,0,0,1,0,0,0,0,0,1],
    [1,1,0,0,0,1,0,0,0,0,1,0,0,0,0,1,0,0,0,0,0,1],
    [1,1,0,0,0,0,0,0,2,0,1,0,0,2,0,1,0,2,0,0,0,1],
    [1,1,0,0,0,1,0,0,0,0,1,0,0,0,0,1,0,0,0,0,0,1],
    [1,1,0,0,0,1,0,1,0,0,1,0,0,0,0,1,0,0,0,2,0,1],
    [1,0,0,2,0,1,0,1,0,0,1,0,0,0,0,1,0,0,0,0,0,1],
    [1,0,0,0,0,0,0,1,1,0,1,0,1,1,0,1,0,2,0,0,0,1],
    [1,0,0,0,0,1,0,1,0,0,1,0,1,0,0,1,0,0,0,0,0,1],
    [1,1,0,0,1,1,0,1,0,0,1,0,1,0,0,1,0,0,0,2,0,1],
    [0,1,0,0,0,1,0,0,0,0,1,1,1,0,1,1,0,0,0,0,0,1],
    [0,1,0,0,0,1,0,0,2,0,0,0,0,0,0,1,0,2,0,0,0,1],
    [0,1,0,0,0,1,0,0,0,0,1,0,0,0,0,1,0,0,0,0,0,1],
    [0,1,0,0,0,0,1,0,1,1,1,0,0,2,0,1,0,0,0,2,0,1],
    [1,1,0,0,1,1,0,0,0,0,1,0,0,0,0,1,0,1,0,1,0,1],
    [1,1,0,2,0,1,0,0,0,0,1,0,1,1,1,1,1,1,0,1,1,1],
    [1,0,0,0,0,1,0,0,0,0,1,0,0,0,0,0,0,0,0,0,0,1],
    [1,1,1,1,1,1,1,1,1,1,1,1,1,1,1,1,1,1,1,1,1,1]]"

text \<open>
  The static objects of a cell at column \<open>x\<close>, row \<open>y\<close>: a floor quad and a ceiling
  quad, both at \<open>[x*5, 0, y*5]\<close>, and for a wall a cube at \<open>(x*5, 0, y*5)\<close>.
\<close>

datatype static_obj = FloorTile "int \<times> int \<times> int" | CeilingTile "int \<times> int \<times> int" | WallBox "int \<times> int \<times> int"

record level =
  lv_static :: "static_obj list"
  lv_walls :: "(int \<times> int) list"
  lv_baddies :: "(int \<times> int) list"

definition parse_cell :: "int \<Rightarrow> int \<Rightarrow> nat \<Rightarrow> level \<Rightarrow> level" where
  "parse_cell x y c lv =
     (let p = (x * 5, 0, y * 5);
          lv1 = lv\<lparr>lv_static := lv_static lv @ [FloorTile p, CeilingTile p]\<rparr>;
          lv2 = (if c = 1 then lv1\<lparr>lv_static := lv_static lv1 @ [WallBox p], lv_walls := lv_walls lv1 @ [(x * 5, y * 5)]\<rparr>
                 else lv1)
      in if c = 2 then lv2\<lparr>lv_baddies := lv_baddies lv2 @ [(x * 5, y * 5)]\<rparr> else lv2)"

fun parse_row :: "int \<Rightarrow> int \<Rightarrow> nat list \<Rightarrow> level \<Rightarrow> level" where
  "parse_row x y [] lv = lv"
| "parse_row x y (c # cs) lv = parse_row (x + 1) y cs (parse_cell x y c lv)"

fun parse_rows :: "int \<Rightarrow> nat list list \<Rightarrow> level \<Rightarrow> level" where
  "parse_rows y [] lv = lv"
| "parse_rows y (r # rs) lv = parse_rows (y + 1) rs (parse_row 0 y r lv)"

text \<open>\<open>level_parse\<close> (lines 40--72).\<close>

definition level_parse :: "nat list list \<Rightarrow> level" where
  "level_parse grid = parse_rows 0 grid \<lparr>lv_static = [], lv_walls = [], lv_baddies = []\<rparr>"

section \<open>The game state\<close>

datatype gkey = KEscape | KSpace | KOtherKey nat

datatype gevent = EvQuit | EvKeyDown gkey | EvOther

record game =
  running :: bool
  grabbed :: int
  frame :: int
  g_scene :: scene
  player_angle :: real
  player_pos :: "real \<times> real"
  cam_roty :: real
  cam_posx :: real
  cam_posz :: real

text \<open>
  \<open>Game.__init__\<close> (lines 76--134), the scene part: a scene with the light, the three
  overlay images (screen, target, score text) and the static level group. The ids are
  the objects the constructor creates.
\<close>

definition game_new :: "nat \<Rightarrow> nat \<Rightarrow> nat \<Rightarrow> nat \<Rightarrow> nat \<Rightarrow> nat \<Rightarrow> world \<Rightarrow> (game \<times> world) result" where
  "game_new sid light overlay targeter text1 static w =
     res_bind (add_light light (scene_new sid)) (\<lambda>s1.
       (case add_2d (One overlay) s1 w of (s2, w2) \<Rightarrow>
        case add_2d (One targeter) s2 w2 of (s3, w3) \<Rightarrow>
        case add_2d (One text1) s3 w3 of (s4, w4) \<Rightarrow>
          Inr (\<lparr>running = False, grabbed = 1, frame = 0, g_scene = add_3d (One static) s4,
                player_angle = 0, player_pos = (0, 0), cam_roty = 0, cam_posx = 0, cam_posz = 0\<rparr>, w4)))"

text \<open>\<open>update_camera_pos\<close> (lines 136--141): the mouse's x motion turns the player.\<close>

definition update_camera_pos :: "int \<Rightarrow> game \<Rightarrow> game" where
  "update_camera_pos relx g =
     (let a = player_angle g + real_of_int relx / 8
      in g\<lparr>player_angle := a, cam_roty := a, cam_posz := snd (player_pos g), cam_posx := fst (player_pos g)\<rparr>)"

text \<open>
  \<open>do_input\<close> (lines 143--161): QUIT and Escape stop the game; Space toggles the mouse
  grab (\<open>grabbed ^= 1\<close>).
\<close>

definition input_event :: "gevent \<Rightarrow> game \<Rightarrow> game" where
  "input_event e g =
     (let g1 = (if e = EvQuit then g\<lparr>running := False\<rparr> else g)
      in case e of
           EvKeyDown k \<Rightarrow>
             (let g2 = (if k = KEscape then g1\<lparr>running := False\<rparr> else g1)
              in if k = KSpace then g2\<lparr>grabbed := xor (grabbed g2) 1\<rparr> else g2)
         | _ \<Rightarrow> g1)"

definition do_input :: "gevent list \<Rightarrow> game \<Rightarrow> game" where
  "do_input es g = fold input_event es g"

text \<open>\<open>do_update\<close> (lines 163--174): the frame counter wraps to 0 after 360, then the camera follows.\<close>

definition frame_step :: "int \<Rightarrow> int" where
  "frame_step f = (let f' = f + 1 in if f' > 360 then 0 else f')"

definition do_update :: "int \<Rightarrow> game \<Rightarrow> game" where
  "do_update relx g = update_camera_pos relx (g\<lparr>frame := frame_step (frame g)\<rparr>)"

text \<open>
  \<open>main_loop\<close> (lines 203--210): \<open>ev n\<close> and \<open>mr n\<close> are the events and the mouse motion
  of frame \<open>n\<close>. The loop returns the number of frames run and the final state.
\<close>

partial_function (option) main_loop :: "(nat \<Rightarrow> gevent list) \<Rightarrow> (nat \<Rightarrow> int) \<Rightarrow> nat \<Rightarrow> game \<Rightarrow> (nat \<times> game) option" where
  "main_loop ev mr n g =
     (if running g then main_loop ev mr (Suc n) (do_update (mr n) (do_input (ev n) g)) else Some (n, g))"

definition game_run :: "(nat \<Rightarrow> gevent list) \<Rightarrow> (nat \<Rightarrow> int) \<Rightarrow> game \<Rightarrow> (nat \<times> game) option" where
  "game_run ev mr g = main_loop ev mr 0 (g\<lparr>running := True\<rparr>)"

definition quits :: "gevent list \<Rightarrow> bool" where
  "quits es = (EvQuit \<in> set es \<or> EvKeyDown KEscape \<in> set es)"

text \<open>
  What a run of \<open>main_loop\<close> from frame \<open>k\<close> returns: from a running state, the frame
  after the first quitting frame; from a stopped state, \<open>k\<close> itself.
\<close>

definition loop_result :: "(nat \<Rightarrow> gevent list) \<Rightarrow> nat \<Rightarrow> game \<Rightarrow> nat \<times> game \<Rightarrow> bool" where
  "loop_result ev k g r =
     (if running g then k < fst r \<and> quits (ev (fst r - 1)) \<and> (\<forall>m. k \<le> m \<and> m < fst r - 1 \<longrightarrow> \<not> quits (ev m))
      else fst r = k)"

section \<open>Lemmas\<close>

lemma input_event_running:
  "running (input_event e g) = (running g \<and> e \<noteq> EvQuit \<and> e \<noteq> EvKeyDown KEscape)"
  by (cases e) (auto simp: input_event_def Let_def)

lemma do_input_running: "running (do_input es g) = (running g \<and> \<not> quits es)"
  unfolding do_input_def quits_def
  by (induction es arbitrary: g) (auto simp: input_event_running)

lemma do_update_running [simp]: "running (do_update r g) = running g"
  by (simp add: do_update_def update_camera_pos_def Let_def)

lemma main_loop_result:
  assumes "main_loop ev mr k g = Some r"
  shows "loop_result ev k g r"
proof (rule main_loop.raw_induct [where P = "\<lambda>ev mr k g r. loop_result ev k g r", OF _ assms])
  fix f ev mr k g r
  assume IH: "\<And>ev mr k g r. f ev mr k g = Some r \<Longrightarrow> loop_result ev k g r"
    and eq: "(if running g then f ev mr (Suc k) (do_update (mr k) (do_input (ev k) g)) else Some (k, g)) = Some r"
  show "loop_result ev k g r"
  proof (cases "running g")
    case False
    then show ?thesis using eq by (auto simp: loop_result_def)
  next
    case True
    let ?g2 = "do_update (mr k) (do_input (ev k) g)"
    have lr: "loop_result ev (Suc k) ?g2 r" using eq True IH by simp
    show ?thesis
    proof (cases "quits (ev k)")
      case True
      then show ?thesis using lr \<open>running g\<close> by (auto simp: loop_result_def do_input_running)
    next
      case False
      then have r: "Suc k < fst r" "quits (ev (fst r - 1))" "\<forall>m. Suc k \<le> m \<and> m < fst r - 1 \<longrightarrow> \<not> quits (ev m)"
        using lr \<open>running g\<close> by (simp_all add: loop_result_def do_input_running)
      have "\<forall>m. k \<le> m \<and> m < fst r - 1 \<longrightarrow> \<not> quits (ev m)"
      proof (intro allI impI)
        fix m assume "k \<le> m \<and> m < fst r - 1"
        then show "\<not> quits (ev m)" using False r(3) by (cases "m = k") auto
      qed
      then show ?thesis using r \<open>running g\<close> by (simp add: loop_result_def)
    qed
  qed
qed

lemma main_loop_reaches:
  "running g \<Longrightarrow> k \<le> n \<Longrightarrow> quits (ev n) \<Longrightarrow> (\<forall>m. k \<le> m \<and> m < n \<longrightarrow> \<not> quits (ev m)) \<Longrightarrow>
   \<exists>g'. main_loop ev mr k g = Some (Suc n, g')"
proof (induction "n - k" arbitrary: k g)
  case 0
  then have kn: "k = n" by simp
  have "\<not> running (do_update (mr n) (do_input (ev n) g))" using "0.prems" by (simp add: do_input_running)
  then show ?case using "0.prems" kn
    by (simp add: main_loop.simps [of ev mr n] main_loop.simps [of ev mr "Suc n"])
next
  case (Suc d)
  then have kn: "k < n" "\<not> quits (ev k)" by auto
  let ?g2 = "do_update (mr k) (do_input (ev k) g)"
  have "running ?g2" using Suc.prems kn by (simp add: do_input_running)
  moreover have "d = n - Suc k" using Suc.hyps(2) by arith
  ultimately obtain g' where "main_loop ev mr (Suc k) ?g2 = Some (Suc n, g')"
    using Suc.hyps(1) [of "Suc k" ?g2] Suc.prems kn by auto
  then show ?case using Suc.prems by (simp add: main_loop.simps [of ev mr k])
qed

lemma frame_step_range: "0 \<le> f \<Longrightarrow> f \<le> 360 \<Longrightarrow> 0 \<le> frame_step f \<and> frame_step f \<le> 360"
  by (simp add: frame_step_def Let_def)

lemma frame_step_iter: "0 \<le> f \<Longrightarrow> f + int k \<le> 360 \<Longrightarrow> (frame_step ^^ k) f = f + int k"
  by (induction k) (simp_all add: frame_step_def Let_def)

lemma frame_wraps: "0 \<le> f \<Longrightarrow> f \<le> 360 \<Longrightarrow> (frame_step ^^ (361 - nat f)) f = 0"
proof -
  assume f: "0 \<le> f" "f \<le> 360"
  have "(frame_step ^^ (360 - nat f)) f = 360" using frame_step_iter [of f "360 - nat f"] f by simp
  moreover have "361 - nat f = Suc (360 - nat f)" using f by simp
  ultimately show ?thesis by (simp add: frame_step_def)
qed

lemma parse_cell_counts:
  "length (lv_static (parse_cell x y c lv)) = length (lv_static lv) + (if c = 1 then 3 else 2) \<and>
   length (lv_walls (parse_cell x y c lv)) = length (lv_walls lv) + (if c = 1 then 1 else 0) \<and>
   length (lv_baddies (parse_cell x y c lv)) = length (lv_baddies lv) + (if c = 2 then 1 else 0)"
  by (simp add: parse_cell_def Let_def)

lemma parse_row_counts:
  "length (lv_walls (parse_row x y r lv)) = length (lv_walls lv) + count_list r 1 \<and>
   length (lv_baddies (parse_row x y r lv)) = length (lv_baddies lv) + count_list r 2 \<and>
   length (lv_static (parse_row x y r lv)) = length (lv_static lv) + 2 * length r + count_list r 1"
  by (induction r arbitrary: x lv) (auto simp: parse_cell_counts)

lemma level_parse_counts:
  "length (lv_walls (level_parse grid)) = sum_list (map (\<lambda>r. count_list r 1) grid) \<and>
   length (lv_baddies (level_parse grid)) = sum_list (map (\<lambda>r. count_list r 2) grid) \<and>
   length (lv_static (level_parse grid)) = sum_list (map (\<lambda>r. 2 * length r + count_list r 1) grid)"
proof -
  have "length (lv_walls (parse_rows y grid lv)) = length (lv_walls lv) + sum_list (map (\<lambda>r. count_list r 1) grid) \<and>
        length (lv_baddies (parse_rows y grid lv)) = length (lv_baddies lv) + sum_list (map (\<lambda>r. count_list r 2) grid) \<and>
        length (lv_static (parse_rows y grid lv)) = length (lv_static lv) + sum_list (map (\<lambda>r. 2 * length r + count_list r 1) grid)"
    for y lv by (induction grid arbitrary: y lv) (auto simp: parse_row_counts)
  then show ?thesis by (simp add: level_parse_def)
qed

lemma game_new_scene:
  "game_new sid light ov tg tx st blank_world = Inr (g, w) \<Longrightarrow>
   lights (graph (g_scene g)) = [light] \<and> render_2d (graph (g_scene g)) = [ov, tg, tx] \<and>
   render_3d (graph (g_scene g)) = [st] \<and> grabbed g = 1 \<and> frame g = 0"
  by (auto simp: game_new_def add_light_def scene_new_def tree_new_def add_2d_def add_3d_def)

lemma GRID_level:
  "length (lv_walls (level_parse GRID)) = 154 \<and> length (lv_baddies (level_parse GRID)) = 12 \<and> length (lv_static (level_parse GRID)) = 946"
  using level_parse_counts [of GRID] by (simp add: GRID_def)

end
