(* ===== verification/Geometry.thy ===== *)
theory Geometry
  imports Math3D
begin

text \<open>
  The display lists of \<open>src/pyggel/geometry.py\<close>: \<open>Cube._compile\<close>, \<open>Quad._compile\<close>
  and the \<open>Skybox\<close> side table, as the quads they draw. A cube has eight corners at
  \<open>(\<plusminus>1, \<plusminus>1, \<plusminus>1)\<close>, six sides (four corner indices, the texture index, the
  atlas cell and the normal index), six normals and six atlas cells; each drawn quad is
  its normal and its four (texture coordinate, vertex) pairs, the vertices scaled by 1.1.
  The render methods are in theory \<open>Objects\<close>. The lemmas show that every face lies in
  the plane its normal names; that only the left and front faces of a cube run
  counter-clockwise seen from outside, while all six skybox faces run clockwise, i.e.
  counter-clockwise seen from inside; that a quad's normal points back through the cube;
  which texture each face binds; and when the constructors raise. The \<open>copy\<close> methods
  never return.
\<close>

section \<open>Cube tables\<close>

definition cube_corners :: "(real \<times> real \<times> real) list" where
  "cube_corners = [(-1, -1, 1), (1, -1, 1), (1, 1, 1), (-1, 1, 1),
                   (-1, -1, -1), (1, -1, -1), (1, 1, -1), (-1, 1, -1)]"

type_synonym side = "nat \<times> nat \<times> nat \<times> nat \<times> nat \<times> nat \<times> nat"

definition cube_sides :: "side list" where
  "cube_sides = [(7,4,0,3, 2, 2, 5), (6,5,1,2, 3, 4, 4), (6,2,3,7, 5, 0, 2),
                 (1,5,4,0, 4, 5, 3), (3,0,1,2, 0, 1, 0), (7,4,5,6, 1, 3, 1)]"

definition cube_normals :: "(real \<times> real \<times> real) list" where
  "cube_normals = [(0, 0, 1), (0, 0, -1), (0, 1, 0), (0, -1, 0), (1, 0, 0), (-1, 0, 0)]"

definition split_coords :: "(real \<times> real) list" where
  "split_coords = [(2, 0), (0, 1), (1, 1), (2, 1), (3, 1), (2, 2)]"

text \<open>\<open>Skybox.__init__\<close> (lines 176--181): the same faces with their corners reordered.\<close>

definition skybox_sides :: "side list" where
  "skybox_sides = [(3,0,4,7, 2, 2, 5), (6,5,1,2, 3, 4, 4), (3,7,6,2, 5, 0, 2),
                   (4,0,1,5, 4, 5, 3), (2,1,0,3, 0, 1, 0), (7,4,5,6, 1, 3, 1)]"

section \<open>Compiling\<close>

text \<open>
  The texture argument: one \<open>image.Texture\<close> (the six faces are cells of a 4x3 atlas,
  \<open>reg_type = 0\<close>) or a sequence of textures, one per face (\<open>reg_type = 1\<close>).
  \<open>if not texture: texture = blank_texture\<close> (lines 22--23) reads a global that
  \<open>include.py\<close> never defines, so a missing or empty texture raises NameError.
\<close>

datatype cube_tex = SingleTex nat | FaceTex "nat list"

definition texture_or_blank :: "cube_tex option \<Rightarrow> cube_tex result" where
  "texture_or_blank t =
     (case t of None \<Rightarrow> Inl NameError
      | Some (SingleTex k) \<Rightarrow> Inr (SingleTex k)
      | Some (FaceTex ts) \<Rightarrow> if ts = [] then Inl NameError else Inr (FaceTex ts))"

text \<open>A drawn quad: the texture bound while it is drawn, its normal, and its four
  (texture coordinate, vertex) pairs.\<close>

type_synonym drawn_quad = "nat \<times> (real \<times> real \<times> real) \<times> ((real \<times> real) \<times> (real \<times> real \<times> real)) list"

definition scaled_corner :: "nat \<Rightarrow> real \<times> real \<times> real" where
  "scaled_corner k = (case cube_corners ! k of (a, b, c) \<Rightarrow> (a * 1.1, b * 1.1, c * 1.1))"

definition sel7 :: "side \<Rightarrow> nat list \<times> nat \<times> nat \<times> nat" where
  "sel7 s = (case s of (a, b, c, d, t, r, n) \<Rightarrow> ([a, b, c, d], t, r, n))"

definition full_coords :: "(real \<times> real) list" where
  "full_coords = [(0, 0), (0, 1), (1, 1), (1, 0)]"

text \<open>
  One side of \<open>Cube._compile\<close> (lines 64--98): the coordinates of its atlas cell
  (\<open>ox = .25\<close>, \<open>oy = .33\<close>) under the single texture, bound before the loop, or the
  whole of the side's own texture \<open>self.texture[i[4]]\<close> (IndexError past the end).
\<close>

definition compile_side :: "cube_tex \<Rightarrow> side \<Rightarrow> drawn_quad result" where
  "compile_side tex s =
     (case sel7 s of (cs, t, r, n) \<Rightarrow>
        (case split_coords ! r of (x0, y0) \<Rightarrow>
           let x = x0 * 0.25; y = y0 * 0.33 in
           res_bind
             (case tex of
                SingleTex k \<Rightarrow> Inr (k, [(x, y), (x, y + 0.33), (x + 0.25, y + 0.33), (x + 0.25, y)])
              | FaceTex ts \<Rightarrow> if t < length ts then Inr (ts ! t, full_coords) else Inl IndexError)
             (\<lambda>(b, coords). Inr (b, cube_normals ! n, zip coords (map scaled_corner cs)))))"

definition compile_cube :: "side list \<Rightarrow> cube_tex \<Rightarrow> drawn_quad list result" where
  "compile_cube sides tex = map_res (compile_side tex) sides"

text \<open>
  \<open>Quad._compile\<close> (lines 138--164): \<open>self.texture.bind()\<close> (AttributeError on a
  sequence), the side \<open>self.sides[self.facing]\<close> (Python indexing), full texture
  coordinates, and the normal \<open>normals[xnorms[i[6]]]\<close> of the opposite side.
\<close>

definition xnorms :: "nat list" where
  "xnorms = [1, 0, 3, 2, 5, 4]"

definition compile_quad :: "cube_tex \<Rightarrow> int \<Rightarrow> drawn_quad result" where
  "compile_quad tex facing =
     (case tex of
        FaceTex _ \<Rightarrow> Inl AttributeError
      | SingleTex k \<Rightarrow>
          res_bind (py_index cube_sides facing) (\<lambda>s.
            case sel7 s of (cs, t, r, n) \<Rightarrow>
              Inr (k, cube_normals ! (xnorms ! n), zip full_coords (map scaled_corner cs))))"

text \<open>\<open>Quad.__init__\<close> (lines 121--136): a facing given by name is looked up (KeyError).\<close>

datatype facing_arg = FacingName string | FacingIdx int

definition quad_facing :: "facing_arg \<Rightarrow> int result" where
  "quad_facing f =
     (case f of
        FacingIdx i \<Rightarrow> Inr i
      | FacingName nm \<Rightarrow>
          (case map_of [(''left'', 0), (''right'', 1), (''top'', 2), (''bottom'', 3), (''front'', 4), (''back'', 5)] nm of
             None \<Rightarrow> Inl KeyError
           | Some k \<Rightarrow> Inr k))"

section \<open>Objects\<close>

text \<open>\<open>Cube\<close>'s attributes; the display list is the list of quads compiled into it.\<close>

record cube =
  cb_size :: real
  cb_pos :: "real \<times> real \<times> real"
  cb_rotation :: "real \<times> real \<times> real"
  cb_texture :: cube_tex
  cb_colorize :: "real \<times> real \<times> real \<times> real"
  cb_scale :: real
  cb_visible :: bool
  cb_list :: "drawn_quad list"

record quad = cube +
  qd_facing :: int

definition cube_new :: "real \<Rightarrow> real \<times> real \<times> real \<Rightarrow> real \<times> real \<times> real \<Rightarrow> real \<times> real \<times> real \<times> real \<Rightarrow>
    cube_tex option \<Rightarrow> cube result" where
  "cube_new sz pos rot col tex =
     res_bind (texture_or_blank tex) (\<lambda>t.
       res_bind (compile_cube cube_sides t) (\<lambda>l.
         Inr \<lparr>cb_size = sz, cb_pos = pos, cb_rotation = rot, cb_texture = t, cb_colorize = col,
              cb_scale = 1, cb_visible = True, cb_list = l\<rparr>))"

definition quad_new :: "real \<Rightarrow> real \<times> real \<times> real \<Rightarrow> real \<times> real \<times> real \<Rightarrow> real \<times> real \<times> real \<times> real \<Rightarrow>
    cube_tex option \<Rightarrow> facing_arg \<Rightarrow> quad result" where
  "quad_new sz pos rot col tex facing =
     res_bind (quad_facing facing) (\<lambda>f.
       res_bind (texture_or_blank tex) (\<lambda>t.
         res_bind (compile_quad t f) (\<lambda>q.
           Inr \<lparr>cb_size = sz, cb_pos = pos, cb_rotation = rot, cb_texture = t, cb_colorize = col,
                cb_scale = 1, cb_visible = True, cb_list = [q], qd_facing = f\<rparr>)))"

text \<open>\<open>Skybox.__init__\<close> (lines 174--182): a unit cube, recompiled with its own sides.\<close>

definition skybox_new :: "cube_tex option \<Rightarrow> real \<times> real \<times> real \<times> real \<Rightarrow> cube result" where
  "skybox_new tex col =
     res_bind (cube_new 1 (0, 0, 0) (0, 0, 0) col tex) (\<lambda>c.
       res_bind (compile_cube skybox_sides (cb_texture c)) (\<lambda>l. Inr (c\<lparr>cb_list := l\<rparr>)))"

text \<open>\<open>Sphere.__init__\<close> (lines 203--217) and \<open>Skyball.__init__\<close> (lines 245--247); the
  display list is \<open>gluSphere\<close>'s, a function of the texture and the detail.\<close>

record sphere =
  sp_size :: real
  sp_pos :: "real \<times> real \<times> real"
  sp_colorize :: "real \<times> real \<times> real \<times> real"
  sp_texture :: nat
  sp_detail :: nat
  sp_scale :: real
  sp_visible :: bool

definition sphere_new :: "real \<Rightarrow> real \<times> real \<times> real \<Rightarrow> real \<times> real \<times> real \<times> real \<Rightarrow> nat option \<Rightarrow> nat \<Rightarrow> sphere result" where
  "sphere_new sz pos col tex detail =
     (case tex of None \<Rightarrow> Inl NameError
      | Some t \<Rightarrow> Inr \<lparr>sp_size = sz, sp_pos = pos, sp_colorize = col, sp_texture = t, sp_detail = detail,
                      sp_scale = 1, sp_visible = True\<rparr>)"

definition skyball_new :: "nat option \<Rightarrow> real \<times> real \<times> real \<times> real \<Rightarrow> nat \<Rightarrow> sphere result" where
  "skyball_new tex col detail = sphere_new 1 (0, 0, 0) col tex detail"

text \<open>
  The \<open>copy\<close> methods build a new object and then call \<open>glDeleteLists(n.gl_list)\<close>
  with one argument; the ctypes binding of \<open>pyglet.gl\<close> takes two and raises TypeError.
  \<open>Cube.copy\<close> (lines 113--118) fails before that, reading \<open>self.color\<close>, an attribute a
  cube never has.
\<close>

definition gl_delete_lists_1 :: "unit result" where
  "gl_delete_lists_1 = Inl TypeError"

definition cube_copy :: "cube \<Rightarrow> cube result" where
  "cube_copy c = Inl AttributeError"

definition quad_copy :: "quad \<Rightarrow> quad result" where
  "quad_copy q =
     res_bind (quad_new (cb_size q) (cb_pos q) (cb_rotation q) (cb_colorize q) (Some (cb_texture q)) (FacingIdx (qd_facing q)))
       (\<lambda>n. res_bind gl_delete_lists_1 (\<lambda>_. Inr (n\<lparr>cb_list := cb_list q, cb_scale := cb_scale q\<rparr>)))"

definition skybox_copy :: "cube \<Rightarrow> cube result" where
  "skybox_copy s =
     res_bind (skybox_new (Some (cb_texture s)) (cb_colorize s))
       (\<lambda>n. res_bind gl_delete_lists_1 (\<lambda>_. Inr (n\<lparr>cb_list := cb_list s, cb_scale := cb_scale s\<rparr>)))"

definition sphere_copy :: "sphere \<Rightarrow> sphere result" where
  "sphere_copy s =
     res_bind (sphere_new (sp_size s) (sp_pos s) (sp_colorize s) (Some (sp_texture s)) (sp_detail s))
       (\<lambda>n. res_bind gl_delete_lists_1 (\<lambda>_. Inr (n\<lparr>sp_scale := sp_scale s\<rparr>)))"

definition skyball_copy :: "sphere \<Rightarrow> sphere result" where
  "skyball_copy s =
     res_bind (skyball_new (Some (sp_texture s)) (sp_colorize s) (sp_detail s))
       (\<lambda>n. res_bind gl_delete_lists_1 (\<lambda>_. Inr (n\<lparr>sp_scale := sp_scale s\<rparr>)))"

section \<open>Faces\<close>

definition to_vec :: "real \<times> real \<times> real \<Rightarrow> vec" where
  "to_vec p = (case p of (a, b, c) \<Rightarrow> mk_vec a b c)"

text \<open>
  A quad lies at signed distance \<open>d\<close> along its normal when every vertex has dot
  product \<open>d\<close> with it; its winding is \<open>((v1 - v0) \<times> (v2 - v1)) \<cdot> n\<close>, positive when
  the corners run counter-clockwise seen from the side the normal points to. With
  \<open>glFrontFace(GL_CCW)\<close> and \<open>glCullFace(GL_BACK)\<close> (\<open>View.build_gl\<close>), a face with
  negative winding is culled when seen from that side.
\<close>

definition face_at :: "real \<Rightarrow> real \<times> real \<times> real \<Rightarrow> (real \<times> real \<times> real) list \<Rightarrow> bool" where
  "face_at d n ps = list_all (\<lambda>p. vec_dot (to_vec p) (to_vec n) = d) ps"

definition face_winding :: "real \<times> real \<times> real \<Rightarrow> (real \<times> real \<times> real) list \<Rightarrow> real" where
  "face_winding n ps =
     (let v0 = to_vec (ps ! 0); v1 = to_vec (ps ! 1); v2 = to_vec (ps ! 2)
      in vec_dot (vec_cross (vec_sub v1 v0) (vec_sub v2 v1)) (to_vec n))"

definition quad_at :: "real \<Rightarrow> drawn_quad \<Rightarrow> bool" where
  "quad_at d q = (case q of (_, n, vs) \<Rightarrow> face_at d n (map snd vs))"

definition quad_winding :: "drawn_quad \<Rightarrow> real" where
  "quad_winding q = (case q of (_, n, vs) \<Rightarrow> face_winding n (map snd vs))"

text \<open>The face a side of the table describes: its normal and its scaled corners.\<close>

definition side_face :: "side \<Rightarrow> (real \<times> real \<times> real) \<times> (real \<times> real \<times> real) list" where
  "side_face s = (case sel7 s of (cs, t, r, n) \<Rightarrow> (cube_normals ! n, map scaled_corner cs))"

section \<open>Compiled faces\<close>

lemmas vec_defs = vec_sub_def vec_cross_def vec_dot_def vec_mul_def mk_vec_def

lemma quad_winding_eta: "quad_winding = (\<lambda>x. face_winding (fst (snd x)) (map snd (snd (snd x))))"
  by (rule ext) (simp add: quad_winding_def split_beta)

lemma quad_at_eta: "quad_at d = (\<lambda>x. face_at d (fst (snd x)) (map snd (snd (snd x))))"
  by (rule ext) (simp add: quad_at_def split_beta)

lemma compile_side_face:
  "compile_side tex s = Inr (b, n, vs) \<Longrightarrow> (n, map snd vs) = side_face s"
  unfolding compile_side_def side_face_def sel7_def full_coords_def
  by (auto simp: res_bind_eq_Inr Let_def split: prod.splits cube_tex.splits if_splits)

lemma compile_cube_faces:
  "compile_cube sides tex = Inr qs \<Longrightarrow> map (\<lambda>(b, n, vs). (n, map snd vs)) qs = map side_face sides"
  unfolding compile_cube_def map_res_Inr_iff
  by (induction rule: list_all2_induct) (auto dest: compile_side_face)

lemma compile_cube_windings:
  "compile_cube sides tex = Inr qs \<Longrightarrow> map quad_winding qs = map (case_prod face_winding \<circ> side_face) sides"
proof -
  assume "compile_cube sides tex = Inr qs"
  then have "map (case_prod face_winding) (map (\<lambda>(b, n, vs). (n, map snd vs)) qs)
             = map (case_prod face_winding) (map side_face sides)"
    by (simp only: compile_cube_faces)
  then show ?thesis
    by (simp add: quad_winding_eta comp_def split_beta)
qed

lemma compile_cube_at:
  "compile_cube sides tex = Inr qs \<Longrightarrow> list_all (quad_at d) qs = list_all (case_prod (face_at d) \<circ> side_face) sides"
proof -
  assume "compile_cube sides tex = Inr qs"
  then have "list_all (case_prod (face_at d)) (map (\<lambda>(b, n, vs). (n, map snd vs)) qs)
             = list_all (case_prod (face_at d)) (map side_face sides)"
    by (simp only: compile_cube_faces)
  then show ?thesis
    by (simp add: quad_at_eta comp_def split_beta list.pred_map)
qed

lemma cube_sides_geometry:
  "map (case_prod face_winding \<circ> side_face) cube_sides = [4.84, -4.84, -4.84, -4.84, 4.84, -4.84]"
  "list_all (case_prod (face_at 1.1) \<circ> side_face) cube_sides"
  by (simp_all add: cube_sides_def side_face_def sel7_def cube_normals_def scaled_corner_def
      cube_corners_def face_winding_def face_at_def to_vec_def vec_defs)

lemma skybox_sides_geometry:
  "map (case_prod face_winding \<circ> side_face) skybox_sides = [-4.84, -4.84, -4.84, -4.84, -4.84, -4.84]"
  "list_all (case_prod (face_at 1.1) \<circ> side_face) skybox_sides"
  by (simp_all add: skybox_sides_def side_face_def sel7_def cube_normals_def scaled_corner_def
      cube_corners_def face_winding_def face_at_def to_vec_def vec_defs)

section \<open>Textures and errors\<close>

lemma compile_side_single: "compile_side (SingleTex k) s \<noteq> Inl e"
  by (simp add: compile_side_def Let_def split: prod.splits)

lemma compile_cube_single: "compile_cube sides (SingleTex k) \<noteq> Inl e"
  using map_res_Inl_iff [of "compile_side (SingleTex k)" sides] compile_side_single
  by (auto simp: compile_cube_def)

lemma compile_side_face_tex:
  "compile_side (FaceTex ts) s = Inl e \<longleftrightarrow> \<not> fst (snd (sel7 s)) < length ts \<and> e = IndexError"
  by (auto simp: compile_side_def Let_def split: prod.splits)

lemma cube_sides_texidx: "(\<exists>s\<in>set cube_sides. \<not> fst (snd (sel7 s)) < n) \<longleftrightarrow> n < 6"
  by (auto simp: cube_sides_def sel7_def)

lemma compile_cube_face_tex:
  "compile_cube cube_sides (FaceTex ts) = Inl e \<longleftrightarrow> length ts < 6 \<and> e = IndexError"
proof
  assume err: "compile_cube cube_sides (FaceTex ts) = Inl e"
  then have "e = IndexError"
    unfolding compile_cube_def by (rule map_res_Inl_only [rotated]) (simp add: compile_side_face_tex)
  moreover have "\<exists>s\<in>set cube_sides. \<exists>e. compile_side (FaceTex ts) s = Inl e"
    using err map_res_Inl_iff [of "compile_side (FaceTex ts)" cube_sides] by (auto simp: compile_cube_def)
  then have "length ts < 6"
    using cube_sides_texidx [of "length ts"] by (auto simp: compile_side_face_tex)
  ultimately show "length ts < 6 \<and> e = IndexError" by simp
next
  assume "length ts < 6 \<and> e = IndexError"
  then have "\<exists>s\<in>set cube_sides. \<exists>e. compile_side (FaceTex ts) s = Inl e"
    using cube_sides_texidx [of "length ts"] by (auto simp: compile_side_face_tex)
  then obtain e' where "compile_cube cube_sides (FaceTex ts) = Inl e'"
    using map_res_Inl_iff [of "compile_side (FaceTex ts)" cube_sides] by (auto simp: compile_cube_def)
  moreover have "e' = IndexError"
    using calculation unfolding compile_cube_def
    by (rule map_res_Inl_only [rotated]) (simp add: compile_side_face_tex)
  ultimately show "compile_cube cube_sides (FaceTex ts) = Inl e"
    using \<open>length ts < 6 \<and> e = IndexError\<close> by simp
qed

lemma compile_side_bound:
  "compile_side (FaceTex ts) s = Inr (b, n, vs) \<Longrightarrow> b = ts ! fst (snd (sel7 s))"
  by (auto simp: compile_side_def Let_def split: prod.splits if_splits)

text \<open>Per-face textures: left, right, top, bottom, front and back bind \<open>texture[2]\<close>,
  \<open>[3]\<close>, \<open>[5]\<close>, \<open>[4]\<close>, \<open>[0]\<close> and \<open>[1]\<close>.\<close>

lemma compile_cube_face_textures:
  "compile_cube cube_sides (FaceTex ts) = Inr qs \<Longrightarrow> map fst qs = map ((!) ts) [2, 3, 5, 4, 0, 1]"
proof -
  assume "compile_cube cube_sides (FaceTex ts) = Inr qs"
  then have "list_all2 (\<lambda>s q. compile_side (FaceTex ts) s = Inr q) cube_sides qs"
    by (simp add: compile_cube_def map_res_Inr_iff)
  then have "map fst qs = map (\<lambda>s. ts ! fst (snd (sel7 s))) cube_sides"
    by (induction rule: list_all2_induct) (auto dest: compile_side_bound)
  then show ?thesis by (simp add: cube_sides_def sel7_def)
qed

lemma atlas_cell_bounded:
  assumes "r < 6" "split_coords ! r = (x0, y0)"
    and "c \<in> set [(x0 * 0.25, y0 * 0.33), (x0 * 0.25, y0 * 0.33 + 0.33),
                 (x0 * 0.25 + 0.25, y0 * 0.33 + 0.33), (x0 * 0.25 + 0.25, y0 * 0.33)]"
  shows "0 \<le> fst c \<and> fst c \<le> 1 \<and> 0 \<le> snd c \<and> snd c \<le> 1"
proof -
  have "r = 0 \<or> r = 1 \<or> r = 2 \<or> r = 3 \<or> r = 4 \<or> r = 5" using assms(1) by arith
  then show ?thesis using assms(2,3) by (auto simp: split_coords_def)
qed

lemma compile_side_atlas:
  assumes "compile_side (SingleTex k) s = Inr (b, n, vs)" "fst (snd (snd (sel7 s))) < 6" "(c, v) \<in> set vs"
  shows "0 \<le> fst c \<and> fst c \<le> 1 \<and> 0 \<le> snd c \<and> snd c \<le> 1"
proof -
  obtain cs t r nx where sel: "sel7 s = (cs, t, r, nx)" by (cases "sel7 s") auto
  obtain x0 y0 where sc: "split_coords ! r = (x0, y0)" by (cases "split_coords ! r")
  have "vs = zip [(x0 * 0.25, y0 * 0.33), (x0 * 0.25, y0 * 0.33 + 0.33),
                  (x0 * 0.25 + 0.25, y0 * 0.33 + 0.33), (x0 * 0.25 + 0.25, y0 * 0.33)] (map scaled_corner cs)"
    using assms(1) by (simp add: compile_side_def sel sc Let_def)
  then have "c \<in> set [(x0 * 0.25, y0 * 0.33), (x0 * 0.25, y0 * 0.33 + 0.33),
                      (x0 * 0.25 + 0.25, y0 * 0.33 + 0.33), (x0 * 0.25 + 0.25, y0 * 0.33)]"
    using assms(3) by (blast dest: set_zip_leftD)
  then show ?thesis
    using atlas_cell_bounded [of r x0 y0 c] assms(2) sel sc by simp
qed

section \<open>Quads and copies\<close>

lemma sel7_length: "length (fst (sel7 s)) = 4"
  by (simp add: sel7_def split: prod.splits)

lemma cube_sides_opposite:
  "s \<in> set cube_sides \<Longrightarrow>
   face_at (-1.1) (cube_normals ! (xnorms ! snd (snd (snd (sel7 s))))) (map scaled_corner (fst (sel7 s)))"
  by (auto simp: cube_sides_def sel7_def xnorms_def cube_normals_def scaled_corner_def
      cube_corners_def face_at_def to_vec_def vec_defs)

lemma compile_quad_Inr:
  "compile_quad tex f = Inr x \<longleftrightarrow>
   (\<exists>k s. tex = SingleTex k \<and> py_index cube_sides f = Inr s \<and>
      x = (k, cube_normals ! (xnorms ! snd (snd (snd (sel7 s)))), zip full_coords (map scaled_corner (fst (sel7 s)))))"
  by (cases tex) (auto simp: compile_quad_def res_bind_def split_beta split: sum.splits
      simp del: split_paired_Ex split_paired_All)

text \<open>A \<open>Quad\<close> is the side \<open>facing\<close> of the cube with the normal of the opposite side:
  the normal points back through the cube's centre.\<close>

lemma compile_quad_inward: "compile_quad tex f = Inr x \<Longrightarrow> quad_at (-1.1) x"
  by (auto simp: compile_quad_Inr quad_at_def full_coords_def map_snd_zip sel7_length
      dest!: py_index_in_set intro: cube_sides_opposite)

lemma py_index_cube_sides: "(\<exists>s. py_index cube_sides i = Inr s) \<longleftrightarrow> -6 \<le> i \<and> i < 6"
  by (auto simp: py_index_def cube_sides_def Let_def simp del: split_paired_Ex)

lemma texture_or_blank_single: "texture_or_blank tex = Inr (SingleTex k) \<longleftrightarrow> tex = Some (SingleTex k)"
  by (auto simp: texture_or_blank_def split: option.splits cube_tex.splits if_splits)

lemma quad_new_Inr:
  assumes "quad_new sz pos rot col tex fa = Inr q"
  shows "(\<exists>k. tex = Some (SingleTex k) \<and> cb_texture q = SingleTex k) \<and> quad_facing fa = Inr (qd_facing q) \<and>
         -6 \<le> qd_facing q \<and> qd_facing q < 6 \<and> length (cb_list q) = 1 \<and> list_all (quad_at (-1.1)) (cb_list q)"
proof -
  obtain f t x where qf: "quad_facing fa = Inr f" and tb: "texture_or_blank tex = Inr t"
    and cq: "compile_quad t f = Inr x"
    and q: "q = \<lparr>cb_size = sz, cb_pos = pos, cb_rotation = rot, cb_texture = t, cb_colorize = col,
                cb_scale = 1, cb_visible = True, cb_list = [x], qd_facing = f\<rparr>"
    using assms by (auto simp: quad_new_def res_bind_eq_Inr simp del: split_paired_Ex)
  obtain k s where "t = SingleTex k" "py_index cube_sides f = Inr s"
    using cq by (auto simp: compile_quad_Inr simp del: split_paired_Ex)
  moreover have "quad_at (-1.1) x" using cq by (rule compile_quad_inward)
  ultimately show ?thesis
    using qf tb q py_index_cube_sides [of f]
    by (auto simp: texture_or_blank_single simp del: split_paired_Ex split_paired_All)
qed

lemma copies_never_return:
  "cube_copy c \<noteq> Inr c'" "quad_copy q \<noteq> Inr q'" "skybox_copy s \<noteq> Inr s'"
  "sphere_copy p \<noteq> Inr p'" "skyball_copy p \<noteq> Inr p'"
  by (auto simp: cube_copy_def quad_copy_def skybox_copy_def sphere_copy_def skyball_copy_def
      gl_delete_lists_1_def res_bind_eq_Inr)

text \<open>Copying a quad that was built raises TypeError from \<open>glDeleteLists\<close>, after the
  new quad has been compiled.\<close>

lemma quad_copy_TypeError:
  "quad_new sz pos rot col tex fa = Inr q \<Longrightarrow> quad_copy q = Inl TypeError"
proof -
  assume "quad_new sz pos rot col tex fa = Inr q"
  then obtain k where k: "cb_texture q = SingleTex k" and f: "-6 \<le> qd_facing q" "qd_facing q < 6"
    by (blast dest: quad_new_Inr)
  then obtain s where "py_index cube_sides (qd_facing q) = Inr s"
    using py_index_cube_sides by blast
  then show ?thesis
    by (simp add: quad_copy_def quad_new_def quad_facing_def texture_or_blank_def k compile_quad_def
        gl_delete_lists_1_def split: prod.splits)
qed

section \<open>Constructors\<close>

lemma cube_new_list:
  "cube_new sz pos rot col tex = Inr c \<Longrightarrow> compile_cube cube_sides (cb_texture c) = Inr (cb_list c)"
  by (auto simp: cube_new_def res_bind_eq_Inr)

lemma skybox_new_list:
  "skybox_new tex col = Inr k \<Longrightarrow> compile_cube skybox_sides (cb_texture k) = Inr (cb_list k)"
  by (auto simp: skybox_new_def res_bind_eq_Inr dest: cube_new_list)

lemma cube_new_single: "\<exists>c. cube_new sz pos rot col (Some (SingleTex k)) = Inr c"
  using compile_cube_single [of cube_sides k]
  by (cases "compile_cube cube_sides (SingleTex k)") (auto simp: cube_new_def texture_or_blank_def)

lemma skybox_new_single: "\<exists>c. skybox_new (Some (SingleTex k)) col = Inr c"
proof -
  obtain c where c: "cube_new 1 (0, 0, 0) (0, 0, 0) col (Some (SingleTex k)) = Inr c"
    using cube_new_single by blast
  then have "cb_texture c = SingleTex k" by (auto simp: cube_new_def texture_or_blank_def res_bind_eq_Inr)
  then show ?thesis
    using c compile_cube_single [of skybox_sides k]
    by (cases "compile_cube skybox_sides (SingleTex k)") (auto simp: skybox_new_def)
qed

end
