(* ===== verification/Particles.thy ===== *)
theory Particles
  imports Prelude
begin

text \<open>
  The particle demo \<open>src/branches/v0.1-nextgen/devtests/particles.py\<close>: a fountain of
  3000 droplets whose positions, colours and velocities are numpy arrays updated by the
  timer callback \<open>OnTimerFraction\<close>, and the key and timer handlers that change the
  nozzle speed, the timer's multiplier and the point sizes. Arrays are lists of
  triples; the random draws of a step are a function from the draw's number to a
  triple. The scene graph, the text node and the timer itself belong to OpenGLContext
  and are not modelled: the timer is the sequence of fractions it reports.
\<close>

section \<open>Parameters and triples\<close>

type_synonym vec3 = "real \<times> real \<times> real"

definition gravity :: real where
  "gravity = -9.8"

definition emitter :: vec3 where
  "emitter = (0, 0, 0)"

definition p_count :: nat where
  "p_count = 3000"

definition initial_color :: vec3 where
  "initial_color = (1, 0.9, 0.9)"

definition color_velocities :: vec3 where
  "color_velocities = (1, 0.9, 0.7)"

definition initial_velocity_vector :: vec3 where
  "initial_velocity_vector = (1.5, 20, 1.5)"

text \<open>numpy's element-wise operations on a row of three.\<close>

fun v3_add :: "vec3 \<Rightarrow> vec3 \<Rightarrow> vec3" where
  "v3_add (a, b, c) (d, e, f) = (a + d, b + e, c + f)"

fun v3_mul :: "vec3 \<Rightarrow> vec3 \<Rightarrow> vec3" where
  "v3_mul (a, b, c) (d, e, f) = (a * d, b * e, c * f)"

fun v3_scale :: "vec3 \<Rightarrow> real \<Rightarrow> vec3" where
  "v3_scale (a, b, c) k = (a * k, b * k, c * k)"

fun v3_y :: "vec3 \<Rightarrow> real" where
  "v3_y (a, b, c) = b"

fun v3_set_y :: "vec3 \<Rightarrow> real \<Rightarrow> vec3" where
  "v3_set_y (a, b, c) y = (a, y, c)"

section \<open>State\<close>

text \<open>
  The attributes of \<open>TestContext\<close> the simulation uses, the timer's multiplier, and the
  module-level \<open>initialVelocityVector\<close>, an array the handlers change in place.
\<close>

record particles =
  pt_points :: "vec3 list"
  pt_colors :: "vec3 list"
  pt_velocities :: "vec3 list"
  pt_last_fraction :: real
  pt_multiplier :: real
  pt_ivv :: vec3
  pt_min_size :: real
  pt_max_size :: real

text \<open>\<open>OnInit\<close> (lines 39--102): every droplet at the emitter, at rest, in the initial
  colour; point sizes 7 and 10; a fresh timer runs at multiplier 1.\<close>

definition on_init :: particles where
  "on_init =
     \<lparr>pt_points = replicate p_count emitter, pt_colors = replicate p_count initial_color,
      pt_velocities = replicate p_count (0, 0, 0), pt_last_fraction = 0, pt_multiplier = 1,
      pt_ivv = initial_velocity_vector, pt_min_size = 7, pt_max_size = 10\<rparr>"

section \<open>The simulation step\<close>

text \<open>The local helpers of \<open>OnTimerFraction\<close>: \<open>put\<close> writes one value at every index,
  \<open>copy\<close> writes the \<open>x\<close>-th value at the \<open>x\<close>-th index.\<close>

definition put :: "'a list \<Rightarrow> nat list \<Rightarrow> 'a \<Rightarrow> 'a list" where
  "put a ind b = fold (\<lambda>i a. a[i := b]) ind a"

definition copy_at :: "'a list \<Rightarrow> nat list \<Rightarrow> 'a list \<Rightarrow> 'a list" where
  "copy_at a ind b = fold (\<lambda>x a. a[ind ! x := b ! x]) [0..<length ind] a"

text \<open>The elapsed part of the timer's cycle (lines 108--112): a fraction below the last
  one has wrapped into the next cycle.\<close>

definition frac_delta :: "real \<Rightarrow> real \<Rightarrow> real" where
  "frac_delta lf f = (if f < lf then f + 1 else f) - lf"

text \<open>\<open>nonzero(less_equal(points[:,1], 0.0))\<close>: the droplets at or below the ground.\<close>

definition dead_of :: "vec3 list \<Rightarrow> nat list" where
  "dead_of ps = filter (\<lambda>i. v3_y (ps ! i) \<le> 0) [0..<length ps]"

text \<open>The nozzle velocities of the respawned droplets (lines 131--137): draw \<open>x\<close> is a
  triple in \<open>[0, 1)\<close>, shifted by \<open>(-.5, 0, -.5)\<close> and scaled by the nozzle speed.\<close>

definition fresh_velocities :: "(nat \<Rightarrow> vec3) \<Rightarrow> vec3 \<Rightarrow> nat \<Rightarrow> vec3 list" where
  "fresh_velocities rnd ivv n = map (\<lambda>x. v3_mul (v3_add (rnd x) (-0.5, 0, -0.5)) ivv) [0..<n]"

text \<open>
  \<open>OnTimerFraction\<close> (lines 104--144): move every droplet by its velocity, shift every
  colour, accelerate every droplet downwards; the droplets at or below the ground go
  back to the emitter, and the first half of them (one more than half) get the initial
  colour and a fresh velocity. Nothing moves when no time has passed.
\<close>

definition on_timer_fraction :: "(nat \<Rightarrow> vec3) \<Rightarrow> real \<Rightarrow> particles \<Rightarrow> particles" where
  "on_timer_fraction rnd fr s =
     (let delta = frac_delta (pt_last_fraction s) fr;
          s1 = s\<lparr>pt_last_fraction := fr\<rparr>
      in if delta = 0 then s1
      else
        let points = map2 (\<lambda>p v. v3_add p (v3_scale v delta)) (pt_points s) (pt_velocities s);
            colors = map (\<lambda>c. v3_add c (v3_scale color_velocities delta)) (pt_colors s);
            vels = map (\<lambda>v. v3_set_y v (v3_y v + gravity * delta)) (pt_velocities s);
            dead = dead_of points;
            points' = put points dead emitter
        in if dead = [] then s1\<lparr>pt_points := points', pt_colors := colors, pt_velocities := vels\<rparr>
        else
          let dead' = take (length dead div 2 + 1) dead
          in s1\<lparr>pt_points := points', pt_colors := put colors dead' initial_color,
                pt_velocities := copy_at vels dead' (fresh_velocities rnd (pt_ivv s) (length dead'))\<rparr>)"

section \<open>Handlers\<close>

text \<open>\<open>OnSlower\<close> and \<open>OnFaster\<close> (lines 146--157) halve and double the timer's
  multiplier; the text node they also update is display only.\<close>

definition on_slower :: "particles \<Rightarrow> particles" where
  "on_slower s = s\<lparr>pt_multiplier := pt_multiplier s / 2\<rparr>"

definition on_faster :: "particles \<Rightarrow> particles" where
  "on_faster s = s\<lparr>pt_multiplier := pt_multiplier s * 2\<rparr>"

definition on_higher :: "particles \<Rightarrow> particles" where
  "on_higher s = s\<lparr>pt_ivv := v3_mul (pt_ivv s) (1, 1.25, 1)\<rparr>"

text \<open>\<open>OnLower\<close> (lines 161--166): a timer cycle event carries a count, and every fourth
  cycle resets the nozzle speed; a key press has no count and always lowers it.\<close>

definition on_lower :: "nat option \<Rightarrow> particles \<Rightarrow> particles" where
  "on_lower cnt s =
     (case cnt of
        Some n \<Rightarrow> if n mod 4 = 0 then s\<lparr>pt_ivv := (1.5, 20, 1.5)\<rparr>
                  else s\<lparr>pt_ivv := (case pt_ivv s of (a, b, c) \<Rightarrow> (a / 1, b / 1.5, c / 1))\<rparr>
      | None \<Rightarrow> s\<lparr>pt_ivv := (case pt_ivv s of (a, b, c) \<Rightarrow> (a / 1, b / 1.5, c / 1))\<rparr>)"

definition on_larger :: "particles \<Rightarrow> particles" where
  "on_larger s = s\<lparr>pt_min_size := pt_min_size s + 1, pt_max_size := pt_max_size s + 1\<rparr>"

definition on_smaller :: "particles \<Rightarrow> particles" where
  "on_smaller s = s\<lparr>pt_min_size := max 0 (pt_min_size s - 1), pt_max_size := max 1 (pt_max_size s - 1)\<rparr>"

text \<open>The events: key presses, the 1-second timer's fractions and the 5-second timer's
  cycles. Keys without a handler change nothing.\<close>

datatype pevent = PKey char | PFraction real | PCycle nat

definition p_step :: "(nat \<Rightarrow> vec3) \<Rightarrow> pevent \<Rightarrow> particles \<Rightarrow> particles" where
  "p_step rnd ev s =
     (case ev of
        PFraction f \<Rightarrow> on_timer_fraction rnd f s
      | PCycle n \<Rightarrow> on_lower (Some n) s
      | PKey k \<Rightarrow>
          if k = CHR ''s'' then on_slower s
          else if k = CHR ''f'' then on_faster s
          else if k = CHR ''h'' then on_higher s
          else if k = CHR ''l'' then on_lower None s
          else if k = CHR '']'' then on_larger s
          else if k = CHR ''['' then on_smaller s
          else s)"

text \<open>The states the demo reaches: the timer reports fractions of its cycle in \<open>[0, 1)\<close>.\<close>

inductive p_reach :: "particles \<Rightarrow> bool" where
  init: "p_reach on_init"
| key: "p_reach s \<Longrightarrow> p_reach (p_step rnd (PKey k) s)"
| cycle: "p_reach s \<Longrightarrow> p_reach (p_step rnd (PCycle n) s)"
| frac: "p_reach s \<Longrightarrow> 0 \<le> f \<Longrightarrow> f < 1 \<Longrightarrow> p_reach (p_step rnd (PFraction f) s)"

section \<open>Invariant\<close>

text \<open>
  The arrays keep their 3000 rows, no droplet is below the ground, every colour has
  \<open>blue \<le> green \<le> red\<close> with blue at least 0.9, the last fraction lies in
  \<open>[0, 1)\<close>, the point sizes stay \<open>0 \<le> minSize\<close> and \<open>minSize + 1 \<le> maxSize\<close>, and the
  multiplier stays positive.
\<close>

definition color_ok :: "vec3 \<Rightarrow> bool" where
  "color_ok c = (case c of (r, g, b) \<Rightarrow> 0.9 \<le> b \<and> b \<le> g \<and> g \<le> r)"

definition p_inv :: "particles \<Rightarrow> bool" where
  "p_inv s =
     (length (pt_points s) = p_count \<and> length (pt_colors s) = p_count \<and>
      length (pt_velocities s) = p_count \<and>
      (\<forall>p\<in>set (pt_points s). 0 \<le> v3_y p) \<and> (\<forall>c\<in>set (pt_colors s). color_ok c) \<and>
      0 \<le> pt_last_fraction s \<and> pt_last_fraction s < 1 \<and>
      0 \<le> pt_min_size s \<and> pt_min_size s + 1 \<le> pt_max_size s \<and> 0 < pt_multiplier s)"

lemmas p_inv_defs = p_inv_def color_ok_def

subsection \<open>Array helpers\<close>

lemma length_put [simp]: "length (put a ind b) = length a"
  unfolding put_def by (induction ind arbitrary: a) simp_all

lemma put_nth: "i < length a \<Longrightarrow> put a ind b ! i = (if i \<in> set ind then b else a ! i)"
  unfolding put_def by (induction ind arbitrary: a) (auto simp: nth_list_update)

lemma set_put: "set (put a ind b) \<subseteq> insert b (set a)"
  unfolding put_def
proof (induction ind arbitrary: a)
  case (Cons i ind)
  then show ?case using set_update_subset_insert [of a i b] by fastforce
qed auto

lemma length_copy_at [simp]: "length (copy_at a ind b) = length a"
proof -
  have "length (fold (\<lambda>x a. a[ind ! x := b ! x]) xs a) = length a" for xs
    by (induction xs arbitrary: a) simp_all
  then show ?thesis unfolding copy_at_def by simp
qed

lemma dead_of_iff: "i \<in> set (dead_of ps) \<longleftrightarrow> i < length ps \<and> v3_y (ps ! i) \<le> 0"
  by (auto simp: dead_of_def)

lemma frac_delta_bounds:
  "0 \<le> lf \<Longrightarrow> lf < 1 \<Longrightarrow> 0 \<le> f \<Longrightarrow> f < 1 \<Longrightarrow> 0 \<le> frac_delta lf f \<and> frac_delta lf f < 1"
  by (simp add: frac_delta_def)

subsection \<open>Each part of the invariant\<close>

lemma color_ok_initial [simp]: "color_ok initial_color"
  by (simp add: color_ok_def initial_color_def)

lemma color_ok_shift: "color_ok c \<Longrightarrow> 0 \<le> d \<Longrightarrow> color_ok (v3_add c (v3_scale color_velocities d))"
  by (cases c) (auto simp: color_ok_def color_velocities_def)

text \<open>After the move, a droplet either stands above the ground or is put back on the emitter.\<close>

lemma put_emitter_above:
  "p \<in> set (put ps (dead_of ps) emitter) \<Longrightarrow> 0 \<le> v3_y p"
proof -
  assume "p \<in> set (put ps (dead_of ps) emitter)"
  then obtain i where i: "i < length ps" and p: "p = put ps (dead_of ps) emitter ! i"
    by (auto simp: in_set_conv_nth)
  show "0 \<le> v3_y p"
  proof (cases "i \<in> set (dead_of ps)")
    case True
    then show ?thesis using i p by (simp add: put_nth emitter_def)
  next
    case False
    then show ?thesis using i p by (auto simp: put_nth dead_of_iff)
  qed
qed

lemma timer_inv:
  assumes inv: "p_inv s" and f: "0 \<le> f" "f < 1"
  shows "p_inv (on_timer_fraction rnd f s)"
proof -
  define d where "d = frac_delta (pt_last_fraction s) f"
  have d: "0 \<le> d" using frac_delta_bounds [of "pt_last_fraction s" f] inv f by (simp add: d_def p_inv_def)
  define ps where "ps = map2 (\<lambda>p v. v3_add p (v3_scale v d)) (pt_points s) (pt_velocities s)"
  define cs where "cs = map (\<lambda>c. v3_add c (v3_scale color_velocities d)) (pt_colors s)"
  have len: "length ps = p_count" "length cs = p_count" using inv by (simp_all add: ps_def cs_def p_inv_def)
  have pts: "\<forall>p\<in>set (put ps (dead_of ps) emitter). 0 \<le> v3_y p" using put_emitter_above by blast
  have cs: "\<forall>c\<in>set cs. color_ok c" using inv d by (auto simp: cs_def p_inv_def intro: color_ok_shift)
  then have cs': "\<forall>c\<in>set (put cs ind initial_color). color_ok c" for ind
    using set_put [of cs ind initial_color] by auto
  show ?thesis
  proof (cases "dead_of ps = []")
    case True
    then show ?thesis using inv f len pts cs
      by (simp add: on_timer_fraction_def Let_def d_def [symmetric] ps_def [symmetric] cs_def [symmetric] p_inv_def)
  next
    case False
    then show ?thesis using inv f len pts cs'
      by (simp add: on_timer_fraction_def Let_def d_def [symmetric] ps_def [symmetric] cs_def [symmetric] p_inv_def)
  qed
qed

lemma handlers_inv:
  "p_inv s \<Longrightarrow> p_inv (on_slower s)" "p_inv s \<Longrightarrow> p_inv (on_faster s)"
  "p_inv s \<Longrightarrow> p_inv (on_higher s)" "p_inv s \<Longrightarrow> p_inv (on_lower cnt s)"
  "p_inv s \<Longrightarrow> p_inv (on_larger s)" "p_inv s \<Longrightarrow> p_inv (on_smaller s)"
  by (auto simp: p_inv_def on_slower_def on_faster_def on_higher_def on_lower_def on_larger_def
      on_smaller_def split: option.splits)

lemma on_init_inv: "p_inv on_init"
  by (simp add: p_inv_def on_init_def emitter_def p_count_def)

lemma p_step_inv:
  "p_inv s \<Longrightarrow> (\<And>f. ev = PFraction f \<Longrightarrow> 0 \<le> f \<and> f < 1) \<Longrightarrow> p_inv (p_step rnd ev s)"
  by (cases ev) (auto simp: p_step_def handlers_inv intro: timer_inv)

subsection \<open>Droplets that are not respawned\<close>

lemma copy_at_nth_other:
  "i \<notin> set ind \<Longrightarrow> copy_at a ind b ! i = a ! i"
proof -
  assume i: "i \<notin> set ind"
  then have ne: "\<forall>x<length ind. ind ! x \<noteq> i" using nth_mem by blast
  have "fold (\<lambda>x a. a[ind ! x := b ! x]) xs a ! i = a ! i" if "\<forall>x\<in>set xs. x < length ind" for xs
    using that ne by (induction xs arbitrary: a) auto
  then show ?thesis unfolding copy_at_def by simp
qed

lemma dead_velocity_down:
  assumes "0 \<le> v3_y p" "v3_y (v3_add p (v3_scale v d)) \<le> 0" "0 < d"
  shows "v3_y (v3_set_y v (v3_y v + gravity * d)) < 0"
proof -
  obtain a b c where p: "p = (a, b, c)" by (cases p)
  obtain x y z where v: "v = (x, y, z)" by (cases v)
  have "y * d \<le> 0" using assms by (simp add: p v)
  then have "y \<le> 0" using \<open>0 < d\<close> by (simp add: mult_le_0_iff)
  then show ?thesis using \<open>0 < d\<close> by (simp add: v gravity_def)
qed

end
