(* ===== verification/GuiWidgets.thy ===== *)
theory GuiWidgets
  imports Gui
begin

text \<open>
  The composite widgets of \<open>src/trunk/pyggel/gui.py\<close> on top of theory \<open>Gui\<close>:
  \<^item> the clip rectangles of \<open>Input.get_clip\<close> and \<open>Frame.get_clip\<close>, which scale a
    widget's box from 2D coordinates (origin top left) to window pixels (origin bottom
    left) with Python's truncating \<open>int()\<close>;
  \<^item> \<open>Frame\<close>, an App that is also a widget: its constructor, mouse position, layout,
    event loop and render;
  \<^item> \<open>Radio\<close> and \<open>MultiChoiceRadio\<close>: the layout of the options, the event loops over
    the option checkboxes, and the check and uncheck callbacks;
  \<^item> \<open>Label\<close>'s constructor and the positions \<open>Label.render\<close> and \<open>Button.render\<close>
    draw their image at.
  The window and 2D screen sizes are those of \<open>view.screen\<close> (theory \<open>View\<close>), passed
  as arguments; text image sizes are parameters.
\<close>

section \<open>Clipping\<close>

text \<open>Python's \<open>int()\<close> of a float truncates towards zero.\<close>

definition py_trunc :: "real \<Rightarrow> int" where
  "py_trunc r = (if 0 \<le> r then \<lfloor>r\<rfloor> else \<lceil>r\<rceil>)"

text \<open>
  \<open>get_clip\<close> (lines 462--471 and 657--665): \<open>rx = 1.0 * screen_size[0] /
  screen_size_2d[0]\<close> (ZeroDivisionError for a zero 2D size), and the box
  \<open>(int(x*rx), screen_size[1] - int(y*ry) - int(h*ry), int(w*rx), int(h*ry))\<close>.
\<close>

definition get_clip :: "int \<times> int \<Rightarrow> int \<times> int \<Rightarrow> int \<times> int \<Rightarrow> int \<times> int \<Rightarrow> rect result" where
  "get_clip scr scr2d pos sz =
     (if fst scr2d = 0 \<or> snd scr2d = 0 then Inl ZeroDivisionError
      else
        let rx = real_of_int (fst scr) / real_of_int (fst scr2d);
            ry = real_of_int (snd scr) / real_of_int (snd scr2d);
            x = real_of_int (fst pos); y = real_of_int (snd pos);
            w = real_of_int (fst sz); h = real_of_int (snd sz)
        in Inr (py_trunc (x * rx), snd scr - py_trunc (y * ry) - py_trunc (h * ry), py_trunc (w * rx), py_trunc (h * ry)))"

definition input_get_clip :: "int \<times> int \<Rightarrow> int \<times> int \<Rightarrow> input \<Rightarrow> rect result" where
  "input_get_clip scr scr2d i = get_clip scr scr2d (ipos i) (iwidth i, iheight i)"

section \<open>The Input's cursor and render\<close>

text \<open>
  The \<open>while\<close> loop of \<open>Input.calc_working_pos\<close> (lines 497--501): while the cursor is
  left of the box, it moves right by the next glyph's width, and so does the text;
  \<open>glyphs[n]\<close> past the last glyph raises IndexError.
\<close>

fun wc_loop :: "int \<Rightarrow> int \<Rightarrow> int \<Rightarrow> int list \<Rightarrow> (int \<times> int) result" where
  "wc_loop wx px x0 [] = (if wx < x0 then Inl IndexError else Inr (wx, px))"
| "wc_loop wx px x0 (w # ws) = (if wx < x0 then wc_loop (wx + w) (px + w) x0 ws else Inr (wx, px))"

text \<open>
  \<open>Input.calc_working_pos\<close> (lines 473--503): the cursor's position (\<open>wpos\<close>) and the
  text's (\<open>tpos\<close>). \<open>gws\<close> are the widths of the glyphs of the text's first line,
  \<open>tw\<close> the text image's width, \<open>ww\<close> the cursor image's width (\<open>xwidth = width -
  ww\<close>, line 453), \<open>tip\<close> the text image's position and \<open>wip\<close> the cursor image's, which
  the method may move to \<open>x = 5\<close>; the result has the cursor image's position after the
  call. When the text fits, the cursor starts at the glyphs' width measured from 0, not
  from the box's left edge.
\<close>

definition calc_working_pos :: "input \<Rightarrow> int list \<Rightarrow> int \<Rightarrow> int \<Rightarrow> int \<times> int \<Rightarrow> int \<times> int \<Rightarrow>
    (((int \<times> int) \<times> (int \<times> int)) \<times> (int \<times> int)) result" where
  "calc_working_pos i gws tw ww tip wip =
     (let pos = ipos i; xwidth = iwidth i - ww
      in if itext i \<noteq> [] \<and> 0 < working i then
           let width = sum_list (take (nat (working i)) gws);
               x = (if tw > xwidth then fst pos - (tw - xwidth) + width else width);
               wx = x - ww div 2; wy = snd pos;
               ((px, py), wip') =
                 (if tw > xwidth then
                    let x1 = fst pos - (tw - xwidth)
                    in if fst wip < 0 then ((x1 - fst wip, snd tip), (5, snd wip)) else ((x1, snd tip), wip)
                  else (pos, wip))
           in res_bind (wc_loop wx px (fst pos) gws) (\<lambda>(wx', px'). Inr (((wx', wy), (px', py)), wip'))
         else Inr (((fst pos - ww div 2, snd pos), pos), wip))"

text \<open>
  \<open>Input.render\<close> (lines 605--622): the cursor and text positions, then the clip, the
  text and, when the input is active, the cursor drawn at its position plus the offset.
  The text is drawn by \<open>Label.render(self)\<close> (line 613) with its default offset: at
  the widget's own \<open>pos\<close> (lines 217--224), whatever text position was computed (that
  one is only stored in \<open>text_image.pos\<close> afterwards). The result is the clip, where
  the text is drawn, where the cursor is drawn (if it is), and the cursor image's
  position after.
\<close>

definition input_render :: "int \<times> int \<Rightarrow> int \<times> int \<Rightarrow> input \<Rightarrow> int list \<Rightarrow> int \<Rightarrow> int \<Rightarrow> int \<times> int \<Rightarrow>
    int \<times> int \<Rightarrow> int \<times> int \<Rightarrow> (rect \<times> (int \<times> int) \<times> (int \<times> int) option \<times> (int \<times> int)) result" where
  "input_render scr scr2d i gws tw ww tip wip off =
     res_bind (calc_working_pos i gws tw ww tip wip) (\<lambda>(((wx, wy), (tx, ty)), wip').
       res_bind (input_get_clip scr scr2d i) (\<lambda>c.
         Inr (c, ipos i,
              (if iactive i then Some (wx + fst off, wy + snd off) else None), wip')))"

section \<open>Label and Button\<close>

text \<open>
  A \<open>Label\<close> (lines 193--224): its text, the position of its text image and that
  image's size (a parameter: the font is not modelled). \<open>Label.__init__\<close> announces
  the widget (\<open>new-widget\<close>) and, with \<open>pos=None\<close>, takes the App's next position
  and advances the layout past the image.
\<close>

record glabel =
  lb_text :: string
  lb_pos :: "int \<times> int"
  lb_size :: "int \<times> int"

definition glabel_new :: "int \<Rightarrow> nat \<Rightarrow> string \<Rightarrow> int \<times> int \<Rightarrow> (int \<times> int) option \<Rightarrow> app \<Rightarrow> glabel \<times> app" where
  "glabel_new scr_w lid text sz pos a =
     (let a1 = new_widget lid a;
          (p, a2) = (case pos of None \<Rightarrow> place scr_w sz a1 | Some q \<Rightarrow> (q, a1))
      in (\<lparr>lb_text = text, lb_pos = p, lb_size = sz\<rparr>, a2))"

text \<open>
  \<open>Label.render\<close> (lines 217--224) draws the text image at the label's position plus
  the offset and puts the image back at the label's position; the result is where it
  was drawn. \<open>Button.render\<close> (lines 275--282) does the same with the image in use:
  the red copy while the button is pressed (\<open>True\<close> below), the text image otherwise.
\<close>

definition glabel_render :: "int \<times> int \<Rightarrow> glabel \<Rightarrow> int \<times> int" where
  "glabel_render off l = (fst (lb_pos l) + fst off, snd (lb_pos l) + snd off)"

definition button_render :: "int \<times> int \<Rightarrow> button \<Rightarrow> bool \<times> (int \<times> int)" where
  "button_render off b =
     (case bt_rect b of (x, y, w, h) \<Rightarrow> (bt_pressed b, (x + fst off, y + snd off)))"

section \<open>Frame\<close>

text \<open>
  A \<open>Frame\<close> is an \<open>App\<close> (its widget list and layout cursor, here the field
  \<open>fr_app\<close>) with a position and a size in its parent.
\<close>

record gui_frame =
  fr_app :: app
  fr_pos :: "int \<times> int"
  fr_size :: "int \<times> int"

text \<open>
  \<open>Frame.__init__\<close> (lines 627--648): as a widget of its parent it goes on top of the
  parent's list; with \<open>pos=None\<close> it takes the parent's next position (\<open>scr_w\<close> is the
  width the parent lays out in); its own list and cursor start empty.
\<close>

definition frame_new :: "int \<Rightarrow> nat \<Rightarrow> (int \<times> int) option \<Rightarrow> int \<times> int \<Rightarrow> app \<Rightarrow> gui_frame \<times> app" where
  "frame_new scr_w fid pos sz parent =
     (let p1 = new_widget fid parent;
          (p, p2) = (case pos of None \<Rightarrow> place scr_w sz p1 | Some q \<Rightarrow> (q, p1))
      in (\<lparr>fr_app = \<lparr>widgets = [], next_pos = (0, 0, 0), app_visible = True\<rparr>, fr_pos = p, fr_size = sz\<rparr>, p2))"

text \<open>\<open>Frame.get_mouse_pos\<close> (lines 650--655): the parent's mouse position, made relative.\<close>

definition frame_mouse_pos :: "int \<times> int \<Rightarrow> gui_frame \<Rightarrow> int \<times> int" where
  "frame_mouse_pos m f = (fst m - fst (fr_pos f), snd m - snd (fr_pos f))"

text \<open>\<open>Frame.get_next_position\<close> (lines 687--694) wraps at the frame's own width.\<close>

definition frame_next_position :: "gui_frame \<Rightarrow> int \<times> int \<Rightarrow> int \<times> int" where
  "frame_next_position f sz = get_next_position (fst (fr_size f)) (fr_app f) sz"

text \<open>\<open>Frame.handle_uncaught_event\<close> (lines 667--673): the visible widgets in order.\<close>

definition frame_uncaught :: "('w \<Rightarrow> bool) \<Rightarrow> ('w \<Rightarrow> bool \<times> 'w) \<Rightarrow> gui_frame \<Rightarrow> (nat \<Rightarrow> 'w) \<Rightarrow> bool \<times> (nat \<Rightarrow> 'w)" where
  "frame_uncaught vis h f m = dispatch vis h (widgets (fr_app f)) m"

text \<open>
  \<open>Frame.render\<close> (lines 675--685): the list is reversed, the clip of the frame is
  pushed, every visible widget renders at the frame's position plus the offset, the
  clip is popped and the list reversed back. The result is the clip pushed, the
  render calls (widget, offset) in order, and the frame after the call.
\<close>

definition frame_render :: "int \<times> int \<Rightarrow> int \<times> int \<Rightarrow> (nat \<Rightarrow> bool) \<Rightarrow> int \<times> int \<Rightarrow> gui_frame \<Rightarrow>
    (rect \<times> (nat \<times> (int \<times> int)) list \<times> gui_frame) result" where
  "frame_render scr scr2d vis off f =
     (let ws = rev (widgets (fr_app f));
          xy = (fst (fr_pos f) + fst off, snd (fr_pos f) + snd off)
      in res_bind (get_clip scr scr2d (fr_pos f) (fr_size f)) (\<lambda>c.
           Inr (c, map (\<lambda>i. (i, xy)) (filter vis ws),
                f\<lparr>fr_app := (fr_app f)\<lparr>widgets := rev ws\<rparr>\<rparr>)))"

section \<open>Radio\<close>

text \<open>
  A \<open>Radio\<close> (lines 341--402): its option checkboxes and labels (widget ids), the
  checkboxes' states, the positions the radio gives them, and the selected \<open>option\<close>.
  A checkbox is hit where its \<open>off\<close> image is (\<open>cb_rect\<close>); its \<open>pos\<close> is the
  separate field \<open>rd_box_pos\<close>.
\<close>

record radio =
  rd_checks :: "nat list"
  rd_labels :: "nat list"
  rd_boxes :: "nat \<Rightarrow> checkbox"
  rd_box_pos :: "nat \<Rightarrow> int \<times> int"
  rd_label_pos :: "nat \<Rightarrow> int \<times> int"
  rd_option :: nat
  rd_pos :: "int \<times> int"

text \<open>
  The loop of \<open>Radio.__init__\<close> (lines 357--366): option \<open>i\<close> has its checkbox at
  \<open>(0, height)\<close> and its label at \<open>(int(cw * 1.25), height)\<close>; the height grows by the
  taller of the checkbox image and the label, the width is the widest row
  \<open>cw + label width + 1\<close>. \<open>(cw, ch)\<close> is the size of the \<open>"O"\<close> image.
\<close>

fun radio_rows :: "int \<times> int \<Rightarrow> (int \<times> int) list \<Rightarrow> int \<Rightarrow> int \<Rightarrow> int list \<times> int \<times> int" where
  "radio_rows cimg [] height width = ([], height, width)"
| "radio_rows cimg (lsz # ls) height width =
     (let w = fst cimg + fst lsz + 1;
          (hs, h', w') = radio_rows cimg ls (height + max (snd cimg) (snd lsz)) (if w > width then w else width)
      in (height # hs, h', w'))"

text \<open>
  \<open>Radio.__init__\<close>: the radio, then each option's checkbox and label, go on top of the
  App's widget list; the block is placed at the next position (\<open>pos=None\<close>) or at
  \<open>pos\<close>, and every checkbox's and label's \<open>pos\<close> is shifted by it. The checkboxes'
  \<open>off\<close> images keep the position they were created at. The fresh ids of the radio,
  the checkboxes and the labels are arguments.
\<close>

definition radio_new :: "int \<Rightarrow> nat \<Rightarrow> nat list \<Rightarrow> nat list \<Rightarrow> int \<times> int \<Rightarrow> (int \<times> int) list \<Rightarrow>
    (int \<times> int) option \<Rightarrow> app \<Rightarrow> radio \<times> app" where
  "radio_new scr_w rid cids lids cimg lszs pos a =
     (let a1 = fold (\<lambda>(c, l) a. new_widget l (new_widget c a)) (zip cids lids) (new_widget rid a);
          (hs, height, width) = radio_rows cimg lszs 0 0;
          ((x, y), a2) = (case pos of None \<Rightarrow> place scr_w (width, height) a1 | Some q \<Rightarrow> (q, a1));
          lx = py_trunc (real_of_int (fst cimg) * 1.25);
          rows = zip cids hs; lrows = zip lids hs
      in (\<lparr>rd_checks = cids, rd_labels = lids,
           rd_boxes = (\<lambda>i. case map_of rows i of None \<Rightarrow> checkbox_new (0, 0, fst cimg, snd cimg)
                            | Some h \<Rightarrow> checkbox_new (0, h, fst cimg, snd cimg)),
           rd_box_pos = (\<lambda>i. case map_of rows i of None \<Rightarrow> (0, 0) | Some h \<Rightarrow> (x, y + h)),
           rd_label_pos = (\<lambda>i. case map_of lrows i of None \<Rightarrow> (0, 0) | Some h \<Rightarrow> (lx + x, h + y)),
           rd_option = 0, rd_pos = (x, y)\<rparr>, a2))"

text \<open>
  \<open>Radio.handle_mousedown\<close> (lines 385--390): the checkboxes in order until one takes
  the press; this is \<open>dispatch\<close> over always-visible checkboxes.
\<close>

definition radio_mousedown :: "string \<Rightarrow> int \<times> int \<Rightarrow> radio \<Rightarrow> bool \<times> radio" where
  "radio_mousedown name m r =
     (case dispatch (\<lambda>c. True) (cb_mousedown name m) (rd_checks r) (rd_boxes r) of
        (b, bx) \<Rightarrow> (b, r\<lparr>rd_boxes := bx\<rparr>))"

text \<open>
  \<open>Radio.handle_mouseup\<close> (lines 391--396): the checkboxes in order until one takes
  the release; the one that does fires \<open>check\<close> or \<open>uncheck\<close> with itself.
\<close>

fun cbs_mouseup :: "string \<Rightarrow> int \<times> int \<Rightarrow> nat list \<Rightarrow> (nat \<Rightarrow> checkbox) \<Rightarrow>
    bool \<times> (nat \<Rightarrow> checkbox) \<times> (nat \<times> cb_signal) option" where
  "cbs_mouseup name m [] bx = (False, bx, None)"
| "cbs_mouseup name m (i # is) bx =
     (case cb_mouseup name m (bx i) of
        (b, c, sig) \<Rightarrow> if b then (True, bx(i := c), map_option (\<lambda>s. (i, s)) sig)
                       else cbs_mouseup name m is (bx(i := c)))"

text \<open>A \<open>Radio\<close> binds only \<open>check\<close>, to \<open>handle_check\<close>; \<open>uncheck\<close> has no listener.\<close>

definition radio_mouseup :: "string \<Rightarrow> int \<times> int \<Rightarrow> radio \<Rightarrow> (bool \<times> radio) result" where
  "radio_mouseup name m r =
     (case cbs_mouseup name m (rd_checks r) (rd_boxes r) of
        (b, bx, Some (i, Check)) \<Rightarrow>
          res_bind (radio_handle_check (rd_checks r) i bx) (\<lambda>(bx', k). Inr (b, r\<lparr>rd_boxes := bx', rd_option := k\<rparr>))
      | (b, bx, _) \<Rightarrow> Inr (b, r\<lparr>rd_boxes := bx\<rparr>))"

text \<open>
  \<open>Radio.render\<close> (lines 404--407) renders the checkboxes and the labels;
  \<open>Checkbox.render\<close> (lines 328--339) leaves the \<open>off\<close> image at \<open>self.pos\<close>, so after
  a render a checkbox is hit where it is drawn.
\<close>

definition cb_render :: "(nat \<Rightarrow> int \<times> int) \<Rightarrow> nat \<Rightarrow> (nat \<Rightarrow> checkbox) \<Rightarrow> nat \<Rightarrow> checkbox" where
  "cb_render pos i bx =
     bx(i := (case cb_rect (bx i) of (x, y, w, h) \<Rightarrow> (bx i)\<lparr>cb_rect := (fst (pos i), snd (pos i), w, h)\<rparr>))"

definition radio_render :: "radio \<Rightarrow> radio" where
  "radio_render r = r\<lparr>rd_boxes := fold (cb_render (rd_box_pos r)) (rd_checks r) (rd_boxes r)\<rparr>"

section \<open>MultiChoiceRadio\<close>

text \<open>
  \<open>MultiChoiceRadio\<close> (lines 409--431): a radio with one state per option; its
  \<open>handle_check\<close> overrides the radio's (and so is what the options' \<open>check\<close> is bound
  to) and sets the option's state, and \<open>handle_uncheck\<close> clears it.
\<close>

record mc_radio = radio +
  mc_states :: "bool list"

definition mc_new :: "int \<Rightarrow> nat \<Rightarrow> nat list \<Rightarrow> nat list \<Rightarrow> int \<times> int \<Rightarrow> (int \<times> int) list \<Rightarrow>
    (int \<times> int) option \<Rightarrow> app \<Rightarrow> mc_radio \<times> app" where
  "mc_new scr_w rid cids lids cimg lszs pos a =
     (case radio_new scr_w rid cids lids cimg lszs pos a of
        (r, a') \<Rightarrow> (radio.extend r \<lparr>mc_states = replicate (length cids) False\<rparr>, a'))"

text \<open>\<open>self.checks.index(check)\<close>: ValueError when absent.\<close>

definition mc_set :: "nat \<Rightarrow> bool \<Rightarrow> mc_radio \<Rightarrow> mc_radio result" where
  "mc_set i v r =
     (if i \<in> set (rd_checks r)
      then Inr (r\<lparr>mc_states := (mc_states r)[length (takeWhile (\<lambda>j. j \<noteq> i) (rd_checks r)) := v]\<rparr>)
      else Inl ValueError)"

definition mc_mouseup :: "string \<Rightarrow> int \<times> int \<Rightarrow> mc_radio \<Rightarrow> (bool \<times> mc_radio) result" where
  "mc_mouseup name m r =
     (case cbs_mouseup name m (rd_checks r) (rd_boxes r) of
        (b, bx, sig) \<Rightarrow>
          let r1 = r\<lparr>rd_boxes := bx\<rparr>
          in (case sig of
                None \<Rightarrow> Inr (b, r1)
              | Some (i, Check) \<Rightarrow> res_bind (mc_set i True r1) (\<lambda>r2. Inr (b, r2))
              | Some (i, Uncheck) \<Rightarrow> res_bind (mc_set i False r1) (\<lambda>r2. Inr (b, r2))))"

definition mc_mousedown :: "string \<Rightarrow> int \<times> int \<Rightarrow> mc_radio \<Rightarrow> bool \<times> mc_radio" where
  "mc_mousedown name m r =
     (case dispatch (\<lambda>c. True) (cb_mousedown name m) (rd_checks r) (rd_boxes r) of
        (b, bx) \<Rightarrow> (b, r\<lparr>rd_boxes := bx\<rparr>))"

section \<open>Reachable radios\<close>

text \<open>
  The radios a program reaches: built by \<open>Radio.__init__\<close> (its checkboxes are distinct
  objects), then pressed, released and rendered. The invariant: at most one option is
  checked, and a checked option is the one \<open>option\<close> names. The converse is not part
  of it: \<open>option\<close> may name an unchecked option.
\<close>

inductive radio_reach :: "radio \<Rightarrow> bool" where
  new: "distinct cids \<Longrightarrow> radio_reach (fst (radio_new scr_w rid cids lids cimg lszs pos a))"
| down: "radio_reach r \<Longrightarrow> radio_reach (snd (radio_mousedown name m r))"
| up: "radio_reach r \<Longrightarrow> radio_mouseup name m r = Inr (b, r') \<Longrightarrow> radio_reach r'"
| render: "radio_reach r \<Longrightarrow> radio_reach (radio_render r)"

definition radio_inv :: "radio \<Rightarrow> bool" where
  "radio_inv r =
     (distinct (rd_checks r) \<and>
      (\<forall>i\<in>set (rd_checks r). cb_state (rd_boxes r i) \<longrightarrow>
         (\<forall>j\<in>set (rd_checks r). j \<noteq> i \<longrightarrow> \<not> cb_state (rd_boxes r j)) \<and>
         rd_option r < length (rd_checks r) \<and> rd_checks r ! rd_option r = i))"

text \<open>The multiple-choice radios a program reaches, and their invariant: the list of
  states is the list of the options' checkbox states.\<close>

inductive mc_reach :: "mc_radio \<Rightarrow> bool" where
  new: "distinct cids \<Longrightarrow> mc_reach (fst (mc_new scr_w rid cids lids cimg lszs pos a))"
| down: "mc_reach r \<Longrightarrow> mc_reach (snd (mc_mousedown name m r))"
| up: "mc_reach r \<Longrightarrow> mc_mouseup name m r = Inr (b, r') \<Longrightarrow> mc_reach r'"

definition mc_inv :: "mc_radio \<Rightarrow> bool" where
  "mc_inv r =
     (distinct (rd_checks r) \<and> length (mc_states r) = length (rd_checks r) \<and>
      (\<forall>k<length (rd_checks r). mc_states r ! k = cb_state (rd_boxes r (rd_checks r ! k))))"

text \<open>The 2D rectangle a window clip stands for when the window and the 2D screen have
  the same size.\<close>

definition clip_area :: "int \<times> int \<Rightarrow> rect \<Rightarrow> rect" where
  "clip_area scr c = (case c of (cx, cy, cw, ch) \<Rightarrow> (cx, snd scr - cy - ch, cw, ch))"

section \<open>Radio lemmas\<close>

text \<open>A press only marks a checkbox as clicked; a render only moves its hit rectangle.\<close>

lemma dispatch_cb_mousedown_state:
  "dispatch (\<lambda>c. True) (cb_mousedown name m) is bx = (b, bx') \<Longrightarrow> cb_state (bx' j) = cb_state (bx j)"
proof (induction "is" arbitrary: bx b)
  case (Cons i "is")
  obtain b1 c where h: "cb_mousedown name m (bx i) = (b1, c)" by fastforce
  have st: "cb_state c = cb_state (bx i)" using h by (auto simp: cb_mousedown_def split: if_splits)
  show ?case
  proof (cases b1)
    case True
    then show ?thesis using Cons.prems h st by (cases "j = i") auto
  next
    case False
    then have "dispatch (\<lambda>c. True) (cb_mousedown name m) is (bx(i := c)) = (b, bx')" using Cons.prems h by simp
    then have "cb_state (bx' j) = cb_state ((bx(i := c)) j)" by (rule Cons.IH)
    then show ?thesis using st by (cases "j = i") auto
  qed
qed simp

lemma cb_render_state: "cb_state (fold (cb_render pos) is bx j) = cb_state (bx j)"
  by (induction "is" arbitrary: bx) (auto simp: cb_render_def split: prod.splits)

text \<open>A release toggles at most one checkbox, the one it reports with the signal of its new state.\<close>

lemma cbs_mouseup_state:
  "cbs_mouseup name m is bx = (b, bx', sig) \<Longrightarrow>
   (case sig of
      None \<Rightarrow> \<forall>j. cb_state (bx' j) = cb_state (bx j)
    | Some (i, s) \<Rightarrow> i \<in> set is \<and> cb_state (bx' i) = (\<not> cb_state (bx i)) \<and>
                     (s = Check \<longleftrightarrow> cb_state (bx' i)) \<and> (\<forall>j. j \<noteq> i \<longrightarrow> cb_state (bx' j) = cb_state (bx j)))"
proof (induction "is" arbitrary: bx b bx' sig)
  case Nil
  then show ?case by simp
next
  case (Cons i "is")
  obtain b1 c s1 where h: "cb_mouseup name m (bx i) = (b1, c, s1)" by (cases "cb_mouseup name m (bx i)") auto
  show ?case
  proof (cases b1)
    case True
    then show ?thesis using Cons.prems h
      by (auto simp: cb_mouseup_def Let_def split: if_splits)
  next
    case False
    then have rec: "cbs_mouseup name m is (bx(i := c)) = (b, bx', sig)" using Cons.prems h by simp
    have st: "cb_state c = cb_state (bx i)" using h False by (auto simp: cb_mouseup_def Let_def split: if_splits)
    show ?thesis using Cons.IH [OF rec] st by (auto split: option.splits if_splits)
  qed
qed

lemma radio_inv_same_states:
  "radio_inv r \<Longrightarrow> rd_checks r' = rd_checks r \<Longrightarrow> rd_option r' = rd_option r \<Longrightarrow>
   (\<And>j. cb_state (rd_boxes r' j) = cb_state (rd_boxes r j)) \<Longrightarrow> radio_inv r'"
  by (simp add: radio_inv_def)

lemma radio_inv_one_on:
  "distinct (rd_checks r) \<Longrightarrow> rd_option r < length (rd_checks r) \<Longrightarrow>
   (\<And>j. j \<in> set (rd_checks r) \<Longrightarrow> cb_state (rd_boxes r j) \<Longrightarrow> j = rd_checks r ! rd_option r) \<Longrightarrow>
   radio_inv r"
  unfolding radio_inv_def by blast

lemma radio_new_fields:
  "rd_checks (fst (radio_new scr_w rid cids lids cimg lszs pos a)) = cids"
  "\<not> cb_state (rd_boxes (fst (radio_new scr_w rid cids lids cimg lszs pos a)) j)"
  "rd_option (fst (radio_new scr_w rid cids lids cimg lszs pos a)) = 0"
  by (auto simp: radio_new_def Let_def checkbox_new_def split: option.splits prod.splits)

lemma radio_inv_new: "distinct cids \<Longrightarrow> radio_inv (fst (radio_new scr_w rid cids lids cimg lszs pos a))"
  by (simp add: radio_inv_def radio_new_fields)

lemma radio_inv_down: "radio_inv r \<Longrightarrow> radio_inv (snd (radio_mousedown name m r))"
proof -
  assume inv: "radio_inv r"
  obtain b bx where d: "dispatch (\<lambda>c. True) (cb_mousedown name m) (rd_checks r) (rd_boxes r) = (b, bx)"
    by fastforce
  then have "snd (radio_mousedown name m r) = r\<lparr>rd_boxes := bx\<rparr>" by (simp add: radio_mousedown_def)
  then show ?thesis using inv dispatch_cb_mousedown_state [OF d] by (simp add: radio_inv_def)
qed

lemma radio_inv_render: "radio_inv r \<Longrightarrow> radio_inv (radio_render r)"
  by (rule radio_inv_same_states) (simp_all add: radio_render_def cb_render_state)

lemma radio_inv_up:
  assumes inv: "radio_inv r" and up: "radio_mouseup name m r = Inr (b, r')"
  shows "radio_inv r'"
proof -
  obtain b0 bx sig where cbs: "cbs_mouseup name m (rd_checks r) (rd_boxes r) = (b0, bx, sig)"
    by (cases "cbs_mouseup name m (rd_checks r) (rd_boxes r)") auto
  note st = cbs_mouseup_state [OF cbs]
  show ?thesis
  proof (cases sig)
    case None
    then have "r' = r\<lparr>rd_boxes := bx\<rparr>" using up cbs by (simp add: radio_mouseup_def)
    then show ?thesis using inv st None by (intro radio_inv_same_states [OF inv]) simp_all
  next
    case (Some p)
    then obtain i s where p: "sig = Some (i, s)" by (cases p) auto
    show ?thesis
    proof (cases s)
      case Check
      then obtain bx' k where hc: "radio_handle_check (rd_checks r) i bx = Inr (bx', k)"
        and r': "r' = r\<lparr>rd_boxes := bx', rd_option := k\<rparr>"
        using up cbs p by (auto simp: radio_mouseup_def res_bind_eq_Inr)
      have "s = Check \<longleftrightarrow> cb_state (bx i)" using st p by auto
      then have on: "cb_state (bx i)" using Check by simp
      note ex = radio_exclusive [OF hc]
      have on_eq: "j = i" if "j \<in> set (rd_checks r)" "cb_state (bx' j)" for j
        using ex that by blast
      have dist: "distinct (rd_checks r)" using inv by (simp add: radio_inv_def)
      have k: "k < length (rd_checks r)" "rd_checks r ! k = i" using ex by simp_all
      show ?thesis unfolding r'
        by (rule radio_inv_one_on) (simp_all add: dist k on_eq)
    next
      case Uncheck
      then have r': "r' = r\<lparr>rd_boxes := bx\<rparr>" using up cbs p by (simp add: radio_mouseup_def)
      have "\<not> cb_state (bx i)" "cb_state (rd_boxes r i)" "i \<in> set (rd_checks r)"
        using st p Uncheck by auto
      then have "\<forall>j\<in>set (rd_checks r). \<not> cb_state (bx j)"
        using st p inv by (auto simp: radio_inv_def)
      then show ?thesis using inv r' by (simp add: radio_inv_def)
    qed
  qed
qed

subsection \<open>MultiChoiceRadio\<close>

lemma mc_inv_same_states:
  "mc_inv r \<Longrightarrow> rd_checks r' = rd_checks r \<Longrightarrow> mc_states r' = mc_states r \<Longrightarrow>
   (\<And>j. cb_state (rd_boxes r' j) = cb_state (rd_boxes r j)) \<Longrightarrow> mc_inv r'"
  by (simp add: mc_inv_def)

lemma mc_inv_new: "distinct cids \<Longrightarrow> mc_inv (fst (mc_new scr_w rid cids lids cimg lszs pos a))"
  using radio_new_fields [of scr_w rid cids lids cimg lszs pos a]
  by (auto simp: mc_inv_def mc_new_def radio.defs split: prod.splits)

lemma mc_inv_down: "mc_inv r \<Longrightarrow> mc_inv (snd (mc_mousedown name m r))"
proof -
  assume inv: "mc_inv r"
  obtain b bx where d: "dispatch (\<lambda>c. True) (cb_mousedown name m) (rd_checks r) (rd_boxes r) = (b, bx)"
    by fastforce
  then have "snd (mc_mousedown name m r) = r\<lparr>rd_boxes := bx\<rparr>" by (simp add: mc_mousedown_def)
  then show ?thesis using inv dispatch_cb_mousedown_state [OF d] by (simp add: mc_inv_def)
qed

text \<open>Setting the state of the option whose checkbox alone changed, to its new state.\<close>

lemma mc_set_inv:
  assumes inv: "mc_inv r" and i: "i \<in> set (rd_checks r)"
    and bx: "\<And>j. j \<noteq> i \<Longrightarrow> cb_state (bx j) = cb_state (rd_boxes r j)" and v: "v = cb_state (bx i)"
    and set: "mc_set i v (r\<lparr>rd_boxes := bx\<rparr>) = Inr r2"
  shows "mc_inv r2"
proof -
  define k where "k = length (takeWhile (\<lambda>j. j \<noteq> i) (rd_checks r))"
  have k: "k < length (rd_checks r)" "rd_checks r ! k = i" using takeWhile_index [OF i] by (simp_all add: k_def)
  have r2: "r2 = r\<lparr>rd_boxes := bx, mc_states := (mc_states r)[k := v]\<rparr>"
    using set i by (simp add: mc_set_def k_def)
  have dist: "distinct (rd_checks r)" using inv by (simp add: mc_inv_def)
  have other: "rd_checks r ! k' \<noteq> i" if "k' < length (rd_checks r)" "k' \<noteq> k" for k'
    using dist k that by (metis nth_eq_iff_index_eq)
  show ?thesis
    using inv k v bx other by (auto simp: r2 mc_inv_def nth_list_update)
qed

lemma mc_inv_up:
  assumes inv: "mc_inv r" and up: "mc_mouseup name m r = Inr (b, r')"
  shows "mc_inv r'"
proof -
  obtain b0 bx sig where cbs: "cbs_mouseup name m (rd_checks r) (rd_boxes r) = (b0, bx, sig)"
    by (cases "cbs_mouseup name m (rd_checks r) (rd_boxes r)") auto
  note st = cbs_mouseup_state [OF cbs]
  show ?thesis
  proof (cases sig)
    case None
    then have "r' = r\<lparr>rd_boxes := bx\<rparr>" using up cbs by (simp add: mc_mouseup_def)
    then show ?thesis using st None by (intro mc_inv_same_states [OF inv]) simp_all
  next
    case (Some p)
    then obtain i s where p: "sig = Some (i, s)" by (cases p) auto
    have i: "i \<in> set (rd_checks r)" and bx: "\<And>j. j \<noteq> i \<Longrightarrow> cb_state (bx j) = cb_state (rd_boxes r j)"
      and sc: "s = Check \<longleftrightarrow> cb_state (bx i)" using st p by auto
    obtain r2 where "mc_set i (s = Check) (r\<lparr>rd_boxes := bx\<rparr>) = Inr r2" "r' = r2"
      using up cbs p by (cases s) (auto simp: mc_mouseup_def res_bind_eq_Inr)
    then show ?thesis using mc_set_inv [OF inv i bx] sc by simp
  qed
qed

subsection \<open>Where a radio's options are hit\<close>

lemma radio_rows_length: "length (fst (radio_rows cimg ls h w)) = length ls"
  by (induction ls arbitrary: h w) (simp_all add: Let_def split_beta)

lemma cb_rect_render:
  "cb_rect (fold (cb_render pos) is bx j) =
   (if j \<in> set is then (case cb_rect (bx j) of (x, y, w, h) \<Rightarrow> (fst (pos j), snd (pos j), w, h)) else cb_rect (bx j))"
  by (induction "is" arbitrary: bx) (auto simp: cb_render_def split: prod.splits)

text \<open>
  An option's checkbox is drawn at the radio's position plus its row, but until the
  radio is first rendered it is hit at its row alone, as if the radio stood at the
  origin; the first render moves the hit rectangle to where the box is drawn.
\<close>

lemma radio_hit_before_render:
  assumes "distinct cids" "length lszs = length cids" "k < length cids"
    and new: "radio_new scr_w rid cids lids cimg lszs (Some q) a = (r, a')"
  defines "h \<equiv> fst (radio_rows cimg lszs 0 0) ! k"
  shows "cb_rect (rd_boxes r (cids ! k)) = (0, h, fst cimg, snd cimg) \<and>
         rd_box_pos r (cids ! k) = (fst q, snd q + h) \<and>
         cb_rect (rd_boxes (radio_render r) (cids ! k)) = (fst q, snd q + h, fst cimg, snd cimg)"
proof -
  obtain hs height width where rows: "radio_rows cimg lszs 0 0 = (hs, height, width)"
    by (cases "radio_rows cimg lszs 0 0") auto
  have "length hs = length cids" using radio_rows_length [of cimg lszs 0 0] rows assms(2) by simp
  then have mo: "map_of (zip cids hs) (cids ! k) = Some (hs ! k)"
    using assms(1,3) by (simp add: map_of_zip_nth)
  have h: "h = hs ! k" using rows by (simp add: h_def)
  have r: "rd_checks r = cids"
    "rd_boxes r (cids ! k) = checkbox_new (0, h, fst cimg, snd cimg)"
    "rd_box_pos r (cids ! k) = (fst q, snd q + h)"
    using new mo rows h by (auto simp: radio_new_def Let_def split: prod.splits)
  then show ?thesis
    using assms(3) by (simp add: radio_render_def cb_rect_render checkbox_new_def)
qed

section \<open>Clip lemmas\<close>

lemma py_trunc_nonneg [simp]: "0 \<le> r \<Longrightarrow> py_trunc r = \<lfloor>r\<rfloor>"
  by (simp add: py_trunc_def)

lemma py_trunc_of_int [simp]: "py_trunc (real_of_int k) = k"
  by (simp add: py_trunc_def)

lemma get_clip_Inl: "get_clip scr scr2d pos sz = Inl e \<longleftrightarrow> (fst scr2d = 0 \<or> snd scr2d = 0) \<and> e = ZeroDivisionError"
  by (auto simp: get_clip_def Let_def)

lemma floor_add_le_scaled:
  assumes "0 \<le> a" "0 \<le> b" "0 \<le> r" "(a + b) * r \<le> real_of_int n"
  shows "\<lfloor>a * r\<rfloor> + \<lfloor>b * r\<rfloor> \<le> n"
proof -
  have "\<lfloor>a * r\<rfloor> + \<lfloor>b * r\<rfloor> \<le> \<lfloor>a * r + b * r\<rfloor>" by (rule le_floor_add)
  also have "\<dots> \<le> \<lfloor>real_of_int n\<rfloor>" using assms by (intro floor_mono) (simp add: distrib_right)
  finally show ?thesis by simp
qed

lemma scaled_within:
  assumes "0 < d" "0 \<le> s" "t \<le> real_of_int d"
  shows "t * (real_of_int s / real_of_int d) \<le> real_of_int s"
proof -
  have "t * (real_of_int s / real_of_int d) \<le> real_of_int d * (real_of_int s / real_of_int d)"
    using assms by (intro mult_right_mono) simp_all
  also have "\<dots> = real_of_int s" using assms by simp
  finally show ?thesis .
qed

text \<open>A widget inside the 2D screen gets a clip inside the window.\<close>

lemma get_clip_inside:
  assumes "0 < fst scr2d" "0 < snd scr2d" "0 \<le> fst scr" "0 \<le> snd scr"
    and "0 \<le> fst pos" "0 \<le> snd pos" "0 \<le> fst sz" "0 \<le> snd sz"
    and "fst pos + fst sz \<le> fst scr2d" "snd pos + snd sz \<le> snd scr2d"
  shows "\<exists>cx cy cw ch. get_clip scr scr2d pos sz = Inr (cx, cy, cw, ch) \<and>
           0 \<le> cx \<and> 0 \<le> cw \<and> cx + cw \<le> fst scr \<and> 0 \<le> cy \<and> 0 \<le> ch \<and> cy + ch \<le> snd scr"
proof -
  obtain W H where scr: "scr = (W, H)" by (cases scr)
  obtain W2 H2 where scr2: "scr2d = (W2, H2)" by (cases scr2d)
  obtain x y where pos: "pos = (x, y)" by (cases pos)
  obtain w h where sz: "sz = (w, h)" by (cases sz)
  define rx where "rx = real_of_int W / real_of_int W2"
  define ry where "ry = real_of_int H / real_of_int H2"
  have pos_r: "0 \<le> rx" "0 \<le> ry" using assms by (simp_all add: rx_def ry_def scr scr2)
  have xw: "\<lfloor>real_of_int x * rx\<rfloor> + \<lfloor>real_of_int w * rx\<rfloor> \<le> W"
    using assms scaled_within [of W2 W "real_of_int (x + w)"]
    by (intro floor_add_le_scaled) (simp_all add: rx_def scr scr2 pos sz)
  have yh: "\<lfloor>real_of_int y * ry\<rfloor> + \<lfloor>real_of_int h * ry\<rfloor> \<le> H"
    using assms scaled_within [of H2 H "real_of_int (y + h)"]
    by (intro floor_add_le_scaled) (simp_all add: ry_def scr scr2 pos sz)
  have "get_clip scr scr2d pos sz =
        Inr (\<lfloor>real_of_int x * rx\<rfloor>, H - \<lfloor>real_of_int y * ry\<rfloor> - \<lfloor>real_of_int h * ry\<rfloor>,
             \<lfloor>real_of_int w * rx\<rfloor>, \<lfloor>real_of_int h * ry\<rfloor>)"
    using assms pos_r by (simp add: get_clip_def Let_def rx_def [symmetric] ry_def [symmetric] scr scr2 pos sz)
  then show ?thesis
    using xw yh assms pos_r by (simp add: scr scr2 pos sz)
qed

lemma get_clip_unit_scale:
  "0 < fst scr \<Longrightarrow> 0 < snd scr \<Longrightarrow>
   get_clip scr scr pos sz = Inr (fst pos, snd scr - snd pos - snd sz, fst sz, snd sz)"
  by (simp add: get_clip_def Let_def)

lemma frame_render_Inr:
  "frame_render scr scr2d vis off f = Inr (c, calls, f') \<longleftrightarrow>
   get_clip scr scr2d (fr_pos f) (fr_size f) = Inr c \<and> f' = f \<and>
   calls = map (\<lambda>i. (i, (fst (fr_pos f) + fst off, snd (fr_pos f) + snd off))) (filter vis (rev (widgets (fr_app f))))"
  by (auto simp: frame_render_def res_bind_eq_Inr Let_def simp del: split_paired_Ex)

lemma frame_mouse_pos_nested:
  "frame_mouse_pos (frame_mouse_pos m f) g = (fst m - fst (fr_pos f) - fst (fr_pos g), snd m - snd (fr_pos f) - snd (fr_pos g))"
  by (simp add: frame_mouse_pos_def)

section \<open>Input cursor lemmas\<close>

text \<open>With glyphs of non-negative width the loop fails exactly when even the whole line
  does not bring the cursor to the box's left edge.\<close>

lemma wc_loop_Inl:
  "\<forall>w\<in>set ws. 0 \<le> w \<Longrightarrow> wc_loop wx px x0 ws = Inl e \<longleftrightarrow> wx + sum_list ws < x0 \<and> e = IndexError"
proof (induction ws arbitrary: wx px)
  case (Cons w ws)
  have "0 \<le> sum_list ws" using Cons.prems by (simp add: sum_list_nonneg)
  then show ?case using Cons by (auto simp: add.assoc)
qed auto

lemma calc_working_pos_fits:
  "itext i \<noteq> [] \<Longrightarrow> 0 < working i \<Longrightarrow> tw \<le> iwidth i - ww \<Longrightarrow>
   calc_working_pos i gws tw ww tip wip =
     res_bind (wc_loop (sum_list (take (nat (working i)) gws) - ww div 2) (fst (ipos i)) (fst (ipos i)) gws)
       (\<lambda>(wx', px'). Inr (((wx', snd (ipos i)), (px', snd (ipos i))), wip))"
  by (simp add: calc_working_pos_def Let_def split_beta)

lemma input_get_clip_not_IndexError: "input_get_clip scr scr2d i \<noteq> Inl IndexError"
  by (simp add: input_get_clip_def get_clip_Inl)


section \<open>Label lemmas\<close>

text \<open>A label placed in a frame is drawn at its own position, plus the frame's position,
  plus the offset the frame is rendered at: the two render methods compose.\<close>

lemma frame_label_drawn_at:
  assumes "frame_render scr scr2d vis off f = Inr (c, calls, f')" "(i, xy) \<in> set calls"
  shows "glabel_render xy l =
    (fst (lb_pos l) + fst (fr_pos f) + fst off, snd (lb_pos l) + snd (fr_pos f) + snd off) \<and>
    i \<in> set (widgets (fr_app f)) \<and> vis i"
  using assms by (auto simp: frame_render_Inr glabel_render_def)

text \<open>A label created in a frame's App with \<open>pos=None\<close> starts at the frame's next
  position, which wraps at the frame's width.\<close>

lemma glabel_in_frame:
  "lb_pos (fst (glabel_new (fst (fr_size f)) lid t sz None (fr_app f))) = frame_next_position f sz"
  by (simp add: glabel_new_def place_def frame_next_position_def new_widget_def get_next_position_def Let_def split_beta)


text \<open>\<open>Input.render\<close> draws its text at the widget's own position, for every offset and
  whatever the scrolled text position is: \<open>Label.render(self)\<close> ignores both.\<close>

lemma input_render_text_at_pos:
  "input_render scr scr2d i gws tw ww tip wip off = Inr (c, t, cur, wip') \<Longrightarrow> t = ipos i"
  by (auto simp: input_render_def res_bind_eq_Inr split: prod.splits)

end
