(* ===== verification/Spec2Isabelle.thy ===== *)
theory Spec2Isabelle
  imports Render_Facts VecStore NewGuiApp Font Data Mesh Game Geometry Particles GuiWidgets
begin

text \<open>
  \<^bold>\<open>A verification development of PYGGEL.\<close>
  PYGGEL is a Python 3D engine over PyOpenGL and pygame. Its core is the scene graph
  and the multi-pass render of \<open>src/trunk/pyggel/scene.py\<close>, which drives the window
  and GL state of \<open>src/pyggel/view.py\<close> and the renderables of
  \<open>src/pyggel/geometry.py\<close>; around it sit a vector library
  (\<open>src/pyggel/math3d.py\<close>), two GUI toolkits (\<open>src/trunk/pyggel/gui.py\<close> and
  \<open>src/trunk/pyggel/Newgui.py\<close>), the text module \<open>src/trunk/pyggel/font.py\<close> and the texture and vertex-array module
  (\<open>data.py\<close>, in trunk and in the pyglet branch), the OBJ/MTL loader \<open>src/trunk/pyggel/mesh.py\<close>
  and the demo game \<open>src/Robocalypto/gamelib/game.py\<close> built on the scene. Each part is a group of HOL
  definitions that follows the code, one definition per method or per phase of a long
  method, with Python's exceptions as values of \<open>py_error + 'a\<close>.

  \<^bold>\<open>Theories.\<close>
  \<^item> \<open>Prelude\<close>: the exceptions (\<open>py_error\<close>), results and \<open>res_bind\<close>, the list
    operations the code uses (\<open>list.remove\<close>, \<open>list.pop\<close>) with their failures, and the
    one-or-many argument convention of the \<open>add_*\<close> methods.
  \<^item> \<open>GL\<close>: the OpenGL environment the code drives, not repository code: the state
    flags, the matrix and program stacks, a log of events, and a frame buffer with a
    depth and a colour per pixel, written by \<open>gl_draw\<close> under the depth test, the depth
    mask, the alpha test and blending. Picking reads this buffer.
  \<^item> \<open>View\<close>: \<open>View.__init__\<close>, the pygame flags of \<open>get_screen_params\<close> as
    \<open>32 word\<close> values combined with \<open>OR\<close>, and every GL-state method (\<open>build_gl\<close>,
    lighting, fog, \<open>set2d\<close>, \<open>set3d\<close>, \<open>clear_screen\<close>).
  \<^item> \<open>Objects\<close>: the renderables, lights, camera and shaders the scene calls through
    narrow interfaces, as a heap of records indexed by object ids (Python references);
    the render methods of \<open>Cube\<close>, \<open>Sphere\<close>, \<open>Skybox\<close> and \<open>Skyball\<close>.
  \<^item> \<open>Scene\<close>: \<open>Tree\<close> and the mutating methods of \<open>Scene\<close> (\<open>add_*\<close>, \<open>remove_*\<close>,
    lights, skybox, shader), and a step function over them.
  \<^item> \<open>Render\<close>: \<open>Scene.render\<close> as one definition per phase over the record
    \<open>frame\<close> of the method's locals, the GL state and the heap: skybox, light
    assignment, the opaque and shader depth passes, the blend colour pass, the
    always-on-top pass, light release and the 2D overlay.
  \<^item> \<open>Picking\<close>: the contract of picking (\<open>nearest\<close>: the first visible object drawn
    under the cursor strictly nearer than everything before it) and the proof that
    \<open>depth_pass\<close> implements it; the last-writer characterisation of \<open>color_pass\<close>.
  \<^item> \<open>Render_Facts\<close>: field lemmas per phase and their composition into facts about
    the whole of \<open>render\<close>.
  \<^item> \<open>Math3D\<close>: \<open>Vector\<close>, \<open>Sphere\<close> and \<open>AABox\<close> over reals, \<open>rotate\<close>, and
    \<open>collide\<close> as a \<open>function\<close> whose termination is a measure on the receiver's class.
  \<^item> \<open>VecStore\<close>: \<open>Vector\<close> objects as mutable Python objects in a store with an
    environment of names, \<open>copy\<close>, \<open>get_pos\<close>, \<open>set_pos\<close>, the in-place and reflected
    operators, and augmented assignment over them, so that aliasing is explicit. A number
    or \<open>None\<close> on the left of a \<open>Vector\<close> goes to the vector's reflected method.
  \<^item> \<open>Gui\<close>: the App of \<open>gui.py\<close> (widget list, layout cursor, event dispatch, the
    \<open>next_widget\<close> loop as a \<open>partial_function (option)\<close>), \<open>Input\<close>, \<open>Checkbox\<close>,
    \<open>Radio\<close> and \<open>Button\<close>.
  \<^item> \<open>GuiWidgets\<close>: the rest of the widgets of \<open>gui.py\<close>: the clips of
    \<open>Input\<close> and \<open>Frame\<close> with Python's \<open>int()\<close> truncation, the cursor
    position of \<open>Input.calc_working_pos\<close> (its \<open>while\<close> loop over the glyph widths,
    which can run off the glyph list) and \<open>Input.render\<close>; \<open>Frame\<close>
    (construction, mouse position, event forwarding, layout, render); \<open>Radio\<close>
    (construction with its option rows, press, release, render) and
    \<open>MultiChoiceRadio\<close>, each with an inductive reachability relation and its invariant;
    \<open>Label\<close> construction and the positions \<open>Label.render\<close> and
    \<open>Button.render\<close> draw at, with the lemma that a label in a \<open>Frame\<close> is drawn at
    its position plus the frame's plus the offset.
  \<^item> \<open>NewGui\<close>: the App, \<open>Packer\<close> (\<open>pack_wrap\<close>, \<open>pack_center\<close>), \<open>NewLine\<close>,
    \<open>Label\<close> and the base \<open>Widget\<close> handlers of \<open>Newgui.py\<close>; an inductive
    reachability relation of Apps and the layout invariant. Its construction rules take
    label sizes and \<open>NewLine\<close> heights non-negative: a label's size is an image size,
    never negative, but \<open>NewLine(app, height)\<close> does not check its argument, and the
    layout properties (C33, C34) need it.
  \<^item> \<open>NewGuiApp\<close>: the event handlers and \<open>render\<close> of the \<open>Newgui.py\<close> App over
    the widget heap (one dispatch loop \<open>ng_dispatch\<close> shared by every handler), the
    Apps reached by construction and by handled events (\<open>ng_live\<close>) and their invariant:
    every listed widget is visible and has a position exactly when it is not a
    \<open>NewLine\<close>.
  \<^item> \<open>Font\<close>: \<open>Font.make_text_image\<close>'s layout, \<open>MEFont\<close> with its smileys, and
    \<open>MEFontImage\<close>: the smiley scan (a \<open>partial_function (option)\<close> over
    \<open>str.find\<close>), the glyph list, line splitting, glyph placement and colouring.
  \<^item> \<open>Data\<close>: \<open>Texture\<close> of both versions with the power-of-two loop of
    \<open>_get_next_biggest\<close> as a \<open>partial_function (option)\<close>, \<open>create_empty_texture\<close>
    and \<open>VertexArray\<close>.
  \<^item> \<open>Mesh\<close>: \<open>mesh.py\<close>'s Python helpers (indexing, \<open>str.split\<close>, \<open>int\<close> and
    \<open>float\<close> parsing), the MTL and OBJ parsers as folds over the lines with their
    exceptions, the face/display-list construction and \<open>get_dimensions\<close> with Python 2's
    mixed-type ordering.
  \<^item> \<open>Game\<close>: \<open>game.py\<close>'s level parser, \<open>Game.__init__\<close>, the input and update
    handlers, and \<open>main_loop\<close> as a \<open>partial_function (option)\<close> over a stream of
    per-frame events.
  \<^item> \<open>Geometry\<close>: the construction and display lists of \<open>Cube\<close>, \<open>Quad\<close>,
    \<open>Skybox\<close>, \<open>Sphere\<close> and \<open>Skyball\<close> (\<open>src/pyggel/geometry.py\<close>): the corner,
    side, normal and atlas tables, \<open>_compile\<close> as the list of quads drawn (texture bound,
    normal, texture coordinates and scaled vertices), the constructors with their
    exceptions and the \<open>copy\<close> methods; planarity and winding of the faces.
  \<^item> \<open>Particles\<close>: the particle demo \<open>src/branches/v0.1-nextgen/devtests/particles.py\<close>:
    its state as a record, \<open>OnTimerFraction\<close> over lists of triples standing for the
    numpy arrays, the key and timer handlers, a step function over the events, and an
    inductive reachability relation with the state invariant.
  This theory holds example data and the properties C1--C40, each after a text naming it.

  \<^bold>\<open>What is shown.\<close> Picking returns the nearest object under the cursor (C1), and the
  blend pass the last object that changed the pixel (C2); when \<open>render\<close> succeeds and
  when it raises (C3, C4); lights are released after a frame, except in the duplicate-light
  case that leaks a hardware unit (C5, C6); the scene invariant and the mutators (C7--C10);
  the view (C11, C13) and the 2D overlay (C12); vector algebra and collisions, including the
  corner-only box test, the in-place operators that rebind their target to \<open>None\<close> and the
  wrong centre of \<open>rotate\<close> (C14--C17); the faces
  of cubes and skyboxes and when a cube can be built (C18, C20); the invariant of the
  particle demo and its droplets that wait at the emitter (C19, C21); the \<open>gui.py\<close>
  App, its layout, the radios' invariants, Input editing, the frame's clip and the Input
  render error (C22--C29); textures and vertex arrays (C30, C32); the game's main loop
  ends exactly at the first quit event (C31); the packer, the base widget and the App of
  \<open>Newgui.py\<close>, where a left click that reaches a \<open>NewLine\<close> raises (C33--C39);
  the smiley scan of \<open>font.py\<close> (C40).
  Each property with a hypothesis has a witness theorem that applies it at a concrete input.

  \<^bold>\<open>Loops, fuel and termination.\<close> Loops over Python lists are structural recursion. The
  four loops whose end is not structural are \<open>partial_function (option)\<close>: \<open>next_widget\<close>
  (it never ends when no widget is visible, which C22 characterises), the doubling
  loop of \<open>_get_next_biggest\<close> (it always ends, C30, by induction on the distance to the
  bound) and the smiley scan of \<open>font.py\<close> (it ends exactly for non-empty smiley names,
  C40, by induction on the distance to the end of the text), and the game's
  \<open>main_loop\<close>, which runs until an event stops it (C31: it returns after the first
  frame whose events quit, and never when none does). No fuel is used.

  \<^bold>\<open>Not modelled.\<close> pygame and PyOpenGL themselves (the \<open>GL\<close> theory is their
  environment model), image and font rasterisation, file reading (a file is its
  list of lines), the OpenGLContext scene graph and timer of the particle demo (the
  timer is the fractions and cycles it reports, random draws are a parameter), the game's rendering and level geometry beyond the counts of its cells, the
  quadric of \<open>gluSphere\<close>, and the drawing of images and labels (a widget's render is the clip it pushes and
  the positions it draws at). Sizes of text images and the glyph widths of an
  \<open>Input\<close>'s text are parameters of the model, and texture objects are ids.
  Code that only calls pygame or OpenGL without state the model keeps is left out:
  \<open>View.build\<close>, \<open>build_icon\<close>, \<open>build_title\<close>, \<open>build_screen\<close> and
  \<open>refresh_screen\<close>, \<open>Texture.bind\<close> and \<open>DisplayList\<close>, \<open>Font.make_text_image3D\<close>
  (the 2D layout wrapped in a class outside the sources), and the entity updates of
  \<open>Game.do_update\<close> (player, shots and baddies are classes of files outside the sources).
  \<open>BasicMesh.render\<close> and \<open>MEFontImage.render\<close> are the lists of GL calls they make.
\<close>

section \<open>Example data\<close>

text \<open>
  A 640x480 view as \<open>View.__init__\<close> builds it with the default arguments, a GL state
  as \<open>build_gl\<close> and \<open>clear_screen\<close> would leave it, a heap of three solid
  objects at depths 0.5, 0.3 and 0.7 covering the whole screen, and scenes over it.
\<close>

definition solid :: "real \<Rightarrow> color \<Rightarrow> pixel \<Rightarrow> fragment option" where
  "solid d col = (\<lambda>p. Some \<lparr>fdepth = d, fcolor = col\<rparr>)"

definition demo_gl :: gl_state where
  "demo_gl =
     \<lparr>proj = NoProjection, depth_test = True, depth_mask = True, alpha_test = False,
      blend_on = True, lighting = True, fog_on = False, depth_func = DF_LEqual,
      alpha_func = Some (1 / 2), clear_color = (0, 0, 0, 0), program = 0, lights_on = {},
      matrix_depth = 0, fb_depth = (\<lambda>p. 1), fb_color = (\<lambda>p. (0, 0, 0, 0)), log = []\<rparr>"

definition demo_view :: view where
  "demo_view =
     \<lparr>screen_size = (640, 480), screen_size_2d = (640, 480), fullscreen = False,
      hwrender = True, decorated = True, view_lighting = True, view_fog = True,
      fog_color = (1 / 2, 1 / 2, 1 / 2, 1 / 2), view_angle = 45, close_view = 1 / 10,
      far_view = 100, view_clear_color = (0, 0, 0, 0), title = ''PYGGEL App'',
      clips = [(0, 0, 640, 480)], have_init = False, background_color = None\<rparr>"

definition demo_world :: world where
  "demo_world =
     \<lparr>objs = (\<lambda>i. \<lparr>visible = True,
                    frags = (if i = 1 then solid (1 / 2) (1, 0, 0, 1)
                             else if i = 2 then solid (3 / 10) (0, 1, 0, 1)
                             else if i = 3 then solid (7 / 10) (0, 0, 1, 1)
                             else (\<lambda>p. None)),
                    owner = None\<rparr>),
      light_gl = (\<lambda>l. 0)\<rparr>"

definition demo_sprite_world :: world where
  "demo_sprite_world =
     demo_world\<lparr>objs := (objs demo_world)(4 := \<lparr>visible = True, frags = solid (1 / 5) (0, 0, 1, 1 / 2), owner = None\<rparr>)\<rparr>"

definition demo_frame :: frame where
  "demo_frame = \<lparr>picked = None, last_depth = 1, last_color = (0, 0, 0, 0), my_lights = [],
     fworld = blank_world, fgl = demo_gl\<rparr>"

definition demo_always_scene :: scene where
  "demo_always_scene =
     scene_new 0\<lparr>graph := (graph (scene_new 0))\<lparr>render_3d := [1], render_3d_always := [2]\<rparr>, pick := True\<rparr>"

definition demo_light_scene :: scene where
  "demo_light_scene =
     scene_new 0\<lparr>graph := (graph (scene_new 0))\<lparr>render_3d := [1], lights := [5, 9]\<rparr>, pick := True\<rparr>"

definition demo_heap :: ng_heap where
  "demo_heap = (\<lambda>i. (ng_widget_new None)\<lparr>ng_size := (if i = 0 then (50, 10) else if i = 1 then (60, 20) else (30, 5))\<rparr>)"


definition demo_ng_step1 :: "(ng_app \<times> ng_heap) result" where
  "demo_ng_step1 = label_new 0 (50, 10) None (ng_app_new (100, 100)) demo_heap"

definition demo_ng_step2 :: "(ng_app \<times> ng_heap) result" where
  "demo_ng_step2 = label_new 1 (60, 20) None (fst (projr demo_ng_step1)) (snd (projr demo_ng_step1))"

definition demo_ng_line1 :: "(ng_app \<times> ng_heap) result" where
  "demo_ng_line1 = label_new 0 (50, 10) (Some (3, 4)) (ng_app_new (100, 100)) demo_heap"

definition demo_ng_line2 :: "(ng_app \<times> ng_heap) result" where
  "demo_ng_line2 = newline_new 1 5 (fst (projr demo_ng_line1)) (snd (projr demo_ng_line1))"

definition demo_vec_prog :: "vstmt list" where
  "demo_vec_prog = [NewVec ''a'' (1, 2, 3), Assign ''b'' ''a'', NewVec ''c'' (1, 1, 1)]"

definition demo_game :: game where
  "demo_game = \<lparr>running = False, grabbed = 1, frame = 0, g_scene = scene_new 0, player_angle = 0,
     player_pos = (0, 0), cam_roty = 0, cam_posx = 0, cam_posz = 0\<rparr>"

text \<open>The App of \<open>Newgui.py\<close> after a label placed at (3, 4) and a \<open>NewLine\<close>, as a reachable state.\<close>

lemma demo_ng_live2: "ng_live (fst (projr demo_ng_line2)) (snd (projr demo_ng_line2))"
proof -
  have e1: "label_new 0 (50, 10) (Some (3, 4)) (ng_app_new (100, 100)) demo_heap =
      Inr (fst (projr demo_ng_line1), snd (projr demo_ng_line1))"
    by (simp add: demo_ng_line1_def label_new_def ng_add_def pack_def ng_new_widget_def ng_app_new_def Let_def)
  have e2: "newline_new 1 5 (fst (projr demo_ng_line1)) (snd (projr demo_ng_line1)) =
      Inr (fst (projr demo_ng_line2), snd (projr demo_ng_line2))"
    by (simp add: demo_ng_line2_def demo_ng_line1_def newline_new_def label_new_def ng_add_def pack_def
        ng_new_widget_def ng_app_new_def Let_def)
  have w1: "ng_widgets (fst (projr demo_ng_line1)) = [0]"
    by (simp add: demo_ng_line1_def label_new_def ng_add_def pack_def ng_new_widget_def ng_app_new_def Let_def)
  have l1: "ng_live (fst (projr demo_ng_line1)) (snd (projr demo_ng_line1))"
    by (rule ng_live.label [OF ng_live.init _ e1]) (simp add: ng_app_new_def)
  show ?thesis by (rule ng_live.newline [OF l1 _ e2]) (simp add: w1)
qed

lemma demo_ng_line2_eval:
  "ng_widgets (fst (projr demo_ng_line2)) = [1, 0]"
  "snd (projr demo_ng_line2) (Suc 0) = (ng_widget_new None)\<lparr>ng_size := (0, 5), ng_newline := True\<rparr>"
  "snd (projr demo_ng_line2) 0 = (ng_widget_new (Some (3, 4)))\<lparr>ng_size := (50, 10)\<rparr>"
  by (simp_all add: demo_ng_line2_def demo_ng_line1_def newline_new_def label_new_def
      ng_add_def pack_def ng_new_widget_def ng_app_new_def Let_def pack_wrap_def ng_widget_new_def)


section \<open>Picking\<close>

text \<open>
  C1. With picking on, the 3D block on, no visible blended or always-on-top object, at
  most eight lights, a usable overlay and a cleared depth buffer under the cursor,
  \<open>Scene.render\<close> returns and its pick meets the picking contract: no object when no
  fragment under the cursor is nearer than the far plane, otherwise the first-drawn
  object of the opaque and shader lists whose fragment under the cursor (passing the
  alpha test) is nearest.
\<close>

theorem render_pick_nearest:
  assumes "snd (screen_size v) \<noteq> 0" "render3d s" "pick s" "scene_inv s"
    "\<forall>i\<in>set (render_3d_always (graph s)). \<not> visible (objs w i)"
    "\<forall>i\<in>set (render_3d_blend (graph s)). \<not> visible (objs w i)"
    "render2d s \<longrightarrow> overlay_ok v" "depth_mask g" "fb_depth g (cursor v m) = 1"
  shows "\<exists>p w' g'. render v m cam s w g = Inr (p, w', g') \<and>
           nearest (cand (g\<lparr>alpha_test := True\<rparr>) w (cursor v m))
             (render_3d (graph s) @ render_3d_shader (graph s)) 1 p"
  using render_pick_closest [OF assms] closest_nearest by blast

theorem render_pick_nearest_witness:
  "\<exists>p w' g'. render demo_view (10, 10) False
     (scene_new 0\<lparr>graph := (graph (scene_new 0))\<lparr>render_3d := [1, 2], render_3d_shader := [3]\<rparr>, pick := True\<rparr>)
     demo_world demo_gl = Inr (p, w', g') \<and>
   nearest (cand (demo_gl\<lparr>alpha_test := True\<rparr>) demo_world (cursor demo_view (10, 10))) [1, 2, 3] 1 p"
  using render_pick_nearest [of demo_view
      "scene_new 0\<lparr>graph := (graph (scene_new 0))\<lparr>render_3d := [1, 2], render_3d_shader := [3]\<rparr>, pick := True\<rparr>"
      demo_world demo_gl "(10, 10)" False]
  by (simp add: demo_view_def scene_new_def tree_new_def scene_inv_def overlay_ok_def demo_gl_def)

text \<open>
  C2. The blend pass of \<open>Scene.render\<close> picks the last blended object whose draw
  changes the colour under the cursor, and keeps the depth pick when none does.
\<close>

theorem blend_pick_last_changer:
  "picked (blend_phase c True t f) =
     (let xs = changers c (fworld f) (render_3d_blend t) ((fgl f)\<lparr>depth_mask := False\<rparr>)
      in if xs = [] then picked f else Some (last xs))"
  using color_pass_last_writer [of "f\<lparr>last_color := fb_color (fgl f) c, fgl := (fgl f)\<lparr>depth_mask := False\<rparr>\<rparr>" c
      "render_3d_blend t"]
  by (simp add: blend_phase_def Let_def on_gl_def)

theorem blend_pick_last_changer_witness:
  "picked (blend_phase (0, 0) True (tree_new\<lparr>render_3d_blend := [4]\<rparr>)
      \<lparr>picked = Some 2, last_depth = 3 / 10, last_color = (0, 0, 0, 0), my_lights = [],
       fworld = demo_sprite_world,
       fgl = gl_draw 2 (solid (3 / 10) (0, 1, 0, 1)) demo_gl\<rparr>) = Some 4"
  by (simp add: blend_pick_last_changer demo_sprite_world_def demo_world_def demo_gl_def solid_def tree_new_def
      obj_render_eq write_color_def write_depth_def frag_passes_def blend_mix_def)

section \<open>When render raises\<close>

text \<open>
  C3. \<open>Scene.render\<close> returns exactly when the screen height is non-zero, the 3D block
  (when enabled) has at most eight lights and is not asked to pick with a visible
  always-on-top object, and the overlay (when enabled) has a non-zero logical size.
\<close>

theorem render_ok_iff:
  "(\<exists>r. render v m cam s w g = Inr r) \<longleftrightarrow>
   snd (screen_size v) \<noteq> 0 \<and>
   (render3d s \<longrightarrow> length (lights (graph s)) \<le> 8 \<and> \<not> blocks_3d s w) \<and>
   (render2d s \<longrightarrow> overlay_ok v)"
proof (cases "snd (screen_size v) = 0")
  case True
  then show ?thesis by (simp add: render_def set3d_Inl)
next
  case False
  obtain g1 where g1: "set3d v g = Inr g1" using set3d_Inr [OF False] by simp
  have P: "(\<exists>f2. passes_3d (cursor v m) cam s (render_init v cam s w g1) = Inr f2) \<longleftrightarrow>
           length (lights (graph s)) \<le> 8 \<and> \<not> blocks_3d s w"
    using passes_3d_Inr_iff [of "cursor v m" cam s "render_init v cam s w g1"] by simp
  show ?thesis
    using P overlay_phase_Inr_iff [of v s] False by (auto simp: render_unfold [OF g1] res_bind_eq_Inr)
qed

theorem render_ok_iff_witness:
  "\<not> (\<exists>r. render demo_view (10, 10) False demo_always_scene demo_world demo_gl = Inr r)"
  using render_ok_iff [of demo_view "(10, 10)" False demo_always_scene demo_world demo_gl]
  by (simp add: demo_view_def demo_always_scene_def scene_new_def tree_new_def blocks_3d_def demo_world_def)

text \<open>
  C4. With picking on, a visible always-on-top object makes \<open>Scene.render\<close> raise
  NameError: the read-back names the undefined \<open>GL_GBA\<close>.
\<close>

theorem render_always_NameError:
  assumes "snd (screen_size v) \<noteq> 0" "render3d s" "scene_inv s" "pick s"
    "i \<in> set (render_3d_always (graph s))" "visible (objs w i)"
  shows "render v m cam s w g = Inl NameError"
proof -
  obtain g1 where g1: "set3d v g = Inr g1" using set3d_Inr [OF assms(1)] by simp
  have "passes_3d (cursor v m) cam s (render_init v cam s w g1) = Inl NameError"
    using assms by (intro passes_3d_NameError) (auto simp: scene_inv_def blocks_3d_def)
  then show ?thesis using assms(2) by (simp add: render_unfold [OF g1])
qed

theorem render_always_NameError_witness:
  "render demo_view (10, 10) False demo_always_scene demo_world demo_gl = Inl NameError"
  by (rule render_always_NameError [where i = 2])
     (simp_all add: demo_view_def demo_always_scene_def scene_new_def tree_new_def scene_inv_def
       demo_world_def)

section \<open>Hardware lights\<close>

text \<open>
  C5. After a render that ran the 3D block with distinct lights, exactly the light units the
  lights took (7, 6, ... from the end of the pool) are switched off again, and the
  modelview stack is back at its depth.
\<close>

theorem render_lights_released:
  assumes ok: "render v m cam s w g = Inr (p, w', g')" and r3: "render3d s"
    and d: "distinct (lights (graph s))"
  shows "lights_on g' = lights_on g - set (take (length (lights (graph s))) [7, 6, 5, 4, 3, 2, 1, 0])
         \<and> matrix_depth g' = matrix_depth g"
proof -
  let ?ls = "lights (graph s)"
  let ?us = "taken_units ?ls all_lights"
  have len: "length ?ls \<le> 8" by (rule render_lights_on(3) [OF ok r3])
  then have us: "?us = take (length ?ls) [7, 6, 5, 4, 3, 2, 1, 0]" and lus: "length ?us = length ?ls"
    by (simp_all add: taken_units_def all_lights_def)
  have "map (assign_map ?ls ?us (light_gl w)) ?ls = ?us" using assign_map_distinct [OF d lus] .
  then show ?thesis using render_lights_on(1,2) [OF ok r3] us by auto
qed

theorem render_lights_released_witness:
  "\<exists>p w' g'. render demo_view (10, 10) True demo_light_scene demo_world (demo_gl\<lparr>lights_on := {0}\<rparr>) = Inr (p, w', g') \<and>
     lights_on g' = {0} \<and> matrix_depth g' = 0"
proof -
  obtain w' g' where ok: "render demo_view (10, 10) True demo_light_scene demo_world (demo_gl\<lparr>lights_on := {0}\<rparr>) =
      Inr (fst (closest (cand ((demo_gl\<lparr>lights_on := {0}\<rparr>)\<lparr>alpha_test := True\<rparr>) demo_world (cursor demo_view (10, 10)))
        [1] (None, 1)), w', g')"
    using render_pick_closest [of demo_view demo_light_scene demo_world "demo_gl\<lparr>lights_on := {0}\<rparr>" "(10, 10)" True]
    by (auto simp: demo_view_def demo_light_scene_def scene_new_def tree_new_def scene_inv_def
      overlay_ok_def demo_gl_def)
  have "lights_on g' = {0} - set (take 2 [7, 6, 5, 4, 3, 2, 1, 0]) \<and> matrix_depth g' = 0"
    using render_lights_released [OF ok] by (simp add: demo_light_scene_def scene_new_def tree_new_def demo_gl_def)
  then show ?thesis using ok by auto
qed

text \<open>
  C6. A light registered twice takes two units but hides only the last one it was given:
  unit 7 stays enabled after the render and unit 6 is off.
\<close>

theorem render_duplicate_light_leak:
  assumes ok: "render v m cam s w g = Inr (p, w', g')" and r3: "render3d s"
    and dup: "lights (graph s) = [l, l]"
  shows "7 \<in> lights_on g' \<and> 6 \<notin> lights_on g'"
  using render_lights_on(1) [OF ok r3] dup by (simp add: taken_units_def all_lights_def assign_map_def)

theorem render_duplicate_light_leak_witness:
  "\<exists>p w' g'. render demo_view (10, 10) True
      (demo_light_scene\<lparr>graph := (graph demo_light_scene)\<lparr>lights := [5, 5]\<rparr>\<rparr>) demo_world demo_gl = Inr (p, w', g') \<and>
     7 \<in> lights_on g' \<and> 6 \<notin> lights_on g'"
proof -
  let ?s = "demo_light_scene\<lparr>graph := (graph demo_light_scene)\<lparr>lights := [5, 5]\<rparr>\<rparr>"
  obtain p w' g' where ok: "render demo_view (10, 10) True ?s demo_world demo_gl = Inr (p, w', g')"
    using render_pick_closest [of demo_view ?s demo_world demo_gl "(10, 10)" True]
    by (auto simp: demo_view_def demo_light_scene_def scene_new_def tree_new_def scene_inv_def
      overlay_ok_def demo_gl_def)
  have "7 \<in> lights_on g' \<and> 6 \<notin> lights_on g'"
    using render_duplicate_light_leak [OF ok] by (simp add: demo_light_scene_def scene_new_def tree_new_def)
  then show ?thesis using ok by blast
qed

section \<open>The scene graph\<close>

text \<open>
  C7. Every sequence of scene-graph calls that completes keeps the light registry at
  eight lights or fewer: \<open>add_light\<close> is the only call that grows it, and it refuses
  at eight.
\<close>

theorem scene_run_inv:
  "scene_run ops (s, w) = Inr (s', w') \<Longrightarrow> scene_inv s \<Longrightarrow> scene_inv s'"
proof (induction ops arbitrary: s w)
  case Nil
  then show ?case by simp
next
  case (Cons op ops)
  from Cons.prems(1) obtain s1 w1 where
    step: "scene_step op (s, w) = Inr (s1, w1)" and run: "scene_run ops (s1, w1) = Inr (s', w')"
    by (auto simp: res_bind_eq_Inr)
  from step Cons.prems(2) have "scene_inv s1" by (rule scene_step_inv)
  with run show ?case by (rule Cons.IH)
qed

theorem scene_run_inv_witness:
  "scene_run [AddLight 1, Add3D (One 2), RemoveLight 1] (scene_new 0, blank_world) =
     Inr (add_3d (One 2) (scene_new 0), blank_world) \<and>
   scene_inv (scene_new 0) \<and> scene_inv (add_3d (One 2) (scene_new 0))"
proof -
  have run: "scene_run [AddLight 1, Add3D (One 2), RemoveLight 1] (scene_new 0, blank_world) =
               Inr (add_3d (One 2) (scene_new 0), blank_world)"
    by (simp add: scene_new_def tree_new_def add_light_def add_3d_def remove_light_def)
  have inv: "scene_inv (scene_new 0)" by (rule scene_new_inv)
  show ?thesis using run inv scene_run_inv [OF run inv] by simp
qed

text \<open>
  C8. Adding lights one by one to a scene with at most eight appends them all when the
  total stays at most eight, and otherwise the sequence stops with ValueError.
\<close>

theorem add_lights_capacity:
  "scene_inv s \<Longrightarrow> scene_run (map AddLight ls) (s, w) =
     (if length (lights (graph s)) + length ls \<le> 8
      then Inr (s\<lparr>graph := (graph s)\<lparr>lights := lights (graph s) @ ls\<rparr>\<rparr>, w)
      else Inl ValueError)"
proof (induction ls arbitrary: s)
  case Nil
  then show ?case by (simp add: scene_inv_def)
next
  case (Cons l ls)
  then show ?case by (auto simp: add_light_def scene_inv_def)
qed

theorem add_lights_capacity_witness:
  "scene_run (map AddLight [0, 1, 2, 3, 4, 5, 6, 7, 8]) (scene_new 0, blank_world) = Inl ValueError \<and>
   scene_inv (scene_new 0)"
  using add_lights_capacity [of "scene_new 0" "[0, 1, 2, 3, 4, 5, 6, 7, 8]" blank_world] scene_new_inv [of 0]
  by (simp add: scene_new_def tree_new_def)

text \<open>
  C9. \<open>remove_3d\<close> removes only the first occurrence: the object stays in the opaque
  list exactly when it was there at least twice.
\<close>

theorem remove_3d_first_only:
  "remove_3d x s = Inr s' \<Longrightarrow> x \<in> set (render_3d (graph s')) \<longleftrightarrow> 2 \<le> count_list (render_3d (graph s)) x"
  by (auto simp: remove_3d_def py_remove_def res_bind_eq_Inr mem_remove1_iff split: if_splits)

theorem remove_3d_first_only_witness:
  "\<exists>s'. remove_3d 5 (add_3d (Many [5, 5]) (scene_new 0)) = Inr s' \<and> 5 \<in> set (render_3d (graph s'))"
proof -
  have ok: "remove_3d 5 (add_3d (Many [5, 5]) (scene_new 0)) = Inr (add_3d (One 5) (scene_new 0))"
    by (simp add: remove_3d_def add_3d_def py_remove_def scene_new_def tree_new_def)
  have "5 \<in> set (render_3d (graph (add_3d (One 5) (scene_new 0))))"
    using remove_3d_first_only [OF ok] by (simp add: add_3d_def scene_new_def tree_new_def)
  then show ?thesis using ok by blast
qed

text \<open>
  C10. Adding one object and removing it again succeeds and restores the opaque list as a
  multiset; it restores the scene exactly when nothing but that object follows its first
  occurrence in the list (in particular when it was absent): \<open>list.remove\<close> takes
  the first occurrence, \<open>add_3d\<close> appended the new one at the end.
\<close>

theorem add_remove_3d:
  "\<exists>s'. remove_3d x (add_3d (One x) s) = Inr s' \<and>
        mset (render_3d (graph s')) = mset (render_3d (graph s)) \<and>
        (s' = s \<longleftrightarrow> set (dropWhile (\<lambda>y. y \<noteq> x) (render_3d (graph s))) \<subseteq> {x})"
proof -
  have "remove1 x (render_3d (graph s) @ [x]) = render_3d (graph s) \<longleftrightarrow>
        s\<lparr>graph := (graph s)\<lparr>render_3d := remove1 x (render_3d (graph s) @ [x])\<rparr>\<rparr> = s"
    by (cases s, cases "graph s") auto
  then show ?thesis
    by (auto simp: remove_3d_def add_3d_def py_remove_Inr remove1_snoc_self mset_remove1 simp del: remove1_append)
qed

theorem add_remove_3d_witness:
  "\<exists>s'. remove_3d 5 (add_3d (One 5) (scene_new 0)) = Inr s' \<and>
        mset (render_3d (graph s')) = mset (render_3d (graph (scene_new 0))) \<and>
        (s' = scene_new 0 \<longleftrightarrow> set (dropWhile (\<lambda>y. y \<noteq> 5) (render_3d (graph (scene_new 0)))) \<subseteq> {5})"
  by (rule add_remove_3d)

section \<open>The view\<close>

text \<open>
  C11. \<open>build_gl\<close> raises AttributeError on every view \<open>View.__init__\<close> builds:
  \<open>build_background_color\<close> reads an attribute the constructor never sets.
\<close>

theorem fresh_view_build_gl:
  "view_new a = Inr v \<Longrightarrow> build_gl v g = Inl AttributeError"
  by (auto simp: view_new_def build_gl_def build_background_color_def Let_def
      split: option.splits prod.splits)

theorem fresh_view_build_gl_witness:
  "\<exists>v. view_new default_view_args = Inr v \<and> build_gl v demo_gl = Inl AttributeError"
proof -
  obtain v where ok: "view_new default_view_args = Inr v"
    by (simp add: view_new_def default_view_args_def)
  then show ?thesis using fresh_view_build_gl [OF ok] by blast
qed

text \<open>
  C12. The 2D block of \<open>Scene.render\<close> logs the scale from logical 2D size to screen
  size, then the visible overlay objects in insertion order; it leaves an orthographic
  projection, the depth test off, lighting as the view has it, and the matrix stack at
  its depth.
\<close>

theorem overlay_phase_effect:
  "overlay_phase v s f = Inr f' \<Longrightarrow>
   log (fgl f') = log (fgl f) @
     Scale (real_of_int (fst (screen_size v)) / real_of_int (fst (screen_size_2d v)))
           (real_of_int (snd (screen_size v)) / real_of_int (snd (screen_size_2d v))) #
     map Draw (filter (\<lambda>i. visible (objs (fworld f) i)) (render_2d (graph s))) \<and>
   lighting (fgl f') = view_lighting v \<and> proj (fgl f') = Ortho (fst (screen_size v)) (snd (screen_size v)) \<and>
   \<not> depth_test (fgl f') \<and> matrix_depth (fgl f') = matrix_depth (fgl f) \<and>
   picked f' = picked f \<and> fworld f' = fworld f"
  by (auto simp: overlay_phase_def Let_def set2d_def gl_push_matrix_def gl_pop_matrix_def draw_visible_log
      split: prod.splits if_splits)

theorem overlay_phase_effect_witness:
  "\<exists>f'. overlay_phase (demo_view\<lparr>screen_size_2d := (320, 240)\<rparr>) (scene_new 0) demo_frame = Inr f' \<and>
        log (fgl f') = [Scale 2 2] \<and> lighting (fgl f') \<and> \<not> depth_test (fgl f')"
proof -
  obtain g' where ok: "overlay_phase (demo_view\<lparr>screen_size_2d := (320, 240)\<rparr>) (scene_new 0) demo_frame =
      Inr (demo_frame\<lparr>fgl := g'\<rparr>)"
    using overlay_phase_Inr by (fastforce simp: overlay_ok_def)
  show ?thesis
    using overlay_phase_effect [OF ok] ok
    by (simp add: demo_view_def demo_frame_def demo_gl_def scene_new_def tree_new_def)
qed

text \<open>
  C13. The pygame display flags of \<open>View.get_screen_params\<close> encode the view's
  options bit by bit: OPENGL and DOUBLEBUF always, FULLSCREEN, HWSURFACE and NOFRAME
  exactly when the view is fullscreen, hardware-rendered and undecorated.
\<close>

theorem get_screen_params_flags:
  "get_screen_params v AND FULLSCREEN = (if fullscreen v then FULLSCREEN else 0) \<and>
   get_screen_params v AND HWSURFACE = (if hwrender v then HWSURFACE else 0) \<and>
   get_screen_params v AND NOFRAME = (if decorated v then 0 else NOFRAME) \<and>
   get_screen_params v AND (OPENGL OR DOUBLEBUF) = OPENGL OR DOUBLEBUF"
  by (simp add: get_screen_params_def OPENGL_def DOUBLEBUF_def FULLSCREEN_def HWSURFACE_def NOFRAME_def Let_def)

section \<open>Vector math and collisions\<close>

text \<open>
  C14. \<open>collide\<close> is symmetric for every pair of shapes: the delegation
  \<open>other.collide(self)\<close> and the symmetric tests give the same answer whichever
  shape receives the call.
\<close>

theorem collide_sym: "collide a b = collide b a"
  by (cases a; cases b) (auto simp: fast_distance_sym add.commute)

text \<open>
  C15. \<open>Vector.__iadd__\<close> and the other in-place operators update the object and return
  \<open>None\<close>, so \<open>x op= y\<close> on two \<open>Vector\<close> names changes the vector every alias of \<open>x\<close>
  sees and rebinds \<open>x\<close> to \<open>None\<close>. A second \<open>x op= y\<close> then calls the reflected
  method of \<open>y\<close> with \<open>None\<close>: \<open>+=\<close> and \<open>*=\<close> raise AttributeError
  (\<open>None.x\<close>), \<open>-=\<close> and \<open>/=\<close> never return (\<open>__rsub__\<close> and
  \<open>__rdiv__\<close> call themselves).
\<close>

theorem aug_assign_rebinds_None:
  assumes x: "vs_env s x = Some (VRef r)" and y: "vs_env s y = Some (VRef q)"
    and z: "vs_env s z = Some (VRef r)" "z \<noteq> x" and yx: "y \<noteq> x"
  shows "\<exists>s'. exec_prog [AugOp x op y] s = Some (Inr s') \<and> vs_env s' x = Some VNone \<and>
           vs_env s' z = Some (VRef r) \<and> vs_heap s' r = vop_eval op (vs_heap s r) (vs_heap s q) \<and>
           exec_prog [AugOp x op y, AugOp x op y] s =
             (if op = OpAdd \<or> op = OpMul then Some (Inl AttributeError) else None)"
proof -
  let ?s' = "s\<lparr>vs_heap := (vs_heap s)(r := vop_eval op (vs_heap s r) (vs_heap s q)),
                 vs_env := (vs_env s)(x \<mapsto> VNone)\<rparr>"
  have y': "vs_env ?s' y = Some (VRef q)" using y yx by auto
  show ?thesis
    using x z aug_assign_refs [OF x y] aug_assign_None [of ?s' x y q op, OF _ y']
    by (auto simp: exec_stmt_def)
qed

theorem aug_assign_rebinds_None_witness:
  "\<exists>s'. exec_prog [AugOp ''a'' OpAdd ''c''] (projr (the (exec_prog demo_vec_prog vs_empty))) = Some (Inr s') \<and>
     vs_env s' ''a'' = Some VNone \<and> vs_env s' ''b'' = Some (VRef 0) \<and> vs_heap s' 0 = mk_vec 2 3 4 \<and>
     exec_prog [AugOp ''a'' OpAdd ''c'', AugOp ''a'' OpAdd ''c''] (projr (the (exec_prog demo_vec_prog vs_empty))) =
       Some (Inl AttributeError)"
proof -
  define s where "s = projr (the (exec_prog demo_vec_prog vs_empty))"
  have e: "vs_env s ''a'' = Some (VRef 0)" "vs_env s ''c'' = Some (VRef (Suc 0))" "vs_env s ''b'' = Some (VRef 0)"
    "vs_heap s 0 = mk_vec 1 2 3" "vs_heap s (Suc 0) = mk_vec 1 1 1"
    by (simp_all add: s_def demo_vec_prog_def exec_stmt_def vs_alloc_def vs_empty_def lookup_def)
  obtain s' where "exec_prog [AugOp ''a'' OpAdd ''c''] s = Some (Inr s')" "vs_env s' ''a'' = Some VNone"
      "vs_env s' ''b'' = Some (VRef 0)" "vs_heap s' 0 = vop_eval OpAdd (vs_heap s 0) (vs_heap s (Suc 0))"
      "exec_prog [AugOp ''a'' OpAdd ''c'', AugOp ''a'' OpAdd ''c''] s = Some (Inl AttributeError)"
    using aug_assign_rebinds_None [OF e(1,2) e(3), of OpAdd] by (simp del: exec_prog.simps) blast
  moreover have "vop_eval OpAdd (vs_heap s 0) (vs_heap s (Suc 0)) = mk_vec 2 3 4"
    by (simp add: e vop_eval_def vec_add_def mk_vec_def)
  ultimately show ?thesis unfolding s_def by auto
qed

text \<open>
  C16. The box-box test only checks corners: any two boxes with the same centre that form
  a cross (one wider, the other taller) overlap, the centre lies in both, and yet
  \<open>collide\<close> reports no collision.
\<close>

theorem aabox_cross_miss:
  assumes "0 \<le> w'" "w' < w" "0 \<le> h" "h < h'" "0 \<le> d" "0 \<le> d'"
  shows "\<not> collide (ShAABox c (w, h, d)) (ShAABox c (w', h', d')) \<and>
         in_box c (w, h, d) 0 c \<and> in_box c (w', h', d') 0 c"
  using assms by (simp add: corners_def in_box_def mk_vec_def Let_def)

theorem aabox_cross_miss_witness:
  "\<not> collide (ShAABox (mk_vec 0 0 0) (3, 1, 1)) (ShAABox (mk_vec 0 0 0) (1, 3, 1)) \<and>
   in_box (mk_vec 0 0 0) (3, 1, 1) 0 (mk_vec 0 0 0) \<and> in_box (mk_vec 0 0 0) (1, 3, 1) 0 (mk_vec 0 0 0)"
  by (rule aabox_cross_miss) simp_all

text \<open>
  C17. \<open>Vector.rotate\<close> about a point other than the origin is wrong: the rotated
  coordinates are taken from \<open>self\<close> instead of \<open>self - vec\<close>. A half turn of any
  point about itself, around any one axis, moves it onto that axis instead of leaving it
  where it is.
\<close>

theorem rotate_about_self:
  "rotate c c (180, 0, 0) = mk_vec (vx c) 0 0 \<and>
   rotate c c (0, 180, 0) = mk_vec 0 (vy c) 0 \<and>
   rotate c c (0, 0, 180) = mk_vec 0 0 (vz c)"
  by (simp add: rotate_def vec_add_def vec_sub_def mk_vec_def rad_def)

section \<open>Cubes and the particle demo\<close>

text \<open>
  C18. The faces of a \<open>Cube\<close> (\<open>Cube._compile\<close>) all lie in the planes their
  normals name, but only the left and front faces run counter-clockwise seen from outside: with
  \<open>glFrontFace(GL_CCW)\<close> and \<open>glCullFace(GL_BACK)\<close> the right, top, bottom and back
  faces are culled from outside. The reordered side table of \<open>Skybox\<close> winds all six
  faces inward, so a skybox is seen from within.
\<close>

theorem cube_faces_culled:
  assumes "cube_new sz pos rot col tex = Inr c" and "skybox_new tex' col' = Inr k"
  shows "map (\<lambda>q. 0 < quad_winding q) (cb_list c) = [True, False, False, False, True, False] \<and>
         list_all (\<lambda>q. quad_winding q < 0) (cb_list k) \<and>
         list_all (quad_at 1.1) (cb_list c) \<and> list_all (quad_at 1.1) (cb_list k)"
proof -
  have c: "compile_cube cube_sides (cb_texture c) = Inr (cb_list c)" using assms(1) by (rule cube_new_list)
  have k: "compile_cube skybox_sides (cb_texture k) = Inr (cb_list k)" using assms(2) by (rule skybox_new_list)
  have wc: "map quad_winding (cb_list c) = [4.84, -4.84, -4.84, -4.84, 4.84, -4.84]"
    using compile_cube_windings [OF c] cube_sides_geometry(1) by simp
  have "map (\<lambda>q. 0 < quad_winding q) (cb_list c) = map (\<lambda>w. 0 < w) (map quad_winding (cb_list c))"
    by simp
  then have "map (\<lambda>q. 0 < quad_winding q) (cb_list c) = [True, False, False, False, True, False]"
    by (simp only: wc) simp
  moreover have wk: "map quad_winding (cb_list k) = [-4.84, -4.84, -4.84, -4.84, -4.84, -4.84]"
    using compile_cube_windings [OF k] skybox_sides_geometry(1) by simp
  have "list_all (\<lambda>w. w < 0) (map quad_winding (cb_list k))"
    by (simp only: wk) simp
  then have "list_all (\<lambda>q. quad_winding q < 0) (cb_list k)"
    by (simp add: list.pred_map comp_def)
  ultimately show ?thesis
    using compile_cube_at [OF c] compile_cube_at [OF k] cube_sides_geometry(2) skybox_sides_geometry(2) by simp
qed

theorem cube_faces_culled_witness:
  "\<exists>c k. cube_new 1 (0, 0, 0) (0, 0, 0) (1, 1, 1, 1) (Some (SingleTex 0)) = Inr c \<and>
         skybox_new (Some (SingleTex 0)) (1, 1, 1, 1) = Inr k \<and>
         map (\<lambda>q. 0 < quad_winding q) (cb_list c) = [True, False, False, False, True, False] \<and>
         list_all (\<lambda>q. quad_winding q < 0) (cb_list k)"
proof -
  obtain c where c: "cube_new 1 (0, 0, 0) (0, 0, 0) (1, 1, 1, 1) (Some (SingleTex 0)) = Inr c"
    using cube_new_single by blast
  obtain k where k: "skybox_new (Some (SingleTex 0)) (1, 1, 1, 1) = Inr k"
    using skybox_new_single by blast
  have "map (\<lambda>q. 0 < quad_winding q) (cb_list c) = [True, False, False, False, True, False] \<and>
        list_all (\<lambda>q. quad_winding q < 0) (cb_list k)"
    using cube_faces_culled [OF c k] by (simp only: conj_assoc)
  then show ?thesis using c k by (intro exI [of _ c] exI [of _ k]) simp
qed

text \<open>
  C19. Every state the particle demo reaches (\<open>particles.py\<close>: \<open>OnInit\<close>,
  then any key press, timer cycle, or timer fraction in [0, 1)) keeps its 3000 droplets, no droplet below
  the ground, every colour with blue at most green at most red and blue at least 0.9 (so no droplet
  is ever blue, although the demo announces droplets "starting blue and turning white"), the last
  fraction in [0, 1), point sizes with 0 <= minSize and minSize + 1 <= maxSize, and a positive
  timer multiplier.
\<close>

theorem particles_reach_inv: "p_reach s \<Longrightarrow> p_inv s"
proof (induction rule: p_reach.induct)
  case init
  then show ?case by (rule on_init_inv)
next
  case (key s rnd k)
  then show ?case by (auto intro: p_step_inv)
next
  case (cycle s rnd n)
  then show ?case by (auto intro: p_step_inv)
next
  case (frac s f rnd)
  then show ?case by (auto intro: p_step_inv)
qed

theorem particles_reach_inv_witness:
  "p_inv (p_step (\<lambda>_. (0.5, 0.5, 0.5)) (PFraction 0.5) on_init)"
  by (rule particles_reach_inv) (simp add: p_reach.init p_reach.frac)

text \<open>
  C20. Constructing a \<open>Cube\<close> fails exactly when the texture is missing or an
  empty sequence (NameError: \<open>blank_texture\<close> is defined nowhere) or a sequence of fewer
  than six textures (IndexError in \<open>_compile\<close>); a single texture or six or more always
  compile.
\<close>

theorem cube_new_errors:
  "cube_new sz pos rot col tex = Inl e \<longleftrightarrow>
     (tex = None \<or> tex = Some (FaceTex [])) \<and> e = NameError \<or>
     (\<exists>ts. tex = Some (FaceTex ts) \<and> ts \<noteq> [] \<and> length ts < 6) \<and> e = IndexError"
proof (cases tex)
  case None
  then show ?thesis by (auto simp: cube_new_def texture_or_blank_def)
next
  case (Some t)
  then show ?thesis
  proof (cases t)
    case (SingleTex k)
    then show ?thesis
      using Some compile_cube_single [of cube_sides k]
      by (auto simp: cube_new_def texture_or_blank_def res_bind_eq_Inl)
  next
    case (FaceTex ts)
    then show ?thesis
      using Some compile_cube_face_tex [of ts]
      by (auto simp: cube_new_def texture_or_blank_def res_bind_eq_Inl)
  qed
qed

theorem cube_new_errors_witness:
  "cube_new 1 (0, 0, 0) (0, 0, 0) (1, 1, 1, 1) None = Inl NameError \<and>
   cube_new 1 (0, 0, 0) (0, 0, 0) (1, 1, 1, 1) (Some (FaceTex [7, 8, 9])) = Inl IndexError"
  using cube_new_errors [of 1 "(0, 0, 0)" "(0, 0, 0)" "(1, 1, 1, 1)" None NameError]
        cube_new_errors [of 1 "(0, 0, 0)" "(0, 0, 0)" "(1, 1, 1, 1)" "Some (FaceTex [7, 8, 9])" IndexError]
  by simp

text \<open>
  C21. A droplet that \<open>OnTimerFraction\<close> finds at or below the ground but that is not among the
  first half of such droplets it respawns is put on the emitter with a downward vertical velocity,
  so the next step that advances time finds it below the ground again: it stays at the emitter
  until it is among the respawned half.
\<close>

theorem dead_droplets_stay_down:
  assumes inv: "p_inv s" and d: "0 < frac_delta (pt_last_fraction s) f"
    and ps: "ps = map2 (\<lambda>p v. v3_add p (v3_scale v (frac_delta (pt_last_fraction s) f))) (pt_points s) (pt_velocities s)"
    and i: "i \<in> set (dead_of ps)" "i \<notin> set (take (length (dead_of ps) div 2 + 1) (dead_of ps))"
  shows "pt_points (on_timer_fraction rnd f s) ! i = emitter \<and>
         v3_y (pt_velocities (on_timer_fraction rnd f s) ! i) < 0"
proof -
  define dt where "dt = frac_delta (pt_last_fraction s) f"
  have lens: "length (pt_points s) = p_count" "length (pt_velocities s) = p_count"
    using inv by (simp_all add: p_inv_def)
  have il: "i < length ps" and below: "v3_y (ps ! i) \<le> 0" using i(1) by (simp_all add: dead_of_iff)
  then have il': "i < length (pt_points s)" "i < length (pt_velocities s)" using lens ps by simp_all
  have "0 \<le> v3_y (pt_points s ! i)" using inv il' by (simp add: p_inv_def)
  moreover have "ps ! i = v3_add (pt_points s ! i) (v3_scale (pt_velocities s ! i) dt)"
    using il' lens by (simp add: ps dt_def)
  ultimately have down: "v3_y (v3_set_y (pt_velocities s ! i) (v3_y (pt_velocities s ! i) + gravity * dt)) < 0"
    using below d dead_velocity_down by (auto simp: dt_def)
  have ne: "dead_of ps \<noteq> []" using i(1) by auto
  have ps': "map2 (\<lambda>p v. v3_add p (v3_scale v dt)) (pt_points s) (pt_velocities s) = ps"
    by (simp add: ps dt_def)
  show ?thesis
    using ne d il il' i down lens
    by (simp add: on_timer_fraction_def Let_def dt_def [symmetric] ps' put_nth copy_at_nth_other)
qed

theorem dead_droplets_stay_down_witness:
  "pt_points (on_timer_fraction (\<lambda>_. (0.5, 0.5, 0.5)) 0.5 on_init) ! 2999 = emitter \<and>
   v3_y (pt_velocities (on_timer_fraction (\<lambda>_. (0.5, 0.5, 0.5)) 0.5 on_init) ! 2999) < 0"
proof (rule dead_droplets_stay_down [OF on_init_inv, where ps = "replicate p_count emitter"])
  show "0 < frac_delta (pt_last_fraction on_init) 0.5" by (simp add: frac_delta_def on_init_def)
  show "replicate p_count emitter = map2 (\<lambda>p v. v3_add p (v3_scale v (frac_delta (pt_last_fraction on_init) 0.5)))
          (pt_points on_init) (pt_velocities on_init)"
    by (simp add: on_init_def emitter_def zip_replicate map_replicate)
  show "2999 \<in> set (dead_of (replicate p_count emitter))"
    by (simp add: dead_of_iff p_count_def emitter_def)
  show "2999 \<notin> set (take (length (dead_of (replicate p_count emitter)) div 2 + 1) (dead_of (replicate p_count emitter)))"
    by (simp add: dead_of_def p_count_def emitter_def del: upt_Suc)
qed

section \<open>The widget toolkit\<close>

text \<open>
  C22. \<open>App.next_widget\<close> returns exactly when the widget list is empty (it then raises
  IndexError) or some widget is visible; with widgets but none visible its
  \<open>while\<close> loop never ends.
\<close>

theorem next_widget_terminates:
  "next_widget vis a \<noteq> None \<longleftrightarrow> widgets a = [] \<or> (\<exists>w\<in>set (widgets a). vis w)"
proof (cases "widgets a")
  case Nil
  then show ?thesis by (simp add: next_widget_def)
next
  case (Cons w rest)
  show ?thesis
  proof (cases "\<exists>v\<in>set (widgets a). vis v")
    case True
    then have "\<exists>v\<in>set (rest @ [w]). vis v" using Cons by auto
    then show ?thesis using Cons by (simp add: next_widget_def rotate_until_visible)
  next
    case False
    have "rotate_until vis (rest @ [w]) = None"
    proof (rule ccontr)
      assume "rotate_until vis (rest @ [w]) \<noteq> None"
      then obtain r where "rotate_until vis (rest @ [w]) = Some r" by blast
      from rotate_until_returns [OF this] have "vis (hd r)" "set r = set (rest @ [w])" by auto
      then have "hd r \<in> set (widgets a)" using Cons by (cases r) auto
      with \<open>vis (hd r)\<close> False show False by blast
    qed
    then show ?thesis using Cons False by (simp add: next_widget_def)
  qed
qed

text \<open>
  C23. A \<open>MultiChoiceRadio\<close> keeps its list of states equal to the states of its option
  checkboxes through every press and release: its \<open>handle_check\<close>, which overrides the radio's
  and so is what the options' \<open>check\<close> is bound to, sets the option's state, and
  \<open>handle_uncheck\<close> clears it.
\<close>

theorem mc_states_mirror: "mc_reach r \<Longrightarrow> mc_inv r"
  by (induction rule: mc_reach.induct) (auto intro: mc_inv_new mc_inv_down mc_inv_up)

theorem mc_states_mirror_witness:
  "\<exists>r1. mc_mouseup ''left'' (5, 15) (snd (mc_mousedown ''left'' (5, 15)
           (fst (mc_new 640 1 [2, 3] [4, 5] (10, 10) [(20, 10), (30, 10)] None app_new)))) = Inr (True, r1) \<and>
        mc_inv r1 \<and> mc_states r1 = [False, True]"
proof -
  define r0 where "r0 = fst (mc_new 640 1 [2, 3] [4, 5] (10, 10) [(20, 10), (30, 10)] None app_new)"
  define r1 where "r1 = snd (projr (mc_mouseup ''left'' (5, 15) (snd (mc_mousedown ''left'' (5, 15) r0))))"
  have up: "mc_mouseup ''left'' (5, 15) (snd (mc_mousedown ''left'' (5, 15) r0)) = Inr (True, r1)"
    and st: "mc_states r1 = [False, True]"
    unfolding r1_def r0_def
    by (simp_all add: mc_new_def radio_new_def mc_mousedown_def mc_mouseup_def mc_set_def Let_def checkbox_new_def
        place_def get_next_position_def set_next_position_def new_widget_def app_new_def cb_mousedown_def
        cb_mouseup_def collidepoint_def py_trunc_def radio.defs)
  have reach0: "mc_reach r0" unfolding r0_def by (rule mc_reach.new) simp
  have "mc_reach r1" by (rule mc_reach.up [OF mc_reach.down [OF reach0] up])
  then have "mc_inv r1" by (rule mc_states_mirror)
  then show ?thesis using up st unfolding r0_def by blast
qed

text \<open>
  C24. Widgets created one after another with automatic positions never overlap: the
  layout cursor of \<open>get_next_position\<close>/\<open>set_next_position\<close> keeps every placed
  rectangle apart from every later one.
\<close>

theorem layout_never_overlaps:
  "layout_ok rs (next_pos a) \<Longrightarrow> (\<forall>sz\<in>set szs. 0 \<le> fst sz \<and> 0 \<le> snd sz) \<Longrightarrow>
   place_all scr szs a = (qs, a') \<Longrightarrow>
   sorted_wrt apart qs \<and> (\<forall>r\<in>set rs. \<forall>q\<in>set qs. apart r q)"
proof (induction szs arbitrary: rs a qs a')
  case Nil
  then show ?case by simp
next
  case (Cons sz szs)
  obtain p a1 where pl: "place scr sz a = (p, a1)" by (cases "place scr sz a") auto
  obtain qs1 a2 where pa: "place_all scr szs a1 = (qs1, a2)" by (cases "place_all scr szs a1") auto
  let ?q = "(fst p, snd p, fst sz, snd sz)"
  have qs: "qs = ?q # qs1" using Cons.prems(3) pl pa by simp
  have st: "(\<forall>r\<in>set rs. apart r ?q) \<and> layout_ok (?q # rs) (next_pos a1)"
    using place_step [OF Cons.prems(1) _ _ pl] Cons.prems(2) by simp
  have ih: "sorted_wrt apart qs1 \<and> (\<forall>r\<in>set (?q # rs). \<forall>q\<in>set qs1. apart r q)"
    using Cons.IH [OF conjunct2 [OF st] _ pa] Cons.prems(2) by simp
  show ?case using qs st ih by auto
qed

theorem layout_never_overlaps_witness:
  "sorted_wrt apart (fst (place_all 640 [(100, 20), (600, 30), (50, 10)] app_new))"
  using layout_never_overlaps [of "[]" app_new "[(100, 20), (600, 30), (50, 10)]" 640
      "fst (place_all 640 [(100, 20), (600, 30), (50, 10)] app_new)"
      "snd (place_all 640 [(100, 20), (600, 30), (50, 10)] app_new)"]
  by (simp add: layout_ok_def)

text \<open>
  C25. Every event handler of \<open>Input\<close> keeps the text cursor within the text
  (\<open>0 \<le> working \<le> len(text)\<close>).
\<close>

theorem input_step_inv: "input_inv i \<Longrightarrow> input_inv (input_step e i)"
proof (cases e)
  case (KeyDown k s)
  assume "input_inv i"
  then show ?thesis using KeyDown by (simp add: keydown_inv)
next
  case (KeyHold k s t)
  assume inv: "input_inv i"
  have "input_inv (fst (snd (input_keydown k s i)))" using inv by (rule keydown_inv)
  then show ?thesis using KeyHold inv
    by (auto simp: input_keyhold_def input_inv_def split: option.splits prod.splits)
qed (auto simp: input_keyup_def input_mousedown_def input_mouseup_def input_inv_def Let_def)

theorem input_step_inv_witness:
  "input_inv (input_step (KeyDown K_BACKSPACE []) ((input_new ''ab'' 100 20 (0, 0))\<lparr>iactive := True\<rparr>))"
  by (rule input_step_inv) (simp add: input_inv_def input_new_def)

text \<open>
  C26. Typing acceptable characters into an active \<open>Input\<close> inserts them at the
  cursor, in order, and moves the cursor past them.
\<close>

theorem type_keys_inserts:
  "iactive i \<Longrightarrow> input_inv i \<Longrightarrow> (\<forall>c\<in>set cs. typed [c]) \<Longrightarrow>
   itext (type_keys cs i) = take (nat (working i)) (itext i) @ cs @ drop (nat (working i)) (itext i) \<and>
   working (type_keys cs i) = working i + int (length cs)"
proof (induction cs arbitrary: i)
  case Nil
  then show ?case by (simp add: type_keys_def)
next
  case (Cons c cs)
  let ?i1 = "i\<lparr>itext := take (nat (working i)) (itext i) @ [c] @ drop (nat (working i)) (itext i),
              working := working i + 1\<rparr>"
  have kd: "input_keydown (K_OTHER 0) [c] i = (True, ?i1, None)"
    using Cons.prems by (simp add: keydown_char)
  have inv1: "input_inv ?i1" using Cons.prems(2) by (auto simp: input_inv_def)
  have ih: "itext (type_keys cs ?i1) = take (nat (working ?i1)) (itext ?i1) @ cs @ drop (nat (working ?i1)) (itext ?i1) \<and>
            working (type_keys cs ?i1) = working ?i1 + int (length cs)"
    using Cons.prems inv1 by (intro Cons.IH) simp_all
  have w: "nat (working i + 1) = Suc (nat (working i))" using Cons.prems(2) by (simp add: input_inv_def nat_add_distrib)
  have len: "nat (working i) \<le> length (itext i)" using Cons.prems(2) by (simp add: input_inv_def nat_le_iff)
  show ?case using ih kd w len by (simp add: type_keys_def)
qed

theorem type_keys_inserts_witness:
  "itext (type_keys ''bc'' ((input_new ''ad'' 100 20 (0, 0))\<lparr>iactive := True, working := 1\<rparr>)) = ''abcd'' \<and>
   working (type_keys ''bc'' ((input_new ''ad'' 100 20 (0, 0))\<lparr>iactive := True, working := 1\<rparr>)) = 3"
  using type_keys_inserts [of "(input_new ''ad'' 100 20 (0, 0))\<lparr>iactive := True, working := 1\<rparr>" "''bc''"]
  by (simp add: input_inv_def input_new_def typed_char acceptable_def)

text \<open>
  C27. In every \<open>Radio\<close> reached by construction, presses, releases and renders, at most
  one option is checked, and a checked option is the one \<open>option\<close> names. The converse fails:
  \<open>option\<close> starts at 0 with nothing checked, and clicking the checked option again unchecks it
  (no one listens to \<open>uncheck\<close>) while \<open>option\<close> keeps naming it.
\<close>

theorem radio_reach_inv: "radio_reach r \<Longrightarrow> radio_inv r"
  by (induction rule: radio_reach.induct)
     (auto intro: radio_inv_new radio_inv_down radio_inv_up radio_inv_render)

theorem radio_reach_inv_witness:
  "\<exists>r1 r2. radio_mouseup ''left'' (5, 15) (snd (radio_mousedown ''left'' (5, 15)
              (fst (radio_new 640 1 [2, 3] [4, 5] (10, 10) [(20, 10), (30, 10)] None app_new)))) = Inr (True, r1) \<and>
           radio_mouseup ''left'' (5, 15) (snd (radio_mousedown ''left'' (5, 15) r1)) = Inr (True, r2) \<and>
           radio_inv r2 \<and> rd_option r2 = 1 \<and> \<not> cb_state (rd_boxes r2 2) \<and> \<not> cb_state (rd_boxes r2 3)"
proof -
  define r0 where "r0 = fst (radio_new 640 1 [2, 3] [4, 5] (10, 10) [(20, 10), (30, 10)] None app_new)"
  have reach0: "radio_reach r0" unfolding r0_def by (rule radio_reach.new) simp
  define r1 where "r1 = snd (projr (radio_mouseup ''left'' (5, 15) (snd (radio_mousedown ''left'' (5, 15) r0))))"
  define r2 where "r2 = snd (projr (radio_mouseup ''left'' (5, 15) (snd (radio_mousedown ''left'' (5, 15) r1))))"
  have up1: "radio_mouseup ''left'' (5, 15) (snd (radio_mousedown ''left'' (5, 15) r0)) = Inr (True, r1)"
    unfolding r1_def by (simp add: r0_def radio_new_def radio_mousedown_def radio_mouseup_def Let_def checkbox_new_def place_def
        get_next_position_def set_next_position_def new_widget_def app_new_def cb_mousedown_def cb_mouseup_def
        collidepoint_def radio_handle_check_def py_trunc_def)
  have up2: "radio_mouseup ''left'' (5, 15) (snd (radio_mousedown ''left'' (5, 15) r1)) = Inr (True, r2)"
    unfolding r2_def r1_def by (simp add: r0_def radio_new_def radio_mousedown_def radio_mouseup_def Let_def checkbox_new_def place_def
        get_next_position_def set_next_position_def new_widget_def app_new_def cb_mousedown_def cb_mouseup_def
        collidepoint_def radio_handle_check_def py_trunc_def)
  have s2: "rd_option r2 = 1 \<and> \<not> cb_state (rd_boxes r2 2) \<and> \<not> cb_state (rd_boxes r2 3)"
    unfolding r2_def r1_def by (simp add: r0_def radio_new_def radio_mousedown_def radio_mouseup_def Let_def checkbox_new_def place_def
        get_next_position_def set_next_position_def new_widget_def app_new_def cb_mousedown_def cb_mouseup_def
        collidepoint_def radio_handle_check_def py_trunc_def)
  have "radio_reach r2"
    using reach0 up1 up2 by (blast intro: radio_reach.down radio_reach.up)
  then have "radio_inv r2" by (rule radio_reach_inv)
  then show ?thesis using up1 up2 s2 unfolding r0_def by blast
qed

text \<open>
  C28. \<open>Frame.render\<close> draws its widgets at the frame's position plus the render offset,
  but pushes the clip of \<open>Frame.get_clip\<close>, computed from the frame's position alone: with
  equal window and 2D sizes the clip is the frame's box at its unshifted position, so a frame
  rendered inside another frame that is further away than its own size is clipped away entirely.
\<close>

theorem frame_clip_ignores_offset:
  assumes "0 < fst scr" "0 < snd scr" and r: "frame_render scr scr vis off f = Inr (c, calls, f')"
  shows "clip_area scr c = (fst (fr_pos f), snd (fr_pos f), fst (fr_size f), snd (fr_size f)) \<and>
         (\<forall>call\<in>set calls. snd call = (fst (fr_pos f) + fst off, snd (fr_pos f) + snd off)) \<and>
         (fst (fr_size f) < fst off \<or> snd (fr_size f) < snd off \<longrightarrow>
            apart (clip_area scr c) (fst (fr_pos f) + fst off, snd (fr_pos f) + snd off, fst (fr_size f), snd (fr_size f)))"
proof -
  have c: "c = (fst (fr_pos f), snd scr - snd (fr_pos f) - snd (fr_size f), fst (fr_size f), snd (fr_size f))"
    using r get_clip_unit_scale [OF assms(1,2)] by (simp add: frame_render_Inr)
  have "calls = map (\<lambda>i. (i, (fst (fr_pos f) + fst off, snd (fr_pos f) + snd off))) (filter vis (rev (widgets (fr_app f))))"
    using r by (simp add: frame_render_Inr)
  then show ?thesis by (auto simp: c clip_area_def apart_def split_beta)
qed

theorem frame_clip_ignores_offset_witness:
  "\<exists>c calls f'. frame_render (640, 480) (640, 480) (\<lambda>_. True) (100, 100)
                  \<lparr>fr_app = app_new\<lparr>widgets := [7]\<rparr>, fr_pos = (0, 0), fr_size = (10, 10)\<rparr> = Inr (c, calls, f') \<and>
     calls = [(7, (100, 100))] \<and> apart (clip_area (640, 480) c) (100, 100, 10, 10)"
proof -
  define f where "f = \<lparr>fr_app = app_new\<lparr>widgets := [7]\<rparr>, fr_pos = (0::int, 0::int), fr_size = (10::int, 10::int)\<rparr>"
  have r: "frame_render (640, 480) (640, 480) (\<lambda>_. True) (100, 100) f = Inr ((0, 470, 10, 10), [(7, (100, 100))], f)"
    by (simp add: f_def frame_render_Inr get_clip_unit_scale app_new_def)
  have "apart (clip_area (640, 480) (0, 470, 10, 10)) (100, 100, 10, 10)"
    using frame_clip_ignores_offset [OF _ _ r] by (auto simp: f_def)
  then show ?thesis using r unfolding f_def by blast
qed

text \<open>
  C29. Rendering an \<open>Input\<close> whose text fits its box and whose cursor is past the first
  character raises IndexError exactly when the text's glyphs, counted from 0 instead of from the
  box's left edge, do not reach that edge: \<open>calc_working_pos\<close> starts the cursor at the width of
  the text before it rather than at \<open>pos[0]\<close> plus that width, and its \<open>while\<close> loop then runs
  past the last glyph. An Input at x = 200 with the text "ab" cannot be rendered.
\<close>

theorem input_render_IndexError:
  assumes "itext i \<noteq> []" "0 < working i" "tw \<le> iwidth i - ww" "\<forall>w\<in>set gws. 0 \<le> w"
  shows "input_render scr scr2d i gws tw ww tip wip off = Inl IndexError \<longleftrightarrow>
         sum_list (take (nat (working i)) gws) - ww div 2 + sum_list gws < fst (ipos i)"
proof -
  let ?wx = "sum_list (take (nat (working i)) gws) - ww div 2"
  have loop: "wc_loop ?wx (fst (ipos i)) (fst (ipos i)) gws = Inl IndexError \<longleftrightarrow> ?wx + sum_list gws < fst (ipos i)"
    using wc_loop_Inl [OF assms(4)] by simp
  show ?thesis
  proof (cases "wc_loop ?wx (fst (ipos i)) (fst (ipos i)) gws")
    case (Inl e)
    then have "?wx + sum_list gws < fst (ipos i) \<and> e = IndexError"
      using wc_loop_Inl [OF assms(4)] by blast
    then show ?thesis using Inl
      by (simp add: input_render_def calc_working_pos_fits [OF assms(1-3)])
  next
    case (Inr p)
    then show ?thesis using loop input_get_clip_not_IndexError [of scr scr2d i]
      by (cases "input_get_clip scr scr2d i")
         (auto simp: input_render_def calc_working_pos_fits [OF assms(1-3)] split: prod.splits)
  qed
qed

theorem input_render_IndexError_witness:
  "input_render (640, 480) (640, 480) (input_new ''ab'' 100 20 (200, 0)) [8, 8] 16 2 (200, 0) (200, 0) (0, 0)
     = Inl IndexError"
  using input_render_IndexError [of "input_new ''ab'' 100 20 (200, 0)" 16 2 "[8, 8]"]
  by (simp add: input_new_def)

section \<open>Textures and vertex arrays\<close>

text \<open>
  C30. \<open>_get_next_biggest\<close> always returns, and its result is the least size
  \<open>16 * 2^k\<close> that is at least the image's width (and likewise for the height).
\<close>

theorem get_next_biggest_pow2:
  "\<exists>nw nh k j. get_next_biggest x y = Some (nw, nh) \<and>
     nw = 16 * 2 ^ k \<and> x \<le> nw \<and> (k = 0 \<or> 16 * 2 ^ (k - 1) < x) \<and>
     nh = 16 * 2 ^ j \<and> y \<le> nh \<and> (j = 0 \<or> 16 * 2 ^ (j - 1) < y)"
proof -
  obtain k where k: "double_until 16 x = Some (16 * 2 ^ k)" "x \<le> 16 * 2 ^ k" "k = 0 \<or> 16 * 2 ^ (k - 1) < x"
    using double_until_step [of 16 x] by auto
  obtain j where j: "double_until 16 y = Some (16 * 2 ^ j)" "y \<le> 16 * 2 ^ j" "j = 0 \<or> 16 * 2 ^ (j - 1) < y"
    using double_until_step [of 16 y] by auto
  show ?thesis using k j by (auto simp: get_next_biggest_def)
qed

section \<open>The demo game (game.py)\<close>

text \<open>
  C31. \<open>Game.main_loop\<close> returns after frame \<open>n\<close> exactly when frame \<open>n\<close> is the first
  whose events hold QUIT or Escape, and it never returns when no frame's events do: every
  quit request is eventually honoured, at the end of the frame that received it.
\<close>

theorem game_run_first_quit:
  "((\<exists>g'. game_run ev mr g = Some (Suc n, g')) \<longleftrightarrow> quits (ev n) \<and> (\<forall>m<n. \<not> quits (ev m))) \<and>
   ((\<forall>n. \<not> quits (ev n)) \<longrightarrow> game_run ev mr g = None)"
proof (rule conjI)
  show "(\<exists>g'. game_run ev mr g = Some (Suc n, g')) \<longleftrightarrow> quits (ev n) \<and> (\<forall>m<n. \<not> quits (ev m))"
  proof
    assume "\<exists>g'. game_run ev mr g = Some (Suc n, g')"
    then obtain g' where "main_loop ev mr 0 (g\<lparr>running := True\<rparr>) = Some (Suc n, g')" by (auto simp: game_run_def)
    from main_loop_result [OF this] show "quits (ev n) \<and> (\<forall>m<n. \<not> quits (ev m))"
      by (simp add: loop_result_def)
  next
    assume "quits (ev n) \<and> (\<forall>m<n. \<not> quits (ev m))"
    then show "\<exists>g'. game_run ev mr g = Some (Suc n, g')"
      using main_loop_reaches [of "g\<lparr>running := True\<rparr>" 0 n ev mr] by (simp add: game_run_def)
  qed
next
  show "(\<forall>n. \<not> quits (ev n)) \<longrightarrow> game_run ev mr g = None"
  proof
  assume nq: "\<forall>n. \<not> quits (ev n)"
  show "game_run ev mr g = None"
  proof (rule ccontr)
    assume "game_run ev mr g \<noteq> None"
    then obtain r where "main_loop ev mr 0 (g\<lparr>running := True\<rparr>) = Some r" by (auto simp: game_run_def)
    from main_loop_result [OF this] nq show False by (simp add: loop_result_def)
  qed
  qed
qed

theorem game_run_first_quit_witness:
  "(\<exists>g'. game_run (\<lambda>n. if n = 2 then [EvQuit] else []) (\<lambda>n. 0) demo_game = Some (3, g')) \<and>
   game_run (\<lambda>n. []) (\<lambda>n. 0) demo_game = None"
proof
  have "quits ((\<lambda>n::nat. if n = 2 then [EvQuit] else []) 2) \<and>
        (\<forall>m<2. \<not> quits ((\<lambda>n::nat. if n = 2 then [EvQuit] else []) m))"
    by (simp add: quits_def)
  then show "\<exists>g'. game_run (\<lambda>n. if n = 2 then [EvQuit] else []) (\<lambda>n. 0) demo_game = Some (3, g')"
    using game_run_first_quit [of "\<lambda>n. if n = 2 then [EvQuit] else []" "\<lambda>n. 0" demo_game 2]
    by (simp add: numeral_3_eq_3)
  have "\<forall>n. \<not> quits ((\<lambda>n::nat. []) n)" by (simp add: quits_def)
  then show "game_run (\<lambda>n. []) (\<lambda>n. 0) demo_game = None"
    using game_run_first_quit [of "\<lambda>n. []" "\<lambda>n. 0" demo_game 0] by blast
qed

section \<open>Textures and vertex arrays\<close>

text \<open>
  C32. A fresh \<open>VertexArray\<close> renders without failing its assertion, with zero-filled
  buffers of 3, 4 and 2 numbers per vertex and \<open>max_size\<close> vertices.
\<close>

theorem va_render_new:
  "va_render (vertex_array_new rt n) =
     Some (replicate (3 * n) 0, replicate (4 * n) 0, replicate (2 * n) 0, n)"
  using concat_replicate_rep [of n 3 "0::real"] concat_replicate_rep [of n 4 "0::real"]
    concat_replicate_rep [of n 2 "0::real"]
  by (simp add: va_render_def vertex_array_new_def flat_verts_def flat_colors_def
      flat_texcs_def or_zero_def numeral_eq_Suc mult.commute)

section \<open>The packing GUI (Newgui.py)\<close>

text \<open>
  C33. \<open>Packer.pack_wrap\<close> gives every widget it places a position within the packer's width
  (or at the start of a row, for a widget wider than the packer), and no two placed widgets
  share a pixel, provided the widget list has no duplicates and sizes are non-negative.
\<close>

theorem pack_wrap_layout:
  assumes "distinct ws" "\<forall>i\<in>set ws. nonneg_size (m i)" "i \<in> set ws" "j \<in> set ws" "i \<noteq> j"
    "ng_packed (m i)" "ng_packed (m j)"
  shows "(\<exists>x y. ng_pos (pack_wrap sz ws m i) = Some (x, y) \<and> (x = 0 \<or> x + fst (ng_size (m i)) \<le> fst sz)) \<and>
         \<not> (collidepoint (ng_rect (pack_wrap sz ws m i)) p \<and> collidepoint (ng_rect (pack_wrap sz ws m j)) p)"
proof -
  obtain st where inv: "wrap_inv (fst sz) ws st (pack_wrap sz ws m)" using pack_wrap_inv assms(1,2) by blast
  then have "wrap_placed (fst sz) st (pack_wrap sz ws m i)"
    using assms(3,6) by (simp add: wrap_inv_def pack_wrap_fields)
  then have "\<exists>x y. ng_pos (pack_wrap sz ws m i) = Some (x, y) \<and> (x = 0 \<or> x + fst (ng_size (m i)) \<le> fst sz)"
    by (auto simp: wrap_placed_def pack_wrap_fields split: prod.splits option.splits)
  moreover have "rect_disjoint (ng_rect (pack_wrap sz ws m i)) (ng_rect (pack_wrap sz ws m j))"
    using inv assms(3-7) by (simp add: wrap_inv_def pack_wrap_fields)
  ultimately show ?thesis using rect_disjoint_collide by blast
qed

theorem pack_wrap_layout_witness:
  "ng_pos (pack_wrap (100, 100) [0, 1, 2] demo_heap 2) = Some (60, 11) \<and>
   \<not> (collidepoint (ng_rect (pack_wrap (100, 100) [0, 1, 2] demo_heap 2)) (60, 15) \<and>
      collidepoint (ng_rect (pack_wrap (100, 100) [0, 1, 2] demo_heap 1)) (60, 15))"
proof -
  have "(\<exists>x y. ng_pos (pack_wrap (100, 100) [0, 1, 2] demo_heap 2) = Some (x, y) \<and>
          (x = 0 \<or> x + fst (ng_size (demo_heap 2)) \<le> fst (100::int, 100::int))) \<and>
        \<not> (collidepoint (ng_rect (pack_wrap (100, 100) [0, 1, 2] demo_heap 2)) (60, 15) \<and>
           collidepoint (ng_rect (pack_wrap (100, 100) [0, 1, 2] demo_heap 1)) (60, 15))"
    by (rule pack_wrap_layout) (simp_all add: demo_heap_def nonneg_size_def ng_packed_def ng_widget_new_def)
  moreover have "ng_pos (pack_wrap (100, 100) [0, 1, 2] demo_heap 2) = Some (60, 11)"
    by (simp add: pack_wrap_def demo_heap_def ng_widget_new_def)
  ultimately show ?thesis by simp
qed

text \<open>
  C34. In every App reachable from \<open>App.__init__\<close> by creating labels and new lines,
  \<open>set_top_widget\<close> and \<open>next_widget\<close>, every packed widget has a position and no two
  share a pixel: the layout invariant holds in every reachable state.
\<close>

theorem ng_reach_apart:
  "ng_reach a m \<Longrightarrow> i \<in> set (ng_widgets a) \<Longrightarrow> j \<in> set (ng_widgets a) \<Longrightarrow> i \<noteq> j \<Longrightarrow>
   ng_packed (m i) \<Longrightarrow> ng_packed (m j) \<Longrightarrow>
   ng_pos (m i) \<noteq> None \<and> \<not> (collidepoint (ng_rect (m i)) p \<and> collidepoint (ng_rect (m j)) p)"
  using ng_reach_layout [of a m] rect_disjoint_collide unfolding ng_layout_ok_def by blast

theorem ng_reach_apart_witness:
  "ng_pos (snd (projr demo_ng_step2) 1) = Some (0, 11) \<and>
   \<not> (collidepoint (ng_rect (snd (projr demo_ng_step2) 0)) (10, 10) \<and>
      collidepoint (ng_rect (snd (projr demo_ng_step2) 1)) (10, 10))"
proof -
  have e1: "label_new 0 (50, 10) None (ng_app_new (100, 100)) demo_heap = Inr (fst (projr demo_ng_step1), snd (projr demo_ng_step1))"
    by (simp add: demo_ng_step1_def label_new_def ng_add_def pack_def ng_new_widget_def ng_app_new_def Let_def)
  have e2: "label_new 1 (60, 20) None (fst (projr demo_ng_step1)) (snd (projr demo_ng_step1)) = Inr (fst (projr demo_ng_step2), snd (projr demo_ng_step2))"
    by (simp add: demo_ng_step2_def label_new_def ng_add_def pack_def ng_new_widget_def
        demo_ng_step1_def ng_app_new_def Let_def)
  have w1: "ng_widgets (fst (projr demo_ng_step1)) = [0]"
    by (simp add: demo_ng_step1_def label_new_def ng_add_def pack_def ng_new_widget_def ng_app_new_def Let_def)
  have pt1: "packtype (ng_packer (fst (projr demo_ng_step1))) = ''wrap''"
    by (simp add: demo_ng_step1_def label_new_def ng_add_def pack_def ng_new_widget_def ng_app_new_def Let_def)
  have w2: "ng_widgets (fst (projr demo_ng_step2)) = [1, 0]"
    by (simp add: demo_ng_step2_def label_new_def ng_add_def pack_def ng_new_widget_def w1 pt1 Let_def)
  have r0: "ng_reach (ng_app_new (100, 100)) demo_heap" by (rule ng_reach_init)
  have r1: "ng_reach (fst (projr demo_ng_step1)) (snd (projr demo_ng_step1))"
    by (rule ng_reach_label [OF r0 _ _ _ e1]) (simp_all add: ng_app_new_def)
  have r2: "ng_reach (fst (projr demo_ng_step2)) (snd (projr demo_ng_step2))"
    by (rule ng_reach_label [OF r1 _ _ _ e2]) (simp_all add: w1)
  have p: "ng_packed (snd (projr demo_ng_step2) 0)" "ng_packed (snd (projr demo_ng_step2) 1)"
    by (simp_all add: demo_ng_step2_def demo_ng_step1_def label_new_def ng_add_def pack_def ng_new_widget_def
        ng_app_new_def Let_def pack_wrap_def ng_packed_def ng_widget_new_def)
  have "ng_pos (snd (projr demo_ng_step2) 0) \<noteq> None \<and>
     \<not> (collidepoint (ng_rect (snd (projr demo_ng_step2) 0)) (10, 10) \<and>
        collidepoint (ng_rect (snd (projr demo_ng_step2) 1)) (10, 10))"
    by (rule ng_reach_apart [OF r2 _ _ _ p]) (simp_all add: w2)
  moreover have "ng_pos (snd (projr demo_ng_step2) 1) = Some (0, 11)"
    by (simp add: demo_ng_step2_def demo_ng_step1_def label_new_def ng_add_def pack_def ng_new_widget_def
        ng_app_new_def Let_def pack_wrap_def ng_widget_new_def)
  ultimately show ?thesis by simp
qed

text \<open>
  C35. \<open>Widget.handle_keyhold\<close> never records a held key (it writes the misspelt
  \<open>key_hold_lenths\<close> and raises AttributeError), so along any sequence of key events
  that completes, the hold table stays empty, no accepted key is ever held, and the only
  key presses fired are those of \<open>handle_keydown\<close>: key repeat never happens.
\<close>

theorem keyhold_never_repeats:
  "ng_khl w = Map.empty \<Longrightarrow> ng_key_run can es w = Inr (sigs, w') \<Longrightarrow>
   ng_khl w' = Map.empty \<and> sigs = accepted_presses can (ng_key_active w) es \<and>
   (\<forall>e\<in>set es. \<forall>k s t. e = KHold k s t \<longrightarrow> \<not> (can k s \<and> ng_key_active w))"
proof (induction es arbitrary: w sigs)
  case Nil
  then show ?case by simp
next
  case (Cons e es)
  obtain b w1 s1 s2 where st: "ng_key_step can e w = Inr (b, w1, s1)"
      and run: "ng_key_run can es w1 = Inr (s2, w')" and sigs: "sigs = s1 @ s2"
    using Cons.prems(2) by (auto simp: res_bind_eq_Inr split: prod.splits)
  note one = key_step_empty [OF Cons.prems(1) st]
  have "ng_khl w' = Map.empty \<and> s2 = accepted_presses can (ng_key_active w1) es \<and>
      (\<forall>e\<in>set es. \<forall>k s t. e = KHold k s t \<longrightarrow> \<not> (can k s \<and> ng_key_active w1))"
    using Cons.IH [OF _ run] one by simp
  then show ?case using one sigs accepted_presses_Cons [of can _ e es] by auto
qed

theorem keyhold_never_repeats_witness:
  "ng_key_run (\<lambda>k s. True) [KDown K_LEFT [], KUp K_LEFT []] (ng_widget_new None) =
     Inr ([SigKeypress K_LEFT []], ng_widget_new None) \<and>
   [SigKeypress K_LEFT []] = accepted_presses (\<lambda>k s. True) True [KDown K_LEFT [], KUp K_LEFT []] \<and>
   ng_key_run (\<lambda>k s. True) [KDown K_LEFT [], KHold K_LEFT [] 0] (ng_widget_new None) = Inl AttributeError"
proof -
  have h: "ng_khl (ng_widget_new None) = Map.empty" by (simp add: ng_widget_new_def)
  have r: "ng_key_run (\<lambda>k s. True) [KDown K_LEFT [], KUp K_LEFT []] (ng_widget_new None) =
     Inr ([SigKeypress K_LEFT []], ng_widget_new None)"
    by (simp add: ng_keydown_def ng_keyup_def ng_widget_new_def)
  have "[SigKeypress K_LEFT []] = accepted_presses (\<lambda>k s. True) (ng_key_active (ng_widget_new None))
          [KDown K_LEFT [], KUp K_LEFT []]"
    using keyhold_never_repeats [OF h r] by simp
  moreover have "ng_key_run (\<lambda>k s. True) [KDown K_LEFT [], KHold K_LEFT [] 0] (ng_widget_new None) = Inl AttributeError"
    by (simp add: ng_keydown_def ng_keyhold_def ng_widget_new_def)
  ultimately show ?thesis using r by (simp add: ng_widget_new_def)
qed



text \<open>
  C37. In every App reached from \<open>App.__init__\<close> by creating labels and new lines,
  reordering the widgets and handling events, a left click raises TypeError exactly when a
  \<open>NewLine\<close> comes in the widget list before every widget under the mouse: the packer
  never gives a \<open>NewLine\<close> a position, and \<open>Widget._collidem\<close> unpacks it.
\<close>

theorem ng_click_TypeError:
  assumes "ng_live a m"
  shows "ng_app_mousedown ''left'' p a m = Inl TypeError \<longleftrightarrow>
    (\<exists>k<length (ng_widgets a). ng_newline (m (ng_widgets a ! k)) \<and>
       (\<forall>j<k. ng_collidem p (m (ng_widgets a ! j)) = Inr False))"
proof -
  let ?ws = "ng_widgets a" and ?h = "\<lambda>_::nat. ng_mousedown ''left'' p"
  have ok: "\<And>k. k < length ?ws \<Longrightarrow> ng_widget_ok (m (?ws ! k))"
    using ng_live_wf [OF assms] by (simp add: ng_wf_def)
  have raise: "\<And>k. k < length ?ws \<Longrightarrow>
      (ng_visible (m (?ws ! k)) \<and> ?h (?ws ! k) (m (?ws ! k)) = Inl TypeError) \<longleftrightarrow> ng_newline (m (?ws ! k))"
    using ok ng_mousedown_left_TypeError by (simp add: ng_widget_ok_def)
  have reject: "\<And>j. j < length ?ws \<Longrightarrow>
      (ng_visible (m (?ws ! j)) \<longrightarrow> (\<exists>s. ?h (?ws ! j) (m (?ws ! j)) = Inr (False, m (?ws ! j), s))) \<longleftrightarrow>
      ng_collidem p (m (?ws ! j)) = Inr False"
    using ok ng_mousedown_left_reject by (simp add: ng_widget_ok_def)
  have D: "ng_dispatch ?h ?ws m = Inl TypeError \<longleftrightarrow>
    (\<exists>k<length ?ws. ng_visible (m (?ws ! k)) \<and> ?h (?ws ! k) (m (?ws ! k)) = Inl TypeError \<and>
       (\<forall>j<k. ng_visible (m (?ws ! j)) \<longrightarrow> (\<exists>s. ?h (?ws ! j) (m (?ws ! j)) = Inr (False, m (?ws ! j), s))))"
    by (rule ng_dispatch_Inl) (rule ng_handlers_keep(1))
  show ?thesis
  proof
    assume "ng_app_mousedown ''left'' p a m = Inl TypeError"
    then obtain k where k: "k < length ?ws" "ng_visible (m (?ws ! k)) \<and> ?h (?ws ! k) (m (?ws ! k)) = Inl TypeError"
      and before: "\<forall>j<k. ng_visible (m (?ws ! j)) \<longrightarrow> (\<exists>s. ?h (?ws ! j) (m (?ws ! j)) = Inr (False, m (?ws ! j), s))"
      using D unfolding ng_app_mousedown_def by blast
    have "\<forall>j<k. ng_collidem p (m (?ws ! j)) = Inr False" using before reject k(1) by simp
    then show "\<exists>k<length ?ws. ng_newline (m (?ws ! k)) \<and> (\<forall>j<k. ng_collidem p (m (?ws ! j)) = Inr False)"
      using k raise by blast
  next
    assume "\<exists>k<length ?ws. ng_newline (m (?ws ! k)) \<and> (\<forall>j<k. ng_collidem p (m (?ws ! j)) = Inr False)"
    then obtain k where k: "k < length ?ws" "ng_newline (m (?ws ! k))"
      and before: "\<forall>j<k. ng_collidem p (m (?ws ! j)) = Inr False" by blast
    have "\<forall>j<k. ng_visible (m (?ws ! j)) \<longrightarrow> (\<exists>s. ?h (?ws ! j) (m (?ws ! j)) = Inr (False, m (?ws ! j), s))"
      using before reject k(1) by simp
    then show "ng_app_mousedown ''left'' p a m = Inl TypeError"
      unfolding ng_app_mousedown_def using D k raise by blast
  qed
qed

theorem ng_click_TypeError_witness:
  "ng_app_mousedown ''left'' (5, 5) (fst (projr demo_ng_line2)) (snd (projr demo_ng_line2)) = Inl TypeError"
  using ng_click_TypeError [OF demo_ng_live2, of "(5, 5)"] by (simp add: demo_ng_line2_eval ng_widget_new_def Ex_less_Suc2)

text \<open>
  C38. In every such App, releasing or holding a mouse button never raises: only a widget
  pressed under the mouse holds it, and a widget under the mouse has a position.
\<close>

theorem ng_release_never_raises:
  assumes "ng_live a m"
  shows "(\<exists>r. ng_app_mouseup name p a m = Inr r) \<and> (\<exists>r. ng_app_mousehold name p a m = Inr r)"
proof -
  have ok: "\<forall>i\<in>set (ng_widgets a). ng_widget_ok (m i)" using ng_live_wf [OF assms] by (simp add: ng_wf_def)
  have "\<forall>i\<in>set (ng_widgets a). ng_visible (m i) \<longrightarrow> (\<exists>r. ng_mouseup name p (m i) = Inr r)"
    "\<forall>i\<in>set (ng_widgets a). ng_visible (m i) \<longrightarrow> (\<exists>r. ng_mousehold name p (m i) = Inr r)"
    using ok ng_widget_release_Inr by blast+
  then show ?thesis unfolding ng_app_mouseup_def ng_app_mousehold_def
    using ng_dispatch_Inr [of "\<lambda>_. ng_mouseup name p"] ng_dispatch_Inr [of "\<lambda>_. ng_mousehold name p"]
      ng_handlers_keep(2,3) by blast
qed

theorem ng_release_never_raises_witness:
  "(\<exists>r. ng_app_mouseup ''left'' (5, 5) (fst (projr demo_ng_line2)) (snd (projr demo_ng_line2)) = Inr r) \<and>
   (\<exists>r. ng_app_mousehold ''left'' (5, 5) (fst (projr demo_ng_line2)) (snd (projr demo_ng_line2)) = Inr r)"
  by (rule ng_release_never_raises [OF demo_ng_live2])

text \<open>
  C39. In every such App, \<open>App.render\<close> never raises: it draws every label at its
  position, bottom widget first, and a \<open>NewLine\<close> draws nothing.
\<close>

theorem ng_render_draws_labels:
  assumes "ng_live a m"
  shows "ng_app_render a m =
    Inr (map (\<lambda>i. (i, if ng_newline (m i) then None else ng_pos (m i))) (rev (ng_widgets a)))"
proof -
  have ok: "\<forall>i\<in>set (ng_widgets a). ng_widget_ok (m i)" using ng_live_wf [OF assms] by (simp add: ng_wf_def)
  then have "filter (\<lambda>i. ng_visible (m i)) (rev (ng_widgets a)) = rev (ng_widgets a)"
    by (simp add: ng_widget_ok_def)
  then show ?thesis unfolding ng_app_render_def
    using ok ng_widget_render_ok by (auto intro!: map_res_all_Inr)
qed

theorem ng_render_draws_labels_witness:
  "ng_app_render (fst (projr demo_ng_line2)) (snd (projr demo_ng_line2)) =
   Inr [(0, Some (3, 4)), (1, None)]"
  using ng_render_draws_labels [OF demo_ng_live2] by (simp add: demo_ng_line2_eval ng_widget_new_def)

section \<open>Fonts (font.py)\<close>

text \<open>
  C40. Assigning a text to an \<open>MEFontImage\<close> returns exactly when no smiley of its font
  has an empty name: the \<open>str.find\<close> loop of \<open>make_list_of_glyphs_and_smileys\<close> ends for
  every non-empty smiley and runs forever on an empty one.
\<close>

theorem make_list_of_glyphs_returns:
  "make_list_of_glyphs f t \<noteq> None \<longleftrightarrow> [] \<notin> fst ` set (me_smileys f)"
proof -
  have "smiley_positions ss t sp \<noteq> None \<longleftrightarrow> [] \<notin> fst ` set ss" for ss sp
  proof (induction ss arbitrary: sp)
    case Nil
    then show ?case by simp
  next
    case (Cons a ss)
    obtain s g where a: "a = (s, g)" by fastforce
    show ?case
    proof (cases "s = []")
      case True
      then have "smiley_scan s t 0 sp = None" using smiley_scan_returns [of s t 0 sp] by auto
      then show ?thesis using a True by simp
    next
      case False
      then obtain r where "smiley_scan s t 0 sp = Some r" using smiley_scan_Some by blast
      then show ?thesis using a False Cons.IH [of r] by simp
    qed
  qed
  then show ?thesis by (simp add: make_list_of_glyphs_def)
qed

end
